(* ===== verification/Prelude.thy ===== *)
theory Prelude
  imports Main "HOL-Library.Word"
begin

text \<open>
  Shared vocabulary of the development: the C integer types of the control plane as words,
  byte memories addressed by natural numbers (a C buffer is a base address into such a memory),
  the big-endian (most significant bit first) view of a memory as a sequence of bits that the
  GTP and PFCP wire formats use, and the collections of rewrite rules the components feed.
\<close>

unbundle bit_operations_syntax

section \<open>Types and rule collections\<close>

type_synonym u8 = "8 word"
type_synonym u16 = "16 word"
type_synonym u32 = "32 word"
type_synonym u64 = "64 word"

type_synonym memory = "nat \<Rightarrow> u8"

named_theorems codec_simps \<open>evaluation of encoders and decoders on bit strings\<close>
named_theorems ctx_simps \<open>field updates of the subscriber data base\<close>

section \<open>Bits of a byte, most significant first\<close>

definition msb_bit :: "u8 \<Rightarrow> nat \<Rightarrow> bool" where
  "msb_bit b j \<longleftrightarrow> j < 8 \<and> bit b (7 - j)"

lemma msb_bit_and [simp]: "msb_bit (a AND b) j \<longleftrightarrow> msb_bit a j \<and> msb_bit b j"
  by (auto simp: msb_bit_def bit_simps)

lemma msb_bit_or [simp]: "msb_bit (a OR b) j \<longleftrightarrow> msb_bit a j \<or> msb_bit b j"
  by (auto simp: msb_bit_def bit_simps)

lemma msb_bit_push [simp]: "msb_bit (push_bit k a) j \<longleftrightarrow> msb_bit a (j + k)"
  by (auto simp: msb_bit_def bit_simps diff_right_commute)

lemma msb_bit_drop [simp]: "msb_bit (drop_bit k a) j \<longleftrightarrow> j < 8 \<and> k \<le> j \<and> msb_bit a (j - k)"
proof (cases "j < 8 \<and> k \<le> j")
  case True
  then have "k + (7 - j) = 7 - (j - k)" by simp
  with True show ?thesis by (auto simp: msb_bit_def bit_simps)
next
  case False
  then have "j < 8 \<Longrightarrow> 8 \<le> k + (7 - j)" by auto
  with False show ?thesis
    by (auto simp: msb_bit_def bit_simps dest: bit_imp_le_length)
qed

lemma msb_bit_zero [simp]: "\<not> msb_bit 0 j"
  by (simp add: msb_bit_def)

lemma msb_bit_outside [simp]: "8 \<le> j \<Longrightarrow> \<not> msb_bit b j"
  by (simp add: msb_bit_def)

lemma u8_eqI: "(\<And>j. j < 8 \<Longrightarrow> msb_bit a j = msb_bit b j) \<Longrightarrow> a = b"
proof (rule bit_word_eqI)
  fix n assume *: "\<And>j. j < 8 \<Longrightarrow> msb_bit a j = msb_bit b j" and n: "n < LENGTH(8)"
  from n have "7 - (7 - n) = n" by simp
  with *[of "7 - n"] n show "bit a n = bit b n" by (simp add: msb_bit_def)
qed

section \<open>A memory as a sequence of bits\<close>

definition bit_at :: "memory \<Rightarrow> nat \<Rightarrow> bool" where
  "bit_at m i \<longleftrightarrow> msb_bit (m (i div 8)) (i mod 8)"

lemma bit_at_byte: "j < 8 \<Longrightarrow> bit_at m (8 * p + j) = msb_bit (m p) j"
  by (simp add: bit_at_def)

lemma bit_at_upd:
  "bit_at (m(p := b)) i = (if i div 8 = p then msb_bit b (i mod 8) else bit_at m i)"
  by (simp add: bit_at_def)

lemma bit_at_ext: "(\<And>i. bit_at m i = bit_at m' i) \<Longrightarrow> m = m'"
proof (rule ext, rule u8_eqI)
  fix p j assume "\<And>i. bit_at m i = bit_at m' i" and j: "(j::nat) < 8"
  from this(1)[of "8 * p + j"] show "msb_bit (m p) j = msb_bit (m' p) j"
    using j by (simp add: bit_at_byte)
qed

text \<open>A stretch of bits that holds zeros, and a stretch that spells a given bit string.\<close>

definition clear :: "memory \<Rightarrow> nat \<Rightarrow> nat \<Rightarrow> bool" where
  "clear m a b \<longleftrightarrow> (\<forall>i. a \<le> i \<and> i < b \<longrightarrow> \<not> bit_at m i)"

definition agrees :: "memory \<Rightarrow> nat \<Rightarrow> bool list \<Rightarrow> bool" where
  "agrees m a bs \<longleftrightarrow> (\<forall>i < length bs. bit_at m (a + i) = bs ! i)"

lemma clear_mono: "clear m a b \<Longrightarrow> a \<le> a' \<Longrightarrow> b' \<le> b \<Longrightarrow> clear m a' b'"
  by (auto simp: clear_def)

lemma clear_zero [simp]: "clear (\<lambda>_. 0) a b"
  by (simp add: clear_def bit_at_def)

lemma agrees_Nil [simp]: "agrees m a []"
  by (simp add: agrees_def)

lemma agrees_append [simp]:
  "agrees m a (bs @ cs) \<longleftrightarrow> agrees m a bs \<and> agrees m (a + length bs) cs"
proof -
  have "agrees m a bs" if "agrees m a (bs @ cs)"
    using that by (auto simp: agrees_def nth_append)
  moreover have "agrees m (a + length bs) cs" if *: "agrees m a (bs @ cs)"
    unfolding agrees_def
  proof (intro allI impI)
    fix i assume "i < length cs"
    with *[unfolded agrees_def, rule_format, of "length bs + i"]
    show "bit_at m (a + length bs + i) = cs ! i" by (simp add: add.assoc)
  qed
  moreover have "agrees m a (bs @ cs)" if b: "agrees m a bs" and c: "agrees m (a + length bs) cs"
    unfolding agrees_def
  proof (intro allI impI)
    fix i assume i: "i < length (bs @ cs)"
    show "bit_at m (a + i) = (bs @ cs) ! i"
    proof (cases "i < length bs")
      case True
      with b show ?thesis by (simp add: agrees_def nth_append)
    next
      case False
      with c[unfolded agrees_def, rule_format, of "i - length bs"] i
      show ?thesis by (simp add: nth_append)
    qed
  qed
  ultimately show ?thesis by blast
qed

lemma agrees_frame:
  "agrees m a bs \<Longrightarrow> (\<And>i. a \<le> i \<Longrightarrow> i < a + length bs \<Longrightarrow> bit_at m' i = bit_at m i)
    \<Longrightarrow> agrees m' a bs"
  by (auto simp: agrees_def)

section \<open>Bits of a 64-bit value, most significant first\<close>

definition field_bits :: "nat \<Rightarrow> u64 \<Rightarrow> bool list" where
  "field_bits n v = map (\<lambda>i. bit v (n - 1 - i)) [0..<n]"

lemma length_field_bits [simp]: "length (field_bits n v) = n"
  by (simp add: field_bits_def)

lemma nth_field_bits: "i < n \<Longrightarrow> field_bits n v ! i = bit v (n - 1 - i)"
  by (simp add: field_bits_def)

definition byte_bits :: "u8 list \<Rightarrow> bool list" where
  "byte_bits bs = concat (map (\<lambda>b. map (msb_bit b) [0..<8]) bs)"

lemma length_byte_bits [simp]: "length (byte_bits bs) = 8 * length bs"
  by (induction bs) (auto simp: byte_bits_def)

lemma byte_bits_simps:
  "byte_bits [] = []" "byte_bits (b # bs) = map (msb_bit b) [0..<8] @ byte_bits bs"
  by (simp_all add: byte_bits_def)

lemma agrees_byte: "agrees m (8 * p) (map (msb_bit b) [0..<8]) \<longleftrightarrow> m p = b"
proof
  assume *: "agrees m (8 * p) (map (msb_bit b) [0..<8])"
  show "m p = b"
  proof (rule u8_eqI)
    fix j assume j: "(j::nat) < 8"
    with *[unfolded agrees_def, rule_format, of j] show "msb_bit (m p) j = msb_bit b j"
      by (simp add: bit_at_byte)
  qed
next
  assume "m p = b"
  then show "agrees m (8 * p) (map (msb_bit b) [0..<8])"
    by (auto simp: agrees_def bit_at_byte)
qed

lemma agrees_byte_bits:
  "agrees m (8 * p) (byte_bits bs) \<longleftrightarrow> (\<forall>i < length bs. m (p + i) = bs ! i)"
proof (induction bs arbitrary: p)
  case Nil
  then show ?case by (simp add: byte_bits_simps)
next
  case (Cons b bs)
  have "agrees m (8 * p) (byte_bits (b # bs)) \<longleftrightarrow>
      agrees m (8 * p) (map (msb_bit b) [0..<8]) \<and> agrees m (8 * Suc p) (byte_bits bs)"
    by (simp only: byte_bits_simps agrees_append length_map length_upt mult_Suc_right diff_zero
        add.commute)
  also have "\<dots> \<longleftrightarrow> m p = b \<and> (\<forall>i < length bs. m (Suc p + i) = bs ! i)"
    by (simp only: agrees_byte Cons.IH)
  also have "\<dots> \<longleftrightarrow> (\<forall>i < length (b # bs). m (p + i) = (b # bs) ! i)"
    by (auto simp: nth_Cons split: nat.splits)
  finally show ?case .
qed

end
