(* ===== verification/Enc_Dec_Bits.thy ===== *)
theory Enc_Dec_Bits
  imports Prelude
begin

text \<open>
  The bit copier both protocol libraries are built on: \<open>libgtpv2c/src/enc_dec_bits.c\<close> and
  \<open>libpfcp/src/enc_dec_bits.c\<close>, which hold the same code. A pointer is a pair of a memory and
  an address; the two memories of \<open>copybits\<close> are different objects, since one of them is always
  the local union \<open>byte_value_t\<close> of \<open>encode_bits\<close> or \<open>decode_bits\<close>. The little-endian
  branch of \<open>decode_bits\<close> is the one modelled.
\<close>

section \<open>The code\<close>

definition CHAR_BIT :: nat where
  "CHAR_BIT = 8"

definition mask_bits :: "u8 list" where
  "mask_bits = [0x55, 0x80, 0xc0, 0xe0, 0xf0, 0xf8, 0xfc, 0xfe, 0xff]"

definition xor_mask_bits :: "u8 list" where
  "xor_mask_bits = [0xff, 0x7f, 0x3f, 0x1f, 0x0f, 0x07, 0x03, 0x01, 0x00]"

text \<open>The three values \<open>copy_start_bits\<close> writes through its pointers: the bits still to copy,
  the destination byte and the byte to be merged into it.\<close>

definition copy_start_bits :: "nat \<Rightarrow> u8 \<Rightarrow> nat \<Rightarrow> u8 \<Rightarrow> nat \<times> u8 \<times> u8" where
  "copy_start_bits copy_bit_count destination mod_destination_offset byte =
    (if copy_bit_count \<ge> CHAR_BIT - mod_destination_offset
     then (copy_bit_count - (CHAR_BIT - mod_destination_offset),
           destination AND mask_bits ! mod_destination_offset,
           byte)
     else (0,
           destination AND (mask_bits ! mod_destination_offset
             OR xor_mask_bits ! (mod_destination_offset + copy_bit_count + 1)),
           byte AND mask_bits ! (mod_destination_offset + copy_bit_count)))"

text \<open>The loop over whole bytes of the shifted case; the first argument is the number of
  iterations left.\<close>

fun copy_shifted_bytes ::
  "nat \<Rightarrow> nat \<Rightarrow> nat \<Rightarrow> memory \<Rightarrow> nat \<Rightarrow> memory \<Rightarrow> nat \<Rightarrow> memory \<times> nat \<times> nat" where
  "copy_shifted_bytes 0 left right src ps dst pd = (dst, ps, pd)"
| "copy_shifted_bytes (Suc n) left right src ps dst pd =
     copy_shifted_bytes n left right src (ps + 1)
       (dst(pd := push_bit left (src ps) OR drop_bit right (src (ps + 1)))) (pd + 1)"

definition memcpy :: "memory \<Rightarrow> nat \<Rightarrow> memory \<Rightarrow> nat \<Rightarrow> nat \<Rightarrow> memory" where
  "memcpy dst pd src ps n = (\<lambda>i. if pd \<le> i \<and> i < pd + n then src (ps + (i - pd)) else dst i)"

definition copybits ::
  "memory \<Rightarrow> nat \<Rightarrow> nat \<Rightarrow> nat \<Rightarrow> memory \<Rightarrow> nat \<Rightarrow> nat \<Rightarrow> nat \<times> memory" where
  "copybits src psrc src_offset copy_bit_count dst pdst dest_offset =
    (if copy_bit_count < 1 then (0, dst)
     else
       let ps = psrc + src_offset div CHAR_BIT;
           pd = pdst + dest_offset div CHAR_BIT;
           ms = src_offset mod CHAR_BIT;
           md = dest_offset mod CHAR_BIT
       in if ms \<noteq> md then
            let (left, right, ps, copy_byte) =
                  (if ms > md then
                     let left = ms - md; right = CHAR_BIT - left
                     in (left, right, ps + 1,
                         (push_bit left (src ps) OR drop_bit right (src (ps + 1)))
                           AND xor_mask_bits ! md)
                   else
                     let right = md - ms; left = CHAR_BIT - right
                     in (left, right, ps, drop_bit right (src ps) AND xor_mask_bits ! md));
                (cnt, d, copy_byte) = copy_start_bits copy_bit_count (dst pd) md copy_byte;
                dst = dst(pd := d OR copy_byte);
                (dst, ps, pd) = copy_shifted_bytes (cnt div CHAR_BIT) left right src ps dst (pd + 1);
                r = cnt mod CHAR_BIT
            in (copy_bit_count,
                if r > 0 then
                  dst(pd := (dst pd AND xor_mask_bits ! r)
                        OR ((push_bit left (src ps) OR drop_bit right (src (ps + 1)))
                              AND mask_bits ! r))
                else dst)
          else
            let (cnt, dst, ps, pd) =
                  (if ms > 0 then
                     let (cnt, d, copy_byte) =
                           copy_start_bits copy_bit_count (dst pd) md (xor_mask_bits ! md AND src ps)
                     in (cnt, dst(pd := d OR copy_byte), ps + 1, pd + 1)
                   else (copy_bit_count, dst, ps, pd));
                n = cnt div CHAR_BIT;
                r = cnt mod CHAR_BIT;
                dst = memcpy dst pd src ps n
            in (copy_bit_count,
                if r > 0 then
                  dst(pd + n := (dst (pd + n) AND xor_mask_bits ! r)
                        OR (mask_bits ! r AND src (ps + n)))
                else dst))"

definition bits_to_bytes :: "nat \<Rightarrow> nat" where
  "bits_to_bytes bits =
    (let byte_count = (bits div CHAR_BIT) mod 256
     in if bits mod CHAR_BIT \<noteq> 0 then (byte_count + 1) mod 256 else byte_count)"

definition find_end_bit :: "nat \<Rightarrow> nat" where
  "find_end_bit numBits = (let endBit = numBits mod CHAR_BIT in if endBit = 0 then CHAR_BIT else endBit)"

definition copy_bits_right_aligned ::
  "memory \<Rightarrow> nat \<Rightarrow> nat \<Rightarrow> nat \<Rightarrow> memory \<Rightarrow> nat \<Rightarrow> bool \<times> memory" where
  "copy_bits_right_aligned source psrc offset copy_bit_count destination destination_length =
    (let (ret, m) = copybits source psrc offset copy_bit_count destination 0
           ((destination_length - bits_to_bytes copy_bit_count) * CHAR_BIT
             + CHAR_BIT - find_end_bit copy_bit_count)
     in (ret \<noteq> 0, m))"

text \<open>The union \<open>byte_value_t\<close>: the eight bytes of a \<open>uint64_t\<close> on a little-endian host and
  back, and \<open>__builtin_bswap64\<close>. The bytes after the union are not part of it; the model reads
  them as zero, and \<open>copybits_src_cong\<close> below shows that on a zeroed destination no result
  depends on them.\<close>

definition val8_of_val64 :: "u64 \<Rightarrow> memory" where
  "val8_of_val64 v i = (if i < 8 then ucast (drop_bit (8 * i) v) else 0)"

definition val64_of_val8 :: "memory \<Rightarrow> u64" where
  "val64_of_val8 m = foldr (\<lambda>i acc. push_bit (8 * i) (ucast (m i)) OR acc) [0..<8] 0"

definition bswap64 :: "u64 \<Rightarrow> u64" where
  "bswap64 v = foldr (\<lambda>i acc. push_bit (8 * (7 - i)) (drop_bit (8 * i) v AND 0xff) OR acc) [0..<8] 0"

text \<open>\<open>decode_bits\<close> returns the value and what it leaves in \<open>*decoded_bit_count\<close>, whose old
  content is the last argument.\<close>

definition decode_bits :: "memory \<Rightarrow> nat \<Rightarrow> nat \<Rightarrow> nat \<Rightarrow> nat \<Rightarrow> u64 \<times> nat" where
  "decode_bits source psrc offset bit_count decoded_bit_count =
    (if bit_count > 64 \<or> bit_count < 1 then (0, decoded_bit_count)
     else
       let (ok, combined) =
             copy_bits_right_aligned source psrc offset bit_count (\<lambda>_. 0) 8
       in if ok then (bswap64 (val64_of_val8 combined), bit_count)
          else (val64_of_val8 combined, 0))"

definition encode_bits :: "u64 \<Rightarrow> nat \<Rightarrow> memory \<Rightarrow> nat \<Rightarrow> nat \<Rightarrow> nat \<times> memory" where
  "encode_bits value bit_count destination pdst offset =
    copybits (val8_of_val64 (bswap64 value)) 0 ((65536 + 8 * CHAR_BIT - bit_count) mod 65536) bit_count
      destination pdst offset"

section \<open>Masks and bytes\<close>

lemma CHAR_BIT_8 [simp]: "CHAR_BIT = 8"
  by (simp add: CHAR_BIT_def)

lemma msb_bit_xor_mask:
  assumes "k \<le> 8" "j < 8"
  shows "msb_bit (xor_mask_bits ! k) j \<longleftrightarrow> k \<le> j"
proof -
  have "\<forall>k\<in>set [0..<9]. \<forall>j\<in>set [0..<8]. msb_bit (xor_mask_bits ! k) j = (k \<le> j)"
    by code_simp
  with assms show ?thesis by simp
qed

lemma msb_bit_mask:
  assumes "0 < k" "k \<le> 8" "j < 8"
  shows "msb_bit (mask_bits ! k) j \<longleftrightarrow> j < k"
proof -
  have "\<forall>k\<in>set [1..<9]. \<forall>j\<in>set [0..<8]. msb_bit (mask_bits ! k) j = (j < k)"
    by code_simp
  with assms show ?thesis by simp
qed

text \<open>A byte assembled from two neighbouring source bytes holds eight consecutive source bits.\<close>

lemma msb_bit_shifted:
  assumes "left < 8" "right = 8 - left" "j < 8"
  shows "msb_bit (push_bit left (src ps) OR drop_bit right (src (ps + 1))) j
    \<longleftrightarrow> bit_at src (8 * ps + left + j)"
proof (cases "left + j < 8")
  case True
  then have "bit_at src (8 * ps + left + j) = msb_bit (src ps) (left + j)"
    using bit_at_byte[of "left + j" src ps] by (simp add: add.assoc)
  with True assms show ?thesis by (auto simp: add.commute)
next
  case False
  then have eq: "8 * ps + left + j = 8 * (ps + 1) + (left + j - 8)" by simp
  have "bit_at src (8 * ps + left + j) = msb_bit (src (ps + 1)) (left + j - 8)"
    unfolding eq by (rule bit_at_byte) (use assms in simp)
  with False assms show ?thesis by (auto simp: add.commute)
qed

section \<open>Copied bit fields\<close>

text \<open>\<open>copied src s d n dst dst'\<close>: bits \<open>d\<close> to \<open>d + n - 1\<close> of the new memory are bits \<open>s\<close>
  to \<open>s + n - 1\<close> of the source, and no other bit of the memory has changed, but for the bit after
  the field, which may have been cleared.\<close>

definition copied :: "memory \<Rightarrow> nat \<Rightarrow> nat \<Rightarrow> nat \<Rightarrow> memory \<Rightarrow> memory \<Rightarrow> bool" where
  "copied src s d n dst dst' \<longleftrightarrow>
     (\<forall>i < n. bit_at dst' (d + i) = bit_at src (s + i)) \<and>
     (\<forall>i. i < d \<or> d + n < i \<longrightarrow> bit_at dst' i = bit_at dst i) \<and>
     (bit_at dst' (d + n) \<longrightarrow> bit_at dst (d + n))"

lemma copiedD:
  assumes "copied src s d n dst dst'"
  shows copied_field: "i < n \<Longrightarrow> bit_at dst' (d + i) = bit_at src (s + i)"
    and copied_below: "i < d \<Longrightarrow> bit_at dst' i = bit_at dst i"
    and copied_above: "d + n < i \<Longrightarrow> bit_at dst' i = bit_at dst i"
    and copied_next: "bit_at dst' (d + n) \<Longrightarrow> bit_at dst (d + n)"
  using assms by (simp_all add: copied_def)

lemma copied_0 [simp]: "copied src s d 0 dst dst"
  by (simp add: copied_def)

lemma copied_trans:
  assumes 1: "copied src s d n dst dst1" and 2: "copied src (s + n) (d + n) k dst1 dst2"
  shows "copied src s d (n + k) dst dst2"
  unfolding copied_def
proof (intro conjI allI impI)
  fix i assume i: "i < n + k"
  show "bit_at dst2 (d + i) = bit_at src (s + i)"
  proof (cases "i < n")
    case True
    with copied_below[OF 2, of "d + i"] copied_field[OF 1 True] show ?thesis by simp
  next
    case False
    with i copied_field[OF 2, of "i - n"] show ?thesis by simp
  qed
next
  fix i assume i: "i < d \<or> d + (n + k) < i"
  then have "bit_at dst2 i = bit_at dst1 i"
    using copied_below[OF 2, of i] copied_above[OF 2, of i] by auto
  moreover have "bit_at dst1 i = bit_at dst i"
    using i copied_below[OF 1, of i] copied_above[OF 1, of i] by auto
  ultimately show "bit_at dst2 i = bit_at dst i" by simp
next
  assume "bit_at dst2 (d + (n + k))"
  then have "bit_at dst1 (d + n + k)"
    using copied_next[OF 2] by (simp add: add.assoc)
  then show "bit_at dst (d + (n + k))"
    using copied_next[OF 1] copied_above[OF 1, of "d + n + k"] by (cases "k = 0") (auto simp: add.assoc)
qed

lemma copied_byte:
  assumes n: "md + n \<le> 8" and s: "s = 8 * p + md"
    and field: "\<And>j. md \<le> j \<Longrightarrow> j < md + n \<Longrightarrow> msb_bit b j = bit_at src (r + (j - md))"
    and keep: "\<And>j. j < 8 \<Longrightarrow> j < md \<or> md + n < j \<Longrightarrow> msb_bit b j = msb_bit (dst p) j"
    and nxt: "md + n < 8 \<Longrightarrow> msb_bit b (md + n) \<Longrightarrow> msb_bit (dst p) (md + n)"
  shows "copied src r s n dst (dst(p := b))"
  unfolding copied_def
proof (intro conjI allI impI)
  fix i assume i: "i < n"
  then have "md + i < 8" using n by simp
  then have "(s + i) div 8 = p" "(s + i) mod 8 = md + i"
    by (simp_all add: s add.assoc)
  with i field[of "md + i"] show "bit_at (dst(p := b)) (s + i) = bit_at src (r + i)"
    by (simp add: bit_at_upd)
next
  fix i assume i: "i < s \<or> s + n < i"
  show "bit_at (dst(p := b)) i = bit_at dst i"
  proof (cases "i div 8 = p")
    case True
    then have "i = 8 * p + i mod 8" by (metis mult_div_mod_eq)
    with i s have "i mod 8 < md \<or> md + n < i mod 8" by linarith
    with keep[of "i mod 8"] True show ?thesis by (simp add: bit_at_upd bit_at_def)
  next
    case False
    then show ?thesis by (simp add: bit_at_upd)
  qed
next
  assume *: "bit_at (dst(p := b)) (s + n)"
  show "bit_at dst (s + n)"
  proof (cases "md + n < 8")
    case True
    then have "(s + n) div 8 = p" "(s + n) mod 8 = md + n" by (simp_all add: s add.assoc)
    with * nxt[OF True] show ?thesis by (simp add: bit_at_upd bit_at_def)
  next
    case False
    with n s have "(s + n) div 8 = p + 1" by simp
    with * show ?thesis by (simp add: bit_at_upd)
  qed
qed

text \<open>The stages of \<open>copybits\<close>: the loop over whole bytes, \<open>memcpy\<close>, the last partial byte and
  the first partial byte.\<close>

lemma copied_shifted_bytes:
  assumes "left < 8" "right = 8 - left"
    and "copy_shifted_bytes n left right src ps dst pd = (dst', ps', pd')"
  shows "copied src (8 * ps + left) (8 * pd) (8 * n) dst dst' \<and> ps' = ps + n \<and> pd' = pd + n"
  using assms(3)
proof (induction n arbitrary: ps dst pd)
  case 0
  then show ?case by simp
next
  case (Suc n)
  let ?b = "push_bit left (src ps) OR drop_bit right (src (ps + 1))"
  have "copied src (8 * ps + left) (8 * pd) 8 dst (dst(pd := ?b))"
  proof (rule copied_byte[where md = 0])
    fix j :: nat assume "0 \<le> j" "j < 0 + 8"
    then show "msb_bit ?b j = bit_at src (8 * ps + left + (j - 0))"
      using msb_bit_shifted[OF assms(1,2), of j src ps] by simp
  qed auto
  moreover from Suc.prems have "copied src (8 * (ps + 1) + left) (8 * (pd + 1)) (8 * n) (dst(pd := ?b)) dst'
      \<and> ps' = ps + 1 + n \<and> pd' = pd + 1 + n"
    using Suc.IH[of "ps + 1" "dst(pd := ?b)" "pd + 1"] by (simp add: fun_upd_def)
  moreover have "8 * (ps + 1) + left = 8 * ps + left + 8" "8 * (pd + 1) = 8 * pd + 8"
    by simp_all
  ultimately show ?case
    using copied_trans[of src "8 * ps + left" "8 * pd" 8 dst "dst(pd := ?b)" "8 * n" dst']
    by (simp add: ac_simps)
qed

lemma copied_memcpy: "copied src (8 * ps) (8 * pd) (8 * n) dst (memcpy dst pd src ps n)"
proof -
  have "bit_at (memcpy dst pd src ps n) (8 * pd + i) = bit_at src (8 * ps + i)" if "i < 8 * n" for i
    using that by (auto simp: bit_at_def memcpy_def)
  moreover have "bit_at (memcpy dst pd src ps n) i = bit_at dst i" if "i < 8 * pd \<or> 8 * pd + 8 * n \<le> i" for i
  proof -
    from that have "\<not> (pd \<le> i div 8 \<and> i div 8 < pd + n)" by auto
    then show ?thesis by (auto simp: bit_at_def memcpy_def)
  qed
  ultimately show ?thesis by (simp add: copied_def)
qed

lemma copied_tail:
  assumes "0 < r" "r < 8"
    and "\<And>j. j < 8 \<Longrightarrow> msb_bit b j = bit_at src (s + j)"
  shows "copied src s (8 * pd) r dst
     (dst(pd := (dst pd AND xor_mask_bits ! r) OR (b AND mask_bits ! r)))"
  by (rule copied_byte[where md = 0]) (use assms in \<open>auto simp: msb_bit_xor_mask msb_bit_mask\<close>)

text \<open>The first byte. Where the field starts on a byte boundary of the destination,
  \<open>mask_bits[0]\<close> keeps every other bit of it, so the field must be clear there.\<close>

lemma copied_start:
  assumes md: "md < 8" and n: "0 < n"
    and clr: "md = 0 \<Longrightarrow> clear dst (8 * pd) (8 * pd + n)"
    and b: "\<And>j. j < 8 \<Longrightarrow> msb_bit b j \<longleftrightarrow> md \<le> j \<and> bit_at src (s + (j - md))"
    and st: "copy_start_bits n (dst pd) md b = (cnt, d, b')"
  shows "copied src s (8 * pd + md) (n - cnt) dst (dst(pd := d OR b')) \<and>
     cnt = (if 8 - md \<le> n then n - (8 - md) else 0)"
proof (cases "8 - md \<le> n")
  case True
  with st have [simp]: "cnt = n - (8 - md)" "d = (dst pd AND mask_bits ! md)" "b' = b"
    by (auto simp: copy_start_bits_def)
  have zero: "msb_bit (dst pd) j = False" if "md = 0" "j < 8" for j
    using clr[OF that(1)] True that bit_at_byte[of j dst pd] by (auto simp: clear_def)
  have "copied src s (8 * pd + md) (8 - md) dst (dst(pd := d OR b'))"
  proof (rule copied_byte[where md = md])
    fix j assume j: "md \<le> j" "j < md + (8 - md)"
    with zero[of j] md show "msb_bit (d OR b') j = bit_at src (s + (j - md))"
      by (cases "md = 0") (auto simp: b msb_bit_mask)
  next
    fix j :: nat assume "j < 8" "j < md \<or> md + (8 - md) < j"
    with md show "msb_bit (d OR b') j = msb_bit (dst pd) j"
      by (cases "md = 0") (auto simp: b msb_bit_mask)
  qed (use md in auto)
  with True md show ?thesis by simp
next
  case False
  with st have [simp]: "cnt = 0" "b' = b AND mask_bits ! (md + n)"
    "d = (dst pd AND (mask_bits ! md OR xor_mask_bits ! (md + n + 1)))"
    by (auto simp: copy_start_bits_def)
  have zero: "msb_bit (dst pd) j = False" if "md = 0" "j < n" for j
    using clr[OF that(1)] False that bit_at_byte[of j dst pd] by (auto simp: clear_def)
  have "copied src s (8 * pd + md) n dst (dst(pd := d OR b'))"
  proof (rule copied_byte[where md = md])
    fix j assume j: "md \<le> j" "j < md + n"
    with False zero[of j] n show "msb_bit (d OR b') j = bit_at src (s + (j - md))"
      by (cases "md = 0") (auto simp: b msb_bit_mask msb_bit_xor_mask)
  next
    fix j :: nat assume "j < 8" "j < md \<or> md + n < j"
    with False n show "msb_bit (d OR b') j = msb_bit (dst pd) j"
      by (auto simp: b msb_bit_mask msb_bit_xor_mask)
  next
    assume "md + n < 8" "msb_bit (d OR b') (md + n)"
    with False n show "msb_bit (dst pd) (md + n)"
      by (auto simp: b msb_bit_mask)
  qed (use False in auto)
  with False show ?thesis by simp
qed

section \<open>The bit copier is correct on a cleared field\<close>

lemma copied_finish:
  assumes 1: "copied src s d (n - cnt) dst dst1" and "cnt \<le> n" and "cnt = 8 * k + r"
    and 2: "copied src (s + (n - cnt)) (d + (n - cnt)) (8 * k) dst1 dst2"
    and 3: "copied src (s + (n - cnt) + 8 * k) (d + (n - cnt) + 8 * k) r dst2 dst3"
  shows "copied src s d n dst dst3"
proof -
  have "copied src s d (n - cnt + 8 * k + r) dst dst3"
    using copied_trans[OF copied_trans[OF 1 2]] 3 by (simp add: add.assoc)
  with assms(2,3) show ?thesis by simp
qed

lemma copied_rest_shifted:
  assumes l: "left < 8" "right = 8 - left"
    and 1: "copied src s d (n - cnt) dst dst1" and le: "cnt \<le> n"
    and al: "0 < cnt \<Longrightarrow> s + (n - cnt) = 8 * ps + left \<and> d + (n - cnt) = 8 * pd"
    and run: "copy_shifted_bytes (cnt div 8) left right src ps dst1 pd = (dst2, ps2, pd2)"
  shows "copied src s d n dst
    (if cnt mod 8 > 0 then
       dst2(pd2 := (dst2 pd2 AND xor_mask_bits ! (cnt mod 8))
         OR ((push_bit left (src ps2) OR drop_bit right (src (ps2 + 1))) AND mask_bits ! (cnt mod 8)))
     else dst2)" (is "copied _ _ _ _ _ ?res")
proof (cases "cnt = 0")
  case True
  with 1 run show ?thesis by simp
next
  case False
  with al have s: "s + (n - cnt) = 8 * ps + left" and d: "d + (n - cnt) = 8 * pd" by auto
  from copied_shifted_bytes[OF l run]
  have 2: "copied src (s + (n - cnt)) (d + (n - cnt)) (8 * (cnt div 8)) dst1 dst2"
    and [simp]: "ps2 = ps + cnt div 8" "pd2 = pd + cnt div 8"
    by (simp_all add: s d)
  have "copied src (8 * ps2 + left) (8 * pd2) (cnt mod 8) dst2 ?res"
  proof (cases "0 < cnt mod 8")
    case True
    from copied_tail[OF True _ msb_bit_shifted[OF l], of src ps2 pd2 dst2] True
    show ?thesis by simp
  qed simp
  then have 3: "copied src (s + (n - cnt) + 8 * (cnt div 8)) (d + (n - cnt) + 8 * (cnt div 8))
      (cnt mod 8) dst2 ?res"
    unfolding s d by (simp add: algebra_simps)
  show ?thesis by (rule copied_finish[OF 1 le _ 2 3]) simp
qed

lemma copied_rest_aligned:
  assumes 1: "copied src s d (n - cnt) dst dst1" and le: "cnt \<le> n"
    and al: "0 < cnt \<Longrightarrow> s + (n - cnt) = 8 * ps \<and> d + (n - cnt) = 8 * pd"
  shows "copied src s d n dst
    (let dst2 = memcpy dst1 pd src ps (cnt div 8)
     in if cnt mod 8 > 0 then
          dst2(pd + cnt div 8 := (dst2 (pd + cnt div 8) AND xor_mask_bits ! (cnt mod 8))
            OR (mask_bits ! (cnt mod 8) AND src (ps + cnt div 8)))
        else dst2)" (is "copied _ _ _ _ _ ?res")
proof (cases "cnt = 0")
  case True
  moreover have "memcpy dst1 pd src ps 0 = dst1"
    by (rule ext) (auto simp: memcpy_def)
  ultimately show ?thesis using 1 by simp
next
  case False
  with al have s: "s + (n - cnt) = 8 * ps" and d: "d + (n - cnt) = 8 * pd" by auto
  let ?dst2 = "memcpy dst1 pd src ps (cnt div 8)"
  have 2: "copied src (s + (n - cnt)) (d + (n - cnt)) (8 * (cnt div 8)) dst1 ?dst2"
    unfolding s d by (rule copied_memcpy)
  have "copied src (8 * (ps + cnt div 8)) (8 * (pd + cnt div 8)) (cnt mod 8) ?dst2 ?res"
  proof (cases "0 < cnt mod 8")
    case True
    have "msb_bit (src (ps + cnt div 8)) j = bit_at src (8 * (ps + cnt div 8) + j)" if "j < 8" for j
      using that by (simp only: bit_at_byte)
    from copied_tail[OF True _ this, of "pd + cnt div 8" ?dst2] True
    show ?thesis by (simp add: Let_def and.commute)
  qed simp
  then have 3: "copied src (s + (n - cnt) + 8 * (cnt div 8)) (d + (n - cnt) + 8 * (cnt div 8))
      (cnt mod 8) ?dst2 ?res"
    unfolding s d by (simp add: algebra_simps)
  show ?thesis by (rule copied_finish[OF 1 le _ 2 3]) simp
qed

lemma first_byte_shift_left:
  assumes "md < ms" "ms < 8" "left = ms - md" "right = 8 - left" "j < 8"
  shows "msb_bit ((push_bit left (src ps) OR drop_bit right (src (ps + 1))) AND xor_mask_bits ! md) j
    \<longleftrightarrow> md \<le> j \<and> bit_at src (8 * ps + ms + (j - md))"
proof (cases "md \<le> j")
  case True
  with assms have "8 * ps + left + j = 8 * ps + ms + (j - md)" by simp
  moreover have "msb_bit (push_bit left (src ps) OR drop_bit right (src (ps + 1))) j
      = bit_at src (8 * ps + left + j)"
    by (rule msb_bit_shifted) (use assms in auto)
  ultimately show ?thesis using True assms by (simp add: msb_bit_xor_mask)
next
  case False
  with assms show ?thesis by (simp add: msb_bit_xor_mask)
qed

lemma first_byte_shift_right:
  assumes "ms < md" "md < 8" "right = md - ms" "j < 8"
  shows "msb_bit (drop_bit right (src ps) AND xor_mask_bits ! md) j
    \<longleftrightarrow> md \<le> j \<and> bit_at src (8 * ps + ms + (j - md))"
proof (cases "md \<le> j")
  case True
  with assms have eq: "8 * ps + ms + (j - md) = 8 * ps + (j - right)" by simp
  have "bit_at src (8 * ps + ms + (j - md)) = msb_bit (src ps) (j - right)"
    unfolding eq by (rule bit_at_byte) (use assms in simp)
  moreover have "right \<le> j" using True assms by simp
  ultimately show ?thesis using True assms(2,4) by (simp add: msb_bit_xor_mask)
next
  case False
  with assms show ?thesis by (simp add: msb_bit_xor_mask)
qed

lemma copied_copybits:
  assumes n: "0 < n" and clr: "clear dst (8 * pdst + doff) (8 * pdst + doff + n)"
  shows "copied src (8 * psrc + soff) (8 * pdst + doff) n dst
     (snd (copybits src psrc soff n dst pdst doff))"
proof -
  define ps pd ms md where defs: "ps = psrc + soff div 8" "pd = pdst + doff div 8"
    "ms = soff mod 8" "md = doff mod 8"
  have S: "8 * psrc + soff = 8 * ps + ms" and D: "8 * pdst + doff = 8 * pd + md"
    by (simp_all add: defs)
  have lt: "ms < 8" "md < 8" by (simp_all add: defs)
  have clr0: "md = 0 \<Longrightarrow> clear dst (8 * pd) (8 * pd + n)"
    using clr D by simp
  consider (left) "md < ms" | (right) "ms < md" | (same0) "ms = md" "ms = 0" | (same) "ms = md" "0 < ms"
    by linarith
  then show ?thesis
  proof cases
    case left
    let ?b = "(push_bit (ms - md) (src ps) OR drop_bit (8 - (ms - md)) (src (ps + 1))) AND xor_mask_bits ! md"
    obtain cnt d b where st: "copy_start_bits n (dst pd) md ?b = (cnt, d, b)" by (metis prod_cases3)
    from copied_start[OF lt(2) n clr0 first_byte_shift_left[OF left lt(1) refl refl, of _ src ps] st]
    have 1: "copied src (8 * ps + ms) (8 * pd + md) (n - cnt) dst (dst(pd := d OR b))"
      and cnt: "cnt = (if 8 - md \<le> n then n - (8 - md) else 0)" by auto
    obtain dst2 ps2 pd2 where run: "copy_shifted_bytes (cnt div 8) (ms - md) (8 - (ms - md)) src (ps + 1)
        (dst(pd := d OR b)) (pd + 1) = (dst2, ps2, pd2)" by (metis prod_cases3)
    have le: "cnt \<le> n" using cnt by simp
    have al: "8 * ps + ms + (n - cnt) = 8 * (ps + 1) + (ms - md) \<and> 8 * pd + md + (n - cnt) = 8 * (pd + 1)"
      if "0 < cnt" using that cnt lt left by (auto split: if_splits)
    have "snd (copybits src psrc soff n dst pdst doff) = (if cnt mod 8 > 0 then
       dst2(pd2 := (dst2 pd2 AND xor_mask_bits ! (cnt mod 8))
         OR ((push_bit (ms - md) (src ps2) OR drop_bit (8 - (ms - md)) (src (ps2 + 1)))
           AND mask_bits ! (cnt mod 8))) else dst2)"
      using st run left n by (simp add: copybits_def defs[symmetric] Let_def)
    with copied_rest_shifted[OF _ refl 1 le al run] lt show ?thesis by (simp add: S D)
  next
    case right
    let ?b = "drop_bit (md - ms) (src ps) AND xor_mask_bits ! md"
    obtain cnt d b where st: "copy_start_bits n (dst pd) md ?b = (cnt, d, b)" by (metis prod_cases3)
    from copied_start[OF lt(2) n clr0 first_byte_shift_right[OF right lt(2) refl, of _ src ps] st]
    have 1: "copied src (8 * ps + ms) (8 * pd + md) (n - cnt) dst (dst(pd := d OR b))"
      and cnt: "cnt = (if 8 - md \<le> n then n - (8 - md) else 0)" by auto
    obtain dst2 ps2 pd2 where run: "copy_shifted_bytes (cnt div 8) (8 - (md - ms)) (md - ms) src ps
        (dst(pd := d OR b)) (pd + 1) = (dst2, ps2, pd2)" by (metis prod_cases3)
    have le: "cnt \<le> n" using cnt by simp
    have al: "8 * ps + ms + (n - cnt) = 8 * ps + (8 - (md - ms)) \<and> 8 * pd + md + (n - cnt) = 8 * (pd + 1)"
      if "0 < cnt" using that cnt lt right by (auto split: if_splits)
    have "snd (copybits src psrc soff n dst pdst doff) = (if cnt mod 8 > 0 then
       dst2(pd2 := (dst2 pd2 AND xor_mask_bits ! (cnt mod 8))
         OR ((push_bit (8 - (md - ms)) (src ps2) OR drop_bit (md - ms) (src (ps2 + 1)))
           AND mask_bits ! (cnt mod 8))) else dst2)"
      using st run right n by (simp add: copybits_def defs[symmetric] Let_def)
    with copied_rest_shifted[OF _ _ 1 le al run] lt right show ?thesis by (simp add: S D)
  next
    case same0
    have "copied src (8 * ps) (8 * pd) (n - n) dst dst" by simp
    from copied_rest_aligned[OF this, of ps pd] n same0
    have "copied src (8 * ps + ms) (8 * pd + md) n dst
       (snd (copybits src psrc soff n dst pdst doff))"
      by (simp add: copybits_def defs[symmetric] Let_def)
    then show ?thesis by (simp only: S D)
  next
    case same
    have b: "msb_bit (xor_mask_bits ! md AND src ps) j \<longleftrightarrow>
        md \<le> j \<and> bit_at src (8 * ps + ms + (j - md))" if "j < 8" for j
      using that same lt bit_at_byte[of j src ps] by (auto simp: msb_bit_xor_mask)
    obtain cnt d b where st: "copy_start_bits n (dst pd) md (xor_mask_bits ! md AND src ps) = (cnt, d, b)"
      by (metis prod_cases3)
    from copied_start[OF lt(2) n clr0 b st]
    have 1: "copied src (8 * ps + ms) (8 * pd + md) (n - cnt) dst (dst(pd := d OR b))"
      and cnt: "cnt = (if 8 - md \<le> n then n - (8 - md) else 0)" by auto
    have le: "cnt \<le> n" using cnt by simp
    have al: "8 * ps + ms + (n - cnt) = 8 * (ps + 1) \<and> 8 * pd + md + (n - cnt) = 8 * (pd + 1)"
      if "0 < cnt" using that cnt lt same by (auto split: if_splits)
    have "snd (copybits src psrc soff n dst pdst doff) =
        (let dst2 = memcpy (dst(pd := d OR b)) (pd + 1) src (ps + 1) (cnt div 8)
         in if cnt mod 8 > 0 then
              dst2(pd + 1 + cnt div 8 := (dst2 (pd + 1 + cnt div 8) AND xor_mask_bits ! (cnt mod 8))
                OR (mask_bits ! (cnt mod 8) AND src (ps + 1 + cnt div 8)))
            else dst2)"
      using st same n by (simp add: copybits_def defs[symmetric] Let_def)
    with copied_rest_aligned[OF 1 le al] show ?thesis by (simp add: S D)
  qed
qed

lemma fst_copybits [simp]: "fst (copybits src psrc soff n dst pdst doff) = n"
  by (auto simp: copybits_def Let_def split: prod.splits)

section \<open>Words and their bytes\<close>

lemma byte_split: "\<exists>q r. i = 8 * q + r \<and> r < (8::nat)"
  by (metis mod_less_divisor mult_div_mod_eq zero_less_numeral)

lemma bit_foldr_or:
  "bit (foldr (\<lambda>i acc. f i OR acc) xs (0::'a::len word)) n \<longleftrightarrow> (\<exists>i\<in>set xs. bit (f i) n)"
  by (induction xs) (auto simp: bit_simps)

lemma bit_val64_of_val8: "bit (val64_of_val8 m) n \<longleftrightarrow> n < 64 \<and> bit (m (n div 8)) (n mod 8)"
proof -
  have "bit (push_bit (8 * i) (ucast (m i) :: u64)) n \<longleftrightarrow> n < 64 \<and> 8 * i \<le> n \<and> bit (m i) (n - 8 * i)" for i
    by (auto simp: bit_simps)
  moreover have "8 * i \<le> n \<and> bit (m i) (n - 8 * i) \<longleftrightarrow> i = n div 8 \<and> bit (m (n div 8)) (n mod 8)" for i
  proof
    assume *: "8 * i \<le> n \<and> bit (m i) (n - 8 * i)"
    then have "n - 8 * i < 8" using bit_imp_le_length[of "m i" "n - 8 * i"] by simp
    with * obtain r where r: "n = 8 * i + r" "r < 8" by (metis le_add_diff_inverse)
    then have "n div 8 = i \<and> n mod 8 = n - 8 * i" by simp
    with * show "i = n div 8 \<and> bit (m (n div 8)) (n mod 8)" by simp
  next
    assume "i = n div 8 \<and> bit (m (n div 8)) (n mod 8)"
    then show "8 * i \<le> n \<and> bit (m i) (n - 8 * i)" by (simp add: minus_mult_div_eq_mod)
  qed
  ultimately show ?thesis
    unfolding val64_of_val8_def bit_foldr_or by auto
qed

lemma bit_bswap64: "bit (bswap64 v) n \<longleftrightarrow> n < 64 \<and> bit v (8 * (7 - n div 8) + n mod 8)"
proof -
  have ff: "bit (0xff :: u64) k \<longleftrightarrow> k < 8" for k
  proof -
    have eq: "(0xff :: u64) = mask 8" by (simp add: mask_eq_exp_minus_1)
    show ?thesis unfolding eq by (simp only: bit_mask_iff possible_bit_word) auto
  qed
  have "bit (push_bit (8 * (7 - i)) (drop_bit (8 * i) v AND 0xff)) n \<longleftrightarrow>
      n < 64 \<and> 8 * (7 - i) \<le> n \<and> n - 8 * (7 - i) < 8 \<and> bit v (8 * i + (n - 8 * (7 - i)))" for i
    using ff[of "n - 8 * (7 - i)"] by (auto simp: bit_simps)
  then have "bit (bswap64 v) n \<longleftrightarrow> n < 64 \<and>
      (\<exists>i<8. 8 * (7 - i) \<le> n \<and> n - 8 * (7 - i) < 8 \<and> bit v (8 * i + (n - 8 * (7 - i))))"
    unfolding bswap64_def bit_foldr_or by auto
  also have "\<dots> \<longleftrightarrow> n < 64 \<and> bit v (8 * (7 - n div 8) + n mod 8)"
  proof (cases "n < 64")
    case True
    obtain q r where n: "n = 8 * q + r" "r < 8" using byte_split by blast
    with True have q: "q < 8" by simp
    have uniq: "8 * (7 - i) \<le> n \<and> n - 8 * (7 - i) < 8 \<longleftrightarrow> i = 7 - q" if "i < 8" for i
      using n q that by auto
    have "(\<exists>i<8. 8 * (7 - i) \<le> n \<and> n - 8 * (7 - i) < 8 \<and> bit v (8 * i + (n - 8 * (7 - i)))) \<longleftrightarrow>
        (\<exists>i<8. i = 7 - q \<and> bit v (8 * i + (n - 8 * (7 - i))))"
      using uniq by blast
    also have "\<dots> \<longleftrightarrow> bit v (8 * (7 - q) + (n - 8 * (7 - (7 - q))))"
      by auto
    also have "n - 8 * (7 - (7 - q)) = r" using n q by simp
    finally show ?thesis using True n by simp
  qed simp
  finally show ?thesis .
qed

lemma bit_at_val8_of_val64:
  assumes "i < 64"
  shows "bit_at (val8_of_val64 (bswap64 v)) i = bit v (63 - i)"
proof -
  obtain q r where i: "i = 8 * q + r" "r < 8" using byte_split by blast
  with assms have q: "q < 8" by simp
  have "bit_at (val8_of_val64 (bswap64 v)) i = bit (bswap64 v) (8 * q + (7 - r))"
    using i q by (auto simp: bit_at_def val8_of_val64_def msb_bit_def bit_simps)
  also have "\<dots> = bit v (8 * (7 - q) + (7 - r))"
    using i q by (auto simp: bit_bswap64 simp del: add_diff_assoc add_diff_assoc2)
  also have "8 * (7 - q) + (7 - r) = 63 - i"
    using i q by simp
  finally show ?thesis .
qed

lemma bit_bswap64_val64_of_val8:
  "bit (bswap64 (val64_of_val8 m)) k \<longleftrightarrow> k < 64 \<and> bit_at m (63 - k)"
proof (cases "k < 64")
  case True
  obtain q r where k: "k = 8 * q + r" "r < 8" using byte_split by blast
  with True have q: "q < 8" by simp
  have "63 - k = 8 * (7 - q) + (7 - r)" using k q by simp
  then have "bit_at m (63 - k) = msb_bit (m (7 - q)) (7 - r)"
    using bit_at_byte[of "7 - r" m "7 - q"] by simp
  then show ?thesis
    using k q by (auto simp: bit_bswap64 bit_val64_of_val8 msb_bit_def)
qed (simp add: bit_bswap64)

section \<open>Encoding and decoding of bit fields\<close>

text \<open>The abstract meaning of a bit field: the number its bits spell.\<close>

definition read_field :: "memory \<Rightarrow> nat \<Rightarrow> nat \<Rightarrow> u64" where
  "read_field m a n = horner_sum of_bool 2 (map (\<lambda>k. bit_at m (a + (n - 1 - k))) [0..<n])"

lemma bit_read_field: "bit (read_field m a n) k \<longleftrightarrow> k < n \<and> k < 64 \<and> bit_at m (a + (n - 1 - k))"
  by (auto simp: read_field_def bit_horner_sum_bit_word_iff)

lemma right_aligned_offset:
  assumes "0 < n" "n \<le> 64"
  shows "(8 - bits_to_bytes n) * CHAR_BIT + CHAR_BIT - find_end_bit n = 64 - n"
proof -
  have "list_all (\<lambda>n. (8 - bits_to_bytes n) * CHAR_BIT + CHAR_BIT - find_end_bit n = 64 - n) [1..<65]"
    by code_simp
  moreover have "n \<in> set [1..<65]"
    unfolding set_upt using assms by simp
  ultimately show ?thesis unfolding list_all_iff by blast
qed

lemma decode_bits_read_field:
  assumes "0 < n" "n \<le> 64"
  shows "decode_bits src psrc off n dec = (read_field src (8 * psrc + off) n, n)"
proof -
  let ?m = "snd (copybits src psrc off n (\<lambda>_. 0) 0 (64 - n))"
  have c: "copied src (8 * psrc + off) (64 - n) n (\<lambda>_. 0) ?m"
    using copied_copybits[OF assms(1), of "\<lambda>_. 0" 0 "64 - n" src psrc off] by simp
  have zero: "\<not> bit_at (\<lambda>_. 0) i" for i by (simp add: bit_at_def)
  have "bswap64 (val64_of_val8 ?m) = read_field src (8 * psrc + off) n"
  proof (rule bit_word_eqI)
    fix k assume "k < LENGTH(64)"
    then have k: "k < 64" by simp
    show "bit (bswap64 (val64_of_val8 ?m)) k = bit (read_field src (8 * psrc + off) n) k"
    proof (cases "k < n")
      case True
      with assms(2) have "64 - n + (n - 1 - k) = 63 - k" by simp
      with True copied_field[OF c, of "n - 1 - k"] k show ?thesis
        by (simp add: bit_bswap64_val64_of_val8 bit_read_field)
    next
      case False
      with k have "63 - k < 64 - n" by simp
      with copied_below[OF c this] False zero show ?thesis
        by (simp add: bit_bswap64_val64_of_val8 bit_read_field)
    qed
  qed
  moreover obtain m where "copybits src psrc off n (\<lambda>_. 0) 0 (64 - n) = (n, m)"
    by (metis fst_copybits prod.collapse)
  ultimately show ?thesis
    using assms by (simp add: decode_bits_def copy_bits_right_aligned_def right_aligned_offset[simplified])
qed

lemma read_field_agrees:
  assumes "agrees m a (field_bits n v)" "n \<le> 64"
  shows "read_field m a n = take_bit n v"
proof (rule bit_word_eqI)
  fix k assume "k < LENGTH(64)"
  then show "bit (read_field m a n) k = bit (take_bit n v) k"
    using assms(1)[unfolded agrees_def, rule_format, of "n - 1 - k"]
    by (cases "k < n") (auto simp: bit_read_field bit_simps nth_field_bits)
qed

lemma encode_bits_copied:
  assumes "0 < n" "n \<le> 64" "clear m (8 * p + off) (8 * p + off + n)"
  shows "fst (encode_bits v n m p off) = n"
    and "agrees (snd (encode_bits v n m p off)) (8 * p + off) (field_bits n v)"
    and "i < 8 * p + off \<or> 8 * p + off + n < i \<Longrightarrow> bit_at (snd (encode_bits v n m p off)) i = bit_at m i"
    and "bit_at (snd (encode_bits v n m p off)) (8 * p + off + n) \<Longrightarrow> bit_at m (8 * p + off + n)"
proof -
  have "65536 + 8 * CHAR_BIT - n = 65536 + (64 - n)"
    unfolding CHAR_BIT_8 using assms(2) by linarith
  moreover have "(65536 + (64 - n)) mod 65536 = 64 - n"
    unfolding mod_add_self1 by (rule mod_less) linarith
  ultimately have o: "(65536 + 8 * CHAR_BIT - n) mod 65536 = 64 - n" by (rule subst[OF sym])
  have c: "copied (val8_of_val64 (bswap64 v)) (64 - n) (8 * p + off) n m (snd (encode_bits v n m p off))"
    using copied_copybits[OF assms(1,3), of "val8_of_val64 (bswap64 v)" 0 "64 - n"]
    by (simp only: encode_bits_def o mult_0_right add_0)
  show "fst (encode_bits v n m p off) = n" by (simp add: encode_bits_def)
  show "agrees (snd (encode_bits v n m p off)) (8 * p + off) (field_bits n v)"
    unfolding agrees_def
  proof (intro allI impI)
    fix i assume "i < length (field_bits n v)"
    then have i: "i < n" by simp
    with assms(2) have "63 - (64 - n + i) = n - 1 - i" "64 - n + i < 64" by auto
    with copied_field[OF c i] i show "bit_at (snd (encode_bits v n m p off)) (8 * p + off + i) = field_bits n v ! i"
      by (simp add: bit_at_val8_of_val64 nth_field_bits)
  qed
  show "i < 8 * p + off \<or> 8 * p + off + n < i \<Longrightarrow> bit_at (snd (encode_bits v n m p off)) i = bit_at m i"
    using copied_below[OF c] copied_above[OF c] by blast
  show "bit_at (snd (encode_bits v n m p off)) (8 * p + off + n) \<Longrightarrow> bit_at m (8 * p + off + n)"
    using copied_next[OF c] by blast
qed

text \<open>On a zeroed destination the copy is a function of the copied bits alone: the byte that
  \<open>copybits\<close> reads past its source (past the union, in \<open>encode_bits\<close>) does not matter.\<close>

lemma copybits_src_cong:
  assumes "0 < n" "clear dst (8 * pd + doff) (8 * pd + doff + n + 1)"
    and "\<And>i. i < n \<Longrightarrow> bit_at src (8 * ps + soff + i) = bit_at src' (8 * ps' + soff' + i)"
  shows "copybits src ps soff n dst pd doff = copybits src' ps' soff' n dst pd doff"
proof -
  let ?D = "8 * pd + doff"
  have cl: "clear dst ?D (?D + n)" using assms(2) by (rule clear_mono) simp_all
  have c: "copied src (8 * ps + soff) ?D n dst (snd (copybits src ps soff n dst pd doff))"
    and c': "copied src' (8 * ps' + soff') ?D n dst (snd (copybits src' ps' soff' n dst pd doff))"
    using copied_copybits[OF assms(1) cl] by blast+
  have "snd (copybits src ps soff n dst pd doff) = snd (copybits src' ps' soff' n dst pd doff)"
  proof (rule bit_at_ext)
    fix i
    consider "i < ?D" | j where "i = ?D + j" "j < n" | "i = ?D + n" | "?D + n < i"
      by (metis add_diff_inverse_nat linorder_neqE_nat nat_add_left_cancel_less not_add_less1)
    then show "bit_at (snd (copybits src ps soff n dst pd doff)) i =
        bit_at (snd (copybits src' ps' soff' n dst pd doff)) i"
    proof cases
      case 1
      then show ?thesis using copied_below[OF c] copied_below[OF c'] by simp
    next
      case 2
      then show ?thesis using copied_field[OF c] copied_field[OF c'] assms(3) by simp
    next
      case 3
      then show ?thesis using copied_next[OF c] copied_next[OF c'] assms(2) by (auto simp: clear_def)
    next
      case 4
      then show ?thesis using copied_above[OF c] copied_above[OF c'] by simp
    qed
  qed
  then show ?thesis by (simp add: prod_eq_iff)
qed

text \<open>A zero nibble written over \<open>0xff\<close>: bits 1 and 3 of the nibble survive (\<open>mask_bits[0]\<close> is
  \<open>0x55\<close>) and the bit behind the nibble is lost (\<open>xor_mask_bits\<close> is indexed one too far).\<close>

lemma stale_nibble: "snd (encode_bits 0 4 (\<lambda>_. 0xff) 0 0) = (\<lambda>_. 0xff)(0 := 0x57)"
proof -
  have src: "val8_of_val64 (bswap64 0) = (\<lambda>_. 0)"
    by (rule ext) (simp add: val8_of_val64_def bswap64_def upt_conv_Cons)
  have off: "(65536 + 8 * CHAR_BIT - 4) mod 65536 = (60::nat)" by simp
  show ?thesis
    unfolding encode_bits_def src off
    by (simp add: copybits_def copy_start_bits_def mask_bits_def xor_mask_bits_def Let_def split: prod.splits)
qed

section \<open>Properties\<close>

lemma all_less_5: "(\<forall>i < 5. P i) \<longleftrightarrow> P 0 \<and> P 1 \<and> P 2 \<and> P 3 \<and> P (4 :: nat)"
  by (auto simp: numeral_eq_Suc less_Suc_eq)

text \<open>C1: on a destination whose field is zero, \<open>copybits\<close> returns the number of bits, copies
  exactly the field, leaves every bit in front of it and behind it alone, and the one bit after the
  field can at most be cleared.\<close>

theorem copybits_copies_field:
  assumes "0 < n" "clear dst (8 * pd + doff) (8 * pd + doff + n)"
    and "copybits src ps soff n dst pd doff = (k, dst')"
  shows "k = n \<and>
    (\<forall>i < n. bit_at dst' (8 * pd + doff + i) = bit_at src (8 * ps + soff + i)) \<and>
    (\<forall>i. i < 8 * pd + doff \<or> 8 * pd + doff + n < i \<longrightarrow> bit_at dst' i = bit_at dst i) \<and>
    (bit_at dst' (8 * pd + doff + n) \<longrightarrow> bit_at dst (8 * pd + doff + n))"
proof -
  have c: "copied src (8 * ps + soff) (8 * pd + doff) n dst dst'"
    using copied_copybits[OF assms(1,2), of src ps soff] assms(3) by simp
  have "k = n" using fst_copybits[of src ps soff n dst pd doff] assms(3) by simp
  then show ?thesis
    using copied_field[OF c] copied_below[OF c] copied_above[OF c] copied_next[OF c] by blast
qed

theorem copybits_copies_field_witness:
  "map (bit_at (snd (copybits (\<lambda>_. 0xa5) 0 3 5 (\<lambda>_. 0) 0 6))) [6, 7, 8, 9, 10] =
     [False, False, True, False, True] \<and>
   fst (copybits (\<lambda>_. 0xa5) 0 3 5 (\<lambda>_. 0) 0 6) = 5"
proof -
  have bits: "map (bit_at (\<lambda>_. 0xa5)) [3, 4, 5, 6, 7] = [False, False, True, False, True]"
    by (simp add: bit_at_def msb_bit_def bit_numeral_rec)
  have "(\<forall>i < 5. bit_at (snd (copybits (\<lambda>_. 0xa5) 0 3 5 (\<lambda>_. 0) 0 6)) (6 + i) = bit_at (\<lambda>_. 0xa5) (3 + i)) \<and>
     fst (copybits (\<lambda>_. 0xa5) 0 3 5 (\<lambda>_. 0) 0 6) = 5"
    using copybits_copies_field[of 5 "\<lambda>_. 0" 0 6 "\<lambda>_. 0xa5" 0 3
      "fst (copybits (\<lambda>_. 0xa5) 0 3 5 (\<lambda>_. 0) 0 6)" "snd (copybits (\<lambda>_. 0xa5) 0 3 5 (\<lambda>_. 0) 0 6)"]
    by (simp del: fst_copybits)
  then show ?thesis
    using bits by (simp add: all_less_5 del: fst_copybits)
qed

text \<open>C2: a value of \<open>n\<close> bits written by \<open>encode_bits\<close> at any bit offset of a zeroed stretch is
  read back by \<open>decode_bits\<close> at the same place, whatever its \<open>decoded\<close> variable held before.\<close>

theorem encode_decode_bits:
  assumes "0 < n" "n \<le> 64" "clear m (8 * p + off) (8 * p + off + n)"
    and "encode_bits v n m p off = (k, m')"
  shows "k = n \<and> decode_bits m' p off n decoded = (take_bit n v, n)"
proof -
  have "k = n" and "agrees m' (8 * p + off) (field_bits n v)"
    using encode_bits_copied(1,2)[OF assms(1-3), of v] assms(4) by simp_all
  then show ?thesis
    using decode_bits_read_field[OF assms(1,2), of m' p off decoded] read_field_agrees[OF _ assms(2)]
    by simp
qed

theorem encode_decode_bits_witness:
  "decode_bits (snd (encode_bits 0x1abc 13 (\<lambda>_. 0) 2 5)) 2 5 13 7 = (0x1abc, 13)"
  using encode_decode_bits[of 13 "\<lambda>_. 0" 2 5 "0x1abc" "fst (encode_bits 0x1abc 13 (\<lambda>_. 0) 2 5)"
      "snd (encode_bits 0x1abc 13 (\<lambda>_. 0) 2 5)" 7]
  by (simp add: take_bit_eq_mod)

text \<open>\<open>decode_bits\<close> returns the number the \<open>n\<close> bits at the offset spell, most significant
  bit first, for every memory, alignment and width up to 64; a width outside 1 to 64 yields 0 and
  leaves \<open>decoded\<close> alone.\<close>

theorem decode_bits_reads_field:
  "decode_bits src psrc off n decoded =
    (if 0 < n \<and> n \<le> 64 then (read_field src (8 * psrc + off) n, n) else (0, decoded))"
  by (auto simp: decode_bits_read_field) (simp_all add: decode_bits_def)

text \<open>The zeroed destination is needed. The first entry of \<open>mask_bits\<close> is \<open>0x55\<close> where an
  empty mask is meant: a nibble written at the start of a byte that holds \<open>0xff\<close> keeps every second
  bit of what was there, and zero is read back as five.\<close>

theorem encode_bits_needs_zeroed_buffer:
  "decode_bits (snd (encode_bits 0 4 (\<lambda>_. 0xff) 0 0)) 0 0 4 0 = (5, 4)"
  unfolding stale_nibble
  by (simp add: decode_bits_read_field read_field_def bit_at_def msb_bit_def upt_conv_Cons bit_numeral_rec)

end
