(* ===== verification/Ie_Codec.thy ===== *)
theory Ie_Codec
  imports Enc_Dec_Bits
begin

text \<open>
  The frame every information element coder of \<open>libpfcp\<close> and \<open>libgtpv2c\<close> is written in.
  An encoder keeps a \<open>uint16_t encoded\<close> bit counter and appends a field with
  \<open>encoded += encode_bits(value->f, n, buf + (encoded/8), encoded % CHAR_SIZE)\<close>; a decoder
  keeps \<open>uint16_t total_decoded\<close> and \<open>uint16_t decoded\<close> and reads a field with
  \<open>value->f = decode_bits(buf, total_decoded, n, &decoded); total_decoded += decoded\<close>.
  The statements of these bodies are steps on the pair (counter, buffer) and on the triple
  (total_decoded, decoded, structure); the counters wrap at 16 bits.  The locale \<open>ie_codec\<close> is
  the contract between an encoder and its decoder: both agree on a wire format.
\<close>

section \<open>Statements of encoders\<close>

definition CHAR_SIZE :: nat where
  "CHAR_SIZE = 8"

type_synonym enc_step = "nat \<Rightarrow> nat \<times> memory \<Rightarrow> nat \<times> memory"

type_synonym encoder = "memory \<Rightarrow> nat \<Rightarrow> nat \<times> memory"

definition put_bits :: "u64 \<Rightarrow> nat \<Rightarrow> enc_step" where
  "put_bits v n buf = (\<lambda>(encoded, m).
     let (k, m') = encode_bits v n m (buf + encoded div 8) (encoded mod CHAR_SIZE)
     in ((encoded + k) mod 65536, m'))"

definition put_bytes :: "u8 list \<Rightarrow> enc_step" where
  "put_bytes bs buf = (\<lambda>(encoded, m).
     ((encoded + length bs * CHAR_SIZE) mod 65536,
      memcpy m (buf + encoded div 8) (nth bs) 0 (length bs)))"

definition put_call :: "encoder \<Rightarrow> enc_step" where
  "put_call f buf = (\<lambda>(encoded, m).
     let (k, m') = f m (buf + encoded div CHAR_SIZE) in ((encoded + k) mod 65536, m'))"

definition put_when :: "bool \<Rightarrow> enc_step \<Rightarrow> enc_step" where
  "put_when c s buf = (if c then s buf else id)"

definition put_all :: "enc_step list \<Rightarrow> enc_step" where
  "put_all ss buf = fold (\<lambda>s. s buf) ss"

text \<open>The two ways an encoder ends: \<open>return encoded\<close> and \<open>return encoded/CHAR_SIZE\<close>.\<close>

definition run_bits :: "enc_step list \<Rightarrow> encoder" where
  "run_bits ss m buf = put_all ss buf (0, m)"

definition run_bytes :: "enc_step list \<Rightarrow> encoder" where
  "run_bytes ss m buf = (let (encoded, m') = put_all ss buf (0, m) in (encoded div CHAR_SIZE, m'))"

section \<open>Statements of decoders\<close>

type_synonym 'r dec_step = "memory \<Rightarrow> nat \<Rightarrow> nat \<times> nat \<times> 'r \<Rightarrow> nat \<times> nat \<times> 'r"

type_synonym 'r decoder = "memory \<Rightarrow> nat \<Rightarrow> 'r \<Rightarrow> nat \<times> 'r"

text \<open>\<open>value->f = decode_bits(buf, total_decoded, n, &decoded);\<close> with the store into the structure
  as an update function, the statement \<open>total_decoded += decoded;\<close>, and both in a row.\<close>

definition peek_bits :: "nat \<Rightarrow> (u64 \<Rightarrow> 'r \<Rightarrow> 'r) \<Rightarrow> 'r dec_step" where
  "peek_bits n upd m buf = (\<lambda>(total_decoded, decoded, r).
     let (v, decoded) = decode_bits m buf total_decoded n decoded
     in (total_decoded, decoded, upd v r))"

definition add_decoded :: "'r dec_step" where
  "add_decoded m buf = (\<lambda>(total_decoded, decoded, r).
     ((total_decoded + decoded) mod 65536, decoded, r))"

definition get_bits :: "nat \<Rightarrow> (u64 \<Rightarrow> 'r \<Rightarrow> 'r) \<Rightarrow> 'r dec_step" where
  "get_bits n upd m buf s = add_decoded m buf (peek_bits n upd m buf s)"

definition set_decoded :: "('r \<Rightarrow> nat) \<Rightarrow> 'r dec_step" where
  "set_decoded f m buf = (\<lambda>(total_decoded, decoded, r). (total_decoded, f r mod 65536, r))"

text \<open>\<open>memcpy(&value->f, buf + (total_decoded/CHAR_SIZE), n);\<close>, the statement
  \<open>total_decoded += n * CHAR_SIZE;\<close>, and both in a row.\<close>

definition peek_bytes :: "nat \<Rightarrow> (u8 list \<Rightarrow> 'r \<Rightarrow> 'r) \<Rightarrow> 'r dec_step" where
  "peek_bytes n upd m buf = (\<lambda>(total_decoded, decoded, r).
     (total_decoded, decoded, upd (map (\<lambda>i. m (buf + total_decoded div CHAR_SIZE + i)) [0..<n]) r))"

definition skip_bytes :: "nat \<Rightarrow> 'r dec_step" where
  "skip_bytes n m buf = (\<lambda>(total_decoded, decoded, r).
     ((total_decoded + n * CHAR_SIZE) mod 65536, decoded, r))"

definition get_bytes :: "nat \<Rightarrow> (u8 list \<Rightarrow> 'r \<Rightarrow> 'r) \<Rightarrow> 'r dec_step" where
  "get_bytes n upd m buf s = skip_bytes n m buf (peek_bytes n upd m buf s)"

definition get_call :: "'a decoder \<Rightarrow> ('r \<Rightarrow> 'a) \<Rightarrow> ('a \<Rightarrow> 'r \<Rightarrow> 'r) \<Rightarrow> 'r dec_step" where
  "get_call f sel upd m buf = (\<lambda>(total_decoded, decoded, r).
     let (k, x) = f m (buf + total_decoded div CHAR_SIZE) (sel r)
     in ((total_decoded + k) mod 65536, decoded, upd x r))"

text \<open>A statement that depends on what has been decoded so far, and a guarded one.\<close>

definition get_dep :: "('r \<Rightarrow> 'r dec_step) \<Rightarrow> 'r dec_step" where
  "get_dep f m buf s = f (snd (snd s)) m buf s"

definition get_when :: "('r \<Rightarrow> bool) \<Rightarrow> 'r dec_step \<Rightarrow> 'r dec_step" where
  "get_when c f m buf s = (if c (snd (snd s)) then f m buf s else s)"

definition get_all :: "'r dec_step list \<Rightarrow> 'r dec_step" where
  "get_all fs m buf = fold (\<lambda>f. f m buf) fs"

definition parse_bits :: "'r dec_step list \<Rightarrow> 'r decoder" where
  "parse_bits fs m buf r = (case get_all fs m buf (0, 0, r) of (total_decoded, _, r') \<Rightarrow>
     (total_decoded, r'))"

definition parse_bytes :: "'r dec_step list \<Rightarrow> 'r decoder" where
  "parse_bytes fs m buf r = (case get_all fs m buf (0, 0, r) of (total_decoded, _, r') \<Rightarrow>
     (total_decoded div CHAR_SIZE, r'))"

section \<open>What an encoder step writes\<close>

lemma CHAR_SIZE_8 [simp]: "CHAR_SIZE = 8"
  by (simp add: CHAR_SIZE_def)

text \<open>The bit string \<open>bs\<close> has been written at bit \<open>a\<close>; nothing else has changed, except that the
  bit after the string may have been cleared (see \<open>copied\<close> in \<open>Enc_Dec_Bits\<close>).\<close>

definition wrote :: "memory \<Rightarrow> nat \<Rightarrow> bool list \<Rightarrow> memory \<Rightarrow> bool" where
  "wrote m a bs m' \<longleftrightarrow> agrees m' a bs
     \<and> (\<forall>i. i < a \<or> a + length bs < i \<longrightarrow> bit_at m' i = bit_at m i)
     \<and> (bit_at m' (a + length bs) \<longrightarrow> bit_at m (a + length bs))"

lemma wrote_refl [simp]: "wrote m a [] m"
  by (simp add: wrote_def)

lemma wrote_trans:
  assumes "wrote m a bs m1" "wrote m1 (a + length bs) cs m2"
  shows "wrote m a (bs @ cs) m2"
proof -
  have "agrees m2 a bs"
    using assms by (auto simp: wrote_def intro: agrees_frame)
  moreover have "bit_at m2 i = bit_at m i" if "i < a \<or> a + length (bs @ cs) < i" for i
    using that assms by (auto simp: wrote_def)
  moreover have "bit_at m (a + length (bs @ cs))" if "bit_at m2 (a + length (bs @ cs))"
    using that assms by (cases "cs = []") (auto simp: wrote_def add.assoc)
  ultimately show ?thesis using assms(2) by (auto simp: wrote_def)
qed

lemma wrote_agrees: "wrote m a bs m' \<Longrightarrow> agrees m' a bs"
  by (simp add: wrote_def)

lemma wrote_clear: "wrote m a bs m' \<Longrightarrow> a + length bs \<le> x \<Longrightarrow> clear m x y \<Longrightarrow> clear m' x y"
  unfolding wrote_def clear_def by (metis dual_order.order_iff_strict order.strict_trans1)

lemma wrote_keeps: "wrote m a bs m' \<Longrightarrow> agrees m b cs \<Longrightarrow> b + length cs \<le> a \<Longrightarrow> agrees m' b cs"
  by (auto simp: wrote_def intro: agrees_frame)

text \<open>A step started at a counter that is \<open>j\<close> modulo a byte appends the bits \<open>bs\<close> to the
  buffer, provided the counter does not wrap and the stretch to be written is zero.\<close>

definition emits :: "nat \<Rightarrow> enc_step \<Rightarrow> bool list \<Rightarrow> bool" where
  "emits j s bs \<longleftrightarrow> (\<forall>buf e m. e mod 8 = j \<and> e + length bs < 65536
       \<and> clear m (8 * buf + e) (8 * buf + e + length bs) \<longrightarrow>
     fst (s buf (e, m)) = e + length bs \<and> wrote m (8 * buf + e) bs (snd (s buf (e, m))))"

lemma emitsD:
  assumes "emits j s bs" "e mod 8 = j" "e + length bs < 65536"
    "clear m (8 * buf + e) (8 * buf + e + length bs)" "s buf (e, m) = (e', m')"
  shows "e' = e + length bs" "wrote m (8 * buf + e) bs m'"
  using assms(1)[unfolded emits_def, rule_format, of e m buf] assms(2-) by simp_all

lemma emits_put_bits:
  assumes "0 < n" "n \<le> 64"
  shows "emits j (put_bits v n) (field_bits n v)"
  unfolding emits_def
proof (intro allI impI)
  fix buf e m
  assume *: "e mod 8 = j \<and> e + length (field_bits n v) < 65536
    \<and> clear m (8 * buf + e) (8 * buf + e + length (field_bits n v))"
  have pos: "8 * (buf + e div 8) + e mod 8 = 8 * buf + e" by (simp add: algebra_simps)
  from * have "clear m (8 * (buf + e div 8) + e mod 8) (8 * (buf + e div 8) + e mod 8 + n)"
    unfolding pos by simp
  note enc = encode_bits_copied[OF assms this, unfolded pos, where v = v]
  show "fst (put_bits v n buf (e, m)) = e + length (field_bits n v) \<and>
      wrote m (8 * buf + e) (field_bits n v) (snd (put_bits v n buf (e, m)))"
    using * enc by (auto simp: put_bits_def wrote_def split: prod.splits)
qed

lemma emits_put_bytes:
  assumes "j = 0"
  shows "emits j (put_bytes bs) (byte_bits bs)"
  unfolding emits_def assms
proof (intro allI impI)
  fix buf e m
  assume *: "e mod 8 = 0 \<and> e + length (byte_bits bs) < 65536
    \<and> clear m (8 * buf + e) (8 * buf + e + length (byte_bits bs))"
  then obtain q where q: "e = 8 * q" by auto
  let ?m = "memcpy m (buf + q) (nth bs) 0 (length bs)"
  have pos: "8 * buf + 8 * q = 8 * (buf + q)" by simp
  have "agrees ?m (8 * buf + 8 * q) (byte_bits bs)"
    unfolding pos agrees_byte_bits by (simp add: memcpy_def)
  moreover have "bit_at ?m i = bit_at m i" if "i < 8 * (buf + q) \<or> 8 * (buf + q) + 8 * length bs \<le> i" for i
    using copied_memcpy[of "nth bs" 0 "buf + q" "length bs" m] that
    by (cases "i = 8 * (buf + q) + 8 * length bs") (auto simp: bit_at_def memcpy_def)
  ultimately show "fst (put_bytes bs buf (e, m)) = e + length (byte_bits bs) \<and>
      wrote m (8 * buf + e) (byte_bits bs) (snd (put_bytes bs buf (e, m)))"
    using * q by (simp add: put_bytes_def wrote_def mult.commute)
qed

lemma emits_Nil: "emits j (put_all []) []"
  by (simp add: emits_def put_all_def)

lemma emits_Cons:
  assumes "emits j s bs" "emits ((j + length bs) mod 8) (put_all ss) cs"
  shows "emits j (put_all (s # ss)) (bs @ cs)"
  unfolding emits_def
proof (intro allI impI)
  fix buf e m
  assume *: "e mod 8 = j \<and> e + length (bs @ cs) < 65536
    \<and> clear m (8 * buf + e) (8 * buf + e + length (bs @ cs))"
  obtain e1 m1 where s: "s buf (e, m) = (e1, m1)" by fastforce
  have "clear m (8 * buf + e) (8 * buf + e + length bs)"
    using * clear_mono[of m "8 * buf + e" "8 * buf + e + length (bs @ cs)"] by simp
  with emitsD[OF assms(1) _ _ _ s] * have 1: "e1 = e + length bs" "wrote m (8 * buf + e) bs m1"
    by simp_all
  from * have "clear m (8 * buf + e1) (8 * buf + e1 + length cs)"
    using 1 clear_mono[of m "8 * buf + e" "8 * buf + e + length (bs @ cs)"] by simp
  then have "clear m1 (8 * buf + e1) (8 * buf + e1 + length cs)"
    using 1 wrote_clear[OF 1(2)] by (simp add: add.assoc)
  moreover have "e1 mod 8 = (j + length bs) mod 8" using * 1 by (metis mod_add_left_eq)
  moreover obtain e2 m2 where ss: "put_all ss buf (e1, m1) = (e2, m2)" by fastforce
  ultimately have "e2 = e1 + length cs" "wrote m1 (8 * buf + e1) cs m2"
    using emitsD[OF assms(2) _ _ _ ss] * 1 by simp_all
  then show "fst (put_all (s # ss) buf (e, m)) = e + length (bs @ cs) \<and>
      wrote m (8 * buf + e) (bs @ cs) (snd (put_all (s # ss) buf (e, m)))"
    using s ss 1 wrote_trans[OF 1(2), of cs m2] by (simp add: put_all_def add.assoc)
qed

lemma emits_put_when:
  "(c \<Longrightarrow> emits j s bs) \<Longrightarrow> emits j (put_when c s) (if c then bs else [])"
  by (simp add: emits_def put_when_def)

text \<open>An encoder as a whole: it writes \<open>bs\<close> at the start of its buffer and returns its length in
  units of \<open>u\<close> bits.\<close>

definition writes :: "nat \<Rightarrow> encoder \<Rightarrow> bool list \<Rightarrow> bool" where
  "writes u f bs \<longleftrightarrow> (\<forall>m buf. clear m (8 * buf) (8 * buf + length bs) \<longrightarrow>
     fst (f m buf) * u = length bs \<and> wrote m (8 * buf) bs (snd (f m buf)))"

lemma writesD:
  assumes "writes u f bs" "clear m (8 * buf) (8 * buf + length bs)" "f m buf = (n, m')"
  shows "n * u = length bs" "wrote m (8 * buf) bs m'"
  using assms(1)[unfolded writes_def, rule_format, of m buf] assms(2-) by simp_all

lemma writes_run_bits:
  assumes "emits 0 (put_all ss) bs" "length bs < 65536"
  shows "writes 1 (run_bits ss) bs"
  unfolding writes_def
proof (intro allI impI)
  fix m buf assume *: "clear m (8 * buf) (8 * buf + length bs)"
  obtain e m' where s: "put_all ss buf (0, m) = (e, m')" by fastforce
  have "e = length bs" "wrote m (8 * buf) bs m'"
    using emitsD[OF assms(1) _ _ _ s] assms(2) * by simp_all
  then show "fst (run_bits ss m buf) * 1 = length bs \<and> wrote m (8 * buf) bs (snd (run_bits ss m buf))"
    using assms s by (auto simp: run_bits_def)
qed

lemma writes_run_bytes:
  assumes "emits 0 (put_all ss) bs" "length bs < 65536" "length bs mod 8 = 0"
  shows "writes 8 (run_bytes ss) bs"
  unfolding writes_def
proof (intro allI impI)
  fix m buf assume *: "clear m (8 * buf) (8 * buf + length bs)"
  obtain e m' where s: "put_all ss buf (0, m) = (e, m')" by fastforce
  have "e = length bs" "wrote m (8 * buf) bs m'"
    using emitsD[OF assms(1) _ _ _ s] assms(2) * by simp_all
  then show "fst (run_bytes ss m buf) * 8 = length bs \<and> wrote m (8 * buf) bs (snd (run_bytes ss m buf))"
    using assms s by (auto simp: run_bytes_def)
qed

lemma emits_put_call:
  assumes "writes 1 f bs" "j = 0"
  shows "emits j (put_call f) bs"
  unfolding emits_def assms(2)
proof (intro allI impI)
  fix buf e m
  assume *: "e mod 8 = 0 \<and> e + length bs < 65536
    \<and> clear m (8 * buf + e) (8 * buf + e + length bs)"
  then obtain q where q: "e = 8 * q" by auto
  obtain n m' where f: "f m (buf + q) = (n, m')" by fastforce
  have pos: "8 * buf + e = 8 * (buf + q)" using q by simp
  have "n = length bs" "wrote m (8 * buf + e) bs m'"
    using writesD[OF assms(1) _ f] * unfolding pos by simp_all
  then show "fst (put_call f buf (e, m)) = e + length bs \<and>
      wrote m (8 * buf + e) bs (snd (put_call f buf (e, m)))"
    using * q f by (simp add: put_call_def)
qed

lemma put_all_single [simp]: "put_all [s] = s"
  by (rule ext) (simp add: put_all_def)

section \<open>What a decoder step reads\<close>

text \<open>A decoder step that finds the bits \<open>bs\<close> under its cursor moves past them and turns the
  structure \<open>r\<close> into \<open>r'\<close>.\<close>

definition reads :: "nat \<Rightarrow> 'r dec_step \<Rightarrow> bool list \<Rightarrow> 'r \<Rightarrow> 'r \<Rightarrow> bool" where
  "reads j f bs r r' \<longleftrightarrow> (\<forall>m buf t d. t mod 8 = j \<and> t + length bs < 65536
       \<and> agrees m (8 * buf + t) bs \<longrightarrow> (\<exists>d'. f m buf (t, d, r) = (t + length bs, d', r')))"

lemma readsD:
  assumes "reads j f bs r r'" "t mod 8 = j" "t + length bs < 65536" "agrees m (8 * buf + t) bs"
  obtains d' where "f m buf (t, d, r) = (t + length bs, d', r')"
  using assms(1)[unfolded reads_def, rule_format, of t m buf d] assms(2-) by blast

lemma peek_bits_agrees:
  "0 < n \<Longrightarrow> n \<le> 64 \<Longrightarrow> agrees m (8 * buf + t) (field_bits n v) \<Longrightarrow>
    peek_bits n upd m buf (t, d, r) = (t, n, upd (take_bit n v) r)"
  by (simp add: peek_bits_def decode_bits_read_field read_field_agrees)

lemma get_bits_agrees:
  "0 < n \<Longrightarrow> n \<le> 64 \<Longrightarrow> t + n < 65536 \<Longrightarrow> agrees m (8 * buf + t) (field_bits n v) \<Longrightarrow>
    get_bits n upd m buf (t, d, r) = (t + n, n, upd (take_bit n v) r)"
  by (simp add: get_bits_def peek_bits_agrees add_decoded_def)

lemma reads_get_bits:
  assumes "0 < n" "n \<le> 64"
  shows "reads j (get_bits n upd) (field_bits n v) r (upd (take_bit n v) r)"
  using assms by (auto simp: reads_def get_bits_agrees)

lemma reads_get_bytes:
  assumes "n = length bs"
  shows "reads 0 (get_bytes n upd) (byte_bits bs) r (upd bs r)"
  unfolding reads_def
proof (intro allI impI)
  fix m buf t d
  assume *: "t mod 8 = 0 \<and> t + length (byte_bits bs) < 65536 \<and> agrees m (8 * buf + t) (byte_bits bs)"
  then obtain q where q: "t = 8 * q" by auto
  have pos: "8 * buf + t = 8 * (buf + q)" using q by simp
  from * have "map (\<lambda>i. m (buf + q + i)) [0..<length bs] = bs"
    unfolding pos agrees_byte_bits by (auto intro: nth_equalityI)
  then show "\<exists>d'. get_bytes n upd m buf (t, d, r) = (t + length (byte_bits bs), d', upd bs r)"
    using * assms q by (simp add: get_bytes_def peek_bytes_def skip_bytes_def mult.commute)
qed

lemma reads_get_dep: "reads j (f r) bs r r' \<Longrightarrow> reads j (get_dep f) bs r r'"
  by (simp add: reads_def get_dep_def)

lemma reads_Nil: "r = r' \<Longrightarrow> reads j (get_all []) [] r r'"
  by (simp add: reads_def get_all_def)

lemma reads_Cons:
  assumes "reads j f bs r r1" "reads ((j + length bs) mod 8) (get_all fs) cs r1 r2"
  shows "reads j (get_all (f # fs)) (bs @ cs) r r2"
  unfolding reads_def
proof (intro allI impI)
  fix m buf t d
  assume *: "t mod 8 = j \<and> t + length (bs @ cs) < 65536 \<and> agrees m (8 * buf + t) (bs @ cs)"
  then obtain d1 where 1: "f m buf (t, d, r) = (t + length bs, d1, r1)"
    using readsD[OF assms(1), of t m buf d] by auto
  have "(t + length bs) mod 8 = (j + length bs) mod 8" using * by (metis mod_add_left_eq)
  with * obtain d2 where "get_all fs m buf (t + length bs, d1, r1) = (t + length bs + length cs, d2, r2)"
    using readsD[OF assms(2), of "t + length bs" m buf d1] by (auto simp: add.assoc)
  with 1 show "\<exists>d'. get_all (f # fs) m buf (t, d, r) = (t + length (bs @ cs), d', r2)"
    by (simp add: get_all_def add.assoc)
qed

lemma get_all_append: "get_all (fs @ gs) m buf x = get_all gs m buf (get_all fs m buf x)"
  by (simp add: get_all_def)

lemma reads_append:
  assumes "reads j (get_all fs) bs r r1" "reads ((j + length bs) mod 8) (get_all gs) cs r1 r2"
  shows "reads j (get_all (fs @ gs)) (bs @ cs) r r2"
  unfolding reads_def
proof (intro allI impI)
  fix m buf t d
  assume *: "t mod 8 = j \<and> t + length (bs @ cs) < 65536 \<and> agrees m (8 * buf + t) (bs @ cs)"
  then obtain d1 where 1: "get_all fs m buf (t, d, r) = (t + length bs, d1, r1)"
    using readsD[OF assms(1), of t m buf d] by auto
  have "(t + length bs) mod 8 = (j + length bs) mod 8" using * by (metis mod_add_left_eq)
  with * obtain d2 where "get_all gs m buf (t + length bs, d1, r1) = (t + length bs + length cs, d2, r2)"
    using readsD[OF assms(2), of "t + length bs" m buf d1] by (auto simp: add.assoc)
  with 1 show "\<exists>d'. get_all (fs @ gs) m buf (t, d, r) = (t + length (bs @ cs), d', r2)"
    by (simp add: get_all_append add.assoc)
qed

text \<open>The same for steps whose result is only known up to a property.\<close>

definition reads_to :: "nat \<Rightarrow> 'r dec_step \<Rightarrow> bool list \<Rightarrow> 'r \<Rightarrow> ('r \<Rightarrow> bool) \<Rightarrow> bool" where
  "reads_to j f bs r P \<longleftrightarrow> (\<forall>m buf t d. t mod 8 = j \<and> t + length bs < 65536
       \<and> agrees m (8 * buf + t) bs \<longrightarrow> (\<exists>d' r'. f m buf (t, d, r) = (t + length bs, d', r') \<and> P r'))"

lemma reads_toD:
  assumes "reads_to j f bs r P" "t mod 8 = j" "t + length bs < 65536" "agrees m (8 * buf + t) bs"
  obtains d' r' where "f m buf (t, d, r) = (t + length bs, d', r')" "P r'"
  using assms(1)[unfolded reads_to_def, rule_format, of t m buf d] assms(2-) by blast

lemma reads_reads_to: "reads j f bs r r' \<Longrightarrow> P r' \<Longrightarrow> reads_to j f bs r P"
  by (fastforce simp: reads_def reads_to_def)

lemma reads_to_append:
  assumes "reads_to j (get_all fs) bs r P"
    and "\<And>r1. P r1 \<Longrightarrow> reads_to ((j + length bs) mod 8) (get_all gs) cs r1 Q"
  shows "reads_to j (get_all (fs @ gs)) (bs @ cs) r Q"
  unfolding reads_to_def
proof (intro allI impI)
  fix m buf t d
  assume *: "t mod 8 = j \<and> t + length (bs @ cs) < 65536 \<and> agrees m (8 * buf + t) (bs @ cs)"
  then obtain d1 r1 where 1: "get_all fs m buf (t, d, r) = (t + length bs, d1, r1)" "P r1"
    using reads_toD[OF assms(1), of t m buf d] by auto
  have "(t + length bs) mod 8 = (j + length bs) mod 8" using * by (metis mod_add_left_eq)
  with * obtain d2 r2 where "get_all gs m buf (t + length bs, d1, r1) = (t + length bs + length cs, d2, r2)" "Q r2"
    using reads_toD[OF assms(2)[OF 1(2)], of "t + length bs" m buf d1] by (auto simp: add.assoc)
  with 1 show "\<exists>d' r'. get_all (fs @ gs) m buf (t, d, r) = (t + length (bs @ cs), d', r') \<and> Q r'"
    by (simp add: get_all_append add.assoc)
qed

lemma reads_then_reads_to:
  "reads j (get_all fs) bs r r1 \<Longrightarrow> length bs mod 8 = 0 \<Longrightarrow> reads_to (j mod 8) (get_all gs) cs r1 Q \<Longrightarrow>
    reads_to j (get_all (fs @ gs)) (bs @ cs) r Q"
  by (rule reads_to_append[OF reads_reads_to[where P = "(=) r1"]])
    (auto simp: mod_add_right_eq[symmetric] simp del: mod_add_right_eq)

text \<open>A decoder as a whole, returning the number of units of \<open>u\<close> bits it has read.\<close>

definition parses :: "nat \<Rightarrow> 'r decoder \<Rightarrow> bool list \<Rightarrow> 'r \<Rightarrow> 'r \<Rightarrow> bool" where
  "parses u f bs r r' \<longleftrightarrow> (\<forall>m buf. agrees m (8 * buf) bs \<longrightarrow> (\<exists>n. f m buf r = (n, r') \<and> n * u = length bs))"

lemma parses_parse_bits:
  assumes "reads 0 (get_all fs) bs r r'" "length bs < 65536"
  shows "parses 1 (parse_bits fs) bs r r'"
  unfolding parses_def
proof (intro allI impI)
  fix m buf assume "agrees m (8 * buf) bs"
  then obtain d' where "get_all fs m buf (0, 0, r) = (length bs, d', r')"
    using readsD[OF assms(1), of 0 m buf 0] assms(2) by auto
  then show "\<exists>n. parse_bits fs m buf r = (n, r') \<and> n * 1 = length bs"
    using assms by (auto simp: parse_bits_def)
qed

lemma parses_parse_bytes:
  assumes "reads 0 (get_all fs) bs r r'" "length bs < 65536" "length bs mod 8 = 0"
  shows "parses 8 (parse_bytes fs) bs r r'"
  unfolding parses_def
proof (intro allI impI)
  fix m buf assume "agrees m (8 * buf) bs"
  then obtain d' where "get_all fs m buf (0, 0, r) = (length bs, d', r')"
    using readsD[OF assms(1), of 0 m buf 0] assms(2) by auto
  then show "\<exists>n. parse_bytes fs m buf r = (n, r') \<and> n * 8 = length bs"
    using assms by (auto simp: parse_bytes_def)
qed

lemma parse_bytes_reads:
  assumes "reads 0 (get_all fs) bs r r'" "length bs < 65536" "agrees m (8 * buf) bs"
  shows "parse_bytes fs m buf r = (length bs div 8, r')"
  using readsD[OF assms(1), of 0 m buf 0] assms(2,3) by (fastforce simp: parse_bytes_def)

lemma parse_bytes_reads_to:
  assumes "reads_to 0 (get_all fs) bs r P" "length bs < 65536" "agrees m (8 * buf) bs"
  obtains r' where "parse_bytes fs m buf r = (length bs div 8, r')" "P r'"
  using reads_toD[OF assms(1), of 0 m buf 0] assms(2,3) that
  by (fastforce simp: parse_bytes_def)

lemma reads_get_call:
  assumes "parses 1 f bs (sel r) x"
  shows "reads 0 (get_call f sel upd) bs r (upd x r)"
  unfolding reads_def
proof (intro allI impI)
  fix m buf t d
  assume *: "t mod 8 = 0 \<and> t + length bs < 65536 \<and> agrees m (8 * buf + t) bs"
  then obtain q where q: "t = 8 * q" by auto
  have pos: "8 * buf + t = 8 * (buf + q)" using q by simp
  from assms * have "f m (buf + q) (sel r) = (length bs, x)"
    unfolding pos by (auto simp: parses_def)
  then show "\<exists>d'. get_call f sel upd m buf (t, d, r) = (t + length bs, d', upd x r)"
    using * q by (simp add: get_call_def)
qed

lemma emits_Cons_bits:
  "0 < n \<Longrightarrow> n \<le> 64 \<Longrightarrow> emits ((j + n) mod 8) (put_all ss) cs \<Longrightarrow>
    emits j (put_all (put_bits v n # ss)) (field_bits n v @ cs)"
  using emits_Cons[OF emits_put_bits] by simp

lemma emits_Cons_bytes:
  "j = 0 \<Longrightarrow> emits 0 (put_all ss) cs \<Longrightarrow> emits j (put_all (put_bytes bs # ss)) (byte_bits bs @ cs)"
  using emits_Cons[OF emits_put_bytes, of j bs ss cs] by simp

lemma emits_Cons_call:
  "writes 1 f bs \<Longrightarrow> j = 0 \<Longrightarrow> emits (length bs mod 8) (put_all ss) cs \<Longrightarrow>
    emits j (put_all (put_call f # ss)) (bs @ cs)"
  using emits_Cons[OF emits_put_call, of f bs j ss cs] by simp

lemma emits_Cons_when:
  assumes "c \<Longrightarrow> emits j (put_all [s]) (bs @ [])" "length bs mod 8 = 0" "j < 8" "emits j (put_all ss) cs"
  shows "emits j (put_all (put_when c s # ss)) ((if c then bs else []) @ cs)"
proof (rule emits_Cons)
  show "emits j (put_when c s) (if c then bs else [])"
    using assms(1) by (intro emits_put_when) simp
  show "emits ((j + length (if c then bs else [])) mod 8) (put_all ss) cs"
  proof -
    have "(j + length (if c then bs else [])) mod 8 = j"
      using assms(2,3) mod_add_right_eq[of j "length bs" 8] by auto
    with assms(4) show ?thesis by simp
  qed
qed

text \<open>A loop that encodes an array element by element.\<close>

lemma emits_put_bits_list:
  "0 < n \<Longrightarrow> n \<le> 64 \<Longrightarrow>
    emits j (put_all (map (\<lambda>x. put_bits (f x) n) xs)) (concat (map (\<lambda>x. field_bits n (f x)) xs))"
proof (induction xs arbitrary: j)
  case Nil
  show ?case by (simp add: emits_Nil)
next
  case (Cons x xs)
  then show ?case using emits_Cons_bits[OF Cons.prems Cons.IH[OF Cons.prems]] by simp
qed

lemma field_bits_8: "field_bits 8 (ucast (b :: u8)) = map (msb_bit b) [0..<8]"
  by (rule nth_equalityI) (auto simp: nth_field_bits msb_bit_def bit_simps)

lemma byte_bits_field_bits: "byte_bits bs = concat (map (\<lambda>b. field_bits 8 (ucast b)) bs)"
  by (simp add: byte_bits_def field_bits_8)

lemma length_concat_field_bits [simp]: "length (concat (map (\<lambda>x. field_bits n (f x)) xs)) = n * length xs"
  by (induction xs) auto

text \<open>Guards whose value is known.\<close>

lemma emits_Cons_sent:
  "c \<Longrightarrow> emits j (put_all (s # ss)) (bs @ cs) \<Longrightarrow>
    emits j (put_all (put_when c s # ss)) ((if c then bs else []) @ cs)"
  by (simp add: emits_def put_all_def put_when_def)

lemma emits_Cons_absent:
  "\<not> c \<Longrightarrow> emits j (put_all ss) cs \<Longrightarrow>
    emits j (put_all (put_when c s # ss)) ((if c then bs else []) @ cs)"
  by (simp add: emits_def put_all_def put_when_def)

lemmas emits_intros = emits_Nil emits_Cons_bits emits_Cons_bytes emits_Cons_when

text \<open>The rules for a sequence that starts with a given statement.\<close>

lemma reads_Cons_bits:
  "0 < n \<Longrightarrow> n \<le> 64 \<Longrightarrow> reads ((j + n) mod 8) (get_all fs) cs (upd (take_bit n v) r) r' \<Longrightarrow>
    reads j (get_all (get_bits n upd # fs)) (field_bits n v @ cs) r r'"
  using reads_Cons[OF reads_get_bits] by simp

lemma reads_Cons_bytes:
  "j = 0 \<Longrightarrow> n = length bs \<Longrightarrow> reads 0 (get_all fs) cs (upd bs r) r' \<Longrightarrow>
    reads j (get_all (get_bytes n upd # fs)) (byte_bits bs @ cs) r r'"
  using reads_Cons[OF reads_get_bytes, of n bs fs cs upd r r'] by simp

lemma reads_Cons_call:
  "parses 1 f bs (sel r) x \<Longrightarrow> j = 0 \<Longrightarrow> reads (length bs mod 8) (get_all fs) cs (upd x r) r' \<Longrightarrow>
    reads j (get_all (get_call f sel upd # fs)) (bs @ cs) r r'"
  using reads_Cons[OF reads_get_call, of f bs sel r x] by simp

lemma reads_Cons_when:
  assumes "b = c r" "b \<Longrightarrow> reads j (get_all (f # fs)) (bs @ cs) r r'"
    "\<not> b \<Longrightarrow> reads j (get_all fs) cs r r'"
  shows "reads j (get_all (get_when c f # fs)) ((if b then bs else []) @ cs) r r'"
  using assms by (simp add: reads_def get_all_def get_when_def)

text \<open>A guarded field that the receiver adds to a cleared member: when the guard fails, reading
  nothing is as good as reading the zero that an absent field holds.\<close>

lemma reads_Cons_when_bits:
  assumes "b = c r" "0 < n" "n \<le> 64" "n mod 8 = 0" "\<not> b \<Longrightarrow> upd (take_bit n v) r = r"
    "j < 8" "reads j (get_all fs) cs (upd (take_bit n v) r) r'"
  shows "reads j (get_all (get_when c (get_bits n upd) # fs)) ((if b then field_bits n v else []) @ cs) r r'"
proof (rule reads_Cons_when[of b c r, OF assms(1)])
  have "(j + n) mod 8 = j" using assms(4,6) by (metis add.right_neutral mod_add_right_eq mod_less)
  then show "b \<Longrightarrow> reads j (get_all (get_bits n upd # fs)) (field_bits n v @ cs) r r'"
    using reads_Cons_bits[of n j fs cs upd v r r'] assms by simp
  show "\<not> b \<Longrightarrow> reads j (get_all fs) cs r r'" using assms(5,7) by simp
qed

lemma reads_Cons_when_bytes:
  assumes "b = c r" "n = length bs" "\<not> b \<Longrightarrow> upd bs r = r"
    "j = 0" "reads 0 (get_all fs) cs (upd bs r) r'"
  shows "reads j (get_all (get_when c (get_bytes n upd) # fs)) ((if b then byte_bits bs else []) @ cs) r r'"
proof (rule reads_Cons_when[of b c r, OF assms(1)])
  show "b \<Longrightarrow> reads j (get_all (get_bytes n upd # fs)) (byte_bits bs @ cs) r r'"
    using reads_Cons_bytes[of j n bs fs cs upd r r'] assms by simp
  show "\<not> b \<Longrightarrow> reads j (get_all fs) cs r r'" using assms(3,4,5) by simp
qed

lemma reads_Cons_sent:
  "b \<Longrightarrow> reads j (get_all fs) (bs @ cs) r r' \<Longrightarrow> reads j (get_all fs) ((if b then bs else []) @ cs) r r'"
  by simp

lemma reads_Cons_present:
  "b \<Longrightarrow> c r \<Longrightarrow> reads j (get_all (f # fs)) (bs @ cs) r r' \<Longrightarrow>
    reads j (get_all (get_when c f # fs)) ((if b then bs else []) @ cs) r r'"
  by (simp add: reads_def get_all_def get_when_def)

lemma reads_Cons_absent:
  "\<not> b \<Longrightarrow> \<not> c r \<Longrightarrow> reads j (get_all fs) cs r r' \<Longrightarrow>
    reads j (get_all (get_when c f # fs)) ((if b then bs else []) @ cs) r r'"
  by (simp add: reads_def get_all_def get_when_def)

lemma reads_Cons_branch:
  assumes "b = c r" "b \<Longrightarrow> reads j (get_all (gs @ fs)) bs r r'" "\<not> b \<Longrightarrow> reads j (get_all (hs @ fs)) cs r r'"
  shows "reads j (get_all (get_dep (\<lambda>r. get_all (if c r then gs else hs)) # fs)) (if b then bs else cs) r r'"
  using assms by (cases b) (auto simp: reads_def get_all_def get_dep_def)

lemma reads_Cons_always:
  "reads j (get_all (f # fs)) bs r r' \<Longrightarrow> reads j (get_all (get_when (\<lambda>_. True) f # fs)) bs r r'"
  by (simp add: reads_def get_all_def get_when_def)

lemma reads_Cons_when_dep:
  "reads j (get_all (get_when c (f r) # fs)) bs r r' \<Longrightarrow>
    reads j (get_all (get_when c (get_dep f) # fs)) bs r r'"
  by (cases "c r") (simp_all add: reads_def get_all_def get_when_def get_dep_def)

lemma reads_Cons_dep:
  "reads j (get_all (f r # fs)) bs r r' \<Longrightarrow> reads j (get_all (get_dep f # fs)) bs r r'"
  by (simp add: reads_def get_all_def get_dep_def)

lemma get_all_get_all: "get_all (get_all fs # gs) = get_all (fs @ gs)"
  by (rule ext)+ (simp add: get_all_def)

lemma reads_Cons_get_all:
  "reads j (get_all (fs @ gs)) bs r r' \<Longrightarrow> reads j (get_all (get_all fs # gs)) bs r r'"
  by (simp only: get_all_get_all)

text \<open>A guarded read whose \<open>total_decoded += decoded\<close> stands outside the guard reads its field
  when the guard holds.\<close>

lemma reads_Cons_peek:
  assumes "b" "c r" "0 < n" "n \<le> 64" "reads ((j + n) mod 8) (get_all fs) cs (upd (take_bit n v) r) r'"
  shows "reads j (get_all (get_when c (peek_bits n upd) # add_decoded # fs))
    ((if b then field_bits n v else []) @ cs) r r'"
  using reads_Cons_bits[of n j fs cs upd v r r', OF assms(3,4,5)] assms(1,2)
  by (simp add: reads_def get_all_def get_bits_def get_when_def peek_bits_def)

lemmas reads_intros = reads_Nil reads_Cons_bits reads_Cons_bytes reads_Cons_when_bits
  reads_Cons_when_bytes reads_Cons_dep reads_Cons_when_dep

text \<open>A fixed array of \<open>N\<close> bytes of which \<open>n\<close> are in use and the rest is zero: copying the used
  part into a cleared array rebuilds it.\<close>

definition padded :: "nat \<Rightarrow> nat \<Rightarrow> 'a::zero list \<Rightarrow> bool" where
  "padded n N xs \<longleftrightarrow> length xs = N \<and> n \<le> N \<and> drop n xs = replicate (N - n) 0"

lemma padded_length: "padded n N xs \<Longrightarrow> length xs = N"
  by (simp add: padded_def)

lemma padded_min [simp]: "padded n N xs \<Longrightarrow> min (length xs) n = n"
  by (simp add: padded_def)

lemma padded_append [simp]: "padded n N xs \<Longrightarrow> take n xs @ replicate (N - n) 0 = xs"
  unfolding padded_def by (metis append_take_drop_id)

text \<open>A field kept in its exact width survives the trip through the 64-bit interface.\<close>

lemma ucast_take_bit_ucast [simp]:
  assumes "LENGTH('a) \<le> n" "LENGTH('a) \<le> 64"
  shows "(ucast (take_bit n (ucast (x :: 'a::len word) :: u64)) :: 'a word) = x"
  by (rule bit_word_eqI) (use assms in \<open>auto simp: bit_simps dest: bit_imp_le_length\<close>)

lemma ucast_ucast_bit_mod_2 [simp]: "(ucast ((ucast (x :: 1 word) :: u64) mod 2) :: 1 word) = x"
  using ucast_take_bit_ucast[where 'a = 1 and n = 1, of x] by (simp add: take_bit_eq_mod)

lemma take_bit_64_u64 [simp]: "take_bit 64 (x :: u64) = x"
  by (rule bit_word_eqI) (simp add: bit_simps)

section \<open>Byte order\<close>

text \<open>The control plane runs on little-endian hosts: \<open>memcpy\<close> from and to an integer moves its
  bytes from the least significant one up, while \<open>encode_bits\<close> writes the most significant bit
  first.\<close>

definition le_bytes :: "nat \<Rightarrow> 'a::len word \<Rightarrow> u8 list" where
  "le_bytes n x = map (\<lambda>i. ucast (drop_bit (8 * i) x)) [0..<n]"

definition of_le_bytes :: "u8 list \<Rightarrow> 'a::len word" where
  "of_le_bytes bs = foldr (\<lambda>b acc. ucast b OR push_bit 8 acc) bs 0"

lemma length_le_bytes [simp]: "length (le_bytes n x) = n"
  by (simp add: le_bytes_def)

lemma bit_of_le_bytes:
  "bit (of_le_bytes bs :: 'a::len word) k \<longleftrightarrow> k < LENGTH('a) \<and> k < 8 * length bs \<and> bit (bs ! (k div 8)) (k mod 8)"
proof (induction bs arbitrary: k)
  case Nil
  then show ?case by (simp add: of_le_bytes_def)
next
  case (Cons b bs)
  have "bit (of_le_bytes (b # bs) :: 'a word) k \<longleftrightarrow>
      k < LENGTH('a) \<and> (bit b k \<or> 8 \<le> k \<and> bit (of_le_bytes bs :: 'a word) (k - 8))"
    by (auto simp: of_le_bytes_def bit_simps)
  also have "\<dots> \<longleftrightarrow> k < LENGTH('a) \<and> k < 8 * length (b # bs) \<and> bit ((b # bs) ! (k div 8)) (k mod 8)"
  proof (cases "k < 8")
    case True
    then show ?thesis by (auto dest: bit_imp_le_length)
  next
    case False
    then obtain l where l: "k = l + 8" by (metis add.commute le_add_diff_inverse not_less)
    have "(l + 8) div 8 = Suc (l div 8)" "(l + 8) mod 8 = l mod 8" by auto
    with l Cons.IH[of l] show ?thesis by (auto dest: bit_imp_le_length)
  qed
  finally show ?case .
qed

lemma of_le_bytes_le_bytes [simp]:
  assumes "LENGTH('a::len) = 8 * n"
  shows "of_le_bytes (le_bytes n (x :: 'a word)) = x"
proof (rule bit_word_eqI)
  fix k assume k: "k < LENGTH('a)"
  then have "k div 8 < n" using assms by auto
  with k assms show "bit (of_le_bytes (le_bytes n x) :: 'a word) k = bit x k"
    by (simp add: bit_of_le_bytes le_bytes_def bit_simps)
qed

text \<open>A field of whole bytes holds the bytes of its value, most significant byte first.\<close>

lemma nth_byte_bits: "i < 8 * length bs \<Longrightarrow> byte_bits bs ! i = msb_bit (bs ! (i div 8)) (i mod 8)"
proof (induction bs arbitrary: i)
  case (Cons b bs)
  show ?case
  proof (cases "i < 8")
    case True
    then show ?thesis by (simp add: byte_bits_simps nth_append)
  next
    case False
    then obtain l where l: "i = l + 8" by (metis add.commute le_add_diff_inverse not_less)
    have "(l + 8) div 8 = Suc (l div 8)" "(l + 8) mod 8 = l mod 8" by auto
    with l Cons show ?thesis by (simp add: byte_bits_simps nth_append)
  qed
qed simp

lemma field_bits_bytes: "field_bits (8 * n) v = byte_bits (rev (le_bytes n v))"
proof (rule nth_equalityI)
  fix i assume "i < length (field_bits (8 * n) v)"
  then have i: "i < 8 * n" by simp
  obtain q r where qr: "i = 8 * q + r" "r < 8" using byte_split by blast
  with i have q: "q < n" by simp
  have "8 * n - 1 - i = 8 * (n - 1 - q) + (7 - r)" using qr q by simp
  moreover have "rev (le_bytes n v) ! q = ucast (drop_bit (8 * (n - 1 - q)) v)"
    using q by (simp add: rev_nth le_bytes_def)
  ultimately show "field_bits (8 * n) v ! i = byte_bits (rev (le_bytes n v)) ! i"
    using i qr q by (auto simp: nth_field_bits nth_byte_bits msb_bit_def bit_simps)
qed simp

definition htonl :: "u32 \<Rightarrow> u32" where
  "htonl x = of_le_bytes (rev (le_bytes 4 x))"

definition htons :: "u16 \<Rightarrow> u16" where
  "htons x = of_le_bytes (rev (le_bytes 2 x))"

lemma le_bytes_of_le_bytes: "LENGTH('a::len) = 8 * length bs \<Longrightarrow> le_bytes (length bs) (of_le_bytes bs :: 'a word) = bs"
proof (rule nth_equalityI)
  fix i assume l: "LENGTH('a) = 8 * length bs" and "i < length (le_bytes (length bs) (of_le_bytes bs :: 'a word))"
  then have i: "i < length bs" by simp
  show "le_bytes (length bs) (of_le_bytes bs :: 'a word) ! i = bs ! i"
  proof (rule bit_word_eqI)
    fix k assume "k < LENGTH(8)"
    then have k: "k < 8" by simp
    with i have "8 * i + k < 8 * length bs" by simp
    with i k l show "bit (le_bytes (length bs) (of_le_bytes bs :: 'a word) ! i) k = bit (bs ! i) k"
      by (simp add: le_bytes_def bit_simps bit_of_le_bytes)
  qed
qed simp

lemma of_le_bytes_rev [simp]:
  "of_le_bytes (rev (le_bytes 4 x)) = htonl x" "of_le_bytes (rev (le_bytes 2 y)) = htons y"
  by (simp_all add: htonl_def htons_def)

lemma htonl_0 [simp]: "htonl 0 = 0"
  by code_simp

lemma htons_0 [simp]: "htons 0 = 0"
  by code_simp

lemma le_bytes_ucast: "8 * n \<le> LENGTH('a::len) \<Longrightarrow> LENGTH('a) \<le> 64 \<Longrightarrow>
    le_bytes n (ucast (x :: 'a word) :: u64) = le_bytes n x"
  by (auto simp: le_bytes_def intro!: bit_word_eqI simp: bit_simps dest: bit_imp_le_length)

lemma field_bits_32: "field_bits 32 (ucast (x :: u32)) = byte_bits (rev (le_bytes 4 x))"
  using field_bits_bytes[of 4 "ucast x"] by (simp add: le_bytes_ucast)

lemma reads_Cons_be32:
  "j = 0 \<Longrightarrow> reads 0 (get_all fs) cs (upd (rev (le_bytes 4 x)) r) r' \<Longrightarrow>
    reads j (get_all (get_bytes 4 upd # fs)) (field_bits 32 (ucast (x :: u32)) @ cs) r r'"
  unfolding field_bits_32 by (rule reads_Cons_bytes) simp_all

lemma reads_Cons_when_be32:
  assumes "b = c r" "\<not> b \<Longrightarrow> upd (rev (le_bytes 4 x)) r = r" "j = 0"
    "reads 0 (get_all fs) cs (upd (rev (le_bytes 4 x)) r) r'"
  shows "reads j (get_all (get_when c (get_bytes 4 upd) # fs))
    ((if b then field_bits 32 (ucast (x :: u32)) else []) @ cs) r r'"
  unfolding field_bits_32 by (rule reads_Cons_when_bytes[where c = c]) (use assms in auto)

lemma htonl_htonl [simp]: "htonl (htonl x) = x"
  using le_bytes_of_le_bytes[where 'a = 32, of "rev (le_bytes 4 x)"]
  by (simp add: htonl_def del: of_le_bytes_rev)

lemma htons_htons [simp]: "htons (htons x) = x"
  using le_bytes_of_le_bytes[where 'a = 16, of "rev (le_bytes 2 x)"]
  by (simp add: htons_def del: of_le_bytes_rev)

section \<open>The contract between an encoder and its decoder\<close>

text \<open>\<open>ue\<close> and \<open>ud\<close> are the units of the two return values in bits: most decoders return bytes,
  the encoders of elements that occur inside grouped elements return bits.  \<open>valid\<close> restricts the
  values that may be encoded, \<open>fresh\<close> the structures that may be decoded into, and \<open>view\<close> is
  what the receiver sees of the value that was sent.\<close>

locale ie_transfer =
  fixes ue :: nat
    and ud :: nat
    and encode :: "'v \<Rightarrow> encoder"
    and decode :: "'v decoder"
    and wire :: "'v \<Rightarrow> bool list"
    and valid :: "'v \<Rightarrow> bool"
    and fresh :: "'v \<Rightarrow> bool"
    and view :: "'v \<Rightarrow> 'v"
  assumes units: "0 < ue" "0 < ud"
    and encode_wire: "valid v \<Longrightarrow> writes ue (encode v) (wire v)"
    and decode_wire: "valid v \<Longrightarrow> fresh r \<Longrightarrow> parses ud decode (wire v) r (view v)"
begin

lemma encoded_size:
  assumes "valid v" "clear m (8 * buf) (8 * buf + length (wire v))"
  shows "fst (encode v m buf) = length (wire v) div ue"
proof -
  obtain n m' where e: "encode v m buf = (n, m')" by fastforce
  with writesD(1)[OF encode_wire[OF assms(1)] assms(2) e] units show ?thesis
    by (metis div_mult_self_is_m fst_conv)
qed

lemma decode_agrees:
  assumes "valid v" "fresh r" "agrees m (8 * buf) (wire v)"
  shows "decode m buf r = (length (wire v) div ud, view v)"
  using decode_wire[OF assms(1,2)] assms(3) units unfolding parses_def
  by (metis div_mult_self_is_m)

lemma transfer:
  assumes "valid v" "fresh r" "clear m (8 * buf) (8 * buf + length (wire v))"
    and "encode v m buf = (n, m')"
  shows "\<exists>k. decode m' buf r = (k, view v) \<and> k * ud = n * ue"
proof -
  note w = writesD[OF encode_wire[OF assms(1)] assms(3,4)]
  from decode_wire[OF assms(1,2)] wrote_agrees[OF w(2)] obtain k
    where "decode m' buf r = (k, view v)" "k * ud = length (wire v)" by (auto simp: parses_def)
  with w(1) show ?thesis by auto
qed

lemma transfer_at:
  assumes "valid v" "fresh r" "clear m (8 * buf) (8 * buf + k)" "length (wire v) \<le> k"
  shows "decode (snd (encode v m buf)) buf r = (fst (encode v m buf) * ue div ud, view v)"
proof -
  have "clear m (8 * buf) (8 * buf + length (wire v))"
    using assms(3) by (rule clear_mono) (use assms(4) in simp_all)
  from transfer[OF assms(1,2) this, of "fst (encode v m buf)" "snd (encode v m buf)"] units
  show ?thesis by (metis div_mult_self_is_m prod.collapse)
qed

text \<open>Two values whose wire images start alike are received alike: no image is a prefix of the
  image of a value that is received differently.\<close>

lemma prefix_view:
  assumes "valid v" "valid w" "fresh r" "wire v @ x = wire w @ y"
  shows "view v = view w"
proof -
  define m where "m = (\<lambda>p. horner_sum of_bool 2
     (map (\<lambda>k. 8 * p + (7 - k) < length (wire v @ x) \<and> (wire v @ x) ! (8 * p + (7 - k))) [0..<8]) :: u8)"
  have "bit_at m i = (i < length (wire v @ x) \<and> (wire v @ x) ! i)" for i
  proof -
    have "7 - (7 - i mod 8) = i mod 8" "7 - i mod 8 < 8" by auto
    then show ?thesis
      by (simp add: bit_at_def msb_bit_def m_def bit_horner_sum_bit_word_iff del: length_append)
  qed
  then have "agrees m 0 (wire v @ x)" by (simp add: agrees_def)
  moreover from this assms(4) have "agrees m 0 (wire w @ y)" by metis
  ultimately show "view v = view w"
    using decode_agrees[OF assms(1,3), of m 0] decode_agrees[OF assms(2,3), of m 0] by simp
qed

text \<open>Encoding a value leaves what has been encoded in front of it readable.\<close>

lemma keeps_prefix:
  assumes "valid v" "clear m (8 * buf) (8 * buf + length (wire v))"
    and "agrees m a bs" "a + length bs \<le> 8 * buf"
  shows "agrees (snd (encode v m buf)) a bs"
proof -
  obtain n m' where e: "encode v m buf = (n, m')" by fastforce
  from wrote_keeps[OF writesD(2)[OF encode_wire[OF assms(1)] assms(2) e] assms(3,4)] e
  show ?thesis by simp
qed

end

text \<open>The common case: the value is received as it was sent.\<close>

locale ie_codec = ie_transfer ue ud encode decode wire valid fresh "\<lambda>v. v"
  for ue :: nat and ud :: nat and encode :: "'v \<Rightarrow> encoder" and decode :: "'v decoder"
    and wire :: "'v \<Rightarrow> bool list" and valid :: "'v \<Rightarrow> bool" and fresh :: "'v \<Rightarrow> bool"
begin

lemmas roundtrip = transfer

lemmas roundtrip_at = transfer_at

lemmas prefix_free = prefix_view

end

text \<open>Contracts of straight-line coders, from what their statements write and read.\<close>

lemma ie_transfer_bytes_bytes:
  assumes "\<And>v. valid v \<Longrightarrow> emits 0 (put_all (es v)) (wire v)"
    and "\<And>v r. valid v \<Longrightarrow> fresh r \<Longrightarrow> reads 0 (get_all ds) (wire v) r (view v)"
    and "\<And>v. valid v \<Longrightarrow> length (wire v) < 65536" "\<And>v. valid v \<Longrightarrow> length (wire v) mod 8 = 0"
  shows "ie_transfer 8 8 (\<lambda>v. run_bytes (es v)) (parse_bytes ds) wire valid fresh view"
  by unfold_locales (simp_all only: assms zero_less_numeral writes_run_bytes parses_parse_bytes)

lemma ie_transfer_bits_bytes:
  assumes "\<And>v. valid v \<Longrightarrow> emits 0 (put_all (es v)) (wire v)"
    and "\<And>v r. valid v \<Longrightarrow> fresh r \<Longrightarrow> reads 0 (get_all ds) (wire v) r (view v)"
    and "\<And>v. valid v \<Longrightarrow> length (wire v) < 65536" "\<And>v. valid v \<Longrightarrow> length (wire v) mod 8 = 0"
  shows "ie_transfer 1 8 (\<lambda>v. run_bits (es v)) (parse_bytes ds) wire valid fresh view"
  by unfold_locales (simp_all only: assms zero_less_numeral zero_less_one writes_run_bits parses_parse_bytes)

lemma ie_codec_bytes_bytes:
  assumes "\<And>v. valid v \<Longrightarrow> emits 0 (put_all (es v)) (wire v)"
    and "\<And>v r. valid v \<Longrightarrow> fresh r \<Longrightarrow> reads 0 (get_all ds) (wire v) r v"
    and "\<And>v. valid v \<Longrightarrow> length (wire v) < 65536" "\<And>v. valid v \<Longrightarrow> length (wire v) mod 8 = 0"
  shows "ie_codec 8 8 (\<lambda>v. run_bytes (es v)) (parse_bytes ds) wire valid fresh"
  unfolding ie_codec_def by (rule ie_transfer_bytes_bytes) (use assms in auto)

lemma ie_codec_bits_bytes:
  assumes "\<And>v. valid v \<Longrightarrow> emits 0 (put_all (es v)) (wire v)"
    and "\<And>v r. valid v \<Longrightarrow> fresh r \<Longrightarrow> reads 0 (get_all ds) (wire v) r v"
    and "\<And>v. valid v \<Longrightarrow> length (wire v) < 65536" "\<And>v. valid v \<Longrightarrow> length (wire v) mod 8 = 0"
  shows "ie_codec 1 8 (\<lambda>v. run_bits (es v)) (parse_bytes ds) wire valid fresh"
  unfolding ie_codec_def by (rule ie_transfer_bits_bytes) (use assms in auto)

lemma ie_codec_bits_bits:
  assumes "\<And>v. valid v \<Longrightarrow> emits 0 (put_all (es v)) (wire v)"
    and "\<And>v r. valid v \<Longrightarrow> fresh r \<Longrightarrow> reads 0 (get_all ds) (wire v) r v"
    and "\<And>v. valid v \<Longrightarrow> length (wire v) < 65536"
  shows "ie_codec 1 1 (\<lambda>v. run_bits (es v)) (parse_bits ds) wire valid fresh"
  by unfold_locales (simp_all only: assms zero_less_one writes_run_bits parses_parse_bits)

end
