(* ===== verification/Pfcp_Ie_Header.thy ===== *)
theory Pfcp_Ie_Header
  imports Ie_Codec
begin

text \<open>
  The header of a PFCP information element (\<open>pfcp_ie_header_t\<close>, type and length) with its coder
  from \<open>libpfcp/src/pfcp_ies_encoder.c\<close> and \<open>libpfcp/src/pfcp_ies_decoder.c\<close>.  Every element
  structure of \<open>libpfcp/include/pfcp_ies.h\<close> starts with such a header; here they all extend
  the record \<open>pfcp_ie\<close>.
\<close>

record pfcp_ie_header_t =
  type :: u16
  len :: u16

definition wire_pfcp_ie_header_t :: "pfcp_ie_header_t \<Rightarrow> bool list" where
  "wire_pfcp_ie_header_t v = field_bits 16 (ucast (type v)) @ field_bits 16 (ucast (len v)) @ []"

definition encode_pfcp_ie_header_t :: "pfcp_ie_header_t \<Rightarrow> encoder" where
  "encode_pfcp_ie_header_t value = run_bits [
     put_bits (ucast (type value)) 16,
     put_bits (ucast (len value)) 16]"

definition decode_pfcp_ie_header_t :: "pfcp_ie_header_t decoder" where
  "decode_pfcp_ie_header_t = parse_bits [
     get_bits 16 (\<lambda>x value. value\<lparr>type := ucast x\<rparr>),
     get_bits 16 (\<lambda>x value. value\<lparr>len := ucast x\<rparr>)]"

interpretation pfcp_header_ie: ie_codec 1 1 encode_pfcp_ie_header_t decode_pfcp_ie_header_t
    wire_pfcp_ie_header_t "\<lambda>_. True" "\<lambda>_. True"
  unfolding encode_pfcp_ie_header_t_def[abs_def] decode_pfcp_ie_header_t_def
    wire_pfcp_ie_header_t_def[abs_def]
  by (rule ie_codec_bits_bits; (intro emits_intros reads_intros)?; simp)

lemma length_wire_pfcp_ie_header_t [simp]: "length (wire_pfcp_ie_header_t h) = 32"
  by (simp add: wire_pfcp_ie_header_t_def)

record pfcp_ie =
  header :: pfcp_ie_header_t

lemmas pfcp_header_intros = emits_Cons_call[OF pfcp_header_ie.encode_wire[OF TrueI]]
  reads_Cons_call[OF pfcp_header_ie.decode_wire[OF TrueI TrueI]]

lemmas pfcp_intros = emits_intros reads_intros pfcp_header_intros

lemmas pfcp_intros_peek = emits_intros reads_Nil reads_Cons_bits reads_Cons_peek pfcp_header_intros

end
