(* ===== verification/Pfcp_Ies_Session.thy ===== *)
theory Pfcp_Ies_Session
  imports Pfcp_Ie_Header
begin

text \<open>
  The PFCP information elements made of fixed bit fields whose encoder returns bytes: the elements
  that stand in messages directly (cause, recovery time stamp, report type, flags, timers, usage
  report contents).  For each element: the structure of \<open>libpfcp/include/pfcp_ies.h\<close> with bit
  fields as words of their width, the layout on the wire, the encoder of
  \<open>libpfcp/src/pfcp_ies_encoder.c\<close> and the decoder of \<open>libpfcp/src/pfcp_ies_decoder.c\<close>, and the
  proof that the two keep the contract \<open>ie_codec\<close>: what is encoded is the layout and decoding it
  gives the value back, into whatever structure.
\<close>

record pfcp_end_time_ie_t = pfcp_ie +
  end_time :: u32

definition wire_pfcp_end_time_ie_t :: "pfcp_end_time_ie_t \<Rightarrow> bool list" where
  "wire_pfcp_end_time_ie_t v = wire_pfcp_ie_header_t (header v) @
     field_bits 32 (ucast (end_time v)) @ []"

definition encode_pfcp_end_time_ie_t :: "pfcp_end_time_ie_t \<Rightarrow> encoder" where
  "encode_pfcp_end_time_ie_t value = run_bytes [
     put_call (encode_pfcp_ie_header_t (header value)),
     put_bits (ucast (end_time value)) 32]"

definition decode_pfcp_end_time_ie_t :: "pfcp_end_time_ie_t decoder" where
  "decode_pfcp_end_time_ie_t = parse_bytes [
     get_call decode_pfcp_ie_header_t header (\<lambda>x value. value\<lparr>header := x\<rparr>),
     get_bits 32 (\<lambda>x value. value\<lparr>end_time := ucast x\<rparr>)]"

interpretation end_time_ie: ie_codec 8 8 encode_pfcp_end_time_ie_t
    decode_pfcp_end_time_ie_t wire_pfcp_end_time_ie_t
    "\<lambda>_. True" "\<lambda>_. True"
  unfolding encode_pfcp_end_time_ie_t_def[abs_def] decode_pfcp_end_time_ie_t_def
    wire_pfcp_end_time_ie_t_def[abs_def]
  by (rule ie_codec_bytes_bytes; (intro pfcp_intros)?; simp)

record pfcp_trnspt_lvl_marking_ie_t = pfcp_ie +
  tostraffic_cls :: u16

definition wire_pfcp_trnspt_lvl_marking_ie_t :: "pfcp_trnspt_lvl_marking_ie_t \<Rightarrow> bool list" where
  "wire_pfcp_trnspt_lvl_marking_ie_t v = wire_pfcp_ie_header_t (header v) @
     field_bits 16 (ucast (pfcp_trnspt_lvl_marking_ie_t.tostraffic_cls v)) @ []"

definition encode_pfcp_trnspt_lvl_marking_ie_t :: "pfcp_trnspt_lvl_marking_ie_t \<Rightarrow> encoder" where
  "encode_pfcp_trnspt_lvl_marking_ie_t value = run_bytes [
     put_call (encode_pfcp_ie_header_t (header value)),
     put_bits (ucast (pfcp_trnspt_lvl_marking_ie_t.tostraffic_cls value)) 16]"

definition decode_pfcp_trnspt_lvl_marking_ie_t :: "pfcp_trnspt_lvl_marking_ie_t decoder" where
  "decode_pfcp_trnspt_lvl_marking_ie_t = parse_bytes [
     get_call decode_pfcp_ie_header_t header (\<lambda>x value. value\<lparr>header := x\<rparr>),
     get_bits 16 (\<lambda>x value. value\<lparr>pfcp_trnspt_lvl_marking_ie_t.tostraffic_cls := ucast x\<rparr>)]"

interpretation trnspt_lvl_marking_ie: ie_codec 8 8 encode_pfcp_trnspt_lvl_marking_ie_t
    decode_pfcp_trnspt_lvl_marking_ie_t wire_pfcp_trnspt_lvl_marking_ie_t
    "\<lambda>_. True" "\<lambda>_. True"
  unfolding encode_pfcp_trnspt_lvl_marking_ie_t_def[abs_def] decode_pfcp_trnspt_lvl_marking_ie_t_def
    wire_pfcp_trnspt_lvl_marking_ie_t_def[abs_def]
  by (rule ie_codec_bytes_bytes; (intro pfcp_intros)?; simp)

record pfcp_eth_fltr_id_ie_t = pfcp_ie +
  eth_fltr_id_val :: u32

definition wire_pfcp_eth_fltr_id_ie_t :: "pfcp_eth_fltr_id_ie_t \<Rightarrow> bool list" where
  "wire_pfcp_eth_fltr_id_ie_t v = wire_pfcp_ie_header_t (header v) @
     field_bits 32 (ucast (eth_fltr_id_val v)) @ []"

definition encode_pfcp_eth_fltr_id_ie_t :: "pfcp_eth_fltr_id_ie_t \<Rightarrow> encoder" where
  "encode_pfcp_eth_fltr_id_ie_t value = run_bytes [
     put_call (encode_pfcp_ie_header_t (header value)),
     put_bits (ucast (eth_fltr_id_val value)) 32]"

definition decode_pfcp_eth_fltr_id_ie_t :: "pfcp_eth_fltr_id_ie_t decoder" where
  "decode_pfcp_eth_fltr_id_ie_t = parse_bytes [
     get_call decode_pfcp_ie_header_t header (\<lambda>x value. value\<lparr>header := x\<rparr>),
     get_bits 32 (\<lambda>x value. value\<lparr>eth_fltr_id_val := ucast x\<rparr>)]"

interpretation eth_fltr_id_ie: ie_codec 8 8 encode_pfcp_eth_fltr_id_ie_t
    decode_pfcp_eth_fltr_id_ie_t wire_pfcp_eth_fltr_id_ie_t
    "\<lambda>_. True" "\<lambda>_. True"
  unfolding encode_pfcp_eth_fltr_id_ie_t_def[abs_def] decode_pfcp_eth_fltr_id_ie_t_def
    wire_pfcp_eth_fltr_id_ie_t_def[abs_def]
  by (rule ie_codec_bytes_bytes; (intro pfcp_intros)?; simp)

record pfcp_evnt_time_stmp_ie_t = pfcp_ie +
  evnt_time_stmp :: u32

definition wire_pfcp_evnt_time_stmp_ie_t :: "pfcp_evnt_time_stmp_ie_t \<Rightarrow> bool list" where
  "wire_pfcp_evnt_time_stmp_ie_t v = wire_pfcp_ie_header_t (header v) @
     field_bits 32 (ucast (evnt_time_stmp v)) @ []"

definition encode_pfcp_evnt_time_stmp_ie_t :: "pfcp_evnt_time_stmp_ie_t \<Rightarrow> encoder" where
  "encode_pfcp_evnt_time_stmp_ie_t value = run_bytes [
     put_call (encode_pfcp_ie_header_t (header value)),
     put_bits (ucast (evnt_time_stmp value)) 32]"

definition decode_pfcp_evnt_time_stmp_ie_t :: "pfcp_evnt_time_stmp_ie_t decoder" where
  "decode_pfcp_evnt_time_stmp_ie_t = parse_bytes [
     get_call decode_pfcp_ie_header_t header (\<lambda>x value. value\<lparr>header := x\<rparr>),
     get_bits 32 (\<lambda>x value. value\<lparr>evnt_time_stmp := ucast x\<rparr>)]"

interpretation evnt_time_stmp_ie: ie_codec 8 8 encode_pfcp_evnt_time_stmp_ie_t
    decode_pfcp_evnt_time_stmp_ie_t wire_pfcp_evnt_time_stmp_ie_t
    "\<lambda>_. True" "\<lambda>_. True"
  unfolding encode_pfcp_evnt_time_stmp_ie_t_def[abs_def] decode_pfcp_evnt_time_stmp_ie_t_def
    wire_pfcp_evnt_time_stmp_ie_t_def[abs_def]
  by (rule ie_codec_bytes_bytes; (intro pfcp_intros)?; simp)

record pfcp_dur_meas_ie_t = pfcp_ie +
  duration_value :: u32

definition wire_pfcp_dur_meas_ie_t :: "pfcp_dur_meas_ie_t \<Rightarrow> bool list" where
  "wire_pfcp_dur_meas_ie_t v = wire_pfcp_ie_header_t (header v) @
     field_bits 32 (ucast (duration_value v)) @ []"

definition encode_pfcp_dur_meas_ie_t :: "pfcp_dur_meas_ie_t \<Rightarrow> encoder" where
  "encode_pfcp_dur_meas_ie_t value = run_bytes [
     put_call (encode_pfcp_ie_header_t (header value)),
     put_bits (ucast (duration_value value)) 32]"

definition decode_pfcp_dur_meas_ie_t :: "pfcp_dur_meas_ie_t decoder" where
  "decode_pfcp_dur_meas_ie_t = parse_bytes [
     get_call decode_pfcp_ie_header_t header (\<lambda>x value. value\<lparr>header := x\<rparr>),
     get_bits 32 (\<lambda>x value. value\<lparr>duration_value := ucast x\<rparr>)]"

interpretation dur_meas_ie: ie_codec 8 8 encode_pfcp_dur_meas_ie_t
    decode_pfcp_dur_meas_ie_t wire_pfcp_dur_meas_ie_t
    "\<lambda>_. True" "\<lambda>_. True"
  unfolding encode_pfcp_dur_meas_ie_t_def[abs_def] decode_pfcp_dur_meas_ie_t_def
    wire_pfcp_dur_meas_ie_t_def[abs_def]
  by (rule ie_codec_bytes_bytes; (intro pfcp_intros)?; simp)

record pfcp_up_assn_rel_req_ie_t = pfcp_ie +
  up_assn_rel_req_spare :: "7 word"
  sarr :: "1 word"

definition wire_pfcp_up_assn_rel_req_ie_t :: "pfcp_up_assn_rel_req_ie_t \<Rightarrow> bool list" where
  "wire_pfcp_up_assn_rel_req_ie_t v = wire_pfcp_ie_header_t (header v) @
     field_bits 7 (ucast (up_assn_rel_req_spare v)) @
     field_bits 1 (ucast (sarr v)) @ []"

definition encode_pfcp_up_assn_rel_req_ie_t :: "pfcp_up_assn_rel_req_ie_t \<Rightarrow> encoder" where
  "encode_pfcp_up_assn_rel_req_ie_t value = run_bytes [
     put_call (encode_pfcp_ie_header_t (header value)),
     put_bits (ucast (up_assn_rel_req_spare value)) 7,
     put_bits (ucast (sarr value)) 1]"

definition decode_pfcp_up_assn_rel_req_ie_t :: "pfcp_up_assn_rel_req_ie_t decoder" where
  "decode_pfcp_up_assn_rel_req_ie_t = parse_bytes [
     get_call decode_pfcp_ie_header_t header (\<lambda>x value. value\<lparr>header := x\<rparr>),
     get_bits 7 (\<lambda>x value. value\<lparr>up_assn_rel_req_spare := ucast x\<rparr>),
     get_bits 1 (\<lambda>x value. value\<lparr>sarr := ucast x\<rparr>)]"

interpretation up_assn_rel_req_ie: ie_codec 8 8 encode_pfcp_up_assn_rel_req_ie_t
    decode_pfcp_up_assn_rel_req_ie_t wire_pfcp_up_assn_rel_req_ie_t
    "\<lambda>_. True" "\<lambda>_. True"
  unfolding encode_pfcp_up_assn_rel_req_ie_t_def[abs_def] decode_pfcp_up_assn_rel_req_ie_t_def
    wire_pfcp_up_assn_rel_req_ie_t_def[abs_def]
  by (rule ie_codec_bytes_bytes; (intro pfcp_intros)?; simp)

record pfcp_urseqn_ie_t = pfcp_ie +
  urseqn :: u32

definition wire_pfcp_urseqn_ie_t :: "pfcp_urseqn_ie_t \<Rightarrow> bool list" where
  "wire_pfcp_urseqn_ie_t v = wire_pfcp_ie_header_t (header v) @
     field_bits 32 (ucast (urseqn v)) @ []"

definition encode_pfcp_urseqn_ie_t :: "pfcp_urseqn_ie_t \<Rightarrow> encoder" where
  "encode_pfcp_urseqn_ie_t value = run_bytes [
     put_call (encode_pfcp_ie_header_t (header value)),
     put_bits (ucast (urseqn value)) 32]"

definition decode_pfcp_urseqn_ie_t :: "pfcp_urseqn_ie_t decoder" where
  "decode_pfcp_urseqn_ie_t = parse_bytes [
     get_call decode_pfcp_ie_header_t header (\<lambda>x value. value\<lparr>header := x\<rparr>),
     get_bits 32 (\<lambda>x value. value\<lparr>urseqn := ucast x\<rparr>)]"

interpretation urseqn_ie: ie_codec 8 8 encode_pfcp_urseqn_ie_t
    decode_pfcp_urseqn_ie_t wire_pfcp_urseqn_ie_t
    "\<lambda>_. True" "\<lambda>_. True"
  unfolding encode_pfcp_urseqn_ie_t_def[abs_def] decode_pfcp_urseqn_ie_t_def
    wire_pfcp_urseqn_ie_t_def[abs_def]
  by (rule ie_codec_bytes_bytes; (intro pfcp_intros)?; simp)

record pfcp_sequence_number_ie_t = pfcp_ie +
  sequence_number :: u32

definition wire_pfcp_sequence_number_ie_t :: "pfcp_sequence_number_ie_t \<Rightarrow> bool list" where
  "wire_pfcp_sequence_number_ie_t v = wire_pfcp_ie_header_t (header v) @
     field_bits 32 (ucast (sequence_number v)) @ []"

definition encode_pfcp_sequence_number_ie_t :: "pfcp_sequence_number_ie_t \<Rightarrow> encoder" where
  "encode_pfcp_sequence_number_ie_t value = run_bytes [
     put_call (encode_pfcp_ie_header_t (header value)),
     put_bits (ucast (sequence_number value)) 32]"

definition decode_pfcp_sequence_number_ie_t :: "pfcp_sequence_number_ie_t decoder" where
  "decode_pfcp_sequence_number_ie_t = parse_bytes [
     get_call decode_pfcp_ie_header_t header (\<lambda>x value. value\<lparr>header := x\<rparr>),
     get_bits 32 (\<lambda>x value. value\<lparr>sequence_number := ucast x\<rparr>)]"

interpretation sequence_number_ie: ie_codec 8 8 encode_pfcp_sequence_number_ie_t
    decode_pfcp_sequence_number_ie_t wire_pfcp_sequence_number_ie_t
    "\<lambda>_. True" "\<lambda>_. True"
  unfolding encode_pfcp_sequence_number_ie_t_def[abs_def] decode_pfcp_sequence_number_ie_t_def
    wire_pfcp_sequence_number_ie_t_def[abs_def]
  by (rule ie_codec_bytes_bytes; (intro pfcp_intros)?; simp)

record pfcp_hdr_enrchmt_ie_t = pfcp_ie +
  hdr_enrchmt_spare :: "3 word"
  header_type :: "5 word"
  len_of_hdr_fld_nm :: u8
  hdr_fld_nm :: u8
  len_of_hdr_fld_val :: u8
  hdr_fld_val :: u8

definition wire_pfcp_hdr_enrchmt_ie_t :: "pfcp_hdr_enrchmt_ie_t \<Rightarrow> bool list" where
  "wire_pfcp_hdr_enrchmt_ie_t v = wire_pfcp_ie_header_t (header v) @
     field_bits 3 (ucast (hdr_enrchmt_spare v)) @
     field_bits 5 (ucast (header_type v)) @
     field_bits 8 (ucast (len_of_hdr_fld_nm v)) @
     field_bits 8 (ucast (hdr_fld_nm v)) @
     field_bits 8 (ucast (len_of_hdr_fld_val v)) @
     field_bits 8 (ucast (hdr_fld_val v)) @ []"

definition encode_pfcp_hdr_enrchmt_ie_t :: "pfcp_hdr_enrchmt_ie_t \<Rightarrow> encoder" where
  "encode_pfcp_hdr_enrchmt_ie_t value = run_bytes [
     put_call (encode_pfcp_ie_header_t (header value)),
     put_bits (ucast (hdr_enrchmt_spare value)) 3,
     put_bits (ucast (header_type value)) 5,
     put_bits (ucast (len_of_hdr_fld_nm value)) 8,
     put_bits (ucast (hdr_fld_nm value)) 8,
     put_bits (ucast (len_of_hdr_fld_val value)) 8,
     put_bits (ucast (hdr_fld_val value)) 8]"

definition decode_pfcp_hdr_enrchmt_ie_t :: "pfcp_hdr_enrchmt_ie_t decoder" where
  "decode_pfcp_hdr_enrchmt_ie_t = parse_bytes [
     get_call decode_pfcp_ie_header_t header (\<lambda>x value. value\<lparr>header := x\<rparr>),
     get_bits 3 (\<lambda>x value. value\<lparr>hdr_enrchmt_spare := ucast x\<rparr>),
     get_bits 5 (\<lambda>x value. value\<lparr>header_type := ucast x\<rparr>),
     get_bits 8 (\<lambda>x value. value\<lparr>len_of_hdr_fld_nm := ucast x\<rparr>),
     get_bits 8 (\<lambda>x value. value\<lparr>hdr_fld_nm := ucast x\<rparr>),
     get_bits 8 (\<lambda>x value. value\<lparr>len_of_hdr_fld_val := ucast x\<rparr>),
     get_bits 8 (\<lambda>x value. value\<lparr>hdr_fld_val := ucast x\<rparr>)]"

interpretation hdr_enrchmt_ie: ie_codec 8 8 encode_pfcp_hdr_enrchmt_ie_t
    decode_pfcp_hdr_enrchmt_ie_t wire_pfcp_hdr_enrchmt_ie_t
    "\<lambda>_. True" "\<lambda>_. True"
  unfolding encode_pfcp_hdr_enrchmt_ie_t_def[abs_def] decode_pfcp_hdr_enrchmt_ie_t_def
    wire_pfcp_hdr_enrchmt_ie_t_def[abs_def]
  by (rule ie_codec_bytes_bytes; (intro pfcp_intros)?; simp)

record pfcp_deact_predef_rules_ie_t = pfcp_ie +
  predef_rules_nm :: u8

definition wire_pfcp_deact_predef_rules_ie_t :: "pfcp_deact_predef_rules_ie_t \<Rightarrow> bool list" where
  "wire_pfcp_deact_predef_rules_ie_t v = wire_pfcp_ie_header_t (header v) @
     field_bits 8 (ucast (pfcp_deact_predef_rules_ie_t.predef_rules_nm v)) @ []"

definition encode_pfcp_deact_predef_rules_ie_t :: "pfcp_deact_predef_rules_ie_t \<Rightarrow> encoder" where
  "encode_pfcp_deact_predef_rules_ie_t value = run_bytes [
     put_call (encode_pfcp_ie_header_t (header value)),
     put_bits (ucast (pfcp_deact_predef_rules_ie_t.predef_rules_nm value)) 8]"

definition decode_pfcp_deact_predef_rules_ie_t :: "pfcp_deact_predef_rules_ie_t decoder" where
  "decode_pfcp_deact_predef_rules_ie_t = parse_bytes [
     get_call decode_pfcp_ie_header_t header (\<lambda>x value. value\<lparr>header := x\<rparr>),
     get_bits 8 (\<lambda>x value. value\<lparr>pfcp_deact_predef_rules_ie_t.predef_rules_nm := ucast x\<rparr>)]"

interpretation deact_predef_rules_ie: ie_codec 8 8 encode_pfcp_deact_predef_rules_ie_t
    decode_pfcp_deact_predef_rules_ie_t wire_pfcp_deact_predef_rules_ie_t
    "\<lambda>_. True" "\<lambda>_. True"
  unfolding encode_pfcp_deact_predef_rules_ie_t_def[abs_def] decode_pfcp_deact_predef_rules_ie_t_def
    wire_pfcp_deact_predef_rules_ie_t_def[abs_def]
  by (rule ie_codec_bytes_bytes; (intro pfcp_intros)?; simp)

record pfcp_node_rpt_type_ie_t = pfcp_ie +
  node_rpt_type_spare :: "7 word"
  upfr :: "1 word"

definition wire_pfcp_node_rpt_type_ie_t :: "pfcp_node_rpt_type_ie_t \<Rightarrow> bool list" where
  "wire_pfcp_node_rpt_type_ie_t v = wire_pfcp_ie_header_t (header v) @
     field_bits 7 (ucast (node_rpt_type_spare v)) @
     field_bits 1 (ucast (upfr v)) @ []"

definition encode_pfcp_node_rpt_type_ie_t :: "pfcp_node_rpt_type_ie_t \<Rightarrow> encoder" where
  "encode_pfcp_node_rpt_type_ie_t value = run_bytes [
     put_call (encode_pfcp_ie_header_t (header value)),
     put_bits (ucast (node_rpt_type_spare value)) 7,
     put_bits (ucast (upfr value)) 1]"

definition decode_pfcp_node_rpt_type_ie_t :: "pfcp_node_rpt_type_ie_t decoder" where
  "decode_pfcp_node_rpt_type_ie_t = parse_bytes [
     get_call decode_pfcp_ie_header_t header (\<lambda>x value. value\<lparr>header := x\<rparr>),
     get_bits 7 (\<lambda>x value. value\<lparr>node_rpt_type_spare := ucast x\<rparr>),
     get_bits 1 (\<lambda>x value. value\<lparr>upfr := ucast x\<rparr>)]"

interpretation node_rpt_type_ie: ie_codec 8 8 encode_pfcp_node_rpt_type_ie_t
    decode_pfcp_node_rpt_type_ie_t wire_pfcp_node_rpt_type_ie_t
    "\<lambda>_. True" "\<lambda>_. True"
  unfolding encode_pfcp_node_rpt_type_ie_t_def[abs_def] decode_pfcp_node_rpt_type_ie_t_def
    wire_pfcp_node_rpt_type_ie_t_def[abs_def]
  by (rule ie_codec_bytes_bytes; (intro pfcp_intros)?; simp)

record pfcp_pfcpsmreq_flags_ie_t = pfcp_ie +
  pfcpsmreq_flgs_spare :: "1 word"
  pfcpsmreq_flgs_spare2 :: "1 word"
  pfcpsmreq_flgs_spare3 :: "1 word"
  pfcpsmreq_flgs_spare4 :: "1 word"
  pfcpsmreq_flgs_spare5 :: "1 word"
  qaurr :: "1 word"
  sndem :: "1 word"
  drobu :: "1 word"

definition wire_pfcp_pfcpsmreq_flags_ie_t :: "pfcp_pfcpsmreq_flags_ie_t \<Rightarrow> bool list" where
  "wire_pfcp_pfcpsmreq_flags_ie_t v = wire_pfcp_ie_header_t (header v) @
     field_bits 1 (ucast (pfcpsmreq_flgs_spare v)) @
     field_bits 1 (ucast (pfcpsmreq_flgs_spare2 v)) @
     field_bits 1 (ucast (pfcpsmreq_flgs_spare3 v)) @
     field_bits 1 (ucast (pfcpsmreq_flgs_spare4 v)) @
     field_bits 1 (ucast (pfcpsmreq_flgs_spare5 v)) @
     field_bits 1 (ucast (qaurr v)) @
     field_bits 1 (ucast (sndem v)) @
     field_bits 1 (ucast (pfcp_pfcpsmreq_flags_ie_t.drobu v)) @ []"

definition encode_pfcp_pfcpsmreq_flags_ie_t :: "pfcp_pfcpsmreq_flags_ie_t \<Rightarrow> encoder" where
  "encode_pfcp_pfcpsmreq_flags_ie_t value = run_bytes [
     put_call (encode_pfcp_ie_header_t (header value)),
     put_bits (ucast (pfcpsmreq_flgs_spare value)) 1,
     put_bits (ucast (pfcpsmreq_flgs_spare2 value)) 1,
     put_bits (ucast (pfcpsmreq_flgs_spare3 value)) 1,
     put_bits (ucast (pfcpsmreq_flgs_spare4 value)) 1,
     put_bits (ucast (pfcpsmreq_flgs_spare5 value)) 1,
     put_bits (ucast (qaurr value)) 1,
     put_bits (ucast (sndem value)) 1,
     put_bits (ucast (pfcp_pfcpsmreq_flags_ie_t.drobu value)) 1]"

definition decode_pfcp_pfcpsmreq_flags_ie_t :: "pfcp_pfcpsmreq_flags_ie_t decoder" where
  "decode_pfcp_pfcpsmreq_flags_ie_t = parse_bytes [
     get_call decode_pfcp_ie_header_t header (\<lambda>x value. value\<lparr>header := x\<rparr>),
     get_bits 1 (\<lambda>x value. value\<lparr>pfcpsmreq_flgs_spare := ucast x\<rparr>),
     get_bits 1 (\<lambda>x value. value\<lparr>pfcpsmreq_flgs_spare2 := ucast x\<rparr>),
     get_bits 1 (\<lambda>x value. value\<lparr>pfcpsmreq_flgs_spare3 := ucast x\<rparr>),
     get_bits 1 (\<lambda>x value. value\<lparr>pfcpsmreq_flgs_spare4 := ucast x\<rparr>),
     get_bits 1 (\<lambda>x value. value\<lparr>pfcpsmreq_flgs_spare5 := ucast x\<rparr>),
     get_bits 1 (\<lambda>x value. value\<lparr>qaurr := ucast x\<rparr>),
     get_bits 1 (\<lambda>x value. value\<lparr>sndem := ucast x\<rparr>),
     get_bits 1 (\<lambda>x value. value\<lparr>pfcp_pfcpsmreq_flags_ie_t.drobu := ucast x\<rparr>)]"

interpretation pfcpsmreq_flags_ie: ie_codec 8 8 encode_pfcp_pfcpsmreq_flags_ie_t
    decode_pfcp_pfcpsmreq_flags_ie_t wire_pfcp_pfcpsmreq_flags_ie_t
    "\<lambda>_. True" "\<lambda>_. True"
  unfolding encode_pfcp_pfcpsmreq_flags_ie_t_def[abs_def] decode_pfcp_pfcpsmreq_flags_ie_t_def
    wire_pfcp_pfcpsmreq_flags_ie_t_def[abs_def]
  by (rule ie_codec_bytes_bytes; (intro pfcp_intros)?; simp)

record pfcp_dl_buf_dur_ie_t = pfcp_ie +
  timer_unit :: "3 word"
  timer_value :: "5 word"

definition wire_pfcp_dl_buf_dur_ie_t :: "pfcp_dl_buf_dur_ie_t \<Rightarrow> bool list" where
  "wire_pfcp_dl_buf_dur_ie_t v = wire_pfcp_ie_header_t (header v) @
     field_bits 3 (ucast (pfcp_dl_buf_dur_ie_t.timer_unit v)) @
     field_bits 5 (ucast (pfcp_dl_buf_dur_ie_t.timer_value v)) @ []"

definition encode_pfcp_dl_buf_dur_ie_t :: "pfcp_dl_buf_dur_ie_t \<Rightarrow> encoder" where
  "encode_pfcp_dl_buf_dur_ie_t value = run_bytes [
     put_call (encode_pfcp_ie_header_t (header value)),
     put_bits (ucast (pfcp_dl_buf_dur_ie_t.timer_unit value)) 3,
     put_bits (ucast (pfcp_dl_buf_dur_ie_t.timer_value value)) 5]"

definition decode_pfcp_dl_buf_dur_ie_t :: "pfcp_dl_buf_dur_ie_t decoder" where
  "decode_pfcp_dl_buf_dur_ie_t = parse_bytes [
     get_call decode_pfcp_ie_header_t header (\<lambda>x value. value\<lparr>header := x\<rparr>),
     get_bits 3 (\<lambda>x value. value\<lparr>pfcp_dl_buf_dur_ie_t.timer_unit := ucast x\<rparr>),
     get_bits 5 (\<lambda>x value. value\<lparr>pfcp_dl_buf_dur_ie_t.timer_value := ucast x\<rparr>)]"

interpretation dl_buf_dur_ie: ie_codec 8 8 encode_pfcp_dl_buf_dur_ie_t
    decode_pfcp_dl_buf_dur_ie_t wire_pfcp_dl_buf_dur_ie_t
    "\<lambda>_. True" "\<lambda>_. True"
  unfolding encode_pfcp_dl_buf_dur_ie_t_def[abs_def] decode_pfcp_dl_buf_dur_ie_t_def
    wire_pfcp_dl_buf_dur_ie_t_def[abs_def]
  by (rule ie_codec_bytes_bytes; (intro pfcp_intros)?; simp)

record pfcp_query_urr_ref_ie_t = pfcp_ie +
  query_urr_ref_val :: u32

definition wire_pfcp_query_urr_ref_ie_t :: "pfcp_query_urr_ref_ie_t \<Rightarrow> bool list" where
  "wire_pfcp_query_urr_ref_ie_t v = wire_pfcp_ie_header_t (header v) @
     field_bits 32 (ucast (query_urr_ref_val v)) @ []"

definition encode_pfcp_query_urr_ref_ie_t :: "pfcp_query_urr_ref_ie_t \<Rightarrow> encoder" where
  "encode_pfcp_query_urr_ref_ie_t value = run_bytes [
     put_call (encode_pfcp_ie_header_t (header value)),
     put_bits (ucast (query_urr_ref_val value)) 32]"

definition decode_pfcp_query_urr_ref_ie_t :: "pfcp_query_urr_ref_ie_t decoder" where
  "decode_pfcp_query_urr_ref_ie_t = parse_bytes [
     get_call decode_pfcp_ie_header_t header (\<lambda>x value. value\<lparr>header := x\<rparr>),
     get_bits 32 (\<lambda>x value. value\<lparr>query_urr_ref_val := ucast x\<rparr>)]"

interpretation query_urr_ref_ie: ie_codec 8 8 encode_pfcp_query_urr_ref_ie_t
    decode_pfcp_query_urr_ref_ie_t wire_pfcp_query_urr_ref_ie_t
    "\<lambda>_. True" "\<lambda>_. True"
  unfolding encode_pfcp_query_urr_ref_ie_t_def[abs_def] decode_pfcp_query_urr_ref_ie_t_def
    wire_pfcp_query_urr_ref_ie_t_def[abs_def]
  by (rule ie_codec_bytes_bytes; (intro pfcp_intros)?; simp)

record pfcp_proxying_ie_t = pfcp_ie +
  proxying_spare :: "6 word"
  ins :: "1 word"
  arp :: "1 word"

definition wire_pfcp_proxying_ie_t :: "pfcp_proxying_ie_t \<Rightarrow> bool list" where
  "wire_pfcp_proxying_ie_t v = wire_pfcp_ie_header_t (header v) @
     field_bits 6 (ucast (proxying_spare v)) @
     field_bits 1 (ucast (ins v)) @
     field_bits 1 (ucast (arp v)) @ []"

definition encode_pfcp_proxying_ie_t :: "pfcp_proxying_ie_t \<Rightarrow> encoder" where
  "encode_pfcp_proxying_ie_t value = run_bytes [
     put_call (encode_pfcp_ie_header_t (header value)),
     put_bits (ucast (proxying_spare value)) 6,
     put_bits (ucast (ins value)) 1,
     put_bits (ucast (arp value)) 1]"

definition decode_pfcp_proxying_ie_t :: "pfcp_proxying_ie_t decoder" where
  "decode_pfcp_proxying_ie_t = parse_bytes [
     get_call decode_pfcp_ie_header_t header (\<lambda>x value. value\<lparr>header := x\<rparr>),
     get_bits 6 (\<lambda>x value. value\<lparr>proxying_spare := ucast x\<rparr>),
     get_bits 1 (\<lambda>x value. value\<lparr>ins := ucast x\<rparr>),
     get_bits 1 (\<lambda>x value. value\<lparr>arp := ucast x\<rparr>)]"

interpretation proxying_ie: ie_codec 8 8 encode_pfcp_proxying_ie_t
    decode_pfcp_proxying_ie_t wire_pfcp_proxying_ie_t
    "\<lambda>_. True" "\<lambda>_. True"
  unfolding encode_pfcp_proxying_ie_t_def[abs_def] decode_pfcp_proxying_ie_t_def
    wire_pfcp_proxying_ie_t_def[abs_def]
  by (rule ie_codec_bytes_bytes; (intro pfcp_intros)?; simp)

record pfcp_flow_info_ie_t = pfcp_ie +
  flow_info_spare :: "5 word"
  flow_direction :: "3 word"
  len_of_flow_desc :: u16
  flow_desc :: u8

definition wire_pfcp_flow_info_ie_t :: "pfcp_flow_info_ie_t \<Rightarrow> bool list" where
  "wire_pfcp_flow_info_ie_t v = wire_pfcp_ie_header_t (header v) @
     field_bits 5 (ucast (flow_info_spare v)) @
     field_bits 3 (ucast (flow_direction v)) @
     field_bits 16 (ucast (pfcp_flow_info_ie_t.len_of_flow_desc v)) @
     field_bits 8 (ucast (pfcp_flow_info_ie_t.flow_desc v)) @ []"

definition encode_pfcp_flow_info_ie_t :: "pfcp_flow_info_ie_t \<Rightarrow> encoder" where
  "encode_pfcp_flow_info_ie_t value = run_bytes [
     put_call (encode_pfcp_ie_header_t (header value)),
     put_bits (ucast (flow_info_spare value)) 5,
     put_bits (ucast (flow_direction value)) 3,
     put_bits (ucast (pfcp_flow_info_ie_t.len_of_flow_desc value)) 16,
     put_bits (ucast (pfcp_flow_info_ie_t.flow_desc value)) 8]"

definition decode_pfcp_flow_info_ie_t :: "pfcp_flow_info_ie_t decoder" where
  "decode_pfcp_flow_info_ie_t = parse_bytes [
     get_call decode_pfcp_ie_header_t header (\<lambda>x value. value\<lparr>header := x\<rparr>),
     get_bits 5 (\<lambda>x value. value\<lparr>flow_info_spare := ucast x\<rparr>),
     get_bits 3 (\<lambda>x value. value\<lparr>flow_direction := ucast x\<rparr>),
     get_bits 16 (\<lambda>x value. value\<lparr>pfcp_flow_info_ie_t.len_of_flow_desc := ucast x\<rparr>),
     get_bits 8 (\<lambda>x value. value\<lparr>pfcp_flow_info_ie_t.flow_desc := ucast x\<rparr>)]"

interpretation flow_info_ie: ie_codec 8 8 encode_pfcp_flow_info_ie_t
    decode_pfcp_flow_info_ie_t wire_pfcp_flow_info_ie_t
    "\<lambda>_. True" "\<lambda>_. True"
  unfolding encode_pfcp_flow_info_ie_t_def[abs_def] decode_pfcp_flow_info_ie_t_def
    wire_pfcp_flow_info_ie_t_def[abs_def]
  by (rule ie_codec_bytes_bytes; (intro pfcp_intros)?; simp)

record pfcp_metric_ie_t = pfcp_ie +
  metric :: u8

definition wire_pfcp_metric_ie_t :: "pfcp_metric_ie_t \<Rightarrow> bool list" where
  "wire_pfcp_metric_ie_t v = wire_pfcp_ie_header_t (header v) @
     field_bits 8 (ucast (metric v)) @ []"

definition encode_pfcp_metric_ie_t :: "pfcp_metric_ie_t \<Rightarrow> encoder" where
  "encode_pfcp_metric_ie_t value = run_bytes [
     put_call (encode_pfcp_ie_header_t (header value)),
     put_bits (ucast (metric value)) 8]"

definition decode_pfcp_metric_ie_t :: "pfcp_metric_ie_t decoder" where
  "decode_pfcp_metric_ie_t = parse_bytes [
     get_call decode_pfcp_ie_header_t header (\<lambda>x value. value\<lparr>header := x\<rparr>),
     get_bits 8 (\<lambda>x value. value\<lparr>metric := ucast x\<rparr>)]"

interpretation metric_ie: ie_codec 8 8 encode_pfcp_metric_ie_t
    decode_pfcp_metric_ie_t wire_pfcp_metric_ie_t
    "\<lambda>_. True" "\<lambda>_. True"
  unfolding encode_pfcp_metric_ie_t_def[abs_def] decode_pfcp_metric_ie_t_def
    wire_pfcp_metric_ie_t_def[abs_def]
  by (rule ie_codec_bytes_bytes; (intro pfcp_intros)?; simp)

record pfcp_multiplier_ie_t = pfcp_ie +
  value_digits :: u64
  exponent :: u32

definition wire_pfcp_multiplier_ie_t :: "pfcp_multiplier_ie_t \<Rightarrow> bool list" where
  "wire_pfcp_multiplier_ie_t v = wire_pfcp_ie_header_t (header v) @
     field_bits 64 (ucast (value_digits v)) @
     field_bits 32 (ucast (exponent v)) @ []"

definition encode_pfcp_multiplier_ie_t :: "pfcp_multiplier_ie_t \<Rightarrow> encoder" where
  "encode_pfcp_multiplier_ie_t value = run_bytes [
     put_call (encode_pfcp_ie_header_t (header value)),
     put_bits (ucast (value_digits value)) 64,
     put_bits (ucast (exponent value)) 32]"

definition decode_pfcp_multiplier_ie_t :: "pfcp_multiplier_ie_t decoder" where
  "decode_pfcp_multiplier_ie_t = parse_bytes [
     get_call decode_pfcp_ie_header_t header (\<lambda>x value. value\<lparr>header := x\<rparr>),
     get_bits 64 (\<lambda>x value. value\<lparr>value_digits := ucast x\<rparr>),
     get_bits 32 (\<lambda>x value. value\<lparr>exponent := ucast x\<rparr>)]"

interpretation multiplier_ie: ie_codec 8 8 encode_pfcp_multiplier_ie_t
    decode_pfcp_multiplier_ie_t wire_pfcp_multiplier_ie_t
    "\<lambda>_. True" "\<lambda>_. True"
  unfolding encode_pfcp_multiplier_ie_t_def[abs_def] decode_pfcp_multiplier_ie_t_def
    wire_pfcp_multiplier_ie_t_def[abs_def]
  by (rule ie_codec_bytes_bytes; (intro pfcp_intros)?; simp)

record pfcp_cause_ie_t = pfcp_ie +
  cause_value :: u8

definition wire_pfcp_cause_ie_t :: "pfcp_cause_ie_t \<Rightarrow> bool list" where
  "wire_pfcp_cause_ie_t v = wire_pfcp_ie_header_t (header v) @
     field_bits 8 (ucast (cause_value v)) @ []"

definition encode_pfcp_cause_ie_t :: "pfcp_cause_ie_t \<Rightarrow> encoder" where
  "encode_pfcp_cause_ie_t value = run_bytes [
     put_call (encode_pfcp_ie_header_t (header value)),
     put_bits (ucast (cause_value value)) 8]"

definition decode_pfcp_cause_ie_t :: "pfcp_cause_ie_t decoder" where
  "decode_pfcp_cause_ie_t = parse_bytes [
     get_call decode_pfcp_ie_header_t header (\<lambda>x value. value\<lparr>header := x\<rparr>),
     get_bits 8 (\<lambda>x value. value\<lparr>cause_value := ucast x\<rparr>)]"

interpretation cause_ie: ie_codec 8 8 encode_pfcp_cause_ie_t
    decode_pfcp_cause_ie_t wire_pfcp_cause_ie_t
    "\<lambda>_. True" "\<lambda>_. True"
  unfolding encode_pfcp_cause_ie_t_def[abs_def] decode_pfcp_cause_ie_t_def
    wire_pfcp_cause_ie_t_def[abs_def]
  by (rule ie_codec_bytes_bytes; (intro pfcp_intros)?; simp)

record pfcp_offending_ie_ie_t = pfcp_ie +
  type_of_the_offending_ie :: u16

definition wire_pfcp_offending_ie_ie_t :: "pfcp_offending_ie_ie_t \<Rightarrow> bool list" where
  "wire_pfcp_offending_ie_ie_t v = wire_pfcp_ie_header_t (header v) @
     field_bits 16 (ucast (type_of_the_offending_ie v)) @ []"

definition encode_pfcp_offending_ie_ie_t :: "pfcp_offending_ie_ie_t \<Rightarrow> encoder" where
  "encode_pfcp_offending_ie_ie_t value = run_bytes [
     put_call (encode_pfcp_ie_header_t (header value)),
     put_bits (ucast (type_of_the_offending_ie value)) 16]"

definition decode_pfcp_offending_ie_ie_t :: "pfcp_offending_ie_ie_t decoder" where
  "decode_pfcp_offending_ie_ie_t = parse_bytes [
     get_call decode_pfcp_ie_header_t header (\<lambda>x value. value\<lparr>header := x\<rparr>),
     get_bits 16 (\<lambda>x value. value\<lparr>type_of_the_offending_ie := ucast x\<rparr>)]"

interpretation offending_ie_ie: ie_codec 8 8 encode_pfcp_offending_ie_ie_t
    decode_pfcp_offending_ie_ie_t wire_pfcp_offending_ie_ie_t
    "\<lambda>_. True" "\<lambda>_. True"
  unfolding encode_pfcp_offending_ie_ie_t_def[abs_def] decode_pfcp_offending_ie_ie_t_def
    wire_pfcp_offending_ie_ie_t_def[abs_def]
  by (rule ie_codec_bytes_bytes; (intro pfcp_intros)?; simp)

record pfcp_redir_info_ie_t = pfcp_ie +
  redir_info_spare :: "4 word"
  redir_addr_type :: "4 word"
  redir_svr_addr_len :: u8
  redir_svr_addr :: u8

definition wire_pfcp_redir_info_ie_t :: "pfcp_redir_info_ie_t \<Rightarrow> bool list" where
  "wire_pfcp_redir_info_ie_t v = wire_pfcp_ie_header_t (header v) @
     field_bits 4 (ucast (redir_info_spare v)) @
     field_bits 4 (ucast (redir_addr_type v)) @
     field_bits 8 (ucast (redir_svr_addr_len v)) @
     field_bits 8 (ucast (redir_svr_addr v)) @ []"

definition encode_pfcp_redir_info_ie_t :: "pfcp_redir_info_ie_t \<Rightarrow> encoder" where
  "encode_pfcp_redir_info_ie_t value = run_bytes [
     put_call (encode_pfcp_ie_header_t (header value)),
     put_bits (ucast (redir_info_spare value)) 4,
     put_bits (ucast (redir_addr_type value)) 4,
     put_bits (ucast (redir_svr_addr_len value)) 8,
     put_bits (ucast (redir_svr_addr value)) 8]"

definition decode_pfcp_redir_info_ie_t :: "pfcp_redir_info_ie_t decoder" where
  "decode_pfcp_redir_info_ie_t = parse_bytes [
     get_call decode_pfcp_ie_header_t header (\<lambda>x value. value\<lparr>header := x\<rparr>),
     get_bits 4 (\<lambda>x value. value\<lparr>redir_info_spare := ucast x\<rparr>),
     get_bits 4 (\<lambda>x value. value\<lparr>redir_addr_type := ucast x\<rparr>),
     get_bits 8 (\<lambda>x value. value\<lparr>redir_svr_addr_len := ucast x\<rparr>),
     get_bits 8 (\<lambda>x value. value\<lparr>redir_svr_addr := ucast x\<rparr>)]"

interpretation redir_info_ie: ie_codec 8 8 encode_pfcp_redir_info_ie_t
    decode_pfcp_redir_info_ie_t wire_pfcp_redir_info_ie_t
    "\<lambda>_. True" "\<lambda>_. True"
  unfolding encode_pfcp_redir_info_ie_t_def[abs_def] decode_pfcp_redir_info_ie_t_def
    wire_pfcp_redir_info_ie_t_def[abs_def]
  by (rule ie_codec_bytes_bytes; (intro pfcp_intros)?; simp)

record pfcp_app_inst_id_ie_t = pfcp_ie +
  app_inst_ident :: u8

definition wire_pfcp_app_inst_id_ie_t :: "pfcp_app_inst_id_ie_t \<Rightarrow> bool list" where
  "wire_pfcp_app_inst_id_ie_t v = wire_pfcp_ie_header_t (header v) @
     field_bits 8 (ucast (app_inst_ident v)) @ []"

definition encode_pfcp_app_inst_id_ie_t :: "pfcp_app_inst_id_ie_t \<Rightarrow> encoder" where
  "encode_pfcp_app_inst_id_ie_t value = run_bytes [
     put_call (encode_pfcp_ie_header_t (header value)),
     put_bits (ucast (app_inst_ident value)) 8]"

definition decode_pfcp_app_inst_id_ie_t :: "pfcp_app_inst_id_ie_t decoder" where
  "decode_pfcp_app_inst_id_ie_t = parse_bytes [
     get_call decode_pfcp_ie_header_t header (\<lambda>x value. value\<lparr>header := x\<rparr>),
     get_bits 8 (\<lambda>x value. value\<lparr>app_inst_ident := ucast x\<rparr>)]"

interpretation app_inst_id_ie: ie_codec 8 8 encode_pfcp_app_inst_id_ie_t
    decode_pfcp_app_inst_id_ie_t wire_pfcp_app_inst_id_ie_t
    "\<lambda>_. True" "\<lambda>_. True"
  unfolding encode_pfcp_app_inst_id_ie_t_def[abs_def] decode_pfcp_app_inst_id_ie_t_def
    wire_pfcp_app_inst_id_ie_t_def[abs_def]
  by (rule ie_codec_bytes_bytes; (intro pfcp_intros)?; simp)

record pfcp_frmd_ipv6_route_ie_t = pfcp_ie +
  frmd_ipv6_rte :: u8

definition wire_pfcp_frmd_ipv6_route_ie_t :: "pfcp_frmd_ipv6_route_ie_t \<Rightarrow> bool list" where
  "wire_pfcp_frmd_ipv6_route_ie_t v = wire_pfcp_ie_header_t (header v) @
     field_bits 8 (ucast (frmd_ipv6_rte v)) @ []"

definition encode_pfcp_frmd_ipv6_route_ie_t :: "pfcp_frmd_ipv6_route_ie_t \<Rightarrow> encoder" where
  "encode_pfcp_frmd_ipv6_route_ie_t value = run_bytes [
     put_call (encode_pfcp_ie_header_t (header value)),
     put_bits (ucast (frmd_ipv6_rte value)) 8]"

definition decode_pfcp_frmd_ipv6_route_ie_t :: "pfcp_frmd_ipv6_route_ie_t decoder" where
  "decode_pfcp_frmd_ipv6_route_ie_t = parse_bytes [
     get_call decode_pfcp_ie_header_t header (\<lambda>x value. value\<lparr>header := x\<rparr>),
     get_bits 8 (\<lambda>x value. value\<lparr>frmd_ipv6_rte := ucast x\<rparr>)]"

interpretation frmd_ipv6_route_ie: ie_codec 8 8 encode_pfcp_frmd_ipv6_route_ie_t
    decode_pfcp_frmd_ipv6_route_ie_t wire_pfcp_frmd_ipv6_route_ie_t
    "\<lambda>_. True" "\<lambda>_. True"
  unfolding encode_pfcp_frmd_ipv6_route_ie_t_def[abs_def] decode_pfcp_frmd_ipv6_route_ie_t_def
    wire_pfcp_frmd_ipv6_route_ie_t_def[abs_def]
  by (rule ie_codec_bytes_bytes; (intro pfcp_intros)?; simp)

record pfcp_user_plane_inact_timer_ie_t = pfcp_ie +
  user_plane_inact_timer :: u32

definition wire_pfcp_user_plane_inact_timer_ie_t :: "pfcp_user_plane_inact_timer_ie_t \<Rightarrow> bool list" where
  "wire_pfcp_user_plane_inact_timer_ie_t v = wire_pfcp_ie_header_t (header v) @
     field_bits 32 (ucast (user_plane_inact_timer v)) @ []"

definition encode_pfcp_user_plane_inact_timer_ie_t :: "pfcp_user_plane_inact_timer_ie_t \<Rightarrow> encoder" where
  "encode_pfcp_user_plane_inact_timer_ie_t value = run_bytes [
     put_call (encode_pfcp_ie_header_t (header value)),
     put_bits (ucast (user_plane_inact_timer value)) 32]"

definition decode_pfcp_user_plane_inact_timer_ie_t :: "pfcp_user_plane_inact_timer_ie_t decoder" where
  "decode_pfcp_user_plane_inact_timer_ie_t = parse_bytes [
     get_call decode_pfcp_ie_header_t header (\<lambda>x value. value\<lparr>header := x\<rparr>),
     get_bits 32 (\<lambda>x value. value\<lparr>user_plane_inact_timer := ucast x\<rparr>)]"

interpretation user_plane_inact_timer_ie: ie_codec 8 8 encode_pfcp_user_plane_inact_timer_ie_t
    decode_pfcp_user_plane_inact_timer_ie_t wire_pfcp_user_plane_inact_timer_ie_t
    "\<lambda>_. True" "\<lambda>_. True"
  unfolding encode_pfcp_user_plane_inact_timer_ie_t_def[abs_def] decode_pfcp_user_plane_inact_timer_ie_t_def
    wire_pfcp_user_plane_inact_timer_ie_t_def[abs_def]
  by (rule ie_codec_bytes_bytes; (intro pfcp_intros)?; simp)

record pfcp_ethertype_ie_t = pfcp_ie +
  ethertype :: u16

definition wire_pfcp_ethertype_ie_t :: "pfcp_ethertype_ie_t \<Rightarrow> bool list" where
  "wire_pfcp_ethertype_ie_t v = wire_pfcp_ie_header_t (header v) @
     field_bits 16 (ucast (ethertype v)) @ []"

definition encode_pfcp_ethertype_ie_t :: "pfcp_ethertype_ie_t \<Rightarrow> encoder" where
  "encode_pfcp_ethertype_ie_t value = run_bytes [
     put_call (encode_pfcp_ie_header_t (header value)),
     put_bits (ucast (ethertype value)) 16]"

definition decode_pfcp_ethertype_ie_t :: "pfcp_ethertype_ie_t decoder" where
  "decode_pfcp_ethertype_ie_t = parse_bytes [
     get_call decode_pfcp_ie_header_t header (\<lambda>x value. value\<lparr>header := x\<rparr>),
     get_bits 16 (\<lambda>x value. value\<lparr>ethertype := ucast x\<rparr>)]"

interpretation ethertype_ie: ie_codec 8 8 encode_pfcp_ethertype_ie_t
    decode_pfcp_ethertype_ie_t wire_pfcp_ethertype_ie_t
    "\<lambda>_. True" "\<lambda>_. True"
  unfolding encode_pfcp_ethertype_ie_t_def[abs_def] decode_pfcp_ethertype_ie_t_def
    wire_pfcp_ethertype_ie_t_def[abs_def]
  by (rule ie_codec_bytes_bytes; (intro pfcp_intros)?; simp)

record pfcp_frwdng_plcy_ie_t = pfcp_ie +
  frwdng_plcy_ident_len :: u8
  frwdng_plcy_ident :: u8

definition wire_pfcp_frwdng_plcy_ie_t :: "pfcp_frwdng_plcy_ie_t \<Rightarrow> bool list" where
  "wire_pfcp_frwdng_plcy_ie_t v = wire_pfcp_ie_header_t (header v) @
     field_bits 8 (ucast (frwdng_plcy_ident_len v)) @
     field_bits 8 (ucast (frwdng_plcy_ident v)) @ []"

definition encode_pfcp_frwdng_plcy_ie_t :: "pfcp_frwdng_plcy_ie_t \<Rightarrow> encoder" where
  "encode_pfcp_frwdng_plcy_ie_t value = run_bytes [
     put_call (encode_pfcp_ie_header_t (header value)),
     put_bits (ucast (frwdng_plcy_ident_len value)) 8,
     put_bits (ucast (frwdng_plcy_ident value)) 8]"

definition decode_pfcp_frwdng_plcy_ie_t :: "pfcp_frwdng_plcy_ie_t decoder" where
  "decode_pfcp_frwdng_plcy_ie_t = parse_bytes [
     get_call decode_pfcp_ie_header_t header (\<lambda>x value. value\<lparr>header := x\<rparr>),
     get_bits 8 (\<lambda>x value. value\<lparr>frwdng_plcy_ident_len := ucast x\<rparr>),
     get_bits 8 (\<lambda>x value. value\<lparr>frwdng_plcy_ident := ucast x\<rparr>)]"

interpretation frwdng_plcy_ie: ie_codec 8 8 encode_pfcp_frwdng_plcy_ie_t
    decode_pfcp_frwdng_plcy_ie_t wire_pfcp_frwdng_plcy_ie_t
    "\<lambda>_. True" "\<lambda>_. True"
  unfolding encode_pfcp_frwdng_plcy_ie_t_def[abs_def] decode_pfcp_frwdng_plcy_ie_t_def
    wire_pfcp_frwdng_plcy_ie_t_def[abs_def]
  by (rule ie_codec_bytes_bytes; (intro pfcp_intros)?; simp)

record pfcp_dl_buf_suggstd_pckt_cnt_ie_t = pfcp_ie +
  pckt_cnt_val :: u8

definition wire_pfcp_dl_buf_suggstd_pckt_cnt_ie_t :: "pfcp_dl_buf_suggstd_pckt_cnt_ie_t \<Rightarrow> bool list" where
  "wire_pfcp_dl_buf_suggstd_pckt_cnt_ie_t v = wire_pfcp_ie_header_t (header v) @
     field_bits 8 (ucast (pfcp_dl_buf_suggstd_pckt_cnt_ie_t.pckt_cnt_val v)) @ []"

definition encode_pfcp_dl_buf_suggstd_pckt_cnt_ie_t :: "pfcp_dl_buf_suggstd_pckt_cnt_ie_t \<Rightarrow> encoder" where
  "encode_pfcp_dl_buf_suggstd_pckt_cnt_ie_t value = run_bytes [
     put_call (encode_pfcp_ie_header_t (header value)),
     put_bits (ucast (pfcp_dl_buf_suggstd_pckt_cnt_ie_t.pckt_cnt_val value)) 8]"

definition decode_pfcp_dl_buf_suggstd_pckt_cnt_ie_t :: "pfcp_dl_buf_suggstd_pckt_cnt_ie_t decoder" where
  "decode_pfcp_dl_buf_suggstd_pckt_cnt_ie_t = parse_bytes [
     get_call decode_pfcp_ie_header_t header (\<lambda>x value. value\<lparr>header := x\<rparr>),
     get_bits 8 (\<lambda>x value. value\<lparr>pfcp_dl_buf_suggstd_pckt_cnt_ie_t.pckt_cnt_val := ucast x\<rparr>)]"

interpretation dl_buf_suggstd_pckt_cnt_ie: ie_codec 8 8 encode_pfcp_dl_buf_suggstd_pckt_cnt_ie_t
    decode_pfcp_dl_buf_suggstd_pckt_cnt_ie_t wire_pfcp_dl_buf_suggstd_pckt_cnt_ie_t
    "\<lambda>_. True" "\<lambda>_. True"
  unfolding encode_pfcp_dl_buf_suggstd_pckt_cnt_ie_t_def[abs_def] decode_pfcp_dl_buf_suggstd_pckt_cnt_ie_t_def
    wire_pfcp_dl_buf_suggstd_pckt_cnt_ie_t_def[abs_def]
  by (rule ie_codec_bytes_bytes; (intro pfcp_intros)?; simp)

record pfcp_pdn_type_ie_t = pfcp_ie +
  pdn_type_spare :: "5 word"
  pdn_type :: "3 word"

definition wire_pfcp_pdn_type_ie_t :: "pfcp_pdn_type_ie_t \<Rightarrow> bool list" where
  "wire_pfcp_pdn_type_ie_t v = wire_pfcp_ie_header_t (header v) @
     field_bits 5 (ucast (pdn_type_spare v)) @
     field_bits 3 (ucast (pdn_type v)) @ []"

definition encode_pfcp_pdn_type_ie_t :: "pfcp_pdn_type_ie_t \<Rightarrow> encoder" where
  "encode_pfcp_pdn_type_ie_t value = run_bytes [
     put_call (encode_pfcp_ie_header_t (header value)),
     put_bits (ucast (pdn_type_spare value)) 5,
     put_bits (ucast (pdn_type value)) 3]"

definition decode_pfcp_pdn_type_ie_t :: "pfcp_pdn_type_ie_t decoder" where
  "decode_pfcp_pdn_type_ie_t = parse_bytes [
     get_call decode_pfcp_ie_header_t header (\<lambda>x value. value\<lparr>header := x\<rparr>),
     get_bits 5 (\<lambda>x value. value\<lparr>pdn_type_spare := ucast x\<rparr>),
     get_bits 3 (\<lambda>x value. value\<lparr>pdn_type := ucast x\<rparr>)]"

interpretation pdn_type_ie: ie_codec 8 8 encode_pfcp_pdn_type_ie_t
    decode_pfcp_pdn_type_ie_t wire_pfcp_pdn_type_ie_t
    "\<lambda>_. True" "\<lambda>_. True"
  unfolding encode_pfcp_pdn_type_ie_t_def[abs_def] decode_pfcp_pdn_type_ie_t_def
    wire_pfcp_pdn_type_ie_t_def[abs_def]
  by (rule ie_codec_bytes_bytes; (intro pfcp_intros)?; simp)

record pfcp_time_of_frst_pckt_ie_t = pfcp_ie +
  time_of_frst_pckt :: u32

definition wire_pfcp_time_of_frst_pckt_ie_t :: "pfcp_time_of_frst_pckt_ie_t \<Rightarrow> bool list" where
  "wire_pfcp_time_of_frst_pckt_ie_t v = wire_pfcp_ie_header_t (header v) @
     field_bits 32 (ucast (time_of_frst_pckt v)) @ []"

definition encode_pfcp_time_of_frst_pckt_ie_t :: "pfcp_time_of_frst_pckt_ie_t \<Rightarrow> encoder" where
  "encode_pfcp_time_of_frst_pckt_ie_t value = run_bytes [
     put_call (encode_pfcp_ie_header_t (header value)),
     put_bits (ucast (time_of_frst_pckt value)) 32]"

definition decode_pfcp_time_of_frst_pckt_ie_t :: "pfcp_time_of_frst_pckt_ie_t decoder" where
  "decode_pfcp_time_of_frst_pckt_ie_t = parse_bytes [
     get_call decode_pfcp_ie_header_t header (\<lambda>x value. value\<lparr>header := x\<rparr>),
     get_bits 32 (\<lambda>x value. value\<lparr>time_of_frst_pckt := ucast x\<rparr>)]"

interpretation time_of_frst_pckt_ie: ie_codec 8 8 encode_pfcp_time_of_frst_pckt_ie_t
    decode_pfcp_time_of_frst_pckt_ie_t wire_pfcp_time_of_frst_pckt_ie_t
    "\<lambda>_. True" "\<lambda>_. True"
  unfolding encode_pfcp_time_of_frst_pckt_ie_t_def[abs_def] decode_pfcp_time_of_frst_pckt_ie_t_def
    wire_pfcp_time_of_frst_pckt_ie_t_def[abs_def]
  by (rule ie_codec_bytes_bytes; (intro pfcp_intros)?; simp)

record pfcp_cp_func_feat_ie_t = pfcp_ie +
  sup_feat :: u8

definition wire_pfcp_cp_func_feat_ie_t :: "pfcp_cp_func_feat_ie_t \<Rightarrow> bool list" where
  "wire_pfcp_cp_func_feat_ie_t v = wire_pfcp_ie_header_t (header v) @
     field_bits 8 (ucast (pfcp_cp_func_feat_ie_t.sup_feat v)) @ []"

definition encode_pfcp_cp_func_feat_ie_t :: "pfcp_cp_func_feat_ie_t \<Rightarrow> encoder" where
  "encode_pfcp_cp_func_feat_ie_t value = run_bytes [
     put_call (encode_pfcp_ie_header_t (header value)),
     put_bits (ucast (pfcp_cp_func_feat_ie_t.sup_feat value)) 8]"

definition decode_pfcp_cp_func_feat_ie_t :: "pfcp_cp_func_feat_ie_t decoder" where
  "decode_pfcp_cp_func_feat_ie_t = parse_bytes [
     get_call decode_pfcp_ie_header_t header (\<lambda>x value. value\<lparr>header := x\<rparr>),
     get_bits 8 (\<lambda>x value. value\<lparr>pfcp_cp_func_feat_ie_t.sup_feat := ucast x\<rparr>)]"

interpretation cp_func_feat_ie: ie_codec 8 8 encode_pfcp_cp_func_feat_ie_t
    decode_pfcp_cp_func_feat_ie_t wire_pfcp_cp_func_feat_ie_t
    "\<lambda>_. True" "\<lambda>_. True"
  unfolding encode_pfcp_cp_func_feat_ie_t_def[abs_def] decode_pfcp_cp_func_feat_ie_t_def
    wire_pfcp_cp_func_feat_ie_t_def[abs_def]
  by (rule ie_codec_bytes_bytes; (intro pfcp_intros)?; simp)

record pfcp_rcvry_time_stmp_ie_t = pfcp_ie +
  rcvry_time_stmp_val :: u32

definition wire_pfcp_rcvry_time_stmp_ie_t :: "pfcp_rcvry_time_stmp_ie_t \<Rightarrow> bool list" where
  "wire_pfcp_rcvry_time_stmp_ie_t v = wire_pfcp_ie_header_t (header v) @
     field_bits 32 (ucast (rcvry_time_stmp_val v)) @ []"

definition encode_pfcp_rcvry_time_stmp_ie_t :: "pfcp_rcvry_time_stmp_ie_t \<Rightarrow> encoder" where
  "encode_pfcp_rcvry_time_stmp_ie_t value = run_bytes [
     put_call (encode_pfcp_ie_header_t (header value)),
     put_bits (ucast (rcvry_time_stmp_val value)) 32]"

definition decode_pfcp_rcvry_time_stmp_ie_t :: "pfcp_rcvry_time_stmp_ie_t decoder" where
  "decode_pfcp_rcvry_time_stmp_ie_t = parse_bytes [
     get_call decode_pfcp_ie_header_t header (\<lambda>x value. value\<lparr>header := x\<rparr>),
     get_bits 32 (\<lambda>x value. value\<lparr>rcvry_time_stmp_val := ucast x\<rparr>)]"

interpretation rcvry_time_stmp_ie: ie_codec 8 8 encode_pfcp_rcvry_time_stmp_ie_t
    decode_pfcp_rcvry_time_stmp_ie_t wire_pfcp_rcvry_time_stmp_ie_t
    "\<lambda>_. True" "\<lambda>_. True"
  unfolding encode_pfcp_rcvry_time_stmp_ie_t_def[abs_def] decode_pfcp_rcvry_time_stmp_ie_t_def
    wire_pfcp_rcvry_time_stmp_ie_t_def[abs_def]
  by (rule ie_codec_bytes_bytes; (intro pfcp_intros)?; simp)

record pfcp_report_type_ie_t = pfcp_ie +
  rpt_type_spare :: "4 word"
  upir :: "1 word"
  erir :: "1 word"
  usar :: "1 word"
  dldr :: "1 word"

definition wire_pfcp_report_type_ie_t :: "pfcp_report_type_ie_t \<Rightarrow> bool list" where
  "wire_pfcp_report_type_ie_t v = wire_pfcp_ie_header_t (header v) @
     field_bits 4 (ucast (rpt_type_spare v)) @
     field_bits 1 (ucast (upir v)) @
     field_bits 1 (ucast (erir v)) @
     field_bits 1 (ucast (usar v)) @
     field_bits 1 (ucast (dldr v)) @ []"

definition encode_pfcp_report_type_ie_t :: "pfcp_report_type_ie_t \<Rightarrow> encoder" where
  "encode_pfcp_report_type_ie_t value = run_bytes [
     put_call (encode_pfcp_ie_header_t (header value)),
     put_bits (ucast (rpt_type_spare value)) 4,
     put_bits (ucast (upir value)) 1,
     put_bits (ucast (erir value)) 1,
     put_bits (ucast (usar value)) 1,
     put_bits (ucast (dldr value)) 1]"

definition decode_pfcp_report_type_ie_t :: "pfcp_report_type_ie_t decoder" where
  "decode_pfcp_report_type_ie_t = parse_bytes [
     get_call decode_pfcp_ie_header_t header (\<lambda>x value. value\<lparr>header := x\<rparr>),
     get_bits 4 (\<lambda>x value. value\<lparr>rpt_type_spare := ucast x\<rparr>),
     get_bits 1 (\<lambda>x value. value\<lparr>upir := ucast x\<rparr>),
     get_bits 1 (\<lambda>x value. value\<lparr>erir := ucast x\<rparr>),
     get_bits 1 (\<lambda>x value. value\<lparr>usar := ucast x\<rparr>),
     get_bits 1 (\<lambda>x value. value\<lparr>dldr := ucast x\<rparr>)]"

interpretation report_type_ie: ie_codec 8 8 encode_pfcp_report_type_ie_t
    decode_pfcp_report_type_ie_t wire_pfcp_report_type_ie_t
    "\<lambda>_. True" "\<lambda>_. True"
  unfolding encode_pfcp_report_type_ie_t_def[abs_def] decode_pfcp_report_type_ie_t_def
    wire_pfcp_report_type_ie_t_def[abs_def]
  by (rule ie_codec_bytes_bytes; (intro pfcp_intros)?; simp)

record pfcp_framed_route_ie_t = pfcp_ie +
  framed_route :: u8

definition wire_pfcp_framed_route_ie_t :: "pfcp_framed_route_ie_t \<Rightarrow> bool list" where
  "wire_pfcp_framed_route_ie_t v = wire_pfcp_ie_header_t (header v) @
     field_bits 8 (ucast (framed_route v)) @ []"

definition encode_pfcp_framed_route_ie_t :: "pfcp_framed_route_ie_t \<Rightarrow> encoder" where
  "encode_pfcp_framed_route_ie_t value = run_bytes [
     put_call (encode_pfcp_ie_header_t (header value)),
     put_bits (ucast (framed_route value)) 8]"

definition decode_pfcp_framed_route_ie_t :: "pfcp_framed_route_ie_t decoder" where
  "decode_pfcp_framed_route_ie_t = parse_bytes [
     get_call decode_pfcp_ie_header_t header (\<lambda>x value. value\<lparr>header := x\<rparr>),
     get_bits 8 (\<lambda>x value. value\<lparr>framed_route := ucast x\<rparr>)]"

interpretation framed_route_ie: ie_codec 8 8 encode_pfcp_framed_route_ie_t
    decode_pfcp_framed_route_ie_t wire_pfcp_framed_route_ie_t
    "\<lambda>_. True" "\<lambda>_. True"
  unfolding encode_pfcp_framed_route_ie_t_def[abs_def] decode_pfcp_framed_route_ie_t_def
    wire_pfcp_framed_route_ie_t_def[abs_def]
  by (rule ie_codec_bytes_bytes; (intro pfcp_intros)?; simp)

record pfcp_usage_rpt_trig_ie_t = pfcp_ie +
  immer :: "1 word"
  droth :: "1 word"
  stopt :: "1 word"
  start :: "1 word"
  quhti :: "1 word"
  timth :: "1 word"
  volth :: "1 word"
  perio :: "1 word"
  eveth :: "1 word"
  macar :: "1 word"
  envcl :: "1 word"
  monit :: "1 word"
  termr :: "1 word"
  liusa :: "1 word"
  timqu :: "1 word"
  volqu :: "1 word"
  usage_rpt_trig_spare :: "7 word"
  evequ :: "1 word"

definition wire_pfcp_usage_rpt_trig_ie_t :: "pfcp_usage_rpt_trig_ie_t \<Rightarrow> bool list" where
  "wire_pfcp_usage_rpt_trig_ie_t v = wire_pfcp_ie_header_t (header v) @
     field_bits 1 (ucast (immer v)) @
     field_bits 1 (ucast (pfcp_usage_rpt_trig_ie_t.droth v)) @
     field_bits 1 (ucast (pfcp_usage_rpt_trig_ie_t.stopt v)) @
     field_bits 1 (ucast (pfcp_usage_rpt_trig_ie_t.start v)) @
     field_bits 1 (ucast (pfcp_usage_rpt_trig_ie_t.quhti v)) @
     field_bits 1 (ucast (pfcp_usage_rpt_trig_ie_t.timth v)) @
     field_bits 1 (ucast (pfcp_usage_rpt_trig_ie_t.volth v)) @
     field_bits 1 (ucast (pfcp_usage_rpt_trig_ie_t.perio v)) @
     field_bits 1 (ucast (pfcp_usage_rpt_trig_ie_t.eveth v)) @
     field_bits 1 (ucast (pfcp_usage_rpt_trig_ie_t.macar v)) @
     field_bits 1 (ucast (pfcp_usage_rpt_trig_ie_t.envcl v)) @
     field_bits 1 (ucast (monit v)) @
     field_bits 1 (ucast (termr v)) @
     field_bits 1 (ucast (pfcp_usage_rpt_trig_ie_t.liusa v)) @
     field_bits 1 (ucast (pfcp_usage_rpt_trig_ie_t.timqu v)) @
     field_bits 1 (ucast (pfcp_usage_rpt_trig_ie_t.volqu v)) @
     field_bits 7 (ucast (usage_rpt_trig_spare v)) @
     field_bits 1 (ucast (pfcp_usage_rpt_trig_ie_t.evequ v)) @ []"

definition encode_pfcp_usage_rpt_trig_ie_t :: "pfcp_usage_rpt_trig_ie_t \<Rightarrow> encoder" where
  "encode_pfcp_usage_rpt_trig_ie_t value = run_bytes [
     put_call (encode_pfcp_ie_header_t (header value)),
     put_bits (ucast (immer value)) 1,
     put_bits (ucast (pfcp_usage_rpt_trig_ie_t.droth value)) 1,
     put_bits (ucast (pfcp_usage_rpt_trig_ie_t.stopt value)) 1,
     put_bits (ucast (pfcp_usage_rpt_trig_ie_t.start value)) 1,
     put_bits (ucast (pfcp_usage_rpt_trig_ie_t.quhti value)) 1,
     put_bits (ucast (pfcp_usage_rpt_trig_ie_t.timth value)) 1,
     put_bits (ucast (pfcp_usage_rpt_trig_ie_t.volth value)) 1,
     put_bits (ucast (pfcp_usage_rpt_trig_ie_t.perio value)) 1,
     put_bits (ucast (pfcp_usage_rpt_trig_ie_t.eveth value)) 1,
     put_bits (ucast (pfcp_usage_rpt_trig_ie_t.macar value)) 1,
     put_bits (ucast (pfcp_usage_rpt_trig_ie_t.envcl value)) 1,
     put_bits (ucast (monit value)) 1,
     put_bits (ucast (termr value)) 1,
     put_bits (ucast (pfcp_usage_rpt_trig_ie_t.liusa value)) 1,
     put_bits (ucast (pfcp_usage_rpt_trig_ie_t.timqu value)) 1,
     put_bits (ucast (pfcp_usage_rpt_trig_ie_t.volqu value)) 1,
     put_bits (ucast (usage_rpt_trig_spare value)) 7,
     put_bits (ucast (pfcp_usage_rpt_trig_ie_t.evequ value)) 1]"

definition decode_pfcp_usage_rpt_trig_ie_t :: "pfcp_usage_rpt_trig_ie_t decoder" where
  "decode_pfcp_usage_rpt_trig_ie_t = parse_bytes [
     get_call decode_pfcp_ie_header_t header (\<lambda>x value. value\<lparr>header := x\<rparr>),
     get_bits 1 (\<lambda>x value. value\<lparr>immer := ucast x\<rparr>),
     get_bits 1 (\<lambda>x value. value\<lparr>pfcp_usage_rpt_trig_ie_t.droth := ucast x\<rparr>),
     get_bits 1 (\<lambda>x value. value\<lparr>pfcp_usage_rpt_trig_ie_t.stopt := ucast x\<rparr>),
     get_bits 1 (\<lambda>x value. value\<lparr>pfcp_usage_rpt_trig_ie_t.start := ucast x\<rparr>),
     get_bits 1 (\<lambda>x value. value\<lparr>pfcp_usage_rpt_trig_ie_t.quhti := ucast x\<rparr>),
     get_bits 1 (\<lambda>x value. value\<lparr>pfcp_usage_rpt_trig_ie_t.timth := ucast x\<rparr>),
     get_bits 1 (\<lambda>x value. value\<lparr>pfcp_usage_rpt_trig_ie_t.volth := ucast x\<rparr>),
     get_bits 1 (\<lambda>x value. value\<lparr>pfcp_usage_rpt_trig_ie_t.perio := ucast x\<rparr>),
     get_bits 1 (\<lambda>x value. value\<lparr>pfcp_usage_rpt_trig_ie_t.eveth := ucast x\<rparr>),
     get_bits 1 (\<lambda>x value. value\<lparr>pfcp_usage_rpt_trig_ie_t.macar := ucast x\<rparr>),
     get_bits 1 (\<lambda>x value. value\<lparr>pfcp_usage_rpt_trig_ie_t.envcl := ucast x\<rparr>),
     get_bits 1 (\<lambda>x value. value\<lparr>monit := ucast x\<rparr>),
     get_bits 1 (\<lambda>x value. value\<lparr>termr := ucast x\<rparr>),
     get_bits 1 (\<lambda>x value. value\<lparr>pfcp_usage_rpt_trig_ie_t.liusa := ucast x\<rparr>),
     get_bits 1 (\<lambda>x value. value\<lparr>pfcp_usage_rpt_trig_ie_t.timqu := ucast x\<rparr>),
     get_bits 1 (\<lambda>x value. value\<lparr>pfcp_usage_rpt_trig_ie_t.volqu := ucast x\<rparr>),
     get_bits 7 (\<lambda>x value. value\<lparr>usage_rpt_trig_spare := ucast x\<rparr>),
     get_bits 1 (\<lambda>x value. value\<lparr>pfcp_usage_rpt_trig_ie_t.evequ := ucast x\<rparr>)]"

interpretation usage_rpt_trig_ie: ie_codec 8 8 encode_pfcp_usage_rpt_trig_ie_t
    decode_pfcp_usage_rpt_trig_ie_t wire_pfcp_usage_rpt_trig_ie_t
    "\<lambda>_. True" "\<lambda>_. True"
  unfolding encode_pfcp_usage_rpt_trig_ie_t_def[abs_def] decode_pfcp_usage_rpt_trig_ie_t_def
    wire_pfcp_usage_rpt_trig_ie_t_def[abs_def]
  by (rule ie_codec_bytes_bytes; (intro pfcp_intros)?; simp)

record pfcp_trc_info_ie_t = pfcp_ie +
  mcc_digit_2 :: "4 word"
  mcc_digit_1 :: "4 word"
  mnc_digit_3 :: "4 word"
  mcc_digit_3 :: "4 word"
  mnc_digit_2 :: "4 word"
  mnc_digit_1 :: "4 word"
  trace_id :: "24 word"
  len_of_trigrng_evnts :: u8
  trigrng_evnts :: u8
  sess_trc_depth :: u8
  len_of_list_of_intfcs :: u8
  list_of_intfcs :: u8
  len_of_ip_addr_of_trc_coll_ent :: u8
  ip_addr_of_trc_coll_ent :: u8

definition wire_pfcp_trc_info_ie_t :: "pfcp_trc_info_ie_t \<Rightarrow> bool list" where
  "wire_pfcp_trc_info_ie_t v = wire_pfcp_ie_header_t (header v) @
     field_bits 4 (ucast (mcc_digit_2 v)) @
     field_bits 4 (ucast (mcc_digit_1 v)) @
     field_bits 4 (ucast (mnc_digit_3 v)) @
     field_bits 4 (ucast (mcc_digit_3 v)) @
     field_bits 4 (ucast (mnc_digit_2 v)) @
     field_bits 4 (ucast (mnc_digit_1 v)) @
     field_bits 24 (ucast (trace_id v)) @
     field_bits 8 (ucast (len_of_trigrng_evnts v)) @
     field_bits 8 (ucast (trigrng_evnts v)) @
     field_bits 8 (ucast (sess_trc_depth v)) @
     field_bits 8 (ucast (len_of_list_of_intfcs v)) @
     field_bits 8 (ucast (list_of_intfcs v)) @
     field_bits 8 (ucast (len_of_ip_addr_of_trc_coll_ent v)) @
     field_bits 8 (ucast (ip_addr_of_trc_coll_ent v)) @ []"

definition encode_pfcp_trc_info_ie_t :: "pfcp_trc_info_ie_t \<Rightarrow> encoder" where
  "encode_pfcp_trc_info_ie_t value = run_bytes [
     put_call (encode_pfcp_ie_header_t (header value)),
     put_bits (ucast (mcc_digit_2 value)) 4,
     put_bits (ucast (mcc_digit_1 value)) 4,
     put_bits (ucast (mnc_digit_3 value)) 4,
     put_bits (ucast (mcc_digit_3 value)) 4,
     put_bits (ucast (mnc_digit_2 value)) 4,
     put_bits (ucast (mnc_digit_1 value)) 4,
     put_bits (ucast (trace_id value)) 24,
     put_bits (ucast (len_of_trigrng_evnts value)) 8,
     put_bits (ucast (trigrng_evnts value)) 8,
     put_bits (ucast (sess_trc_depth value)) 8,
     put_bits (ucast (len_of_list_of_intfcs value)) 8,
     put_bits (ucast (list_of_intfcs value)) 8,
     put_bits (ucast (len_of_ip_addr_of_trc_coll_ent value)) 8,
     put_bits (ucast (ip_addr_of_trc_coll_ent value)) 8]"

definition decode_pfcp_trc_info_ie_t :: "pfcp_trc_info_ie_t decoder" where
  "decode_pfcp_trc_info_ie_t = parse_bytes [
     get_call decode_pfcp_ie_header_t header (\<lambda>x value. value\<lparr>header := x\<rparr>),
     get_bits 4 (\<lambda>x value. value\<lparr>mcc_digit_2 := ucast x\<rparr>),
     get_bits 4 (\<lambda>x value. value\<lparr>mcc_digit_1 := ucast x\<rparr>),
     get_bits 4 (\<lambda>x value. value\<lparr>mnc_digit_3 := ucast x\<rparr>),
     get_bits 4 (\<lambda>x value. value\<lparr>mcc_digit_3 := ucast x\<rparr>),
     get_bits 4 (\<lambda>x value. value\<lparr>mnc_digit_2 := ucast x\<rparr>),
     get_bits 4 (\<lambda>x value. value\<lparr>mnc_digit_1 := ucast x\<rparr>),
     get_bits 24 (\<lambda>x value. value\<lparr>trace_id := ucast x\<rparr>),
     get_bits 8 (\<lambda>x value. value\<lparr>len_of_trigrng_evnts := ucast x\<rparr>),
     get_bits 8 (\<lambda>x value. value\<lparr>trigrng_evnts := ucast x\<rparr>),
     get_bits 8 (\<lambda>x value. value\<lparr>sess_trc_depth := ucast x\<rparr>),
     get_bits 8 (\<lambda>x value. value\<lparr>len_of_list_of_intfcs := ucast x\<rparr>),
     get_bits 8 (\<lambda>x value. value\<lparr>list_of_intfcs := ucast x\<rparr>),
     get_bits 8 (\<lambda>x value. value\<lparr>len_of_ip_addr_of_trc_coll_ent := ucast x\<rparr>),
     get_bits 8 (\<lambda>x value. value\<lparr>ip_addr_of_trc_coll_ent := ucast x\<rparr>)]"

interpretation trc_info_ie: ie_codec 8 8 encode_pfcp_trc_info_ie_t
    decode_pfcp_trc_info_ie_t wire_pfcp_trc_info_ie_t
    "\<lambda>_. True" "\<lambda>_. True"
  unfolding encode_pfcp_trc_info_ie_t_def[abs_def] decode_pfcp_trc_info_ie_t_def
    wire_pfcp_trc_info_ie_t_def[abs_def]
  by (rule ie_codec_bytes_bytes; (intro pfcp_intros)?; simp)

record pfcp_start_time_ie_t = pfcp_ie +
  start_time :: u32

definition wire_pfcp_start_time_ie_t :: "pfcp_start_time_ie_t \<Rightarrow> bool list" where
  "wire_pfcp_start_time_ie_t v = wire_pfcp_ie_header_t (header v) @
     field_bits 32 (ucast (start_time v)) @ []"

definition encode_pfcp_start_time_ie_t :: "pfcp_start_time_ie_t \<Rightarrow> encoder" where
  "encode_pfcp_start_time_ie_t value = run_bytes [
     put_call (encode_pfcp_ie_header_t (header value)),
     put_bits (ucast (start_time value)) 32]"

definition decode_pfcp_start_time_ie_t :: "pfcp_start_time_ie_t decoder" where
  "decode_pfcp_start_time_ie_t = parse_bytes [
     get_call decode_pfcp_ie_header_t header (\<lambda>x value. value\<lparr>header := x\<rparr>),
     get_bits 32 (\<lambda>x value. value\<lparr>start_time := ucast x\<rparr>)]"

interpretation start_time_ie: ie_codec 8 8 encode_pfcp_start_time_ie_t
    decode_pfcp_start_time_ie_t wire_pfcp_start_time_ie_t
    "\<lambda>_. True" "\<lambda>_. True"
  unfolding encode_pfcp_start_time_ie_t_def[abs_def] decode_pfcp_start_time_ie_t_def
    wire_pfcp_start_time_ie_t_def[abs_def]
  by (rule ie_codec_bytes_bytes; (intro pfcp_intros)?; simp)

record pfcp_add_usage_rpts_info_ie_t = pfcp_ie +
  auri :: "1 word"
  nbr_of_add_usage_rpts_val :: "7 word"
  nbr_of_add_usage_rpts_value2 :: u8

definition wire_pfcp_add_usage_rpts_info_ie_t :: "pfcp_add_usage_rpts_info_ie_t \<Rightarrow> bool list" where
  "wire_pfcp_add_usage_rpts_info_ie_t v = wire_pfcp_ie_header_t (header v) @
     field_bits 1 (ucast (auri v)) @
     field_bits 7 (ucast (nbr_of_add_usage_rpts_val v)) @
     field_bits 8 (ucast (nbr_of_add_usage_rpts_value2 v)) @ []"

definition encode_pfcp_add_usage_rpts_info_ie_t :: "pfcp_add_usage_rpts_info_ie_t \<Rightarrow> encoder" where
  "encode_pfcp_add_usage_rpts_info_ie_t value = run_bytes [
     put_call (encode_pfcp_ie_header_t (header value)),
     put_bits (ucast (auri value)) 1,
     put_bits (ucast (nbr_of_add_usage_rpts_val value)) 7,
     put_bits (ucast (nbr_of_add_usage_rpts_value2 value)) 8]"

definition decode_pfcp_add_usage_rpts_info_ie_t :: "pfcp_add_usage_rpts_info_ie_t decoder" where
  "decode_pfcp_add_usage_rpts_info_ie_t = parse_bytes [
     get_call decode_pfcp_ie_header_t header (\<lambda>x value. value\<lparr>header := x\<rparr>),
     get_bits 1 (\<lambda>x value. value\<lparr>auri := ucast x\<rparr>),
     get_bits 7 (\<lambda>x value. value\<lparr>nbr_of_add_usage_rpts_val := ucast x\<rparr>),
     get_bits 8 (\<lambda>x value. value\<lparr>nbr_of_add_usage_rpts_value2 := ucast x\<rparr>)]"

interpretation add_usage_rpts_info_ie: ie_codec 8 8 encode_pfcp_add_usage_rpts_info_ie_t
    decode_pfcp_add_usage_rpts_info_ie_t wire_pfcp_add_usage_rpts_info_ie_t
    "\<lambda>_. True" "\<lambda>_. True"
  unfolding encode_pfcp_add_usage_rpts_info_ie_t_def[abs_def] decode_pfcp_add_usage_rpts_info_ie_t_def
    wire_pfcp_add_usage_rpts_info_ie_t_def[abs_def]
  by (rule ie_codec_bytes_bytes; (intro pfcp_intros)?; simp)

record pfcp_pfcpsrrsp_flags_ie_t = pfcp_ie +
  pfcpsrrsp_flgs_spare :: "1 word"
  pfcpsrrsp_flgs_spare2 :: "1 word"
  pfcpsrrsp_flgs_spare3 :: "1 word"
  pfcpsrrsp_flgs_spare4 :: "1 word"
  pfcpsrrsp_flgs_spare5 :: "1 word"
  pfcpsrrsp_flgs_spare6 :: "1 word"
  pfcpsrrsp_flgs_spare7 :: "1 word"
  drobu :: "1 word"

definition wire_pfcp_pfcpsrrsp_flags_ie_t :: "pfcp_pfcpsrrsp_flags_ie_t \<Rightarrow> bool list" where
  "wire_pfcp_pfcpsrrsp_flags_ie_t v = wire_pfcp_ie_header_t (header v) @
     field_bits 1 (ucast (pfcpsrrsp_flgs_spare v)) @
     field_bits 1 (ucast (pfcpsrrsp_flgs_spare2 v)) @
     field_bits 1 (ucast (pfcpsrrsp_flgs_spare3 v)) @
     field_bits 1 (ucast (pfcpsrrsp_flgs_spare4 v)) @
     field_bits 1 (ucast (pfcpsrrsp_flgs_spare5 v)) @
     field_bits 1 (ucast (pfcpsrrsp_flgs_spare6 v)) @
     field_bits 1 (ucast (pfcpsrrsp_flgs_spare7 v)) @
     field_bits 1 (ucast (pfcp_pfcpsrrsp_flags_ie_t.drobu v)) @ []"

definition encode_pfcp_pfcpsrrsp_flags_ie_t :: "pfcp_pfcpsrrsp_flags_ie_t \<Rightarrow> encoder" where
  "encode_pfcp_pfcpsrrsp_flags_ie_t value = run_bytes [
     put_call (encode_pfcp_ie_header_t (header value)),
     put_bits (ucast (pfcpsrrsp_flgs_spare value)) 1,
     put_bits (ucast (pfcpsrrsp_flgs_spare2 value)) 1,
     put_bits (ucast (pfcpsrrsp_flgs_spare3 value)) 1,
     put_bits (ucast (pfcpsrrsp_flgs_spare4 value)) 1,
     put_bits (ucast (pfcpsrrsp_flgs_spare5 value)) 1,
     put_bits (ucast (pfcpsrrsp_flgs_spare6 value)) 1,
     put_bits (ucast (pfcpsrrsp_flgs_spare7 value)) 1,
     put_bits (ucast (pfcp_pfcpsrrsp_flags_ie_t.drobu value)) 1]"

definition decode_pfcp_pfcpsrrsp_flags_ie_t :: "pfcp_pfcpsrrsp_flags_ie_t decoder" where
  "decode_pfcp_pfcpsrrsp_flags_ie_t = parse_bytes [
     get_call decode_pfcp_ie_header_t header (\<lambda>x value. value\<lparr>header := x\<rparr>),
     get_bits 1 (\<lambda>x value. value\<lparr>pfcpsrrsp_flgs_spare := ucast x\<rparr>),
     get_bits 1 (\<lambda>x value. value\<lparr>pfcpsrrsp_flgs_spare2 := ucast x\<rparr>),
     get_bits 1 (\<lambda>x value. value\<lparr>pfcpsrrsp_flgs_spare3 := ucast x\<rparr>),
     get_bits 1 (\<lambda>x value. value\<lparr>pfcpsrrsp_flgs_spare4 := ucast x\<rparr>),
     get_bits 1 (\<lambda>x value. value\<lparr>pfcpsrrsp_flgs_spare5 := ucast x\<rparr>),
     get_bits 1 (\<lambda>x value. value\<lparr>pfcpsrrsp_flgs_spare6 := ucast x\<rparr>),
     get_bits 1 (\<lambda>x value. value\<lparr>pfcpsrrsp_flgs_spare7 := ucast x\<rparr>),
     get_bits 1 (\<lambda>x value. value\<lparr>pfcp_pfcpsrrsp_flags_ie_t.drobu := ucast x\<rparr>)]"

interpretation pfcpsrrsp_flags_ie: ie_codec 8 8 encode_pfcp_pfcpsrrsp_flags_ie_t
    decode_pfcp_pfcpsrrsp_flags_ie_t wire_pfcp_pfcpsrrsp_flags_ie_t
    "\<lambda>_. True" "\<lambda>_. True"
  unfolding encode_pfcp_pfcpsrrsp_flags_ie_t_def[abs_def] decode_pfcp_pfcpsrrsp_flags_ie_t_def
    wire_pfcp_pfcpsrrsp_flags_ie_t_def[abs_def]
  by (rule ie_codec_bytes_bytes; (intro pfcp_intros)?; simp)

record pfcp_timer_ie_t = pfcp_ie +
  timer_unit :: "3 word"
  timer_value :: "5 word"

definition wire_pfcp_timer_ie_t :: "pfcp_timer_ie_t \<Rightarrow> bool list" where
  "wire_pfcp_timer_ie_t v = wire_pfcp_ie_header_t (header v) @
     field_bits 3 (ucast (pfcp_timer_ie_t.timer_unit v)) @
     field_bits 5 (ucast (pfcp_timer_ie_t.timer_value v)) @ []"

definition encode_pfcp_timer_ie_t :: "pfcp_timer_ie_t \<Rightarrow> encoder" where
  "encode_pfcp_timer_ie_t value = run_bytes [
     put_call (encode_pfcp_ie_header_t (header value)),
     put_bits (ucast (pfcp_timer_ie_t.timer_unit value)) 3,
     put_bits (ucast (pfcp_timer_ie_t.timer_value value)) 5]"

definition decode_pfcp_timer_ie_t :: "pfcp_timer_ie_t decoder" where
  "decode_pfcp_timer_ie_t = parse_bytes [
     get_call decode_pfcp_ie_header_t header (\<lambda>x value. value\<lparr>header := x\<rparr>),
     get_bits 3 (\<lambda>x value. value\<lparr>pfcp_timer_ie_t.timer_unit := ucast x\<rparr>),
     get_bits 5 (\<lambda>x value. value\<lparr>pfcp_timer_ie_t.timer_value := ucast x\<rparr>)]"

interpretation timer_ie: ie_codec 8 8 encode_pfcp_timer_ie_t
    decode_pfcp_timer_ie_t wire_pfcp_timer_ie_t
    "\<lambda>_. True" "\<lambda>_. True"
  unfolding encode_pfcp_timer_ie_t_def[abs_def] decode_pfcp_timer_ie_t_def
    wire_pfcp_timer_ie_t_def[abs_def]
  by (rule ie_codec_bytes_bytes; (intro pfcp_intros)?; simp)

record pfcp_time_of_lst_pckt_ie_t = pfcp_ie +
  time_of_lst_pckt :: u32

definition wire_pfcp_time_of_lst_pckt_ie_t :: "pfcp_time_of_lst_pckt_ie_t \<Rightarrow> bool list" where
  "wire_pfcp_time_of_lst_pckt_ie_t v = wire_pfcp_ie_header_t (header v) @
     field_bits 32 (ucast (time_of_lst_pckt v)) @ []"

definition encode_pfcp_time_of_lst_pckt_ie_t :: "pfcp_time_of_lst_pckt_ie_t \<Rightarrow> encoder" where
  "encode_pfcp_time_of_lst_pckt_ie_t value = run_bytes [
     put_call (encode_pfcp_ie_header_t (header value)),
     put_bits (ucast (time_of_lst_pckt value)) 32]"

definition decode_pfcp_time_of_lst_pckt_ie_t :: "pfcp_time_of_lst_pckt_ie_t decoder" where
  "decode_pfcp_time_of_lst_pckt_ie_t = parse_bytes [
     get_call decode_pfcp_ie_header_t header (\<lambda>x value. value\<lparr>header := x\<rparr>),
     get_bits 32 (\<lambda>x value. value\<lparr>time_of_lst_pckt := ucast x\<rparr>)]"

interpretation time_of_lst_pckt_ie: ie_codec 8 8 encode_pfcp_time_of_lst_pckt_ie_t
    decode_pfcp_time_of_lst_pckt_ie_t wire_pfcp_time_of_lst_pckt_ie_t
    "\<lambda>_. True" "\<lambda>_. True"
  unfolding encode_pfcp_time_of_lst_pckt_ie_t_def[abs_def] decode_pfcp_time_of_lst_pckt_ie_t_def
    wire_pfcp_time_of_lst_pckt_ie_t_def[abs_def]
  by (rule ie_codec_bytes_bytes; (intro pfcp_intros)?; simp)

record pfcp_graceful_rel_period_ie_t = pfcp_ie +
  timer_unit :: "3 word"
  timer_value :: "5 word"

definition wire_pfcp_graceful_rel_period_ie_t :: "pfcp_graceful_rel_period_ie_t \<Rightarrow> bool list" where
  "wire_pfcp_graceful_rel_period_ie_t v = wire_pfcp_ie_header_t (header v) @
     field_bits 3 (ucast (pfcp_graceful_rel_period_ie_t.timer_unit v)) @
     field_bits 5 (ucast (pfcp_graceful_rel_period_ie_t.timer_value v)) @ []"

definition encode_pfcp_graceful_rel_period_ie_t :: "pfcp_graceful_rel_period_ie_t \<Rightarrow> encoder" where
  "encode_pfcp_graceful_rel_period_ie_t value = run_bytes [
     put_call (encode_pfcp_ie_header_t (header value)),
     put_bits (ucast (pfcp_graceful_rel_period_ie_t.timer_unit value)) 3,
     put_bits (ucast (pfcp_graceful_rel_period_ie_t.timer_value value)) 5]"

definition decode_pfcp_graceful_rel_period_ie_t :: "pfcp_graceful_rel_period_ie_t decoder" where
  "decode_pfcp_graceful_rel_period_ie_t = parse_bytes [
     get_call decode_pfcp_ie_header_t header (\<lambda>x value. value\<lparr>header := x\<rparr>),
     get_bits 3 (\<lambda>x value. value\<lparr>pfcp_graceful_rel_period_ie_t.timer_unit := ucast x\<rparr>),
     get_bits 5 (\<lambda>x value. value\<lparr>pfcp_graceful_rel_period_ie_t.timer_value := ucast x\<rparr>)]"

interpretation graceful_rel_period_ie: ie_codec 8 8 encode_pfcp_graceful_rel_period_ie_t
    decode_pfcp_graceful_rel_period_ie_t wire_pfcp_graceful_rel_period_ie_t
    "\<lambda>_. True" "\<lambda>_. True"
  unfolding encode_pfcp_graceful_rel_period_ie_t_def[abs_def] decode_pfcp_graceful_rel_period_ie_t_def
    wire_pfcp_graceful_rel_period_ie_t_def[abs_def]
  by (rule ie_codec_bytes_bytes; (intro pfcp_intros)?; simp)

record pfcp_agg_urr_id_ie_t = pfcp_ie +
  urr_id_value :: u32

definition wire_pfcp_agg_urr_id_ie_t :: "pfcp_agg_urr_id_ie_t \<Rightarrow> bool list" where
  "wire_pfcp_agg_urr_id_ie_t v = wire_pfcp_ie_header_t (header v) @
     field_bits 32 (ucast (pfcp_agg_urr_id_ie_t.urr_id_value v)) @ []"

definition encode_pfcp_agg_urr_id_ie_t :: "pfcp_agg_urr_id_ie_t \<Rightarrow> encoder" where
  "encode_pfcp_agg_urr_id_ie_t value = run_bytes [
     put_call (encode_pfcp_ie_header_t (header value)),
     put_bits (ucast (pfcp_agg_urr_id_ie_t.urr_id_value value)) 32]"

definition decode_pfcp_agg_urr_id_ie_t :: "pfcp_agg_urr_id_ie_t decoder" where
  "decode_pfcp_agg_urr_id_ie_t = parse_bytes [
     get_call decode_pfcp_ie_header_t header (\<lambda>x value. value\<lparr>header := x\<rparr>),
     get_bits 32 (\<lambda>x value. value\<lparr>pfcp_agg_urr_id_ie_t.urr_id_value := ucast x\<rparr>)]"

interpretation agg_urr_id_ie: ie_codec 8 8 encode_pfcp_agg_urr_id_ie_t
    decode_pfcp_agg_urr_id_ie_t wire_pfcp_agg_urr_id_ie_t
    "\<lambda>_. True" "\<lambda>_. True"
  unfolding encode_pfcp_agg_urr_id_ie_t_def[abs_def] decode_pfcp_agg_urr_id_ie_t_def
    wire_pfcp_agg_urr_id_ie_t_def[abs_def]
  by (rule ie_codec_bytes_bytes; (intro pfcp_intros)?; simp)

record pfcp_oci_flags_ie_t = pfcp_ie +
  oci_flags_spare :: "7 word"
  aoci :: "1 word"

definition wire_pfcp_oci_flags_ie_t :: "pfcp_oci_flags_ie_t \<Rightarrow> bool list" where
  "wire_pfcp_oci_flags_ie_t v = wire_pfcp_ie_header_t (header v) @
     field_bits 7 (ucast (oci_flags_spare v)) @
     field_bits 1 (ucast (aoci v)) @ []"

definition encode_pfcp_oci_flags_ie_t :: "pfcp_oci_flags_ie_t \<Rightarrow> encoder" where
  "encode_pfcp_oci_flags_ie_t value = run_bytes [
     put_call (encode_pfcp_ie_header_t (header value)),
     put_bits (ucast (oci_flags_spare value)) 7,
     put_bits (ucast (aoci value)) 1]"

definition decode_pfcp_oci_flags_ie_t :: "pfcp_oci_flags_ie_t decoder" where
  "decode_pfcp_oci_flags_ie_t = parse_bytes [
     get_call decode_pfcp_ie_header_t header (\<lambda>x value. value\<lparr>header := x\<rparr>),
     get_bits 7 (\<lambda>x value. value\<lparr>oci_flags_spare := ucast x\<rparr>),
     get_bits 1 (\<lambda>x value. value\<lparr>aoci := ucast x\<rparr>)]"

interpretation oci_flags_ie: ie_codec 8 8 encode_pfcp_oci_flags_ie_t
    decode_pfcp_oci_flags_ie_t wire_pfcp_oci_flags_ie_t
    "\<lambda>_. True" "\<lambda>_. True"
  unfolding encode_pfcp_oci_flags_ie_t_def[abs_def] decode_pfcp_oci_flags_ie_t_def
    wire_pfcp_oci_flags_ie_t_def[abs_def]
  by (rule ie_codec_bytes_bytes; (intro pfcp_intros)?; simp)

record pfcp_eth_fltr_props_ie_t = pfcp_ie +
  eth_fltr_props_spare :: "7 word"
  bide :: "1 word"

definition wire_pfcp_eth_fltr_props_ie_t :: "pfcp_eth_fltr_props_ie_t \<Rightarrow> bool list" where
  "wire_pfcp_eth_fltr_props_ie_t v = wire_pfcp_ie_header_t (header v) @
     field_bits 7 (ucast (eth_fltr_props_spare v)) @
     field_bits 1 (ucast (bide v)) @ []"

definition encode_pfcp_eth_fltr_props_ie_t :: "pfcp_eth_fltr_props_ie_t \<Rightarrow> encoder" where
  "encode_pfcp_eth_fltr_props_ie_t value = run_bytes [
     put_call (encode_pfcp_ie_header_t (header value)),
     put_bits (ucast (eth_fltr_props_spare value)) 7,
     put_bits (ucast (bide value)) 1]"

definition decode_pfcp_eth_fltr_props_ie_t :: "pfcp_eth_fltr_props_ie_t decoder" where
  "decode_pfcp_eth_fltr_props_ie_t = parse_bytes [
     get_call decode_pfcp_ie_header_t header (\<lambda>x value. value\<lparr>header := x\<rparr>),
     get_bits 7 (\<lambda>x value. value\<lparr>eth_fltr_props_spare := ucast x\<rparr>),
     get_bits 1 (\<lambda>x value. value\<lparr>bide := ucast x\<rparr>)]"

interpretation eth_fltr_props_ie: ie_codec 8 8 encode_pfcp_eth_fltr_props_ie_t
    decode_pfcp_eth_fltr_props_ie_t wire_pfcp_eth_fltr_props_ie_t
    "\<lambda>_. True" "\<lambda>_. True"
  unfolding encode_pfcp_eth_fltr_props_ie_t_def[abs_def] decode_pfcp_eth_fltr_props_ie_t_def
    wire_pfcp_eth_fltr_props_ie_t_def[abs_def]
  by (rule ie_codec_bytes_bytes; (intro pfcp_intros)?; simp)

section \<open>Properties\<close>



end
