(* ===== verification/Pfcp_Ies_Rules.thy ===== *)
theory Pfcp_Ies_Rules
  imports Pfcp_Ie_Header
begin

text \<open>
  The PFCP information elements made of fixed bit fields whose encoder returns bits: the elements
  that occur inside grouped elements (identifiers of rules, interfaces, actions, rates, thresholds,
  quotas).  The organisation is that of \<open>Pfcp_Ies_Session\<close>.  The action flag \<open>drop\<close> is called
  \<open>drop_f\<close>.
\<close>

record pfcp_linked_urr_id_ie_t = pfcp_ie +
  lnkd_urr_id_val :: u32

definition wire_pfcp_linked_urr_id_ie_t :: "pfcp_linked_urr_id_ie_t \<Rightarrow> bool list" where
  "wire_pfcp_linked_urr_id_ie_t v = wire_pfcp_ie_header_t (header v) @
     field_bits 32 (ucast (lnkd_urr_id_val v)) @ []"

definition encode_pfcp_linked_urr_id_ie_t :: "pfcp_linked_urr_id_ie_t \<Rightarrow> encoder" where
  "encode_pfcp_linked_urr_id_ie_t value = run_bits [
     put_call (encode_pfcp_ie_header_t (header value)),
     put_bits (ucast (lnkd_urr_id_val value)) 32]"

definition decode_pfcp_linked_urr_id_ie_t :: "pfcp_linked_urr_id_ie_t decoder" where
  "decode_pfcp_linked_urr_id_ie_t = parse_bytes [
     get_call decode_pfcp_ie_header_t header (\<lambda>x value. value\<lparr>header := x\<rparr>),
     get_bits 32 (\<lambda>x value. value\<lparr>lnkd_urr_id_val := ucast x\<rparr>)]"

interpretation linked_urr_id_ie: ie_codec 1 8 encode_pfcp_linked_urr_id_ie_t
    decode_pfcp_linked_urr_id_ie_t wire_pfcp_linked_urr_id_ie_t
    "\<lambda>_. True" "\<lambda>_. True"
  unfolding encode_pfcp_linked_urr_id_ie_t_def[abs_def] decode_pfcp_linked_urr_id_ie_t_def
    wire_pfcp_linked_urr_id_ie_t_def[abs_def]
  by (rule ie_codec_bits_bytes; (intro pfcp_intros)?; simp)

record pfcp_bar_id_ie_t = pfcp_ie +
  bar_id_value :: u8

definition wire_pfcp_bar_id_ie_t :: "pfcp_bar_id_ie_t \<Rightarrow> bool list" where
  "wire_pfcp_bar_id_ie_t v = wire_pfcp_ie_header_t (header v) @
     field_bits 8 (ucast (bar_id_value v)) @ []"

definition encode_pfcp_bar_id_ie_t :: "pfcp_bar_id_ie_t \<Rightarrow> encoder" where
  "encode_pfcp_bar_id_ie_t value = run_bits [
     put_call (encode_pfcp_ie_header_t (header value)),
     put_bits (ucast (bar_id_value value)) 8]"

definition decode_pfcp_bar_id_ie_t :: "pfcp_bar_id_ie_t decoder" where
  "decode_pfcp_bar_id_ie_t = parse_bytes [
     get_call decode_pfcp_ie_header_t header (\<lambda>x value. value\<lparr>header := x\<rparr>),
     get_bits 8 (\<lambda>x value. value\<lparr>bar_id_value := ucast x\<rparr>)]"

interpretation bar_id_ie: ie_codec 1 8 encode_pfcp_bar_id_ie_t
    decode_pfcp_bar_id_ie_t wire_pfcp_bar_id_ie_t
    "\<lambda>_. True" "\<lambda>_. True"
  unfolding encode_pfcp_bar_id_ie_t_def[abs_def] decode_pfcp_bar_id_ie_t_def
    wire_pfcp_bar_id_ie_t_def[abs_def]
  by (rule ie_codec_bits_bytes; (intro pfcp_intros)?; simp)

record pfcp_dnlnk_data_svc_info_ie_t = pfcp_ie +
  dnlnk_data_svc_info_spare :: "6 word"
  qfii :: "1 word"
  ppi :: "1 word"
  dnlnk_data_svc_info_spare2 :: "2 word"
  paging_plcy_indctn_val :: "6 word"
  dnlnk_data_svc_info_spare3 :: "2 word"
  qfi :: "6 word"

definition wire_pfcp_dnlnk_data_svc_info_ie_t :: "pfcp_dnlnk_data_svc_info_ie_t \<Rightarrow> bool list" where
  "wire_pfcp_dnlnk_data_svc_info_ie_t v = wire_pfcp_ie_header_t (header v) @
     field_bits 6 (ucast (dnlnk_data_svc_info_spare v)) @
     field_bits 1 (ucast (qfii v)) @
     field_bits 1 (ucast (ppi v)) @
     field_bits 2 (ucast (dnlnk_data_svc_info_spare2 v)) @
     field_bits 6 (ucast (paging_plcy_indctn_val v)) @
     field_bits 2 (ucast (dnlnk_data_svc_info_spare3 v)) @
     field_bits 6 (ucast (qfi v)) @ []"

definition encode_pfcp_dnlnk_data_svc_info_ie_t :: "pfcp_dnlnk_data_svc_info_ie_t \<Rightarrow> encoder" where
  "encode_pfcp_dnlnk_data_svc_info_ie_t value = run_bits [
     put_call (encode_pfcp_ie_header_t (header value)),
     put_bits (ucast (dnlnk_data_svc_info_spare value)) 6,
     put_bits (ucast (qfii value)) 1,
     put_bits (ucast (ppi value)) 1,
     put_bits (ucast (dnlnk_data_svc_info_spare2 value)) 2,
     put_bits (ucast (paging_plcy_indctn_val value)) 6,
     put_bits (ucast (dnlnk_data_svc_info_spare3 value)) 2,
     put_bits (ucast (qfi value)) 6]"

definition decode_pfcp_dnlnk_data_svc_info_ie_t :: "pfcp_dnlnk_data_svc_info_ie_t decoder" where
  "decode_pfcp_dnlnk_data_svc_info_ie_t = parse_bytes [
     get_call decode_pfcp_ie_header_t header (\<lambda>x value. value\<lparr>header := x\<rparr>),
     get_bits 6 (\<lambda>x value. value\<lparr>dnlnk_data_svc_info_spare := ucast x\<rparr>),
     get_bits 1 (\<lambda>x value. value\<lparr>qfii := ucast x\<rparr>),
     get_bits 1 (\<lambda>x value. value\<lparr>ppi := ucast x\<rparr>),
     get_bits 2 (\<lambda>x value. value\<lparr>dnlnk_data_svc_info_spare2 := ucast x\<rparr>),
     get_bits 6 (\<lambda>x value. value\<lparr>paging_plcy_indctn_val := ucast x\<rparr>),
     get_bits 2 (\<lambda>x value. value\<lparr>dnlnk_data_svc_info_spare3 := ucast x\<rparr>),
     get_bits 6 (\<lambda>x value. value\<lparr>qfi := ucast x\<rparr>)]"

interpretation dnlnk_data_svc_info_ie: ie_codec 1 8 encode_pfcp_dnlnk_data_svc_info_ie_t
    decode_pfcp_dnlnk_data_svc_info_ie_t wire_pfcp_dnlnk_data_svc_info_ie_t
    "\<lambda>_. True" "\<lambda>_. True"
  unfolding encode_pfcp_dnlnk_data_svc_info_ie_t_def[abs_def] decode_pfcp_dnlnk_data_svc_info_ie_t_def
    wire_pfcp_dnlnk_data_svc_info_ie_t_def[abs_def]
  by (rule ie_codec_bits_bytes; (intro pfcp_intros)?; simp)

record pfcp_sbsqnt_evnt_quota_ie_t = pfcp_ie +
  sbsqnt_evnt_quota :: u32

definition wire_pfcp_sbsqnt_evnt_quota_ie_t :: "pfcp_sbsqnt_evnt_quota_ie_t \<Rightarrow> bool list" where
  "wire_pfcp_sbsqnt_evnt_quota_ie_t v = wire_pfcp_ie_header_t (header v) @
     field_bits 32 (ucast (pfcp_sbsqnt_evnt_quota_ie_t.sbsqnt_evnt_quota v)) @ []"

definition encode_pfcp_sbsqnt_evnt_quota_ie_t :: "pfcp_sbsqnt_evnt_quota_ie_t \<Rightarrow> encoder" where
  "encode_pfcp_sbsqnt_evnt_quota_ie_t value = run_bits [
     put_call (encode_pfcp_ie_header_t (header value)),
     put_bits (ucast (pfcp_sbsqnt_evnt_quota_ie_t.sbsqnt_evnt_quota value)) 32]"

definition decode_pfcp_sbsqnt_evnt_quota_ie_t :: "pfcp_sbsqnt_evnt_quota_ie_t decoder" where
  "decode_pfcp_sbsqnt_evnt_quota_ie_t = parse_bytes [
     get_call decode_pfcp_ie_header_t header (\<lambda>x value. value\<lparr>header := x\<rparr>),
     get_bits 32 (\<lambda>x value. value\<lparr>pfcp_sbsqnt_evnt_quota_ie_t.sbsqnt_evnt_quota := ucast x\<rparr>)]"

interpretation sbsqnt_evnt_quota_ie: ie_codec 1 8 encode_pfcp_sbsqnt_evnt_quota_ie_t
    decode_pfcp_sbsqnt_evnt_quota_ie_t wire_pfcp_sbsqnt_evnt_quota_ie_t
    "\<lambda>_. True" "\<lambda>_. True"
  unfolding encode_pfcp_sbsqnt_evnt_quota_ie_t_def[abs_def] decode_pfcp_sbsqnt_evnt_quota_ie_t_def
    wire_pfcp_sbsqnt_evnt_quota_ie_t_def[abs_def]
  by (rule ie_codec_bits_bytes; (intro pfcp_intros)?; simp)

record pfcp_gate_status_ie_t = pfcp_ie +
  gate_status_spare :: "4 word"
  ul_gate :: "2 word"
  dl_gate :: "2 word"

definition wire_pfcp_gate_status_ie_t :: "pfcp_gate_status_ie_t \<Rightarrow> bool list" where
  "wire_pfcp_gate_status_ie_t v = wire_pfcp_ie_header_t (header v) @
     field_bits 4 (ucast (gate_status_spare v)) @
     field_bits 2 (ucast (ul_gate v)) @
     field_bits 2 (ucast (dl_gate v)) @ []"

definition encode_pfcp_gate_status_ie_t :: "pfcp_gate_status_ie_t \<Rightarrow> encoder" where
  "encode_pfcp_gate_status_ie_t value = run_bits [
     put_call (encode_pfcp_ie_header_t (header value)),
     put_bits (ucast (gate_status_spare value)) 4,
     put_bits (ucast (ul_gate value)) 2,
     put_bits (ucast (dl_gate value)) 2]"

definition decode_pfcp_gate_status_ie_t :: "pfcp_gate_status_ie_t decoder" where
  "decode_pfcp_gate_status_ie_t = parse_bytes [
     get_call decode_pfcp_ie_header_t header (\<lambda>x value. value\<lparr>header := x\<rparr>),
     get_bits 4 (\<lambda>x value. value\<lparr>gate_status_spare := ucast x\<rparr>),
     get_bits 2 (\<lambda>x value. value\<lparr>ul_gate := ucast x\<rparr>),
     get_bits 2 (\<lambda>x value. value\<lparr>dl_gate := ucast x\<rparr>)]"

interpretation gate_status_ie: ie_codec 1 8 encode_pfcp_gate_status_ie_t
    decode_pfcp_gate_status_ie_t wire_pfcp_gate_status_ie_t
    "\<lambda>_. True" "\<lambda>_. True"
  unfolding encode_pfcp_gate_status_ie_t_def[abs_def] decode_pfcp_gate_status_ie_t_def
    wire_pfcp_gate_status_ie_t_def[abs_def]
  by (rule ie_codec_bits_bytes; (intro pfcp_intros)?; simp)

record pfcp_suggstd_buf_pckts_cnt_ie_t = pfcp_ie +
  pckt_cnt_val :: u8

definition wire_pfcp_suggstd_buf_pckts_cnt_ie_t :: "pfcp_suggstd_buf_pckts_cnt_ie_t \<Rightarrow> bool list" where
  "wire_pfcp_suggstd_buf_pckts_cnt_ie_t v = wire_pfcp_ie_header_t (header v) @
     field_bits 8 (ucast (pfcp_suggstd_buf_pckts_cnt_ie_t.pckt_cnt_val v)) @ []"

definition encode_pfcp_suggstd_buf_pckts_cnt_ie_t :: "pfcp_suggstd_buf_pckts_cnt_ie_t \<Rightarrow> encoder" where
  "encode_pfcp_suggstd_buf_pckts_cnt_ie_t value = run_bits [
     put_call (encode_pfcp_ie_header_t (header value)),
     put_bits (ucast (pfcp_suggstd_buf_pckts_cnt_ie_t.pckt_cnt_val value)) 8]"

definition decode_pfcp_suggstd_buf_pckts_cnt_ie_t :: "pfcp_suggstd_buf_pckts_cnt_ie_t decoder" where
  "decode_pfcp_suggstd_buf_pckts_cnt_ie_t = parse_bytes [
     get_call decode_pfcp_ie_header_t header (\<lambda>x value. value\<lparr>header := x\<rparr>),
     get_bits 8 (\<lambda>x value. value\<lparr>pfcp_suggstd_buf_pckts_cnt_ie_t.pckt_cnt_val := ucast x\<rparr>)]"

interpretation suggstd_buf_pckts_cnt_ie: ie_codec 1 8 encode_pfcp_suggstd_buf_pckts_cnt_ie_t
    decode_pfcp_suggstd_buf_pckts_cnt_ie_t wire_pfcp_suggstd_buf_pckts_cnt_ie_t
    "\<lambda>_. True" "\<lambda>_. True"
  unfolding encode_pfcp_suggstd_buf_pckts_cnt_ie_t_def[abs_def] decode_pfcp_suggstd_buf_pckts_cnt_ie_t_def
    wire_pfcp_suggstd_buf_pckts_cnt_ie_t_def[abs_def]
  by (rule ie_codec_bits_bytes; (intro pfcp_intros)?; simp)

record pfcp_time_quota_ie_t = pfcp_ie +
  time_quota_val :: u32

definition wire_pfcp_time_quota_ie_t :: "pfcp_time_quota_ie_t \<Rightarrow> bool list" where
  "wire_pfcp_time_quota_ie_t v = wire_pfcp_ie_header_t (header v) @
     field_bits 32 (ucast (pfcp_time_quota_ie_t.time_quota_val v)) @ []"

definition encode_pfcp_time_quota_ie_t :: "pfcp_time_quota_ie_t \<Rightarrow> encoder" where
  "encode_pfcp_time_quota_ie_t value = run_bits [
     put_call (encode_pfcp_ie_header_t (header value)),
     put_bits (ucast (pfcp_time_quota_ie_t.time_quota_val value)) 32]"

definition decode_pfcp_time_quota_ie_t :: "pfcp_time_quota_ie_t decoder" where
  "decode_pfcp_time_quota_ie_t = parse_bytes [
     get_call decode_pfcp_ie_header_t header (\<lambda>x value. value\<lparr>header := x\<rparr>),
     get_bits 32 (\<lambda>x value. value\<lparr>pfcp_time_quota_ie_t.time_quota_val := ucast x\<rparr>)]"

interpretation time_quota_ie: ie_codec 1 8 encode_pfcp_time_quota_ie_t
    decode_pfcp_time_quota_ie_t wire_pfcp_time_quota_ie_t
    "\<lambda>_. True" "\<lambda>_. True"
  unfolding encode_pfcp_time_quota_ie_t_def[abs_def] decode_pfcp_time_quota_ie_t_def
    wire_pfcp_time_quota_ie_t_def[abs_def]
  by (rule ie_codec_bits_bytes; (intro pfcp_intros)?; simp)

record pfcp_apply_action_ie_t = pfcp_ie +
  apply_act_spare :: "1 word"
  apply_act_spare2 :: "1 word"
  apply_act_spare3 :: "1 word"
  dupl :: "1 word"
  nocp :: "1 word"
  buff :: "1 word"
  forw :: "1 word"
  drop_f :: "1 word"

definition wire_pfcp_apply_action_ie_t :: "pfcp_apply_action_ie_t \<Rightarrow> bool list" where
  "wire_pfcp_apply_action_ie_t v = wire_pfcp_ie_header_t (header v) @
     field_bits 1 (ucast (apply_act_spare v)) @
     field_bits 1 (ucast (apply_act_spare2 v)) @
     field_bits 1 (ucast (apply_act_spare3 v)) @
     field_bits 1 (ucast (dupl v)) @
     field_bits 1 (ucast (nocp v)) @
     field_bits 1 (ucast (buff v)) @
     field_bits 1 (ucast (forw v)) @
     field_bits 1 (ucast (drop_f v)) @ []"

definition encode_pfcp_apply_action_ie_t :: "pfcp_apply_action_ie_t \<Rightarrow> encoder" where
  "encode_pfcp_apply_action_ie_t value = run_bits [
     put_call (encode_pfcp_ie_header_t (header value)),
     put_bits (ucast (apply_act_spare value)) 1,
     put_bits (ucast (apply_act_spare2 value)) 1,
     put_bits (ucast (apply_act_spare3 value)) 1,
     put_bits (ucast (dupl value)) 1,
     put_bits (ucast (nocp value)) 1,
     put_bits (ucast (buff value)) 1,
     put_bits (ucast (forw value)) 1,
     put_bits (ucast (drop_f value)) 1]"

definition decode_pfcp_apply_action_ie_t :: "pfcp_apply_action_ie_t decoder" where
  "decode_pfcp_apply_action_ie_t = parse_bytes [
     get_call decode_pfcp_ie_header_t header (\<lambda>x value. value\<lparr>header := x\<rparr>),
     get_bits 1 (\<lambda>x value. value\<lparr>apply_act_spare := ucast x\<rparr>),
     get_bits 1 (\<lambda>x value. value\<lparr>apply_act_spare2 := ucast x\<rparr>),
     get_bits 1 (\<lambda>x value. value\<lparr>apply_act_spare3 := ucast x\<rparr>),
     get_bits 1 (\<lambda>x value. value\<lparr>dupl := ucast x\<rparr>),
     get_bits 1 (\<lambda>x value. value\<lparr>nocp := ucast x\<rparr>),
     get_bits 1 (\<lambda>x value. value\<lparr>buff := ucast x\<rparr>),
     get_bits 1 (\<lambda>x value. value\<lparr>forw := ucast x\<rparr>),
     get_bits 1 (\<lambda>x value. value\<lparr>drop_f := ucast x\<rparr>)]"

interpretation apply_action_ie: ie_codec 1 8 encode_pfcp_apply_action_ie_t
    decode_pfcp_apply_action_ie_t wire_pfcp_apply_action_ie_t
    "\<lambda>_. True" "\<lambda>_. True"
  unfolding encode_pfcp_apply_action_ie_t_def[abs_def] decode_pfcp_apply_action_ie_t_def
    wire_pfcp_apply_action_ie_t_def[abs_def]
  by (rule ie_codec_bits_bytes; (intro pfcp_intros)?; simp)

record pfcp_meas_period_ie_t = pfcp_ie +
  meas_period :: u32

definition wire_pfcp_meas_period_ie_t :: "pfcp_meas_period_ie_t \<Rightarrow> bool list" where
  "wire_pfcp_meas_period_ie_t v = wire_pfcp_ie_header_t (header v) @
     field_bits 32 (ucast (meas_period v)) @ []"

definition encode_pfcp_meas_period_ie_t :: "pfcp_meas_period_ie_t \<Rightarrow> encoder" where
  "encode_pfcp_meas_period_ie_t value = run_bits [
     put_call (encode_pfcp_ie_header_t (header value)),
     put_bits (ucast (meas_period value)) 32]"

definition decode_pfcp_meas_period_ie_t :: "pfcp_meas_period_ie_t decoder" where
  "decode_pfcp_meas_period_ie_t = parse_bytes [
     get_call decode_pfcp_ie_header_t header (\<lambda>x value. value\<lparr>header := x\<rparr>),
     get_bits 32 (\<lambda>x value. value\<lparr>meas_period := ucast x\<rparr>)]"

interpretation meas_period_ie: ie_codec 1 8 encode_pfcp_meas_period_ie_t
    decode_pfcp_meas_period_ie_t wire_pfcp_meas_period_ie_t
    "\<lambda>_. True" "\<lambda>_. True"
  unfolding encode_pfcp_meas_period_ie_t_def[abs_def] decode_pfcp_meas_period_ie_t_def
    wire_pfcp_meas_period_ie_t_def[abs_def]
  by (rule ie_codec_bits_bytes; (intro pfcp_intros)?; simp)

record pfcp_inact_det_time_ie_t = pfcp_ie +
  inact_det_time :: u32

definition wire_pfcp_inact_det_time_ie_t :: "pfcp_inact_det_time_ie_t \<Rightarrow> bool list" where
  "wire_pfcp_inact_det_time_ie_t v = wire_pfcp_ie_header_t (header v) @
     field_bits 32 (ucast (inact_det_time v)) @ []"

definition encode_pfcp_inact_det_time_ie_t :: "pfcp_inact_det_time_ie_t \<Rightarrow> encoder" where
  "encode_pfcp_inact_det_time_ie_t value = run_bits [
     put_call (encode_pfcp_ie_header_t (header value)),
     put_bits (ucast (inact_det_time value)) 32]"

definition decode_pfcp_inact_det_time_ie_t :: "pfcp_inact_det_time_ie_t decoder" where
  "decode_pfcp_inact_det_time_ie_t = parse_bytes [
     get_call decode_pfcp_ie_header_t header (\<lambda>x value. value\<lparr>header := x\<rparr>),
     get_bits 32 (\<lambda>x value. value\<lparr>inact_det_time := ucast x\<rparr>)]"

interpretation inact_det_time_ie: ie_codec 1 8 encode_pfcp_inact_det_time_ie_t
    decode_pfcp_inact_det_time_ie_t wire_pfcp_inact_det_time_ie_t
    "\<lambda>_. True" "\<lambda>_. True"
  unfolding encode_pfcp_inact_det_time_ie_t_def[abs_def] decode_pfcp_inact_det_time_ie_t_def
    wire_pfcp_inact_det_time_ie_t_def[abs_def]
  by (rule ie_codec_bits_bytes; (intro pfcp_intros)?; simp)

record pfcp_meas_mthd_ie_t = pfcp_ie +
  meas_mthd_spare :: "1 word"
  meas_mthd_spare2 :: "1 word"
  meas_mthd_spare3 :: "1 word"
  meas_mthd_spare4 :: "1 word"
  meas_mthd_spare5 :: "1 word"
  event :: "1 word"
  volum :: "1 word"
  durat :: "1 word"

definition wire_pfcp_meas_mthd_ie_t :: "pfcp_meas_mthd_ie_t \<Rightarrow> bool list" where
  "wire_pfcp_meas_mthd_ie_t v = wire_pfcp_ie_header_t (header v) @
     field_bits 1 (ucast (meas_mthd_spare v)) @
     field_bits 1 (ucast (meas_mthd_spare2 v)) @
     field_bits 1 (ucast (meas_mthd_spare3 v)) @
     field_bits 1 (ucast (meas_mthd_spare4 v)) @
     field_bits 1 (ucast (meas_mthd_spare5 v)) @
     field_bits 1 (ucast (event v)) @
     field_bits 1 (ucast (volum v)) @
     field_bits 1 (ucast (durat v)) @ []"

definition encode_pfcp_meas_mthd_ie_t :: "pfcp_meas_mthd_ie_t \<Rightarrow> encoder" where
  "encode_pfcp_meas_mthd_ie_t value = run_bits [
     put_call (encode_pfcp_ie_header_t (header value)),
     put_bits (ucast (meas_mthd_spare value)) 1,
     put_bits (ucast (meas_mthd_spare2 value)) 1,
     put_bits (ucast (meas_mthd_spare3 value)) 1,
     put_bits (ucast (meas_mthd_spare4 value)) 1,
     put_bits (ucast (meas_mthd_spare5 value)) 1,
     put_bits (ucast (event value)) 1,
     put_bits (ucast (volum value)) 1,
     put_bits (ucast (durat value)) 1]"

definition decode_pfcp_meas_mthd_ie_t :: "pfcp_meas_mthd_ie_t decoder" where
  "decode_pfcp_meas_mthd_ie_t = parse_bytes [
     get_call decode_pfcp_ie_header_t header (\<lambda>x value. value\<lparr>header := x\<rparr>),
     get_bits 1 (\<lambda>x value. value\<lparr>meas_mthd_spare := ucast x\<rparr>),
     get_bits 1 (\<lambda>x value. value\<lparr>meas_mthd_spare2 := ucast x\<rparr>),
     get_bits 1 (\<lambda>x value. value\<lparr>meas_mthd_spare3 := ucast x\<rparr>),
     get_bits 1 (\<lambda>x value. value\<lparr>meas_mthd_spare4 := ucast x\<rparr>),
     get_bits 1 (\<lambda>x value. value\<lparr>meas_mthd_spare5 := ucast x\<rparr>),
     get_bits 1 (\<lambda>x value. value\<lparr>event := ucast x\<rparr>),
     get_bits 1 (\<lambda>x value. value\<lparr>volum := ucast x\<rparr>),
     get_bits 1 (\<lambda>x value. value\<lparr>durat := ucast x\<rparr>)]"

interpretation meas_mthd_ie: ie_codec 1 8 encode_pfcp_meas_mthd_ie_t
    decode_pfcp_meas_mthd_ie_t wire_pfcp_meas_mthd_ie_t
    "\<lambda>_. True" "\<lambda>_. True"
  unfolding encode_pfcp_meas_mthd_ie_t_def[abs_def] decode_pfcp_meas_mthd_ie_t_def
    wire_pfcp_meas_mthd_ie_t_def[abs_def]
  by (rule ie_codec_bits_bytes; (intro pfcp_intros)?; simp)

record pfcp_paging_plcy_indctr_ie_t = pfcp_ie +
  paging_plcy_indctr_spare :: "5 word"
  ppi_value :: "3 word"

definition wire_pfcp_paging_plcy_indctr_ie_t :: "pfcp_paging_plcy_indctr_ie_t \<Rightarrow> bool list" where
  "wire_pfcp_paging_plcy_indctr_ie_t v = wire_pfcp_ie_header_t (header v) @
     field_bits 5 (ucast (paging_plcy_indctr_spare v)) @
     field_bits 3 (ucast (ppi_value v)) @ []"

definition encode_pfcp_paging_plcy_indctr_ie_t :: "pfcp_paging_plcy_indctr_ie_t \<Rightarrow> encoder" where
  "encode_pfcp_paging_plcy_indctr_ie_t value = run_bits [
     put_call (encode_pfcp_ie_header_t (header value)),
     put_bits (ucast (paging_plcy_indctr_spare value)) 5,
     put_bits (ucast (ppi_value value)) 3]"

definition decode_pfcp_paging_plcy_indctr_ie_t :: "pfcp_paging_plcy_indctr_ie_t decoder" where
  "decode_pfcp_paging_plcy_indctr_ie_t = parse_bytes [
     get_call decode_pfcp_ie_header_t header (\<lambda>x value. value\<lparr>header := x\<rparr>),
     get_bits 5 (\<lambda>x value. value\<lparr>paging_plcy_indctr_spare := ucast x\<rparr>),
     get_bits 3 (\<lambda>x value. value\<lparr>ppi_value := ucast x\<rparr>)]"

interpretation paging_plcy_indctr_ie: ie_codec 1 8 encode_pfcp_paging_plcy_indctr_ie_t
    decode_pfcp_paging_plcy_indctr_ie_t wire_pfcp_paging_plcy_indctr_ie_t
    "\<lambda>_. True" "\<lambda>_. True"
  unfolding encode_pfcp_paging_plcy_indctr_ie_t_def[abs_def] decode_pfcp_paging_plcy_indctr_ie_t_def
    wire_pfcp_paging_plcy_indctr_ie_t_def[abs_def]
  by (rule ie_codec_bits_bytes; (intro pfcp_intros)?; simp)

record pfcp_framed_routing_ie_t = pfcp_ie +
  framed_routing :: u32

definition wire_pfcp_framed_routing_ie_t :: "pfcp_framed_routing_ie_t \<Rightarrow> bool list" where
  "wire_pfcp_framed_routing_ie_t v = wire_pfcp_ie_header_t (header v) @
     field_bits 32 (ucast (framed_routing v)) @ []"

definition encode_pfcp_framed_routing_ie_t :: "pfcp_framed_routing_ie_t \<Rightarrow> encoder" where
  "encode_pfcp_framed_routing_ie_t value = run_bits [
     put_call (encode_pfcp_ie_header_t (header value)),
     put_bits (ucast (framed_routing value)) 32]"

definition decode_pfcp_framed_routing_ie_t :: "pfcp_framed_routing_ie_t decoder" where
  "decode_pfcp_framed_routing_ie_t = parse_bytes [
     get_call decode_pfcp_ie_header_t header (\<lambda>x value. value\<lparr>header := x\<rparr>),
     get_bits 32 (\<lambda>x value. value\<lparr>framed_routing := ucast x\<rparr>)]"

interpretation framed_routing_ie: ie_codec 1 8 encode_pfcp_framed_routing_ie_t
    decode_pfcp_framed_routing_ie_t wire_pfcp_framed_routing_ie_t
    "\<lambda>_. True" "\<lambda>_. True"
  unfolding encode_pfcp_framed_routing_ie_t_def[abs_def] decode_pfcp_framed_routing_ie_t_def
    wire_pfcp_framed_routing_ie_t_def[abs_def]
  by (rule ie_codec_bits_bytes; (intro pfcp_intros)?; simp)

record pfcp_time_quota_mech_ie_t = pfcp_ie +
  time_quota_mech_spare :: "6 word"
  btit :: "2 word"
  base_time_int :: u32

definition wire_pfcp_time_quota_mech_ie_t :: "pfcp_time_quota_mech_ie_t \<Rightarrow> bool list" where
  "wire_pfcp_time_quota_mech_ie_t v = wire_pfcp_ie_header_t (header v) @
     field_bits 6 (ucast (time_quota_mech_spare v)) @
     field_bits 2 (ucast (btit v)) @
     field_bits 32 (ucast (base_time_int v)) @ []"

definition encode_pfcp_time_quota_mech_ie_t :: "pfcp_time_quota_mech_ie_t \<Rightarrow> encoder" where
  "encode_pfcp_time_quota_mech_ie_t value = run_bits [
     put_call (encode_pfcp_ie_header_t (header value)),
     put_bits (ucast (time_quota_mech_spare value)) 6,
     put_bits (ucast (btit value)) 2,
     put_bits (ucast (base_time_int value)) 32]"

definition decode_pfcp_time_quota_mech_ie_t :: "pfcp_time_quota_mech_ie_t decoder" where
  "decode_pfcp_time_quota_mech_ie_t = parse_bytes [
     get_call decode_pfcp_ie_header_t header (\<lambda>x value. value\<lparr>header := x\<rparr>),
     get_bits 6 (\<lambda>x value. value\<lparr>time_quota_mech_spare := ucast x\<rparr>),
     get_bits 2 (\<lambda>x value. value\<lparr>btit := ucast x\<rparr>),
     get_bits 32 (\<lambda>x value. value\<lparr>base_time_int := ucast x\<rparr>)]"

interpretation time_quota_mech_ie: ie_codec 1 8 encode_pfcp_time_quota_mech_ie_t
    decode_pfcp_time_quota_mech_ie_t wire_pfcp_time_quota_mech_ie_t
    "\<lambda>_. True" "\<lambda>_. True"
  unfolding encode_pfcp_time_quota_mech_ie_t_def[abs_def] decode_pfcp_time_quota_mech_ie_t_def
    wire_pfcp_time_quota_mech_ie_t_def[abs_def]
  by (rule ie_codec_bits_bytes; (intro pfcp_intros)?; simp)

record pfcp_quota_hldng_time_ie_t = pfcp_ie +
  quota_hldng_time_val :: u32

definition wire_pfcp_quota_hldng_time_ie_t :: "pfcp_quota_hldng_time_ie_t \<Rightarrow> bool list" where
  "wire_pfcp_quota_hldng_time_ie_t v = wire_pfcp_ie_header_t (header v) @
     field_bits 32 (ucast (quota_hldng_time_val v)) @ []"

definition encode_pfcp_quota_hldng_time_ie_t :: "pfcp_quota_hldng_time_ie_t \<Rightarrow> encoder" where
  "encode_pfcp_quota_hldng_time_ie_t value = run_bits [
     put_call (encode_pfcp_ie_header_t (header value)),
     put_bits (ucast (quota_hldng_time_val value)) 32]"

definition decode_pfcp_quota_hldng_time_ie_t :: "pfcp_quota_hldng_time_ie_t decoder" where
  "decode_pfcp_quota_hldng_time_ie_t = parse_bytes [
     get_call decode_pfcp_ie_header_t header (\<lambda>x value. value\<lparr>header := x\<rparr>),
     get_bits 32 (\<lambda>x value. value\<lparr>quota_hldng_time_val := ucast x\<rparr>)]"

interpretation quota_hldng_time_ie: ie_codec 1 8 encode_pfcp_quota_hldng_time_ie_t
    decode_pfcp_quota_hldng_time_ie_t wire_pfcp_quota_hldng_time_ie_t
    "\<lambda>_. True" "\<lambda>_. True"
  unfolding encode_pfcp_quota_hldng_time_ie_t_def[abs_def] decode_pfcp_quota_hldng_time_ie_t_def
    wire_pfcp_quota_hldng_time_ie_t_def[abs_def]
  by (rule ie_codec_bits_bytes; (intro pfcp_intros)?; simp)

record pfcp_gbr_ie_t = pfcp_ie +
  ul_gbr :: "40 word"
  dl_gbr :: "40 word"

definition wire_pfcp_gbr_ie_t :: "pfcp_gbr_ie_t \<Rightarrow> bool list" where
  "wire_pfcp_gbr_ie_t v = wire_pfcp_ie_header_t (header v) @
     field_bits 40 (ucast (ul_gbr v)) @
     field_bits 40 (ucast (dl_gbr v)) @ []"

definition encode_pfcp_gbr_ie_t :: "pfcp_gbr_ie_t \<Rightarrow> encoder" where
  "encode_pfcp_gbr_ie_t value = run_bits [
     put_call (encode_pfcp_ie_header_t (header value)),
     put_bits (ucast (ul_gbr value)) 40,
     put_bits (ucast (dl_gbr value)) 40]"

definition decode_pfcp_gbr_ie_t :: "pfcp_gbr_ie_t decoder" where
  "decode_pfcp_gbr_ie_t = parse_bytes [
     get_call decode_pfcp_ie_header_t header (\<lambda>x value. value\<lparr>header := x\<rparr>),
     get_bits 40 (\<lambda>x value. value\<lparr>ul_gbr := ucast x\<rparr>),
     get_bits 40 (\<lambda>x value. value\<lparr>dl_gbr := ucast x\<rparr>)]"

interpretation gbr_ie: ie_codec 1 8 encode_pfcp_gbr_ie_t
    decode_pfcp_gbr_ie_t wire_pfcp_gbr_ie_t
    "\<lambda>_. True" "\<lambda>_. True"
  unfolding encode_pfcp_gbr_ie_t_def[abs_def] decode_pfcp_gbr_ie_t_def
    wire_pfcp_gbr_ie_t_def[abs_def]
  by (rule ie_codec_bits_bytes; (intro pfcp_intros)?; simp)

record pfcp_traffic_endpt_id_ie_t = pfcp_ie +
  traffic_endpt_id_val :: u8

definition wire_pfcp_traffic_endpt_id_ie_t :: "pfcp_traffic_endpt_id_ie_t \<Rightarrow> bool list" where
  "wire_pfcp_traffic_endpt_id_ie_t v = wire_pfcp_ie_header_t (header v) @
     field_bits 8 (ucast (traffic_endpt_id_val v)) @ []"

definition encode_pfcp_traffic_endpt_id_ie_t :: "pfcp_traffic_endpt_id_ie_t \<Rightarrow> encoder" where
  "encode_pfcp_traffic_endpt_id_ie_t value = run_bits [
     put_call (encode_pfcp_ie_header_t (header value)),
     put_bits (ucast (traffic_endpt_id_val value)) 8]"

definition decode_pfcp_traffic_endpt_id_ie_t :: "pfcp_traffic_endpt_id_ie_t decoder" where
  "decode_pfcp_traffic_endpt_id_ie_t = parse_bytes [
     get_call decode_pfcp_ie_header_t header (\<lambda>x value. value\<lparr>header := x\<rparr>),
     get_bits 8 (\<lambda>x value. value\<lparr>traffic_endpt_id_val := ucast x\<rparr>)]"

interpretation traffic_endpt_id_ie: ie_codec 1 8 encode_pfcp_traffic_endpt_id_ie_t
    decode_pfcp_traffic_endpt_id_ie_t wire_pfcp_traffic_endpt_id_ie_t
    "\<lambda>_. True" "\<lambda>_. True"
  unfolding encode_pfcp_traffic_endpt_id_ie_t_def[abs_def] decode_pfcp_traffic_endpt_id_ie_t_def
    wire_pfcp_traffic_endpt_id_ie_t_def[abs_def]
  by (rule ie_codec_bits_bytes; (intro pfcp_intros)?; simp)

record pfcp_event_quota_ie_t = pfcp_ie +
  sbsqnt_evnt_quota :: u32

definition wire_pfcp_event_quota_ie_t :: "pfcp_event_quota_ie_t \<Rightarrow> bool list" where
  "wire_pfcp_event_quota_ie_t v = wire_pfcp_ie_header_t (header v) @
     field_bits 32 (ucast (pfcp_event_quota_ie_t.sbsqnt_evnt_quota v)) @ []"

definition encode_pfcp_event_quota_ie_t :: "pfcp_event_quota_ie_t \<Rightarrow> encoder" where
  "encode_pfcp_event_quota_ie_t value = run_bits [
     put_call (encode_pfcp_ie_header_t (header value)),
     put_bits (ucast (pfcp_event_quota_ie_t.sbsqnt_evnt_quota value)) 32]"

definition decode_pfcp_event_quota_ie_t :: "pfcp_event_quota_ie_t decoder" where
  "decode_pfcp_event_quota_ie_t = parse_bytes [
     get_call decode_pfcp_ie_header_t header (\<lambda>x value. value\<lparr>header := x\<rparr>),
     get_bits 32 (\<lambda>x value. value\<lparr>pfcp_event_quota_ie_t.sbsqnt_evnt_quota := ucast x\<rparr>)]"

interpretation event_quota_ie: ie_codec 1 8 encode_pfcp_event_quota_ie_t
    decode_pfcp_event_quota_ie_t wire_pfcp_event_quota_ie_t
    "\<lambda>_. True" "\<lambda>_. True"
  unfolding encode_pfcp_event_quota_ie_t_def[abs_def] decode_pfcp_event_quota_ie_t_def
    wire_pfcp_event_quota_ie_t_def[abs_def]
  by (rule ie_codec_bits_bytes; (intro pfcp_intros)?; simp)

record pfcp_sbsqnt_time_quota_ie_t = pfcp_ie +
  time_quota_val :: u32

definition wire_pfcp_sbsqnt_time_quota_ie_t :: "pfcp_sbsqnt_time_quota_ie_t \<Rightarrow> bool list" where
  "wire_pfcp_sbsqnt_time_quota_ie_t v = wire_pfcp_ie_header_t (header v) @
     field_bits 32 (ucast (pfcp_sbsqnt_time_quota_ie_t.time_quota_val v)) @ []"

definition encode_pfcp_sbsqnt_time_quota_ie_t :: "pfcp_sbsqnt_time_quota_ie_t \<Rightarrow> encoder" where
  "encode_pfcp_sbsqnt_time_quota_ie_t value = run_bits [
     put_call (encode_pfcp_ie_header_t (header value)),
     put_bits (ucast (pfcp_sbsqnt_time_quota_ie_t.time_quota_val value)) 32]"

definition decode_pfcp_sbsqnt_time_quota_ie_t :: "pfcp_sbsqnt_time_quota_ie_t decoder" where
  "decode_pfcp_sbsqnt_time_quota_ie_t = parse_bytes [
     get_call decode_pfcp_ie_header_t header (\<lambda>x value. value\<lparr>header := x\<rparr>),
     get_bits 32 (\<lambda>x value. value\<lparr>pfcp_sbsqnt_time_quota_ie_t.time_quota_val := ucast x\<rparr>)]"

interpretation sbsqnt_time_quota_ie: ie_codec 1 8 encode_pfcp_sbsqnt_time_quota_ie_t
    decode_pfcp_sbsqnt_time_quota_ie_t wire_pfcp_sbsqnt_time_quota_ie_t
    "\<lambda>_. True" "\<lambda>_. True"
  unfolding encode_pfcp_sbsqnt_time_quota_ie_t_def[abs_def] decode_pfcp_sbsqnt_time_quota_ie_t_def
    wire_pfcp_sbsqnt_time_quota_ie_t_def[abs_def]
  by (rule ie_codec_bits_bytes; (intro pfcp_intros)?; simp)

record pfcp_qer_corr_id_ie_t = pfcp_ie +
  qer_corr_id_val :: u32

definition wire_pfcp_qer_corr_id_ie_t :: "pfcp_qer_corr_id_ie_t \<Rightarrow> bool list" where
  "wire_pfcp_qer_corr_id_ie_t v = wire_pfcp_ie_header_t (header v) @
     field_bits 32 (ucast (qer_corr_id_val v)) @ []"

definition encode_pfcp_qer_corr_id_ie_t :: "pfcp_qer_corr_id_ie_t \<Rightarrow> encoder" where
  "encode_pfcp_qer_corr_id_ie_t value = run_bits [
     put_call (encode_pfcp_ie_header_t (header value)),
     put_bits (ucast (qer_corr_id_val value)) 32]"

definition decode_pfcp_qer_corr_id_ie_t :: "pfcp_qer_corr_id_ie_t decoder" where
  "decode_pfcp_qer_corr_id_ie_t = parse_bytes [
     get_call decode_pfcp_ie_header_t header (\<lambda>x value. value\<lparr>header := x\<rparr>),
     get_bits 32 (\<lambda>x value. value\<lparr>qer_corr_id_val := ucast x\<rparr>)]"

interpretation qer_corr_id_ie: ie_codec 1 8 encode_pfcp_qer_corr_id_ie_t
    decode_pfcp_qer_corr_id_ie_t wire_pfcp_qer_corr_id_ie_t
    "\<lambda>_. True" "\<lambda>_. True"
  unfolding encode_pfcp_qer_corr_id_ie_t_def[abs_def] decode_pfcp_qer_corr_id_ie_t_def
    wire_pfcp_qer_corr_id_ie_t_def[abs_def]
  by (rule ie_codec_bits_bytes; (intro pfcp_intros)?; simp)

record pfcp_far_id_ie_t = pfcp_ie +
  far_id_value :: u32

definition wire_pfcp_far_id_ie_t :: "pfcp_far_id_ie_t \<Rightarrow> bool list" where
  "wire_pfcp_far_id_ie_t v = wire_pfcp_ie_header_t (header v) @
     field_bits 32 (ucast (far_id_value v)) @ []"

definition encode_pfcp_far_id_ie_t :: "pfcp_far_id_ie_t \<Rightarrow> encoder" where
  "encode_pfcp_far_id_ie_t value = run_bits [
     put_call (encode_pfcp_ie_header_t (header value)),
     put_bits (ucast (far_id_value value)) 32]"

definition decode_pfcp_far_id_ie_t :: "pfcp_far_id_ie_t decoder" where
  "decode_pfcp_far_id_ie_t = parse_bytes [
     get_call decode_pfcp_ie_header_t header (\<lambda>x value. value\<lparr>header := x\<rparr>),
     get_bits 32 (\<lambda>x value. value\<lparr>far_id_value := ucast x\<rparr>)]"

interpretation far_id_ie: ie_codec 1 8 encode_pfcp_far_id_ie_t
    decode_pfcp_far_id_ie_t wire_pfcp_far_id_ie_t
    "\<lambda>_. True" "\<lambda>_. True"
  unfolding encode_pfcp_far_id_ie_t_def[abs_def] decode_pfcp_far_id_ie_t_def
    wire_pfcp_far_id_ie_t_def[abs_def]
  by (rule ie_codec_bits_bytes; (intro pfcp_intros)?; simp)

record pfcp_rptng_triggers_ie_t = pfcp_ie +
  liusa :: "1 word"
  droth :: "1 word"
  stopt :: "1 word"
  start :: "1 word"
  quhti :: "1 word"
  timth :: "1 word"
  volth :: "1 word"
  perio :: "1 word"
  rptng_triggers_spare :: "1 word"
  rptng_triggers_spare2 :: "1 word"
  evequ :: "1 word"
  eveth :: "1 word"
  macar :: "1 word"
  envcl :: "1 word"
  timqu :: "1 word"
  volqu :: "1 word"

definition wire_pfcp_rptng_triggers_ie_t :: "pfcp_rptng_triggers_ie_t \<Rightarrow> bool list" where
  "wire_pfcp_rptng_triggers_ie_t v = wire_pfcp_ie_header_t (header v) @
     field_bits 1 (ucast (pfcp_rptng_triggers_ie_t.liusa v)) @
     field_bits 1 (ucast (pfcp_rptng_triggers_ie_t.droth v)) @
     field_bits 1 (ucast (pfcp_rptng_triggers_ie_t.stopt v)) @
     field_bits 1 (ucast (pfcp_rptng_triggers_ie_t.start v)) @
     field_bits 1 (ucast (pfcp_rptng_triggers_ie_t.quhti v)) @
     field_bits 1 (ucast (pfcp_rptng_triggers_ie_t.timth v)) @
     field_bits 1 (ucast (pfcp_rptng_triggers_ie_t.volth v)) @
     field_bits 1 (ucast (pfcp_rptng_triggers_ie_t.perio v)) @
     field_bits 1 (ucast (rptng_triggers_spare v)) @
     field_bits 1 (ucast (rptng_triggers_spare2 v)) @
     field_bits 1 (ucast (pfcp_rptng_triggers_ie_t.evequ v)) @
     field_bits 1 (ucast (pfcp_rptng_triggers_ie_t.eveth v)) @
     field_bits 1 (ucast (pfcp_rptng_triggers_ie_t.macar v)) @
     field_bits 1 (ucast (pfcp_rptng_triggers_ie_t.envcl v)) @
     field_bits 1 (ucast (pfcp_rptng_triggers_ie_t.timqu v)) @
     field_bits 1 (ucast (pfcp_rptng_triggers_ie_t.volqu v)) @ []"

definition encode_pfcp_rptng_triggers_ie_t :: "pfcp_rptng_triggers_ie_t \<Rightarrow> encoder" where
  "encode_pfcp_rptng_triggers_ie_t value = run_bits [
     put_call (encode_pfcp_ie_header_t (header value)),
     put_bits (ucast (pfcp_rptng_triggers_ie_t.liusa value)) 1,
     put_bits (ucast (pfcp_rptng_triggers_ie_t.droth value)) 1,
     put_bits (ucast (pfcp_rptng_triggers_ie_t.stopt value)) 1,
     put_bits (ucast (pfcp_rptng_triggers_ie_t.start value)) 1,
     put_bits (ucast (pfcp_rptng_triggers_ie_t.quhti value)) 1,
     put_bits (ucast (pfcp_rptng_triggers_ie_t.timth value)) 1,
     put_bits (ucast (pfcp_rptng_triggers_ie_t.volth value)) 1,
     put_bits (ucast (pfcp_rptng_triggers_ie_t.perio value)) 1,
     put_bits (ucast (rptng_triggers_spare value)) 1,
     put_bits (ucast (rptng_triggers_spare2 value)) 1,
     put_bits (ucast (pfcp_rptng_triggers_ie_t.evequ value)) 1,
     put_bits (ucast (pfcp_rptng_triggers_ie_t.eveth value)) 1,
     put_bits (ucast (pfcp_rptng_triggers_ie_t.macar value)) 1,
     put_bits (ucast (pfcp_rptng_triggers_ie_t.envcl value)) 1,
     put_bits (ucast (pfcp_rptng_triggers_ie_t.timqu value)) 1,
     put_bits (ucast (pfcp_rptng_triggers_ie_t.volqu value)) 1]"

definition decode_pfcp_rptng_triggers_ie_t :: "pfcp_rptng_triggers_ie_t decoder" where
  "decode_pfcp_rptng_triggers_ie_t = parse_bytes [
     get_call decode_pfcp_ie_header_t header (\<lambda>x value. value\<lparr>header := x\<rparr>),
     get_bits 1 (\<lambda>x value. value\<lparr>pfcp_rptng_triggers_ie_t.liusa := ucast x\<rparr>),
     get_bits 1 (\<lambda>x value. value\<lparr>pfcp_rptng_triggers_ie_t.droth := ucast x\<rparr>),
     get_bits 1 (\<lambda>x value. value\<lparr>pfcp_rptng_triggers_ie_t.stopt := ucast x\<rparr>),
     get_bits 1 (\<lambda>x value. value\<lparr>pfcp_rptng_triggers_ie_t.start := ucast x\<rparr>),
     get_bits 1 (\<lambda>x value. value\<lparr>pfcp_rptng_triggers_ie_t.quhti := ucast x\<rparr>),
     get_bits 1 (\<lambda>x value. value\<lparr>pfcp_rptng_triggers_ie_t.timth := ucast x\<rparr>),
     get_bits 1 (\<lambda>x value. value\<lparr>pfcp_rptng_triggers_ie_t.volth := ucast x\<rparr>),
     get_bits 1 (\<lambda>x value. value\<lparr>pfcp_rptng_triggers_ie_t.perio := ucast x\<rparr>),
     get_bits 1 (\<lambda>x value. value\<lparr>rptng_triggers_spare := ucast x\<rparr>),
     get_bits 1 (\<lambda>x value. value\<lparr>rptng_triggers_spare2 := ucast x\<rparr>),
     get_bits 1 (\<lambda>x value. value\<lparr>pfcp_rptng_triggers_ie_t.evequ := ucast x\<rparr>),
     get_bits 1 (\<lambda>x value. value\<lparr>pfcp_rptng_triggers_ie_t.eveth := ucast x\<rparr>),
     get_bits 1 (\<lambda>x value. value\<lparr>pfcp_rptng_triggers_ie_t.macar := ucast x\<rparr>),
     get_bits 1 (\<lambda>x value. value\<lparr>pfcp_rptng_triggers_ie_t.envcl := ucast x\<rparr>),
     get_bits 1 (\<lambda>x value. value\<lparr>pfcp_rptng_triggers_ie_t.timqu := ucast x\<rparr>),
     get_bits 1 (\<lambda>x value. value\<lparr>pfcp_rptng_triggers_ie_t.volqu := ucast x\<rparr>)]"

interpretation rptng_triggers_ie: ie_codec 1 8 encode_pfcp_rptng_triggers_ie_t
    decode_pfcp_rptng_triggers_ie_t wire_pfcp_rptng_triggers_ie_t
    "\<lambda>_. True" "\<lambda>_. True"
  unfolding encode_pfcp_rptng_triggers_ie_t_def[abs_def] decode_pfcp_rptng_triggers_ie_t_def
    wire_pfcp_rptng_triggers_ie_t_def[abs_def]
  by (rule ie_codec_bits_bytes; (intro pfcp_intros)?; simp)

record pfcp_qer_id_ie_t = pfcp_ie +
  qer_id_value :: u32

definition wire_pfcp_qer_id_ie_t :: "pfcp_qer_id_ie_t \<Rightarrow> bool list" where
  "wire_pfcp_qer_id_ie_t v = wire_pfcp_ie_header_t (header v) @
     field_bits 32 (ucast (qer_id_value v)) @ []"

definition encode_pfcp_qer_id_ie_t :: "pfcp_qer_id_ie_t \<Rightarrow> encoder" where
  "encode_pfcp_qer_id_ie_t value = run_bits [
     put_call (encode_pfcp_ie_header_t (header value)),
     put_bits (ucast (qer_id_value value)) 32]"

definition decode_pfcp_qer_id_ie_t :: "pfcp_qer_id_ie_t decoder" where
  "decode_pfcp_qer_id_ie_t = parse_bytes [
     get_call decode_pfcp_ie_header_t header (\<lambda>x value. value\<lparr>header := x\<rparr>),
     get_bits 32 (\<lambda>x value. value\<lparr>qer_id_value := ucast x\<rparr>)]"

interpretation qer_id_ie: ie_codec 1 8 encode_pfcp_qer_id_ie_t
    decode_pfcp_qer_id_ie_t wire_pfcp_qer_id_ie_t
    "\<lambda>_. True" "\<lambda>_. True"
  unfolding encode_pfcp_qer_id_ie_t_def[abs_def] decode_pfcp_qer_id_ie_t_def
    wire_pfcp_qer_id_ie_t_def[abs_def]
  by (rule ie_codec_bits_bytes; (intro pfcp_intros)?; simp)

record pfcp_monitoring_time_ie_t = pfcp_ie +
  monitoring_time :: u32

definition wire_pfcp_monitoring_time_ie_t :: "pfcp_monitoring_time_ie_t \<Rightarrow> bool list" where
  "wire_pfcp_monitoring_time_ie_t v = wire_pfcp_ie_header_t (header v) @
     field_bits 32 (ucast (monitoring_time v)) @ []"

definition encode_pfcp_monitoring_time_ie_t :: "pfcp_monitoring_time_ie_t \<Rightarrow> encoder" where
  "encode_pfcp_monitoring_time_ie_t value = run_bits [
     put_call (encode_pfcp_ie_header_t (header value)),
     put_bits (ucast (monitoring_time value)) 32]"

definition decode_pfcp_monitoring_time_ie_t :: "pfcp_monitoring_time_ie_t decoder" where
  "decode_pfcp_monitoring_time_ie_t = parse_bytes [
     get_call decode_pfcp_ie_header_t header (\<lambda>x value. value\<lparr>header := x\<rparr>),
     get_bits 32 (\<lambda>x value. value\<lparr>monitoring_time := ucast x\<rparr>)]"

interpretation monitoring_time_ie: ie_codec 1 8 encode_pfcp_monitoring_time_ie_t
    decode_pfcp_monitoring_time_ie_t wire_pfcp_monitoring_time_ie_t
    "\<lambda>_. True" "\<lambda>_. True"
  unfolding encode_pfcp_monitoring_time_ie_t_def[abs_def] decode_pfcp_monitoring_time_ie_t_def
    wire_pfcp_monitoring_time_ie_t_def[abs_def]
  by (rule ie_codec_bits_bytes; (intro pfcp_intros)?; simp)

record pfcp_precedence_ie_t = pfcp_ie +
  prcdnc_val :: u32

definition wire_pfcp_precedence_ie_t :: "pfcp_precedence_ie_t \<Rightarrow> bool list" where
  "wire_pfcp_precedence_ie_t v = wire_pfcp_ie_header_t (header v) @
     field_bits 32 (ucast (prcdnc_val v)) @ []"

definition encode_pfcp_precedence_ie_t :: "pfcp_precedence_ie_t \<Rightarrow> encoder" where
  "encode_pfcp_precedence_ie_t value = run_bits [
     put_call (encode_pfcp_ie_header_t (header value)),
     put_bits (ucast (prcdnc_val value)) 32]"

definition decode_pfcp_precedence_ie_t :: "pfcp_precedence_ie_t decoder" where
  "decode_pfcp_precedence_ie_t = parse_bytes [
     get_call decode_pfcp_ie_header_t header (\<lambda>x value. value\<lparr>header := x\<rparr>),
     get_bits 32 (\<lambda>x value. value\<lparr>prcdnc_val := ucast x\<rparr>)]"

interpretation precedence_ie: ie_codec 1 8 encode_pfcp_precedence_ie_t
    decode_pfcp_precedence_ie_t wire_pfcp_precedence_ie_t
    "\<lambda>_. True" "\<lambda>_. True"
  unfolding encode_pfcp_precedence_ie_t_def[abs_def] decode_pfcp_precedence_ie_t_def
    wire_pfcp_precedence_ie_t_def[abs_def]
  by (rule ie_codec_bits_bytes; (intro pfcp_intros)?; simp)

record pfcp_event_threshold_ie_t = pfcp_ie +
  event_threshold :: u32

definition wire_pfcp_event_threshold_ie_t :: "pfcp_event_threshold_ie_t \<Rightarrow> bool list" where
  "wire_pfcp_event_threshold_ie_t v = wire_pfcp_ie_header_t (header v) @
     field_bits 32 (ucast (event_threshold v)) @ []"

definition encode_pfcp_event_threshold_ie_t :: "pfcp_event_threshold_ie_t \<Rightarrow> encoder" where
  "encode_pfcp_event_threshold_ie_t value = run_bits [
     put_call (encode_pfcp_ie_header_t (header value)),
     put_bits (ucast (event_threshold value)) 32]"

definition decode_pfcp_event_threshold_ie_t :: "pfcp_event_threshold_ie_t decoder" where
  "decode_pfcp_event_threshold_ie_t = parse_bytes [
     get_call decode_pfcp_ie_header_t header (\<lambda>x value. value\<lparr>header := x\<rparr>),
     get_bits 32 (\<lambda>x value. value\<lparr>event_threshold := ucast x\<rparr>)]"

interpretation event_threshold_ie: ie_codec 1 8 encode_pfcp_event_threshold_ie_t
    decode_pfcp_event_threshold_ie_t wire_pfcp_event_threshold_ie_t
    "\<lambda>_. True" "\<lambda>_. True"
  unfolding encode_pfcp_event_threshold_ie_t_def[abs_def] decode_pfcp_event_threshold_ie_t_def
    wire_pfcp_event_threshold_ie_t_def[abs_def]
  by (rule ie_codec_bits_bytes; (intro pfcp_intros)?; simp)

record pfcp_outer_hdr_removal_ie_t = pfcp_ie +
  outer_hdr_removal_desc :: u8

definition wire_pfcp_outer_hdr_removal_ie_t :: "pfcp_outer_hdr_removal_ie_t \<Rightarrow> bool list" where
  "wire_pfcp_outer_hdr_removal_ie_t v = wire_pfcp_ie_header_t (header v) @
     field_bits 8 (ucast (outer_hdr_removal_desc v)) @ []"

definition encode_pfcp_outer_hdr_removal_ie_t :: "pfcp_outer_hdr_removal_ie_t \<Rightarrow> encoder" where
  "encode_pfcp_outer_hdr_removal_ie_t value = run_bits [
     put_call (encode_pfcp_ie_header_t (header value)),
     put_bits (ucast (outer_hdr_removal_desc value)) 8]"

definition decode_pfcp_outer_hdr_removal_ie_t :: "pfcp_outer_hdr_removal_ie_t decoder" where
  "decode_pfcp_outer_hdr_removal_ie_t = parse_bytes [
     get_call decode_pfcp_ie_header_t header (\<lambda>x value. value\<lparr>header := x\<rparr>),
     get_bits 8 (\<lambda>x value. value\<lparr>outer_hdr_removal_desc := ucast x\<rparr>)]"

interpretation outer_hdr_removal_ie: ie_codec 1 8 encode_pfcp_outer_hdr_removal_ie_t
    decode_pfcp_outer_hdr_removal_ie_t wire_pfcp_outer_hdr_removal_ie_t
    "\<lambda>_. True" "\<lambda>_. True"
  unfolding encode_pfcp_outer_hdr_removal_ie_t_def[abs_def] decode_pfcp_outer_hdr_removal_ie_t_def
    wire_pfcp_outer_hdr_removal_ie_t_def[abs_def]
  by (rule ie_codec_bits_bytes; (intro pfcp_intros)?; simp)

record pfcp_dst_intfc_ie_t = pfcp_ie +
  dst_intfc_spare :: "4 word"
  interface_value :: "4 word"

definition wire_pfcp_dst_intfc_ie_t :: "pfcp_dst_intfc_ie_t \<Rightarrow> bool list" where
  "wire_pfcp_dst_intfc_ie_t v = wire_pfcp_ie_header_t (header v) @
     field_bits 4 (ucast (dst_intfc_spare v)) @
     field_bits 4 (ucast (pfcp_dst_intfc_ie_t.interface_value v)) @ []"

definition encode_pfcp_dst_intfc_ie_t :: "pfcp_dst_intfc_ie_t \<Rightarrow> encoder" where
  "encode_pfcp_dst_intfc_ie_t value = run_bits [
     put_call (encode_pfcp_ie_header_t (header value)),
     put_bits (ucast (dst_intfc_spare value)) 4,
     put_bits (ucast (pfcp_dst_intfc_ie_t.interface_value value)) 4]"

definition decode_pfcp_dst_intfc_ie_t :: "pfcp_dst_intfc_ie_t decoder" where
  "decode_pfcp_dst_intfc_ie_t = parse_bytes [
     get_call decode_pfcp_ie_header_t header (\<lambda>x value. value\<lparr>header := x\<rparr>),
     get_bits 4 (\<lambda>x value. value\<lparr>dst_intfc_spare := ucast x\<rparr>),
     get_bits 4 (\<lambda>x value. value\<lparr>pfcp_dst_intfc_ie_t.interface_value := ucast x\<rparr>)]"

interpretation dst_intfc_ie: ie_codec 1 8 encode_pfcp_dst_intfc_ie_t
    decode_pfcp_dst_intfc_ie_t wire_pfcp_dst_intfc_ie_t
    "\<lambda>_. True" "\<lambda>_. True"
  unfolding encode_pfcp_dst_intfc_ie_t_def[abs_def] decode_pfcp_dst_intfc_ie_t_def
    wire_pfcp_dst_intfc_ie_t_def[abs_def]
  by (rule ie_codec_bits_bytes; (intro pfcp_intros)?; simp)

record pfcp_pdr_id_ie_t = pfcp_ie +
  rule_id :: u16

definition wire_pfcp_pdr_id_ie_t :: "pfcp_pdr_id_ie_t \<Rightarrow> bool list" where
  "wire_pfcp_pdr_id_ie_t v = wire_pfcp_ie_header_t (header v) @
     field_bits 16 (ucast (rule_id v)) @ []"

definition encode_pfcp_pdr_id_ie_t :: "pfcp_pdr_id_ie_t \<Rightarrow> encoder" where
  "encode_pfcp_pdr_id_ie_t value = run_bits [
     put_call (encode_pfcp_ie_header_t (header value)),
     put_bits (ucast (rule_id value)) 16]"

definition decode_pfcp_pdr_id_ie_t :: "pfcp_pdr_id_ie_t decoder" where
  "decode_pfcp_pdr_id_ie_t = parse_bytes [
     get_call decode_pfcp_ie_header_t header (\<lambda>x value. value\<lparr>header := x\<rparr>),
     get_bits 16 (\<lambda>x value. value\<lparr>rule_id := ucast x\<rparr>)]"

interpretation pdr_id_ie: ie_codec 1 8 encode_pfcp_pdr_id_ie_t
    decode_pfcp_pdr_id_ie_t wire_pfcp_pdr_id_ie_t
    "\<lambda>_. True" "\<lambda>_. True"
  unfolding encode_pfcp_pdr_id_ie_t_def[abs_def] decode_pfcp_pdr_id_ie_t_def
    wire_pfcp_pdr_id_ie_t_def[abs_def]
  by (rule ie_codec_bits_bytes; (intro pfcp_intros)?; simp)

record pfcp_sbsqnt_evnt_thresh_ie_t = pfcp_ie +
  sbsqnt_evnt_thresh :: u32

definition wire_pfcp_sbsqnt_evnt_thresh_ie_t :: "pfcp_sbsqnt_evnt_thresh_ie_t \<Rightarrow> bool list" where
  "wire_pfcp_sbsqnt_evnt_thresh_ie_t v = wire_pfcp_ie_header_t (header v) @
     field_bits 32 (ucast (sbsqnt_evnt_thresh v)) @ []"

definition encode_pfcp_sbsqnt_evnt_thresh_ie_t :: "pfcp_sbsqnt_evnt_thresh_ie_t \<Rightarrow> encoder" where
  "encode_pfcp_sbsqnt_evnt_thresh_ie_t value = run_bits [
     put_call (encode_pfcp_ie_header_t (header value)),
     put_bits (ucast (sbsqnt_evnt_thresh value)) 32]"

definition decode_pfcp_sbsqnt_evnt_thresh_ie_t :: "pfcp_sbsqnt_evnt_thresh_ie_t decoder" where
  "decode_pfcp_sbsqnt_evnt_thresh_ie_t = parse_bytes [
     get_call decode_pfcp_ie_header_t header (\<lambda>x value. value\<lparr>header := x\<rparr>),
     get_bits 32 (\<lambda>x value. value\<lparr>sbsqnt_evnt_thresh := ucast x\<rparr>)]"

interpretation sbsqnt_evnt_thresh_ie: ie_codec 1 8 encode_pfcp_sbsqnt_evnt_thresh_ie_t
    decode_pfcp_sbsqnt_evnt_thresh_ie_t wire_pfcp_sbsqnt_evnt_thresh_ie_t
    "\<lambda>_. True" "\<lambda>_. True"
  unfolding encode_pfcp_sbsqnt_evnt_thresh_ie_t_def[abs_def] decode_pfcp_sbsqnt_evnt_thresh_ie_t_def
    wire_pfcp_sbsqnt_evnt_thresh_ie_t_def[abs_def]
  by (rule ie_codec_bits_bytes; (intro pfcp_intros)?; simp)

record pfcp_eth_pdu_sess_info_ie_t = pfcp_ie +
  eth_pdu_sess_info_spare :: "7 word"
  ethi :: "1 word"

definition wire_pfcp_eth_pdu_sess_info_ie_t :: "pfcp_eth_pdu_sess_info_ie_t \<Rightarrow> bool list" where
  "wire_pfcp_eth_pdu_sess_info_ie_t v = wire_pfcp_ie_header_t (header v) @
     field_bits 7 (ucast (eth_pdu_sess_info_spare v)) @
     field_bits 1 (ucast (ethi v)) @ []"

definition encode_pfcp_eth_pdu_sess_info_ie_t :: "pfcp_eth_pdu_sess_info_ie_t \<Rightarrow> encoder" where
  "encode_pfcp_eth_pdu_sess_info_ie_t value = run_bits [
     put_call (encode_pfcp_ie_header_t (header value)),
     put_bits (ucast (eth_pdu_sess_info_spare value)) 7,
     put_bits (ucast (ethi value)) 1]"

definition decode_pfcp_eth_pdu_sess_info_ie_t :: "pfcp_eth_pdu_sess_info_ie_t decoder" where
  "decode_pfcp_eth_pdu_sess_info_ie_t = parse_bytes [
     get_call decode_pfcp_ie_header_t header (\<lambda>x value. value\<lparr>header := x\<rparr>),
     get_bits 7 (\<lambda>x value. value\<lparr>eth_pdu_sess_info_spare := ucast x\<rparr>),
     get_bits 1 (\<lambda>x value. value\<lparr>ethi := ucast x\<rparr>)]"

interpretation eth_pdu_sess_info_ie: ie_codec 1 8 encode_pfcp_eth_pdu_sess_info_ie_t
    decode_pfcp_eth_pdu_sess_info_ie_t wire_pfcp_eth_pdu_sess_info_ie_t
    "\<lambda>_. True" "\<lambda>_. True"
  unfolding encode_pfcp_eth_pdu_sess_info_ie_t_def[abs_def] decode_pfcp_eth_pdu_sess_info_ie_t_def
    wire_pfcp_eth_pdu_sess_info_ie_t_def[abs_def]
  by (rule ie_codec_bits_bytes; (intro pfcp_intros)?; simp)

record pfcp_sbsqnt_time_thresh_ie_t = pfcp_ie +
  sbsqnt_time_thresh :: u32

definition wire_pfcp_sbsqnt_time_thresh_ie_t :: "pfcp_sbsqnt_time_thresh_ie_t \<Rightarrow> bool list" where
  "wire_pfcp_sbsqnt_time_thresh_ie_t v = wire_pfcp_ie_header_t (header v) @
     field_bits 32 (ucast (sbsqnt_time_thresh v)) @ []"

definition encode_pfcp_sbsqnt_time_thresh_ie_t :: "pfcp_sbsqnt_time_thresh_ie_t \<Rightarrow> encoder" where
  "encode_pfcp_sbsqnt_time_thresh_ie_t value = run_bits [
     put_call (encode_pfcp_ie_header_t (header value)),
     put_bits (ucast (sbsqnt_time_thresh value)) 32]"

definition decode_pfcp_sbsqnt_time_thresh_ie_t :: "pfcp_sbsqnt_time_thresh_ie_t decoder" where
  "decode_pfcp_sbsqnt_time_thresh_ie_t = parse_bytes [
     get_call decode_pfcp_ie_header_t header (\<lambda>x value. value\<lparr>header := x\<rparr>),
     get_bits 32 (\<lambda>x value. value\<lparr>sbsqnt_time_thresh := ucast x\<rparr>)]"

interpretation sbsqnt_time_thresh_ie: ie_codec 1 8 encode_pfcp_sbsqnt_time_thresh_ie_t
    decode_pfcp_sbsqnt_time_thresh_ie_t wire_pfcp_sbsqnt_time_thresh_ie_t
    "\<lambda>_. True" "\<lambda>_. True"
  unfolding encode_pfcp_sbsqnt_time_thresh_ie_t_def[abs_def] decode_pfcp_sbsqnt_time_thresh_ie_t_def
    wire_pfcp_sbsqnt_time_thresh_ie_t_def[abs_def]
  by (rule ie_codec_bits_bytes; (intro pfcp_intros)?; simp)

record pfcp_src_intfc_ie_t = pfcp_ie +
  src_intfc_spare :: "4 word"
  interface_value :: "4 word"

definition wire_pfcp_src_intfc_ie_t :: "pfcp_src_intfc_ie_t \<Rightarrow> bool list" where
  "wire_pfcp_src_intfc_ie_t v = wire_pfcp_ie_header_t (header v) @
     field_bits 4 (ucast (src_intfc_spare v)) @
     field_bits 4 (ucast (pfcp_src_intfc_ie_t.interface_value v)) @ []"

definition encode_pfcp_src_intfc_ie_t :: "pfcp_src_intfc_ie_t \<Rightarrow> encoder" where
  "encode_pfcp_src_intfc_ie_t value = run_bits [
     put_call (encode_pfcp_ie_header_t (header value)),
     put_bits (ucast (src_intfc_spare value)) 4,
     put_bits (ucast (pfcp_src_intfc_ie_t.interface_value value)) 4]"

definition decode_pfcp_src_intfc_ie_t :: "pfcp_src_intfc_ie_t decoder" where
  "decode_pfcp_src_intfc_ie_t = parse_bytes [
     get_call decode_pfcp_ie_header_t header (\<lambda>x value. value\<lparr>header := x\<rparr>),
     get_bits 4 (\<lambda>x value. value\<lparr>src_intfc_spare := ucast x\<rparr>),
     get_bits 4 (\<lambda>x value. value\<lparr>pfcp_src_intfc_ie_t.interface_value := ucast x\<rparr>)]"

interpretation src_intfc_ie: ie_codec 1 8 encode_pfcp_src_intfc_ie_t
    decode_pfcp_src_intfc_ie_t wire_pfcp_src_intfc_ie_t
    "\<lambda>_. True" "\<lambda>_. True"
  unfolding encode_pfcp_src_intfc_ie_t_def[abs_def] decode_pfcp_src_intfc_ie_t_def
    wire_pfcp_src_intfc_ie_t_def[abs_def]
  by (rule ie_codec_bits_bytes; (intro pfcp_intros)?; simp)

record pfcp_urr_id_ie_t = pfcp_ie +
  urr_id_value :: u32

definition wire_pfcp_urr_id_ie_t :: "pfcp_urr_id_ie_t \<Rightarrow> bool list" where
  "wire_pfcp_urr_id_ie_t v = wire_pfcp_ie_header_t (header v) @
     field_bits 32 (ucast (pfcp_urr_id_ie_t.urr_id_value v)) @ []"

definition encode_pfcp_urr_id_ie_t :: "pfcp_urr_id_ie_t \<Rightarrow> encoder" where
  "encode_pfcp_urr_id_ie_t value = run_bits [
     put_call (encode_pfcp_ie_header_t (header value)),
     put_bits (ucast (pfcp_urr_id_ie_t.urr_id_value value)) 32]"

definition decode_pfcp_urr_id_ie_t :: "pfcp_urr_id_ie_t decoder" where
  "decode_pfcp_urr_id_ie_t = parse_bytes [
     get_call decode_pfcp_ie_header_t header (\<lambda>x value. value\<lparr>header := x\<rparr>),
     get_bits 32 (\<lambda>x value. value\<lparr>pfcp_urr_id_ie_t.urr_id_value := ucast x\<rparr>)]"

interpretation urr_id_ie: ie_codec 1 8 encode_pfcp_urr_id_ie_t
    decode_pfcp_urr_id_ie_t wire_pfcp_urr_id_ie_t
    "\<lambda>_. True" "\<lambda>_. True"
  unfolding encode_pfcp_urr_id_ie_t_def[abs_def] decode_pfcp_urr_id_ie_t_def
    wire_pfcp_urr_id_ie_t_def[abs_def]
  by (rule ie_codec_bits_bytes; (intro pfcp_intros)?; simp)

record pfcp_rqi_ie_t = pfcp_ie +
  rqi_spare :: "7 word"
  rqi :: "1 word"

definition wire_pfcp_rqi_ie_t :: "pfcp_rqi_ie_t \<Rightarrow> bool list" where
  "wire_pfcp_rqi_ie_t v = wire_pfcp_ie_header_t (header v) @
     field_bits 7 (ucast (rqi_spare v)) @
     field_bits 1 (ucast (rqi v)) @ []"

definition encode_pfcp_rqi_ie_t :: "pfcp_rqi_ie_t \<Rightarrow> encoder" where
  "encode_pfcp_rqi_ie_t value = run_bits [
     put_call (encode_pfcp_ie_header_t (header value)),
     put_bits (ucast (rqi_spare value)) 7,
     put_bits (ucast (rqi value)) 1]"

definition decode_pfcp_rqi_ie_t :: "pfcp_rqi_ie_t decoder" where
  "decode_pfcp_rqi_ie_t = parse_bytes [
     get_call decode_pfcp_ie_header_t header (\<lambda>x value. value\<lparr>header := x\<rparr>),
     get_bits 7 (\<lambda>x value. value\<lparr>rqi_spare := ucast x\<rparr>),
     get_bits 1 (\<lambda>x value. value\<lparr>rqi := ucast x\<rparr>)]"

interpretation rqi_ie: ie_codec 1 8 encode_pfcp_rqi_ie_t
    decode_pfcp_rqi_ie_t wire_pfcp_rqi_ie_t
    "\<lambda>_. True" "\<lambda>_. True"
  unfolding encode_pfcp_rqi_ie_t_def[abs_def] decode_pfcp_rqi_ie_t_def
    wire_pfcp_rqi_ie_t_def[abs_def]
  by (rule ie_codec_bits_bytes; (intro pfcp_intros)?; simp)

record pfcp_qfi_ie_t = pfcp_ie +
  qfi_spare :: "2 word"
  qfi_value :: "6 word"

definition wire_pfcp_qfi_ie_t :: "pfcp_qfi_ie_t \<Rightarrow> bool list" where
  "wire_pfcp_qfi_ie_t v = wire_pfcp_ie_header_t (header v) @
     field_bits 2 (ucast (qfi_spare v)) @
     field_bits 6 (ucast (qfi_value v)) @ []"

definition encode_pfcp_qfi_ie_t :: "pfcp_qfi_ie_t \<Rightarrow> encoder" where
  "encode_pfcp_qfi_ie_t value = run_bits [
     put_call (encode_pfcp_ie_header_t (header value)),
     put_bits (ucast (qfi_spare value)) 2,
     put_bits (ucast (qfi_value value)) 6]"

definition decode_pfcp_qfi_ie_t :: "pfcp_qfi_ie_t decoder" where
  "decode_pfcp_qfi_ie_t = parse_bytes [
     get_call decode_pfcp_ie_header_t header (\<lambda>x value. value\<lparr>header := x\<rparr>),
     get_bits 2 (\<lambda>x value. value\<lparr>qfi_spare := ucast x\<rparr>),
     get_bits 6 (\<lambda>x value. value\<lparr>qfi_value := ucast x\<rparr>)]"

interpretation qfi_ie: ie_codec 1 8 encode_pfcp_qfi_ie_t
    decode_pfcp_qfi_ie_t wire_pfcp_qfi_ie_t
    "\<lambda>_. True" "\<lambda>_. True"
  unfolding encode_pfcp_qfi_ie_t_def[abs_def] decode_pfcp_qfi_ie_t_def
    wire_pfcp_qfi_ie_t_def[abs_def]
  by (rule ie_codec_bits_bytes; (intro pfcp_intros)?; simp)

record pfcp_mbr_ie_t = pfcp_ie +
  ul_mbr :: "40 word"
  dl_mbr :: "40 word"

definition wire_pfcp_mbr_ie_t :: "pfcp_mbr_ie_t \<Rightarrow> bool list" where
  "wire_pfcp_mbr_ie_t v = wire_pfcp_ie_header_t (header v) @
     field_bits 40 (ucast (ul_mbr v)) @
     field_bits 40 (ucast (dl_mbr v)) @ []"

definition encode_pfcp_mbr_ie_t :: "pfcp_mbr_ie_t \<Rightarrow> encoder" where
  "encode_pfcp_mbr_ie_t value = run_bits [
     put_call (encode_pfcp_ie_header_t (header value)),
     put_bits (ucast (ul_mbr value)) 40,
     put_bits (ucast (dl_mbr value)) 40]"

definition decode_pfcp_mbr_ie_t :: "pfcp_mbr_ie_t decoder" where
  "decode_pfcp_mbr_ie_t = parse_bytes [
     get_call decode_pfcp_ie_header_t header (\<lambda>x value. value\<lparr>header := x\<rparr>),
     get_bits 40 (\<lambda>x value. value\<lparr>ul_mbr := ucast x\<rparr>),
     get_bits 40 (\<lambda>x value. value\<lparr>dl_mbr := ucast x\<rparr>)]"

interpretation mbr_ie: ie_codec 1 8 encode_pfcp_mbr_ie_t
    decode_pfcp_mbr_ie_t wire_pfcp_mbr_ie_t
    "\<lambda>_. True" "\<lambda>_. True"
  unfolding encode_pfcp_mbr_ie_t_def[abs_def] decode_pfcp_mbr_ie_t_def
    wire_pfcp_mbr_ie_t_def[abs_def]
  by (rule ie_codec_bits_bytes; (intro pfcp_intros)?; simp)

record pfcp_dnlnk_data_notif_delay_ie_t = pfcp_ie +
  delay_val_in_integer_multiples_of_50_millisecs_or_zero :: u8

definition wire_pfcp_dnlnk_data_notif_delay_ie_t :: "pfcp_dnlnk_data_notif_delay_ie_t \<Rightarrow> bool list" where
  "wire_pfcp_dnlnk_data_notif_delay_ie_t v = wire_pfcp_ie_header_t (header v) @
     field_bits 8 (ucast (delay_val_in_integer_multiples_of_50_millisecs_or_zero v)) @ []"

definition encode_pfcp_dnlnk_data_notif_delay_ie_t :: "pfcp_dnlnk_data_notif_delay_ie_t \<Rightarrow> encoder" where
  "encode_pfcp_dnlnk_data_notif_delay_ie_t value = run_bits [
     put_call (encode_pfcp_ie_header_t (header value)),
     put_bits (ucast (delay_val_in_integer_multiples_of_50_millisecs_or_zero value)) 8]"

definition decode_pfcp_dnlnk_data_notif_delay_ie_t :: "pfcp_dnlnk_data_notif_delay_ie_t decoder" where
  "decode_pfcp_dnlnk_data_notif_delay_ie_t = parse_bytes [
     get_call decode_pfcp_ie_header_t header (\<lambda>x value. value\<lparr>header := x\<rparr>),
     get_bits 8 (\<lambda>x value. value\<lparr>delay_val_in_integer_multiples_of_50_millisecs_or_zero := ucast x\<rparr>)]"

interpretation dnlnk_data_notif_delay_ie: ie_codec 1 8 encode_pfcp_dnlnk_data_notif_delay_ie_t
    decode_pfcp_dnlnk_data_notif_delay_ie_t wire_pfcp_dnlnk_data_notif_delay_ie_t
    "\<lambda>_. True" "\<lambda>_. True"
  unfolding encode_pfcp_dnlnk_data_notif_delay_ie_t_def[abs_def] decode_pfcp_dnlnk_data_notif_delay_ie_t_def
    wire_pfcp_dnlnk_data_notif_delay_ie_t_def[abs_def]
  by (rule ie_codec_bits_bytes; (intro pfcp_intros)?; simp)

record pfcp_avgng_wnd_ie_t = pfcp_ie +
  avgng_wnd :: u32

definition wire_pfcp_avgng_wnd_ie_t :: "pfcp_avgng_wnd_ie_t \<Rightarrow> bool list" where
  "wire_pfcp_avgng_wnd_ie_t v = wire_pfcp_ie_header_t (header v) @
     field_bits 32 (ucast (avgng_wnd v)) @ []"

definition encode_pfcp_avgng_wnd_ie_t :: "pfcp_avgng_wnd_ie_t \<Rightarrow> encoder" where
  "encode_pfcp_avgng_wnd_ie_t value = run_bits [
     put_call (encode_pfcp_ie_header_t (header value)),
     put_bits (ucast (avgng_wnd value)) 32]"

definition decode_pfcp_avgng_wnd_ie_t :: "pfcp_avgng_wnd_ie_t decoder" where
  "decode_pfcp_avgng_wnd_ie_t = parse_bytes [
     get_call decode_pfcp_ie_header_t header (\<lambda>x value. value\<lparr>header := x\<rparr>),
     get_bits 32 (\<lambda>x value. value\<lparr>avgng_wnd := ucast x\<rparr>)]"

interpretation avgng_wnd_ie: ie_codec 1 8 encode_pfcp_avgng_wnd_ie_t
    decode_pfcp_avgng_wnd_ie_t wire_pfcp_avgng_wnd_ie_t
    "\<lambda>_. True" "\<lambda>_. True"
  unfolding encode_pfcp_avgng_wnd_ie_t_def[abs_def] decode_pfcp_avgng_wnd_ie_t_def
    wire_pfcp_avgng_wnd_ie_t_def[abs_def]
  by (rule ie_codec_bits_bytes; (intro pfcp_intros)?; simp)

record pfcp_time_threshold_ie_t = pfcp_ie +
  time_threshold :: u32

definition wire_pfcp_time_threshold_ie_t :: "pfcp_time_threshold_ie_t \<Rightarrow> bool list" where
  "wire_pfcp_time_threshold_ie_t v = wire_pfcp_ie_header_t (header v) @
     field_bits 32 (ucast (time_threshold v)) @ []"

definition encode_pfcp_time_threshold_ie_t :: "pfcp_time_threshold_ie_t \<Rightarrow> encoder" where
  "encode_pfcp_time_threshold_ie_t value = run_bits [
     put_call (encode_pfcp_ie_header_t (header value)),
     put_bits (ucast (time_threshold value)) 32]"

definition decode_pfcp_time_threshold_ie_t :: "pfcp_time_threshold_ie_t decoder" where
  "decode_pfcp_time_threshold_ie_t = parse_bytes [
     get_call decode_pfcp_ie_header_t header (\<lambda>x value. value\<lparr>header := x\<rparr>),
     get_bits 32 (\<lambda>x value. value\<lparr>time_threshold := ucast x\<rparr>)]"

interpretation time_threshold_ie: ie_codec 1 8 encode_pfcp_time_threshold_ie_t
    decode_pfcp_time_threshold_ie_t wire_pfcp_time_threshold_ie_t
    "\<lambda>_. True" "\<lambda>_. True"
  unfolding encode_pfcp_time_threshold_ie_t_def[abs_def] decode_pfcp_time_threshold_ie_t_def
    wire_pfcp_time_threshold_ie_t_def[abs_def]
  by (rule ie_codec_bits_bytes; (intro pfcp_intros)?; simp)

record pfcp_eth_inact_timer_ie_t = pfcp_ie +
  eth_inact_timer :: u32

definition wire_pfcp_eth_inact_timer_ie_t :: "pfcp_eth_inact_timer_ie_t \<Rightarrow> bool list" where
  "wire_pfcp_eth_inact_timer_ie_t v = wire_pfcp_ie_header_t (header v) @
     field_bits 32 (ucast (eth_inact_timer v)) @ []"

definition encode_pfcp_eth_inact_timer_ie_t :: "pfcp_eth_inact_timer_ie_t \<Rightarrow> encoder" where
  "encode_pfcp_eth_inact_timer_ie_t value = run_bits [
     put_call (encode_pfcp_ie_header_t (header value)),
     put_bits (ucast (eth_inact_timer value)) 32]"

definition decode_pfcp_eth_inact_timer_ie_t :: "pfcp_eth_inact_timer_ie_t decoder" where
  "decode_pfcp_eth_inact_timer_ie_t = parse_bytes [
     get_call decode_pfcp_ie_header_t header (\<lambda>x value. value\<lparr>header := x\<rparr>),
     get_bits 32 (\<lambda>x value. value\<lparr>eth_inact_timer := ucast x\<rparr>)]"

interpretation eth_inact_timer_ie: ie_codec 1 8 encode_pfcp_eth_inact_timer_ie_t
    decode_pfcp_eth_inact_timer_ie_t wire_pfcp_eth_inact_timer_ie_t
    "\<lambda>_. True" "\<lambda>_. True"
  unfolding encode_pfcp_eth_inact_timer_ie_t_def[abs_def] decode_pfcp_eth_inact_timer_ie_t_def
    wire_pfcp_eth_inact_timer_ie_t_def[abs_def]
  by (rule ie_codec_bits_bytes; (intro pfcp_intros)?; simp)

record pfcp_meas_info_ie_t = pfcp_ie +
  meas_info_spare :: "4 word"
  istm :: "1 word"
  radi :: "1 word"
  inam :: "1 word"
  mbqe :: "1 word"

definition wire_pfcp_meas_info_ie_t :: "pfcp_meas_info_ie_t \<Rightarrow> bool list" where
  "wire_pfcp_meas_info_ie_t v = wire_pfcp_ie_header_t (header v) @
     field_bits 4 (ucast (meas_info_spare v)) @
     field_bits 1 (ucast (istm v)) @
     field_bits 1 (ucast (radi v)) @
     field_bits 1 (ucast (inam v)) @
     field_bits 1 (ucast (mbqe v)) @ []"

definition encode_pfcp_meas_info_ie_t :: "pfcp_meas_info_ie_t \<Rightarrow> encoder" where
  "encode_pfcp_meas_info_ie_t value = run_bits [
     put_call (encode_pfcp_ie_header_t (header value)),
     put_bits (ucast (meas_info_spare value)) 4,
     put_bits (ucast (istm value)) 1,
     put_bits (ucast (radi value)) 1,
     put_bits (ucast (inam value)) 1,
     put_bits (ucast (mbqe value)) 1]"

definition decode_pfcp_meas_info_ie_t :: "pfcp_meas_info_ie_t decoder" where
  "decode_pfcp_meas_info_ie_t = parse_bytes [
     get_call decode_pfcp_ie_header_t header (\<lambda>x value. value\<lparr>header := x\<rparr>),
     get_bits 4 (\<lambda>x value. value\<lparr>meas_info_spare := ucast x\<rparr>),
     get_bits 1 (\<lambda>x value. value\<lparr>istm := ucast x\<rparr>),
     get_bits 1 (\<lambda>x value. value\<lparr>radi := ucast x\<rparr>),
     get_bits 1 (\<lambda>x value. value\<lparr>inam := ucast x\<rparr>),
     get_bits 1 (\<lambda>x value. value\<lparr>mbqe := ucast x\<rparr>)]"

interpretation meas_info_ie: ie_codec 1 8 encode_pfcp_meas_info_ie_t
    decode_pfcp_meas_info_ie_t wire_pfcp_meas_info_ie_t
    "\<lambda>_. True" "\<lambda>_. True"
  unfolding encode_pfcp_meas_info_ie_t_def[abs_def] decode_pfcp_meas_info_ie_t_def
    wire_pfcp_meas_info_ie_t_def[abs_def]
  by (rule ie_codec_bits_bytes; (intro pfcp_intros)?; simp)

section \<open>Properties\<close>

lemmas rule_wire_defs = wire_pfcp_pdr_id_ie_t_def wire_pfcp_far_id_ie_t_def wire_pfcp_qer_id_ie_t_def
  wire_pfcp_urr_id_ie_t_def wire_pfcp_bar_id_ie_t_def wire_pfcp_precedence_ie_t_def
  wire_pfcp_src_intfc_ie_t_def wire_pfcp_dst_intfc_ie_t_def wire_pfcp_apply_action_ie_t_def
  wire_pfcp_gate_status_ie_t_def wire_pfcp_mbr_ie_t_def wire_pfcp_gbr_ie_t_def



end
