(* ===== verification/Pfcp_Ies_Cond.thy ===== *)
theory Pfcp_Ies_Cond
  imports Pfcp_Ie_Header
begin

text \<open>
  The PFCP information elements with optional fields, coded by the macros of
  \<open>libpfcp/include/pfcp_cond_encoder.h\<close> and \<open>libpfcp/include/pfcp_cond_decoder.h\<close>.  Encoders
  write a field when its flag is set; decoders add what they read to the member, so that a
  structure to decode into must be zeroed (\<open>fresh\<close>).  Some decoders perform
  \<open>total_decoded += decoded\<close> outside the guard: an absent field then moves the cursor by the width
  of the field read before, and the contract only holds when all fields are present (\<open>valid\<close>).
\<close>

record pfcp_sbsqnt_vol_quota_ie_t = pfcp_ie +
  sbsqnt_vol_quota_spare :: "5 word"
  dlvol :: "1 word"
  ulvol :: "1 word"
  tovol :: "1 word"
  total_volume :: u64
  uplink_volume :: u64
  downlink_volume :: u64

definition wire_pfcp_sbsqnt_vol_quota_ie_t :: "pfcp_sbsqnt_vol_quota_ie_t \<Rightarrow> bool list" where
  "wire_pfcp_sbsqnt_vol_quota_ie_t value =
     wire_pfcp_ie_header_t (header value) @
     field_bits 5 (ucast (sbsqnt_vol_quota_spare value)) @
     field_bits 1 (ucast (dlvol value)) @
     field_bits 1 (ucast (ulvol value)) @
     field_bits 1 (ucast (tovol value)) @
     (if tovol value \<noteq> 0 then field_bits 64 (ucast (total_volume value)) else []) @
     (if ulvol value \<noteq> 0 then field_bits 64 (ucast (uplink_volume value)) else []) @
     (if dlvol value \<noteq> 0 then field_bits 64 (ucast (downlink_volume value)) else []) @ []"

definition encode_pfcp_sbsqnt_vol_quota_ie_t :: "pfcp_sbsqnt_vol_quota_ie_t \<Rightarrow> encoder" where
  "encode_pfcp_sbsqnt_vol_quota_ie_t value = run_bits [
     put_call (encode_pfcp_ie_header_t (header value)),
     put_bits (ucast (sbsqnt_vol_quota_spare value)) 5,
     put_bits (ucast (dlvol value)) 1,
     put_bits (ucast (ulvol value)) 1,
     put_bits (ucast (tovol value)) 1,
     put_when (tovol value \<noteq> 0) (put_bits (ucast (total_volume value)) 64),
     put_when (ulvol value \<noteq> 0) (put_bits (ucast (uplink_volume value)) 64),
     put_when (dlvol value \<noteq> 0) (put_bits (ucast (downlink_volume value)) 64)]"

definition decode_pfcp_sbsqnt_vol_quota_ie_t :: "pfcp_sbsqnt_vol_quota_ie_t decoder" where
  "decode_pfcp_sbsqnt_vol_quota_ie_t = parse_bytes [
     get_call decode_pfcp_ie_header_t header (\<lambda>x value. value\<lparr>header := x\<rparr>),
     get_bits 5 (\<lambda>x value. value\<lparr>sbsqnt_vol_quota_spare := ucast x\<rparr>),
     get_bits 1 (\<lambda>x value. value\<lparr>dlvol := ucast x\<rparr>),
     get_bits 1 (\<lambda>x value. value\<lparr>ulvol := ucast x\<rparr>),
     get_bits 1 (\<lambda>x value. value\<lparr>tovol := ucast x\<rparr>),
     get_when (\<lambda>value. tovol value \<noteq> 0) (peek_bits 64 (\<lambda>x value. value\<lparr>total_volume := total_volume value + ucast x\<rparr>)),
     add_decoded,
     get_when (\<lambda>value. ulvol value \<noteq> 0) (peek_bits 64 (\<lambda>x value. value\<lparr>uplink_volume := uplink_volume value + ucast x\<rparr>)),
     add_decoded,
     get_when (\<lambda>value. dlvol value \<noteq> 0) (peek_bits 64 (\<lambda>x value. value\<lparr>downlink_volume := downlink_volume value + ucast x\<rparr>)),
     add_decoded]"

definition valid_pfcp_sbsqnt_vol_quota_ie_t :: "pfcp_sbsqnt_vol_quota_ie_t \<Rightarrow> bool" where
  "valid_pfcp_sbsqnt_vol_quota_ie_t v \<longleftrightarrow> tovol v = 1 \<and> ulvol v = 1 \<and> dlvol v = 1"

definition fresh_pfcp_sbsqnt_vol_quota_ie_t :: "pfcp_sbsqnt_vol_quota_ie_t \<Rightarrow> bool" where
  "fresh_pfcp_sbsqnt_vol_quota_ie_t r \<longleftrightarrow> total_volume r = 0 \<and> uplink_volume r = 0 \<and> downlink_volume r = 0"

interpretation sbsqnt_vol_quota_ie: ie_codec 1 8 encode_pfcp_sbsqnt_vol_quota_ie_t decode_pfcp_sbsqnt_vol_quota_ie_t wire_pfcp_sbsqnt_vol_quota_ie_t
    valid_pfcp_sbsqnt_vol_quota_ie_t fresh_pfcp_sbsqnt_vol_quota_ie_t
  unfolding encode_pfcp_sbsqnt_vol_quota_ie_t_def[abs_def] decode_pfcp_sbsqnt_vol_quota_ie_t_def wire_pfcp_sbsqnt_vol_quota_ie_t_def[abs_def]
  by (rule ie_codec_bits_bytes; (intro pfcp_intros_peek)?; (rule pfcp_sbsqnt_vol_quota_ie_t.equality)?; auto simp: valid_pfcp_sbsqnt_vol_quota_ie_t_def fresh_pfcp_sbsqnt_vol_quota_ie_t_def)

record pfcp_application_id_ie_t = pfcp_ie +
  app_ident :: "u8 list"

definition wire_pfcp_application_id_ie_t :: "pfcp_application_id_ie_t \<Rightarrow> bool list" where
  "wire_pfcp_application_id_ie_t value =
     wire_pfcp_ie_header_t (header value) @
     byte_bits (take (8) (app_ident value)) @ []"

definition encode_pfcp_application_id_ie_t :: "pfcp_application_id_ie_t \<Rightarrow> encoder" where
  "encode_pfcp_application_id_ie_t value = run_bits [
     put_call (encode_pfcp_ie_header_t (header value)),
     put_bytes (take (8) (app_ident value))]"

definition decode_pfcp_application_id_ie_t :: "pfcp_application_id_ie_t decoder" where
  "decode_pfcp_application_id_ie_t = parse_bytes [
     get_call decode_pfcp_ie_header_t header (\<lambda>x value. value\<lparr>header := x\<rparr>),
     get_bytes 8 (\<lambda>bs value. value\<lparr>app_ident := bs\<rparr>)]"

definition valid_pfcp_application_id_ie_t :: "pfcp_application_id_ie_t \<Rightarrow> bool" where
  "valid_pfcp_application_id_ie_t v \<longleftrightarrow> length (app_ident v) = 8"

definition fresh_pfcp_application_id_ie_t :: "pfcp_application_id_ie_t \<Rightarrow> bool" where
  "fresh_pfcp_application_id_ie_t r \<longleftrightarrow> True"

interpretation application_id_ie: ie_codec 1 8 encode_pfcp_application_id_ie_t decode_pfcp_application_id_ie_t wire_pfcp_application_id_ie_t
    valid_pfcp_application_id_ie_t fresh_pfcp_application_id_ie_t
  unfolding encode_pfcp_application_id_ie_t_def[abs_def] decode_pfcp_application_id_ie_t_def wire_pfcp_application_id_ie_t_def[abs_def]
  by (rule ie_codec_bits_bytes; (intro pfcp_intros)?; (rule pfcp_application_id_ie_t.equality)?; auto simp: valid_pfcp_application_id_ie_t_def fresh_pfcp_application_id_ie_t_def)

record pfcp_dl_flow_lvl_marking_ie_t = pfcp_ie +
  dl_flow_lvl_marking_spare :: "6 word"
  sci :: "1 word"
  ttc :: "1 word"
  tostraffic_cls :: u16
  svc_cls_indctr :: u16

definition wire_pfcp_dl_flow_lvl_marking_ie_t :: "pfcp_dl_flow_lvl_marking_ie_t \<Rightarrow> bool list" where
  "wire_pfcp_dl_flow_lvl_marking_ie_t value =
     wire_pfcp_ie_header_t (header value) @
     field_bits 6 (ucast (dl_flow_lvl_marking_spare value)) @
     field_bits 1 (ucast (sci value)) @
     field_bits 1 (ucast (ttc value)) @
     (if ttc value \<noteq> 0 then field_bits 16 (ucast (tostraffic_cls value)) else []) @
     (if sci value \<noteq> 0 then field_bits 16 (ucast (svc_cls_indctr value)) else []) @ []"

definition encode_pfcp_dl_flow_lvl_marking_ie_t :: "pfcp_dl_flow_lvl_marking_ie_t \<Rightarrow> encoder" where
  "encode_pfcp_dl_flow_lvl_marking_ie_t value = run_bits [
     put_call (encode_pfcp_ie_header_t (header value)),
     put_bits (ucast (dl_flow_lvl_marking_spare value)) 6,
     put_bits (ucast (sci value)) 1,
     put_bits (ucast (ttc value)) 1,
     put_when (ttc value \<noteq> 0) (put_bits (ucast (tostraffic_cls value)) 16),
     put_when (sci value \<noteq> 0) (put_bits (ucast (svc_cls_indctr value)) 16)]"

definition decode_pfcp_dl_flow_lvl_marking_ie_t :: "pfcp_dl_flow_lvl_marking_ie_t decoder" where
  "decode_pfcp_dl_flow_lvl_marking_ie_t = parse_bytes [
     get_call decode_pfcp_ie_header_t header (\<lambda>x value. value\<lparr>header := x\<rparr>),
     get_bits 6 (\<lambda>x value. value\<lparr>dl_flow_lvl_marking_spare := ucast x\<rparr>),
     get_bits 1 (\<lambda>x value. value\<lparr>sci := ucast x\<rparr>),
     get_bits 1 (\<lambda>x value. value\<lparr>ttc := ucast x\<rparr>),
     get_when (\<lambda>value. ttc value \<noteq> 0) (get_bits 16 (\<lambda>x value. value\<lparr>tostraffic_cls := tostraffic_cls value + ucast x\<rparr>)),
     get_when (\<lambda>value. sci value \<noteq> 0) (get_bits 16 (\<lambda>x value. value\<lparr>svc_cls_indctr := svc_cls_indctr value + ucast x\<rparr>))]"

definition valid_pfcp_dl_flow_lvl_marking_ie_t :: "pfcp_dl_flow_lvl_marking_ie_t \<Rightarrow> bool" where
  "valid_pfcp_dl_flow_lvl_marking_ie_t v \<longleftrightarrow> (ttc v = 0 \<longrightarrow> tostraffic_cls v = 0) \<and> (sci v = 0 \<longrightarrow> svc_cls_indctr v = 0)"

definition fresh_pfcp_dl_flow_lvl_marking_ie_t :: "pfcp_dl_flow_lvl_marking_ie_t \<Rightarrow> bool" where
  "fresh_pfcp_dl_flow_lvl_marking_ie_t r \<longleftrightarrow> tostraffic_cls r = 0 \<and> svc_cls_indctr r = 0"

interpretation dl_flow_lvl_marking_ie: ie_codec 1 8 encode_pfcp_dl_flow_lvl_marking_ie_t decode_pfcp_dl_flow_lvl_marking_ie_t wire_pfcp_dl_flow_lvl_marking_ie_t
    valid_pfcp_dl_flow_lvl_marking_ie_t fresh_pfcp_dl_flow_lvl_marking_ie_t
  unfolding encode_pfcp_dl_flow_lvl_marking_ie_t_def[abs_def] decode_pfcp_dl_flow_lvl_marking_ie_t_def wire_pfcp_dl_flow_lvl_marking_ie_t_def[abs_def]
  by (rule ie_codec_bits_bytes; (intro pfcp_intros)?; (rule pfcp_dl_flow_lvl_marking_ie_t.equality)?; auto simp: valid_pfcp_dl_flow_lvl_marking_ie_t_def fresh_pfcp_dl_flow_lvl_marking_ie_t_def)

record pfcp_ue_ip_address_ie_t = pfcp_ie +
  ue_ip_addr_spare :: "3 word"
  chv4 :: "1 word"
  ipv6d :: "1 word"
  sd :: "1 word"
  v4 :: "1 word"
  v6 :: "1 word"
  ipv4_address :: u32
  ipv6_address :: "u8 list"
  ipv6_pfx_dlgtn_bits :: u8

definition wire_pfcp_ue_ip_address_ie_t :: "pfcp_ue_ip_address_ie_t \<Rightarrow> bool list" where
  "wire_pfcp_ue_ip_address_ie_t value =
     wire_pfcp_ie_header_t (header value) @
     field_bits 3 (ucast (ue_ip_addr_spare value)) @
     field_bits 1 (ucast (chv4 value)) @
     field_bits 1 (ucast (ipv6d value)) @
     field_bits 1 (ucast (sd value)) @
     field_bits 1 (ucast (v4 value)) @
     field_bits 1 (ucast (v6 value)) @
     (if v4 value \<noteq> 0 then field_bits 32 (ucast (ipv4_address value)) else []) @
     (if v6 value \<noteq> 0 then byte_bits (take (16) (ipv6_address value)) else []) @
     (if ipv6d value \<noteq> 0 then field_bits 8 (ucast (ipv6_pfx_dlgtn_bits value)) else []) @ []"

definition encode_pfcp_ue_ip_address_ie_t :: "pfcp_ue_ip_address_ie_t \<Rightarrow> encoder" where
  "encode_pfcp_ue_ip_address_ie_t value = run_bits [
     put_call (encode_pfcp_ie_header_t (header value)),
     put_bits (ucast (ue_ip_addr_spare value)) 3,
     put_bits (ucast (chv4 value)) 1,
     put_bits (ucast (ipv6d value)) 1,
     put_bits (ucast (sd value)) 1,
     put_bits (ucast (v4 value)) 1,
     put_bits (ucast (v6 value)) 1,
     put_when (v4 value \<noteq> 0) (put_bits (ucast (ipv4_address value)) 32),
     put_when (v6 value \<noteq> 0) (put_bytes (take (16) (ipv6_address value))),
     put_when (ipv6d value \<noteq> 0) (put_bits (ucast (ipv6_pfx_dlgtn_bits value)) 8)]"

definition decode_pfcp_ue_ip_address_ie_t :: "pfcp_ue_ip_address_ie_t decoder" where
  "decode_pfcp_ue_ip_address_ie_t = parse_bytes [
     get_call decode_pfcp_ie_header_t header (\<lambda>x value. value\<lparr>header := x\<rparr>),
     get_bits 4 (\<lambda>x value. value\<lparr>ue_ip_addr_spare := ucast x\<rparr>),
     get_bits 1 (\<lambda>x value. value\<lparr>ipv6d := ucast x\<rparr>),
     get_bits 1 (\<lambda>x value. value\<lparr>sd := ucast x\<rparr>),
     get_bits 1 (\<lambda>x value. value\<lparr>v4 := ucast x\<rparr>),
     get_bits 1 (\<lambda>x value. value\<lparr>v6 := ucast x\<rparr>),
     get_when (\<lambda>value. v4 value \<noteq> 0) (get_bytes 4 (\<lambda>bs value. value\<lparr>ipv4_address := of_le_bytes bs\<rparr>)),
     get_when (\<lambda>value. v6 value \<noteq> 0) (get_bytes 16 (\<lambda>bs value. value\<lparr>ipv6_address := bs\<rparr>)),
     get_when (\<lambda>value. ipv6d value \<noteq> 0) (get_bits 8 (\<lambda>x value. value\<lparr>ipv6_pfx_dlgtn_bits := ipv6_pfx_dlgtn_bits value + ucast x\<rparr>))]"

definition valid_pfcp_ue_ip_address_ie_t :: "pfcp_ue_ip_address_ie_t \<Rightarrow> bool" where
  "valid_pfcp_ue_ip_address_ie_t v \<longleftrightarrow> ue_ip_addr_spare v = 0 \<and> chv4 v = 0 \<and> length (ipv6_address v) = 16 \<and> (v4 v = 0 \<longrightarrow> ipv4_address v = 0) \<and> 
    (v6 v = 0 \<longrightarrow> ipv6_address v = replicate 16 0) \<and> (ipv6d v = 0 \<longrightarrow> ipv6_pfx_dlgtn_bits v = 0)"

definition fresh_pfcp_ue_ip_address_ie_t :: "pfcp_ue_ip_address_ie_t \<Rightarrow> bool" where
  "fresh_pfcp_ue_ip_address_ie_t r \<longleftrightarrow> chv4 r = 0 \<and> ipv4_address r = 0 \<and> ipv6_address r = replicate 16 0 \<and> ipv6_pfx_dlgtn_bits r = 0"

text \<open>The encoder writes three spare bits and CHV4, the decoder reads four spare bits: the two agree
  when CHV4 is not set.  The encoder writes the address most significant byte first, the decoder
  copies the four bytes: the receiver sees the address in network byte order.\<close>

lemma ue_ip_address_writes:
  assumes "valid_pfcp_ue_ip_address_ie_t v"
  shows "writes 1 (encode_pfcp_ue_ip_address_ie_t v) (wire_pfcp_ue_ip_address_ie_t v)"
  using assms
  unfolding encode_pfcp_ue_ip_address_ie_t_def wire_pfcp_ue_ip_address_ie_t_def
    valid_pfcp_ue_ip_address_ie_t_def
  by - (rule writes_run_bits; (intro pfcp_intros)?; simp)

lemma ue_ip_address_parses:
  assumes "valid_pfcp_ue_ip_address_ie_t v" "fresh_pfcp_ue_ip_address_ie_t r"
  shows "parses 8 decode_pfcp_ue_ip_address_ie_t (wire_pfcp_ue_ip_address_ie_t v) r
    (v\<lparr>ipv4_address := htonl (ipv4_address v)\<rparr>)"
proof -
  have spare: "field_bits 3 (ucast (ue_ip_addr_spare v)) @ field_bits 1 (ucast (chv4 v)) @ cs
      = field_bits 4 0 @ cs" for cs
    using assms(1) by (simp add: valid_pfcp_ue_ip_address_ie_t_def field_bits_def upt_conv_Cons)
  show ?thesis
    unfolding decode_pfcp_ue_ip_address_ie_t_def wire_pfcp_ue_ip_address_ie_t_def spare
    using assms unfolding valid_pfcp_ue_ip_address_ie_t_def fresh_pfcp_ue_ip_address_ie_t_def
    by - (rule parses_parse_bytes; (intro reads_Cons_when_be32 pfcp_intros)?;
        (rule pfcp_ue_ip_address_ie_t.equality)?; simp)
qed

interpretation ue_ip_address_ie: ie_transfer 1 8 encode_pfcp_ue_ip_address_ie_t
    decode_pfcp_ue_ip_address_ie_t wire_pfcp_ue_ip_address_ie_t valid_pfcp_ue_ip_address_ie_t
    fresh_pfcp_ue_ip_address_ie_t "\<lambda>v. v\<lparr>ipv4_address := htonl (ipv4_address v)\<rparr>"
  by unfold_locales (simp_all only: ue_ip_address_writes ue_ip_address_parses zero_less_one zero_less_numeral)

lemma ue_ip_address_size:
  "valid_pfcp_ue_ip_address_ie_t v \<Longrightarrow> length (wire_pfcp_ue_ip_address_ie_t v) \<le> 208"
  by (simp add: valid_pfcp_ue_ip_address_ie_t_def wire_pfcp_ue_ip_address_ie_t_def)



record pfcp_packet_rate_ie_t = pfcp_ie +
  pckt_rate_spare :: "6 word"
  dlpr :: "1 word"
  ulpr :: "1 word"
  pckt_rate_spare2 :: "5 word"
  uplnk_time_unit :: "3 word"
  max_uplnk_pckt_rate :: u16
  pckt_rate_spare3 :: "5 word"
  dnlnk_time_unit :: "3 word"
  max_dnlnk_pckt_rate :: u16

definition wire_pfcp_packet_rate_ie_t :: "pfcp_packet_rate_ie_t \<Rightarrow> bool list" where
  "wire_pfcp_packet_rate_ie_t value =
     wire_pfcp_ie_header_t (header value) @
     field_bits 6 (ucast (pckt_rate_spare value)) @
     field_bits 1 (ucast (dlpr value)) @
     field_bits 1 (ucast (ulpr value)) @
     field_bits 5 (ucast (pckt_rate_spare2 value)) @
     field_bits 3 (ucast (uplnk_time_unit value)) @
     (if ulpr value \<noteq> 0 then field_bits 16 (ucast (max_uplnk_pckt_rate value)) else []) @
     field_bits 5 (ucast (pckt_rate_spare3 value)) @
     field_bits 3 (ucast (dnlnk_time_unit value)) @
     (if dlpr value \<noteq> 0 then field_bits 16 (ucast (max_dnlnk_pckt_rate value)) else []) @ []"

definition encode_pfcp_packet_rate_ie_t :: "pfcp_packet_rate_ie_t \<Rightarrow> encoder" where
  "encode_pfcp_packet_rate_ie_t value = run_bits [
     put_call (encode_pfcp_ie_header_t (header value)),
     put_bits (ucast (pckt_rate_spare value)) 6,
     put_bits (ucast (dlpr value)) 1,
     put_bits (ucast (ulpr value)) 1,
     put_bits (ucast (pckt_rate_spare2 value)) 5,
     put_bits (ucast (uplnk_time_unit value)) 3,
     put_when (ulpr value \<noteq> 0) (put_bits (ucast (max_uplnk_pckt_rate value)) 16),
     put_bits (ucast (pckt_rate_spare3 value)) 5,
     put_bits (ucast (dnlnk_time_unit value)) 3,
     put_when (dlpr value \<noteq> 0) (put_bits (ucast (max_dnlnk_pckt_rate value)) 16)]"

definition decode_pfcp_packet_rate_ie_t :: "pfcp_packet_rate_ie_t decoder" where
  "decode_pfcp_packet_rate_ie_t = parse_bytes [
     get_call decode_pfcp_ie_header_t header (\<lambda>x value. value\<lparr>header := x\<rparr>),
     get_bits 6 (\<lambda>x value. value\<lparr>pckt_rate_spare := ucast x\<rparr>),
     get_bits 1 (\<lambda>x value. value\<lparr>dlpr := ucast x\<rparr>),
     get_bits 1 (\<lambda>x value. value\<lparr>ulpr := ucast x\<rparr>),
     get_bits 5 (\<lambda>x value. value\<lparr>pckt_rate_spare2 := ucast x\<rparr>),
     get_bits 3 (\<lambda>x value. value\<lparr>uplnk_time_unit := ucast x\<rparr>),
     get_when (\<lambda>value. ulpr value \<noteq> 0) (get_bits 16 (\<lambda>x value. value\<lparr>max_uplnk_pckt_rate := max_uplnk_pckt_rate value + ucast x\<rparr>)),
     get_bits 5 (\<lambda>x value. value\<lparr>pckt_rate_spare3 := ucast x\<rparr>),
     get_bits 3 (\<lambda>x value. value\<lparr>dnlnk_time_unit := ucast x\<rparr>),
     get_when (\<lambda>value. dlpr value \<noteq> 0) (get_bits 16 (\<lambda>x value. value\<lparr>max_dnlnk_pckt_rate := max_dnlnk_pckt_rate value + ucast x\<rparr>))]"

definition valid_pfcp_packet_rate_ie_t :: "pfcp_packet_rate_ie_t \<Rightarrow> bool" where
  "valid_pfcp_packet_rate_ie_t v \<longleftrightarrow> (ulpr v = 0 \<longrightarrow> max_uplnk_pckt_rate v = 0) \<and> (dlpr v = 0 \<longrightarrow> max_dnlnk_pckt_rate v = 0)"

definition fresh_pfcp_packet_rate_ie_t :: "pfcp_packet_rate_ie_t \<Rightarrow> bool" where
  "fresh_pfcp_packet_rate_ie_t r \<longleftrightarrow> max_uplnk_pckt_rate r = 0 \<and> max_dnlnk_pckt_rate r = 0"

interpretation packet_rate_ie: ie_codec 1 8 encode_pfcp_packet_rate_ie_t decode_pfcp_packet_rate_ie_t wire_pfcp_packet_rate_ie_t
    valid_pfcp_packet_rate_ie_t fresh_pfcp_packet_rate_ie_t
  unfolding encode_pfcp_packet_rate_ie_t_def[abs_def] decode_pfcp_packet_rate_ie_t_def wire_pfcp_packet_rate_ie_t_def[abs_def]
  by (rule ie_codec_bits_bytes; (intro pfcp_intros)?; (rule pfcp_packet_rate_ie_t.equality)?; auto simp: valid_pfcp_packet_rate_ie_t_def fresh_pfcp_packet_rate_ie_t_def)

record pfcp_volume_quota_ie_t = pfcp_ie +
  vol_quota_spare :: "5 word"
  dlvol :: "1 word"
  ulvol :: "1 word"
  tovol :: "1 word"
  total_volume :: u64
  uplink_volume :: u64
  downlink_volume :: u64

definition wire_pfcp_volume_quota_ie_t :: "pfcp_volume_quota_ie_t \<Rightarrow> bool list" where
  "wire_pfcp_volume_quota_ie_t value =
     wire_pfcp_ie_header_t (header value) @
     field_bits 5 (ucast (vol_quota_spare value)) @
     field_bits 1 (ucast (dlvol value)) @
     field_bits 1 (ucast (ulvol value)) @
     field_bits 1 (ucast (tovol value)) @
     (if tovol value \<noteq> 0 then field_bits 64 (ucast (total_volume value)) else []) @
     (if ulvol value \<noteq> 0 then field_bits 64 (ucast (uplink_volume value)) else []) @
     (if dlvol value \<noteq> 0 then field_bits 64 (ucast (downlink_volume value)) else []) @ []"

definition encode_pfcp_volume_quota_ie_t :: "pfcp_volume_quota_ie_t \<Rightarrow> encoder" where
  "encode_pfcp_volume_quota_ie_t value = run_bits [
     put_call (encode_pfcp_ie_header_t (header value)),
     put_bits (ucast (vol_quota_spare value)) 5,
     put_bits (ucast (dlvol value)) 1,
     put_bits (ucast (ulvol value)) 1,
     put_bits (ucast (tovol value)) 1,
     put_when (tovol value \<noteq> 0) (put_bits (ucast (total_volume value)) 64),
     put_when (ulvol value \<noteq> 0) (put_bits (ucast (uplink_volume value)) 64),
     put_when (dlvol value \<noteq> 0) (put_bits (ucast (downlink_volume value)) 64)]"

definition decode_pfcp_volume_quota_ie_t :: "pfcp_volume_quota_ie_t decoder" where
  "decode_pfcp_volume_quota_ie_t = parse_bytes [
     get_call decode_pfcp_ie_header_t header (\<lambda>x value. value\<lparr>header := x\<rparr>),
     get_bits 5 (\<lambda>x value. value\<lparr>vol_quota_spare := ucast x\<rparr>),
     get_bits 1 (\<lambda>x value. value\<lparr>dlvol := ucast x\<rparr>),
     get_bits 1 (\<lambda>x value. value\<lparr>ulvol := ucast x\<rparr>),
     get_bits 1 (\<lambda>x value. value\<lparr>tovol := ucast x\<rparr>),
     get_when (\<lambda>value. tovol value \<noteq> 0) (peek_bits 64 (\<lambda>x value. value\<lparr>total_volume := total_volume value + ucast x\<rparr>)),
     add_decoded,
     get_when (\<lambda>value. ulvol value \<noteq> 0) (peek_bits 64 (\<lambda>x value. value\<lparr>uplink_volume := uplink_volume value + ucast x\<rparr>)),
     add_decoded,
     get_when (\<lambda>value. dlvol value \<noteq> 0) (peek_bits 64 (\<lambda>x value. value\<lparr>downlink_volume := downlink_volume value + ucast x\<rparr>)),
     add_decoded]"

definition valid_pfcp_volume_quota_ie_t :: "pfcp_volume_quota_ie_t \<Rightarrow> bool" where
  "valid_pfcp_volume_quota_ie_t v \<longleftrightarrow> tovol v = 1 \<and> ulvol v = 1 \<and> dlvol v = 1"

definition fresh_pfcp_volume_quota_ie_t :: "pfcp_volume_quota_ie_t \<Rightarrow> bool" where
  "fresh_pfcp_volume_quota_ie_t r \<longleftrightarrow> total_volume r = 0 \<and> uplink_volume r = 0 \<and> downlink_volume r = 0"

interpretation volume_quota_ie: ie_codec 1 8 encode_pfcp_volume_quota_ie_t decode_pfcp_volume_quota_ie_t wire_pfcp_volume_quota_ie_t
    valid_pfcp_volume_quota_ie_t fresh_pfcp_volume_quota_ie_t
  unfolding encode_pfcp_volume_quota_ie_t_def[abs_def] decode_pfcp_volume_quota_ie_t_def wire_pfcp_volume_quota_ie_t_def[abs_def]
  by (rule ie_codec_bits_bytes; (intro pfcp_intros_peek)?; (rule pfcp_volume_quota_ie_t.equality)?; auto simp: valid_pfcp_volume_quota_ie_t_def fresh_pfcp_volume_quota_ie_t_def)

record pfcp_vol_meas_ie_t = pfcp_ie +
  vol_meas_spare :: "5 word"
  dlvol :: "1 word"
  ulvol :: "1 word"
  tovol :: "1 word"
  total_volume :: u64
  uplink_volume :: u64
  downlink_volume :: u64

definition wire_pfcp_vol_meas_ie_t :: "pfcp_vol_meas_ie_t \<Rightarrow> bool list" where
  "wire_pfcp_vol_meas_ie_t value =
     wire_pfcp_ie_header_t (header value) @
     field_bits 5 (ucast (vol_meas_spare value)) @
     field_bits 1 (ucast (dlvol value)) @
     field_bits 1 (ucast (ulvol value)) @
     field_bits 1 (ucast (tovol value)) @
     (if tovol value \<noteq> 0 then field_bits 64 (ucast (total_volume value)) else []) @
     (if ulvol value \<noteq> 0 then field_bits 64 (ucast (uplink_volume value)) else []) @
     (if dlvol value \<noteq> 0 then field_bits 64 (ucast (downlink_volume value)) else []) @ []"

definition encode_pfcp_vol_meas_ie_t :: "pfcp_vol_meas_ie_t \<Rightarrow> encoder" where
  "encode_pfcp_vol_meas_ie_t value = run_bytes [
     put_call (encode_pfcp_ie_header_t (header value)),
     put_bits (ucast (vol_meas_spare value)) 5,
     put_bits (ucast (dlvol value)) 1,
     put_bits (ucast (ulvol value)) 1,
     put_bits (ucast (tovol value)) 1,
     put_when (tovol value \<noteq> 0) (put_bits (ucast (total_volume value)) 64),
     put_when (ulvol value \<noteq> 0) (put_bits (ucast (uplink_volume value)) 64),
     put_when (dlvol value \<noteq> 0) (put_bits (ucast (downlink_volume value)) 64)]"

definition decode_pfcp_vol_meas_ie_t :: "pfcp_vol_meas_ie_t decoder" where
  "decode_pfcp_vol_meas_ie_t = parse_bytes [
     get_call decode_pfcp_ie_header_t header (\<lambda>x value. value\<lparr>header := x\<rparr>),
     get_bits 5 (\<lambda>x value. value\<lparr>vol_meas_spare := ucast x\<rparr>),
     get_bits 1 (\<lambda>x value. value\<lparr>dlvol := ucast x\<rparr>),
     get_bits 1 (\<lambda>x value. value\<lparr>ulvol := ucast x\<rparr>),
     get_bits 1 (\<lambda>x value. value\<lparr>tovol := ucast x\<rparr>),
     get_when (\<lambda>value. tovol value \<noteq> 0) (peek_bits 64 (\<lambda>x value. value\<lparr>total_volume := total_volume value + ucast x\<rparr>)),
     add_decoded,
     get_when (\<lambda>value. ulvol value \<noteq> 0) (peek_bits 64 (\<lambda>x value. value\<lparr>uplink_volume := uplink_volume value + ucast x\<rparr>)),
     add_decoded,
     get_when (\<lambda>value. dlvol value \<noteq> 0) (peek_bits 64 (\<lambda>x value. value\<lparr>downlink_volume := downlink_volume value + ucast x\<rparr>)),
     add_decoded]"

definition valid_pfcp_vol_meas_ie_t :: "pfcp_vol_meas_ie_t \<Rightarrow> bool" where
  "valid_pfcp_vol_meas_ie_t v \<longleftrightarrow> tovol v = 1 \<and> ulvol v = 1 \<and> dlvol v = 1"

definition fresh_pfcp_vol_meas_ie_t :: "pfcp_vol_meas_ie_t \<Rightarrow> bool" where
  "fresh_pfcp_vol_meas_ie_t r \<longleftrightarrow> total_volume r = 0 \<and> uplink_volume r = 0 \<and> downlink_volume r = 0"

interpretation vol_meas_ie: ie_codec 8 8 encode_pfcp_vol_meas_ie_t decode_pfcp_vol_meas_ie_t wire_pfcp_vol_meas_ie_t
    valid_pfcp_vol_meas_ie_t fresh_pfcp_vol_meas_ie_t
  unfolding encode_pfcp_vol_meas_ie_t_def[abs_def] decode_pfcp_vol_meas_ie_t_def wire_pfcp_vol_meas_ie_t_def[abs_def]
  by (rule ie_codec_bytes_bytes; (intro pfcp_intros_peek)?; (rule pfcp_vol_meas_ie_t.equality)?; auto simp: valid_pfcp_vol_meas_ie_t_def fresh_pfcp_vol_meas_ie_t_def)

text \<open>With a total volume alone the cursor is moved by the width of the total volume twice more: the
  element has 13 bytes and the decoder claims 29.\<close>

lemma vol_meas_overrun:
  assumes "tovol v = 1" "ulvol v = 0" "dlvol v = 0" "uplink_volume v = 0" "downlink_volume v = 0"
    and "fresh_pfcp_vol_meas_ie_t r" "agrees m (8 * buf) (wire_pfcp_vol_meas_ie_t v)"
  shows "length (wire_pfcp_vol_meas_ie_t v) = 8 * 13"
    and "decode_pfcp_vol_meas_ie_t m buf r = (29, v)"
proof -
  show "length (wire_pfcp_vol_meas_ie_t v) = 8 * 13"
    using assms by (simp add: wire_pfcp_vol_meas_ie_t_def)
  let ?r = "r\<lparr>header := header v, vol_meas_spare := vol_meas_spare v, dlvol := dlvol v, ulvol := ulvol v,
    tovol := tovol v\<rparr>"
  have pre: "reads 0 (get_all [
     get_call decode_pfcp_ie_header_t header (\<lambda>x value. value\<lparr>header := x\<rparr>),
     get_bits 5 (\<lambda>x value. value\<lparr>vol_meas_spare := ucast x\<rparr>),
     get_bits 1 (\<lambda>x value. value\<lparr>dlvol := ucast x\<rparr>),
     get_bits 1 (\<lambda>x value. value\<lparr>ulvol := ucast x\<rparr>),
     get_bits 1 (\<lambda>x value. value\<lparr>tovol := ucast x\<rparr>)])
     (wire_pfcp_ie_header_t (header v) @ field_bits 5 (ucast (vol_meas_spare v)) @
      field_bits 1 (ucast (dlvol v)) @ field_bits 1 (ucast (ulvol v)) @ field_bits 1 (ucast (tovol v)) @ []) r ?r"
    by (intro pfcp_intros; simp)
  have "agrees m (8 * buf) (wire_pfcp_ie_header_t (header v) @ field_bits 5 (ucast (vol_meas_spare v)) @
      field_bits 1 (ucast (dlvol v)) @ field_bits 1 (ucast (ulvol v)) @ field_bits 1 (ucast (tovol v)) @ [])"
    and vol: "agrees m (8 * buf + 40) (field_bits 64 (total_volume v))"
    using assms by (simp_all add: wire_pfcp_vol_meas_ie_t_def ac_simps)
  with readsD[OF pre, of 0 m buf 0] obtain d where 1: "get_all [
     get_call decode_pfcp_ie_header_t header (\<lambda>x value. value\<lparr>header := x\<rparr>),
     get_bits 5 (\<lambda>x value. value\<lparr>vol_meas_spare := ucast x\<rparr>),
     get_bits 1 (\<lambda>x value. value\<lparr>dlvol := ucast x\<rparr>),
     get_bits 1 (\<lambda>x value. value\<lparr>ulvol := ucast x\<rparr>),
     get_bits 1 (\<lambda>x value. value\<lparr>tovol := ucast x\<rparr>)] m buf (0, 0, r) = (40, d, ?r)" by auto
  have "?r\<lparr>total_volume := total_volume v\<rparr> = v"
    by (rule pfcp_vol_meas_ie_t.equality) (use assms in \<open>simp_all add: fresh_pfcp_vol_meas_ie_t_def\<close>)
  then show "decode_pfcp_vol_meas_ie_t m buf r = (29, v)"
    using 1 vol assms(1-3,6)
    by (simp add: decode_pfcp_vol_meas_ie_t_def parse_bytes_def get_all_def get_when_def
        peek_bits_agrees add_decoded_def fresh_pfcp_vol_meas_ie_t_def)
qed

lemma vol_meas_writes: "writes 8 (encode_pfcp_vol_meas_ie_t v) (wire_pfcp_vol_meas_ie_t v)"
  unfolding encode_pfcp_vol_meas_ie_t_def wire_pfcp_vol_meas_ie_t_def
  by (rule writes_run_bytes; (intro pfcp_intros)?; simp)

text \<open>A volume measurement that reports the total volume alone is sent in 13 bytes; the
  decoder recovers its fields but claims 29 bytes, so that the decoder of the enclosing usage report
  goes on in the middle of later elements.\<close>

theorem vol_meas_loses_sync:
  assumes "tovol v = 1" "ulvol v = 0" "dlvol v = 0"
    and "uplink_volume v = 0" "downlink_volume v = 0"
    and "fresh_pfcp_vol_meas_ie_t r" "clear m (8 * buf) (8 * buf + 8 * 13)"
  shows "fst (encode_pfcp_vol_meas_ie_t v m buf) = 13 \<and>
    decode_pfcp_vol_meas_ie_t (snd (encode_pfcp_vol_meas_ie_t v m buf)) buf r = (29, v)"
proof -
  have len: "length (wire_pfcp_vol_meas_ie_t v) = 8 * 13"
    using assms(1-3) by (simp add: wire_pfcp_vol_meas_ie_t_def)
  with writesD[OF vol_meas_writes, of m buf v, OF _ prod.collapse[symmetric]] assms(7)
  have w: "fst (encode_pfcp_vol_meas_ie_t v m buf) * 8 = 8 * 13"
    "wrote m (8 * buf) (wire_pfcp_vol_meas_ie_t v) (snd (encode_pfcp_vol_meas_ie_t v m buf))"
    by simp_all
  with vol_meas_overrun(2)[OF assms(1-6) wrote_agrees[OF w(2)]] show ?thesis by simp
qed

theorem vol_meas_loses_sync_witness:
  "\<exists>v r :: pfcp_vol_meas_ie_t. total_volume v = 4096 \<and>
     fst (encode_pfcp_vol_meas_ie_t v (\<lambda>_. 0) 8) = 13 \<and>
     decode_pfcp_vol_meas_ie_t (snd (encode_pfcp_vol_meas_ie_t v (\<lambda>_. 0) 8)) 8 r = (29, v)"
proof -
  let ?v = "\<lparr>header = \<lparr>type = 66, len = 9\<rparr>, vol_meas_spare = 0, dlvol = 0, ulvol = 0, tovol = 1,
    total_volume = 4096, uplink_volume = 0, downlink_volume = 0\<rparr> :: pfcp_vol_meas_ie_t"
  let ?r = "?v\<lparr>total_volume := 0\<rparr>"
  have "fresh_pfcp_vol_meas_ie_t ?r" "clear (\<lambda>_. 0) (8 * 8) (8 * 8 + 8 * 13)"
    by (simp_all add: fresh_pfcp_vol_meas_ie_t_def)
  with vol_meas_loses_sync[of ?v ?r "\<lambda>_. 0" 8] show ?thesis
    by (intro exI[of _ ?v] exI[of _ ?r]) simp
qed

record pfcp_ntwk_inst_ie_t = pfcp_ie +
  ntwk_inst :: "u8 list"

definition wire_pfcp_ntwk_inst_ie_t :: "pfcp_ntwk_inst_ie_t \<Rightarrow> bool list" where
  "wire_pfcp_ntwk_inst_ie_t value =
     wire_pfcp_ie_header_t (header value) @
     byte_bits (take (32) (ntwk_inst value)) @ []"

definition encode_pfcp_ntwk_inst_ie_t :: "pfcp_ntwk_inst_ie_t \<Rightarrow> encoder" where
  "encode_pfcp_ntwk_inst_ie_t value = run_bits [
     put_call (encode_pfcp_ie_header_t (header value)),
     put_bytes (take (32) (ntwk_inst value))]"

definition decode_pfcp_ntwk_inst_ie_t :: "pfcp_ntwk_inst_ie_t decoder" where
  "decode_pfcp_ntwk_inst_ie_t = parse_bytes [
     get_call decode_pfcp_ie_header_t header (\<lambda>x value. value\<lparr>header := x\<rparr>),
     get_bytes 32 (\<lambda>bs value. value\<lparr>ntwk_inst := bs\<rparr>)]"

definition valid_pfcp_ntwk_inst_ie_t :: "pfcp_ntwk_inst_ie_t \<Rightarrow> bool" where
  "valid_pfcp_ntwk_inst_ie_t v \<longleftrightarrow> length (ntwk_inst v) = 32"

definition fresh_pfcp_ntwk_inst_ie_t :: "pfcp_ntwk_inst_ie_t \<Rightarrow> bool" where
  "fresh_pfcp_ntwk_inst_ie_t r \<longleftrightarrow> True"

interpretation ntwk_inst_ie: ie_codec 1 8 encode_pfcp_ntwk_inst_ie_t decode_pfcp_ntwk_inst_ie_t wire_pfcp_ntwk_inst_ie_t
    valid_pfcp_ntwk_inst_ie_t fresh_pfcp_ntwk_inst_ie_t
  unfolding encode_pfcp_ntwk_inst_ie_t_def[abs_def] decode_pfcp_ntwk_inst_ie_t_def wire_pfcp_ntwk_inst_ie_t_def[abs_def]
  by (rule ie_codec_bits_bytes; (intro pfcp_intros)?; (rule pfcp_ntwk_inst_ie_t.equality)?; auto simp: valid_pfcp_ntwk_inst_ie_t_def fresh_pfcp_ntwk_inst_ie_t_def)

record pfcp_drpd_dl_traffic_thresh_ie_t = pfcp_ie +
  drpd_dl_traffic_thresh_spare :: "6 word"
  dlby :: "1 word"
  dlpa :: "1 word"
  dnlnk_pckts :: u64
  nbr_of_bytes_of_dnlnk_data :: u64

definition wire_pfcp_drpd_dl_traffic_thresh_ie_t :: "pfcp_drpd_dl_traffic_thresh_ie_t \<Rightarrow> bool list" where
  "wire_pfcp_drpd_dl_traffic_thresh_ie_t value =
     wire_pfcp_ie_header_t (header value) @
     field_bits 6 (ucast (drpd_dl_traffic_thresh_spare value)) @
     field_bits 1 (ucast (dlby value)) @
     field_bits 1 (ucast (dlpa value)) @
     (if dlpa value \<noteq> 0 then field_bits 64 (ucast (dnlnk_pckts value)) else []) @
     (if dlby value \<noteq> 0 then field_bits 64 (ucast (nbr_of_bytes_of_dnlnk_data value)) else []) @ []"

definition encode_pfcp_drpd_dl_traffic_thresh_ie_t :: "pfcp_drpd_dl_traffic_thresh_ie_t \<Rightarrow> encoder" where
  "encode_pfcp_drpd_dl_traffic_thresh_ie_t value = run_bits [
     put_call (encode_pfcp_ie_header_t (header value)),
     put_bits (ucast (drpd_dl_traffic_thresh_spare value)) 6,
     put_bits (ucast (dlby value)) 1,
     put_bits (ucast (dlpa value)) 1,
     put_when (dlpa value \<noteq> 0) (put_bits (ucast (dnlnk_pckts value)) 64),
     put_when (dlby value \<noteq> 0) (put_bits (ucast (nbr_of_bytes_of_dnlnk_data value)) 64)]"

definition decode_pfcp_drpd_dl_traffic_thresh_ie_t :: "pfcp_drpd_dl_traffic_thresh_ie_t decoder" where
  "decode_pfcp_drpd_dl_traffic_thresh_ie_t = parse_bytes [
     get_call decode_pfcp_ie_header_t header (\<lambda>x value. value\<lparr>header := x\<rparr>),
     get_bits 6 (\<lambda>x value. value\<lparr>drpd_dl_traffic_thresh_spare := ucast x\<rparr>),
     get_bits 1 (\<lambda>x value. value\<lparr>dlby := ucast x\<rparr>),
     get_bits 1 (\<lambda>x value. value\<lparr>dlpa := ucast x\<rparr>),
     get_when (\<lambda>value. dlpa value \<noteq> 0) (peek_bits 64 (\<lambda>x value. value\<lparr>dnlnk_pckts := dnlnk_pckts value + ucast x\<rparr>)),
     add_decoded,
     get_when (\<lambda>value. dlby value \<noteq> 0) (peek_bits 64 (\<lambda>x value. value\<lparr>nbr_of_bytes_of_dnlnk_data := nbr_of_bytes_of_dnlnk_data value + ucast x\<rparr>)),
     add_decoded]"

definition valid_pfcp_drpd_dl_traffic_thresh_ie_t :: "pfcp_drpd_dl_traffic_thresh_ie_t \<Rightarrow> bool" where
  "valid_pfcp_drpd_dl_traffic_thresh_ie_t v \<longleftrightarrow> dlpa v = 1 \<and> dlby v = 1"

definition fresh_pfcp_drpd_dl_traffic_thresh_ie_t :: "pfcp_drpd_dl_traffic_thresh_ie_t \<Rightarrow> bool" where
  "fresh_pfcp_drpd_dl_traffic_thresh_ie_t r \<longleftrightarrow> dnlnk_pckts r = 0 \<and> nbr_of_bytes_of_dnlnk_data r = 0"

interpretation drpd_dl_traffic_thresh_ie: ie_codec 1 8 encode_pfcp_drpd_dl_traffic_thresh_ie_t decode_pfcp_drpd_dl_traffic_thresh_ie_t wire_pfcp_drpd_dl_traffic_thresh_ie_t
    valid_pfcp_drpd_dl_traffic_thresh_ie_t fresh_pfcp_drpd_dl_traffic_thresh_ie_t
  unfolding encode_pfcp_drpd_dl_traffic_thresh_ie_t_def[abs_def] decode_pfcp_drpd_dl_traffic_thresh_ie_t_def wire_pfcp_drpd_dl_traffic_thresh_ie_t_def[abs_def]
  by (rule ie_codec_bits_bytes; (intro pfcp_intros_peek)?; (rule pfcp_drpd_dl_traffic_thresh_ie_t.equality)?; auto simp: valid_pfcp_drpd_dl_traffic_thresh_ie_t_def fresh_pfcp_drpd_dl_traffic_thresh_ie_t_def)

record pfcp_sbsqnt_vol_thresh_ie_t = pfcp_ie +
  sbsqnt_vol_thresh_spare :: "5 word"
  dlvol :: "1 word"
  ulvol :: "1 word"
  tovol :: "1 word"
  total_volume :: u64
  uplink_volume :: u64
  downlink_volume :: u64

definition wire_pfcp_sbsqnt_vol_thresh_ie_t :: "pfcp_sbsqnt_vol_thresh_ie_t \<Rightarrow> bool list" where
  "wire_pfcp_sbsqnt_vol_thresh_ie_t value =
     wire_pfcp_ie_header_t (header value) @
     field_bits 5 (ucast (sbsqnt_vol_thresh_spare value)) @
     field_bits 1 (ucast (dlvol value)) @
     field_bits 1 (ucast (ulvol value)) @
     field_bits 1 (ucast (tovol value)) @
     (if tovol value \<noteq> 0 then field_bits 64 (ucast (total_volume value)) else []) @
     (if ulvol value \<noteq> 0 then field_bits 64 (ucast (uplink_volume value)) else []) @
     (if dlvol value \<noteq> 0 then field_bits 64 (ucast (downlink_volume value)) else []) @ []"

definition encode_pfcp_sbsqnt_vol_thresh_ie_t :: "pfcp_sbsqnt_vol_thresh_ie_t \<Rightarrow> encoder" where
  "encode_pfcp_sbsqnt_vol_thresh_ie_t value = run_bits [
     put_call (encode_pfcp_ie_header_t (header value)),
     put_bits (ucast (sbsqnt_vol_thresh_spare value)) 5,
     put_bits (ucast (dlvol value)) 1,
     put_bits (ucast (ulvol value)) 1,
     put_bits (ucast (tovol value)) 1,
     put_when (tovol value \<noteq> 0) (put_bits (ucast (total_volume value)) 64),
     put_when (ulvol value \<noteq> 0) (put_bits (ucast (uplink_volume value)) 64),
     put_when (dlvol value \<noteq> 0) (put_bits (ucast (downlink_volume value)) 64)]"

definition decode_pfcp_sbsqnt_vol_thresh_ie_t :: "pfcp_sbsqnt_vol_thresh_ie_t decoder" where
  "decode_pfcp_sbsqnt_vol_thresh_ie_t = parse_bytes [
     get_call decode_pfcp_ie_header_t header (\<lambda>x value. value\<lparr>header := x\<rparr>),
     get_bits 5 (\<lambda>x value. value\<lparr>sbsqnt_vol_thresh_spare := ucast x\<rparr>),
     get_bits 1 (\<lambda>x value. value\<lparr>dlvol := ucast x\<rparr>),
     get_bits 1 (\<lambda>x value. value\<lparr>ulvol := ucast x\<rparr>),
     get_bits 1 (\<lambda>x value. value\<lparr>tovol := ucast x\<rparr>),
     get_when (\<lambda>value. tovol value \<noteq> 0) (peek_bits 64 (\<lambda>x value. value\<lparr>total_volume := total_volume value + ucast x\<rparr>)),
     add_decoded,
     get_when (\<lambda>value. ulvol value \<noteq> 0) (peek_bits 64 (\<lambda>x value. value\<lparr>uplink_volume := uplink_volume value + ucast x\<rparr>)),
     add_decoded,
     get_when (\<lambda>value. dlvol value \<noteq> 0) (peek_bits 64 (\<lambda>x value. value\<lparr>downlink_volume := downlink_volume value + ucast x\<rparr>)),
     add_decoded]"

definition valid_pfcp_sbsqnt_vol_thresh_ie_t :: "pfcp_sbsqnt_vol_thresh_ie_t \<Rightarrow> bool" where
  "valid_pfcp_sbsqnt_vol_thresh_ie_t v \<longleftrightarrow> tovol v = 1 \<and> ulvol v = 1 \<and> dlvol v = 1"

definition fresh_pfcp_sbsqnt_vol_thresh_ie_t :: "pfcp_sbsqnt_vol_thresh_ie_t \<Rightarrow> bool" where
  "fresh_pfcp_sbsqnt_vol_thresh_ie_t r \<longleftrightarrow> total_volume r = 0 \<and> uplink_volume r = 0 \<and> downlink_volume r = 0"

interpretation sbsqnt_vol_thresh_ie: ie_codec 1 8 encode_pfcp_sbsqnt_vol_thresh_ie_t decode_pfcp_sbsqnt_vol_thresh_ie_t wire_pfcp_sbsqnt_vol_thresh_ie_t
    valid_pfcp_sbsqnt_vol_thresh_ie_t fresh_pfcp_sbsqnt_vol_thresh_ie_t
  unfolding encode_pfcp_sbsqnt_vol_thresh_ie_t_def[abs_def] decode_pfcp_sbsqnt_vol_thresh_ie_t_def wire_pfcp_sbsqnt_vol_thresh_ie_t_def[abs_def]
  by (rule ie_codec_bits_bytes; (intro pfcp_intros_peek)?; (rule pfcp_sbsqnt_vol_thresh_ie_t.equality)?; auto simp: valid_pfcp_sbsqnt_vol_thresh_ie_t_def fresh_pfcp_sbsqnt_vol_thresh_ie_t_def)

record pfcp_ctag_ie_t = pfcp_ie +
  ctag_spare :: "5 word"
  ctag_vid :: "1 word"
  ctag_dei :: "1 word"
  ctag_pcp :: "1 word"
  cvid_value :: "4 word"
  ctag_dei_flag :: "1 word"
  ctag_pcp_value :: "3 word"
  cvid_value2 :: u8

definition wire_pfcp_ctag_ie_t :: "pfcp_ctag_ie_t \<Rightarrow> bool list" where
  "wire_pfcp_ctag_ie_t value =
     wire_pfcp_ie_header_t (header value) @
     field_bits 5 (ucast (ctag_spare value)) @
     field_bits 1 (ucast (ctag_vid value)) @
     field_bits 1 (ucast (ctag_dei value)) @
     field_bits 1 (ucast (ctag_pcp value)) @
     field_bits 4 (ucast (cvid_value value)) @
     field_bits 1 (ucast (ctag_dei_flag value)) @
     field_bits 3 (ucast (ctag_pcp_value value)) @
     (if ctag_vid value \<noteq> 0 then field_bits 8 (ucast (cvid_value2 value)) else []) @ []"

definition encode_pfcp_ctag_ie_t :: "pfcp_ctag_ie_t \<Rightarrow> encoder" where
  "encode_pfcp_ctag_ie_t value = run_bytes [
     put_call (encode_pfcp_ie_header_t (header value)),
     put_bits (ucast (ctag_spare value)) 5,
     put_bits (ucast (ctag_vid value)) 1,
     put_bits (ucast (ctag_dei value)) 1,
     put_bits (ucast (ctag_pcp value)) 1,
     put_bits (ucast (cvid_value value)) 4,
     put_bits (ucast (ctag_dei_flag value)) 1,
     put_bits (ucast (ctag_pcp_value value)) 3,
     put_when (ctag_vid value \<noteq> 0) (put_bits (ucast (cvid_value2 value)) 8)]"

definition decode_pfcp_ctag_ie_t :: "pfcp_ctag_ie_t decoder" where
  "decode_pfcp_ctag_ie_t = parse_bytes [
     get_call decode_pfcp_ie_header_t header (\<lambda>x value. value\<lparr>header := x\<rparr>),
     get_bits 5 (\<lambda>x value. value\<lparr>ctag_spare := ucast x\<rparr>),
     get_bits 1 (\<lambda>x value. value\<lparr>ctag_vid := ucast x\<rparr>),
     get_bits 1 (\<lambda>x value. value\<lparr>ctag_dei := ucast x\<rparr>),
     get_bits 1 (\<lambda>x value. value\<lparr>ctag_pcp := ucast x\<rparr>),
     get_bits 4 (\<lambda>x value. value\<lparr>cvid_value := ucast x\<rparr>),
     get_bits 1 (\<lambda>x value. value\<lparr>ctag_dei_flag := ucast x\<rparr>),
     get_bits 3 (\<lambda>x value. value\<lparr>ctag_pcp_value := ucast x\<rparr>),
     get_when (\<lambda>value. ctag_vid value \<noteq> 0) (peek_bits 8 (\<lambda>x value. value\<lparr>cvid_value2 := cvid_value2 value + ucast x\<rparr>)),
     add_decoded]"

definition valid_pfcp_ctag_ie_t :: "pfcp_ctag_ie_t \<Rightarrow> bool" where
  "valid_pfcp_ctag_ie_t v \<longleftrightarrow> ctag_vid v = 1"

definition fresh_pfcp_ctag_ie_t :: "pfcp_ctag_ie_t \<Rightarrow> bool" where
  "fresh_pfcp_ctag_ie_t r \<longleftrightarrow> cvid_value2 r = 0"

interpretation ctag_ie: ie_codec 8 8 encode_pfcp_ctag_ie_t decode_pfcp_ctag_ie_t wire_pfcp_ctag_ie_t
    valid_pfcp_ctag_ie_t fresh_pfcp_ctag_ie_t
  unfolding encode_pfcp_ctag_ie_t_def[abs_def] decode_pfcp_ctag_ie_t_def wire_pfcp_ctag_ie_t_def[abs_def]
  by (rule ie_codec_bytes_bytes; (intro pfcp_intros_peek)?; (rule pfcp_ctag_ie_t.equality)?; auto simp: valid_pfcp_ctag_ie_t_def fresh_pfcp_ctag_ie_t_def)

record pfcp_user_plane_ip_rsrc_info_ie_t = pfcp_ie +
  user_plane_ip_rsrc_info_spare :: "1 word"
  assosi :: "1 word"
  assoni :: "1 word"
  teidri :: "3 word"
  v6 :: "1 word"
  v4 :: "1 word"
  teid_range :: u8
  ipv4_address :: u32
  ipv6_address :: "u8 list"
  ntwk_inst :: u8
  user_plane_ip_rsrc_info_spare2 :: "4 word"
  src_intfc :: "4 word"

definition wire_pfcp_user_plane_ip_rsrc_info_ie_t :: "pfcp_user_plane_ip_rsrc_info_ie_t \<Rightarrow> bool list" where
  "wire_pfcp_user_plane_ip_rsrc_info_ie_t value =
     wire_pfcp_ie_header_t (header value) @
     field_bits 1 (ucast (user_plane_ip_rsrc_info_spare value)) @
     field_bits 1 (ucast (assosi value)) @
     field_bits 1 (ucast (assoni value)) @
     field_bits 3 (ucast (teidri value)) @
     field_bits 1 (ucast (v6 value)) @
     field_bits 1 (ucast (v4 value)) @
     (if teidri value \<noteq> 0 then field_bits 8 (ucast (teid_range value)) else []) @
     (if v4 value \<noteq> 0 then field_bits 32 (ucast (ipv4_address value)) else []) @
     (if v6 value \<noteq> 0 then byte_bits (take (16) (ipv6_address value)) else []) @
     (if assoni value \<noteq> 0 then field_bits 8 (ucast (ntwk_inst value)) else []) @
     field_bits 4 (ucast (user_plane_ip_rsrc_info_spare2 value)) @
     (if assosi value \<noteq> 0 then field_bits 4 (ucast (src_intfc value)) else []) @ []"

definition encode_pfcp_user_plane_ip_rsrc_info_ie_t :: "pfcp_user_plane_ip_rsrc_info_ie_t \<Rightarrow> encoder" where
  "encode_pfcp_user_plane_ip_rsrc_info_ie_t value = run_bytes [
     put_call (encode_pfcp_ie_header_t (header value)),
     put_bits (ucast (user_plane_ip_rsrc_info_spare value)) 1,
     put_bits (ucast (assosi value)) 1,
     put_bits (ucast (assoni value)) 1,
     put_bits (ucast (teidri value)) 3,
     put_bits (ucast (v6 value)) 1,
     put_bits (ucast (v4 value)) 1,
     put_when (teidri value \<noteq> 0) (put_bits (ucast (teid_range value)) 8),
     put_when (v4 value \<noteq> 0) (put_bits (ucast (ipv4_address value)) 32),
     put_when (v6 value \<noteq> 0) (put_bytes (take (16) (ipv6_address value))),
     put_when (assoni value \<noteq> 0) (put_bits (ucast (ntwk_inst value)) 8),
     put_bits (ucast (user_plane_ip_rsrc_info_spare2 value)) 4,
     put_when (assosi value \<noteq> 0) (put_bits (ucast (src_intfc value)) 4)]"

definition decode_pfcp_user_plane_ip_rsrc_info_ie_t :: "pfcp_user_plane_ip_rsrc_info_ie_t decoder" where
  "decode_pfcp_user_plane_ip_rsrc_info_ie_t = parse_bytes [
     get_call decode_pfcp_ie_header_t header (\<lambda>x value. value\<lparr>header := x\<rparr>),
     get_bits 1 (\<lambda>x value. value\<lparr>user_plane_ip_rsrc_info_spare := ucast x\<rparr>),
     get_bits 1 (\<lambda>x value. value\<lparr>assosi := ucast x\<rparr>),
     get_bits 1 (\<lambda>x value. value\<lparr>assoni := ucast x\<rparr>),
     get_bits 3 (\<lambda>x value. value\<lparr>teidri := ucast x\<rparr>),
     get_bits 1 (\<lambda>x value. value\<lparr>v6 := ucast x\<rparr>),
     get_bits 1 (\<lambda>x value. value\<lparr>v4 := ucast x\<rparr>),
     get_when (\<lambda>value. teidri value \<noteq> 0) (get_bits 8 (\<lambda>x value. value\<lparr>teid_range := ucast x\<rparr>)),
     get_when (\<lambda>value. v4 value \<noteq> 0) (get_bits 32 (\<lambda>x value. value\<lparr>ipv4_address := ipv4_address value + ucast x\<rparr>)),
     get_when (\<lambda>value. v6 value \<noteq> 0) (get_bytes 16 (\<lambda>bs value. value\<lparr>ipv6_address := bs\<rparr>)),
     get_when (\<lambda>value. assoni value \<noteq> 0) (get_all [get_bits 8 (\<lambda>x value. value\<lparr>ntwk_inst := ntwk_inst value + ucast x\<rparr>), set_decoded (\<lambda>value. 8 * unat (ntwk_inst value)), add_decoded]),
     get_bits 4 (\<lambda>x value. value\<lparr>user_plane_ip_rsrc_info_spare2 := ucast x\<rparr>),
     get_when (\<lambda>value. assosi value \<noteq> 0) (get_bits 4 (\<lambda>x value. value\<lparr>src_intfc := src_intfc value + ucast x\<rparr>))]"

definition valid_pfcp_user_plane_ip_rsrc_info_ie_t :: "pfcp_user_plane_ip_rsrc_info_ie_t \<Rightarrow> bool" where
  "valid_pfcp_user_plane_ip_rsrc_info_ie_t v \<longleftrightarrow> assosi v = 1 \<and> assoni v = 0 \<and> (teidri v = 0 \<longrightarrow> teid_range v = 0) \<and> (v4 v = 0 \<longrightarrow> ipv4_address v = 0) \<and> 
    length (ipv6_address v) = 16 \<and> (v6 v = 0 \<longrightarrow> ipv6_address v = replicate 16 0) \<and> ntwk_inst v = 0"

definition fresh_pfcp_user_plane_ip_rsrc_info_ie_t :: "pfcp_user_plane_ip_rsrc_info_ie_t \<Rightarrow> bool" where
  "fresh_pfcp_user_plane_ip_rsrc_info_ie_t r \<longleftrightarrow> teid_range r = 0 \<and> ipv4_address r = 0 \<and> ipv6_address r = replicate 16 0 \<and> ntwk_inst r = 0 \<and> src_intfc r = 0"

lemma user_plane_ip_rsrc_info_writes:
  assumes "valid_pfcp_user_plane_ip_rsrc_info_ie_t v"
  shows "writes 8 (encode_pfcp_user_plane_ip_rsrc_info_ie_t v) (wire_pfcp_user_plane_ip_rsrc_info_ie_t v)"
  using assms
  unfolding encode_pfcp_user_plane_ip_rsrc_info_ie_t_def wire_pfcp_user_plane_ip_rsrc_info_ie_t_def
    valid_pfcp_user_plane_ip_rsrc_info_ie_t_def
  by - (rule writes_run_bytes; (intro emits_Cons_sent[where c = "assosi v \<noteq> 0"]
      emits_Cons_absent[where c = "assoni v \<noteq> 0"] pfcp_intros)?; simp)

lemma user_plane_ip_rsrc_info_parses:
  assumes "valid_pfcp_user_plane_ip_rsrc_info_ie_t v" "fresh_pfcp_user_plane_ip_rsrc_info_ie_t r"
  shows "parses 8 decode_pfcp_user_plane_ip_rsrc_info_ie_t (wire_pfcp_user_plane_ip_rsrc_info_ie_t v) r v"
  using assms
  unfolding decode_pfcp_user_plane_ip_rsrc_info_ie_t_def wire_pfcp_user_plane_ip_rsrc_info_ie_t_def
    valid_pfcp_user_plane_ip_rsrc_info_ie_t_def fresh_pfcp_user_plane_ip_rsrc_info_ie_t_def
  by - (rule parses_parse_bytes; (intro reads_Cons_present[where b = "assosi v \<noteq> 0"]
      reads_Cons_absent[where b = "assoni v \<noteq> 0"] pfcp_intros)?;
      (rule pfcp_user_plane_ip_rsrc_info_ie_t.equality)?; simp)

interpretation user_plane_ip_rsrc_info_ie: ie_codec 8 8 encode_pfcp_user_plane_ip_rsrc_info_ie_t
    decode_pfcp_user_plane_ip_rsrc_info_ie_t wire_pfcp_user_plane_ip_rsrc_info_ie_t
    valid_pfcp_user_plane_ip_rsrc_info_ie_t fresh_pfcp_user_plane_ip_rsrc_info_ie_t
  by unfold_locales (simp_all only: user_plane_ip_rsrc_info_writes user_plane_ip_rsrc_info_parses zero_less_numeral)

record pfcp_sdf_filter_ie_t = pfcp_ie +
  sdf_fltr_spare :: "3 word"
  bid :: "1 word"
  fl :: "1 word"
  spi :: "1 word"
  ttc :: "1 word"
  fd :: "1 word"
  sdf_fltr_spare2 :: u8
  len_of_flow_desc :: u16
  flow_desc :: "u8 list"
  tos_traffic_cls :: u16
  secur_parm_idx :: u32
  flow_label :: "24 word"
  sdf_filter_id :: u32

definition wire_pfcp_sdf_filter_ie_t :: "pfcp_sdf_filter_ie_t \<Rightarrow> bool list" where
  "wire_pfcp_sdf_filter_ie_t value =
     wire_pfcp_ie_header_t (header value) @
     field_bits 3 (ucast (sdf_fltr_spare value)) @
     field_bits 1 (ucast (bid value)) @
     field_bits 1 (ucast (fl value)) @
     field_bits 1 (ucast (spi value)) @
     field_bits 1 (ucast (ttc value)) @
     field_bits 1 (ucast (fd value)) @
     field_bits 8 (ucast (sdf_fltr_spare2 value)) @
     (if fd value \<noteq> 0 then field_bits 16 (ucast (len_of_flow_desc value)) else []) @
     (if fd value \<noteq> 0 then byte_bits (take (unat (len_of_flow_desc value)) (flow_desc value)) else []) @
     (if ttc value \<noteq> 0 then field_bits 16 (ucast (tos_traffic_cls value)) else []) @
     (if spi value \<noteq> 0 then field_bits 32 (ucast (secur_parm_idx value)) else []) @
     (if fl value \<noteq> 0 then field_bits 24 (ucast (flow_label value)) else []) @
     (if bid value \<noteq> 0 then field_bits 32 (ucast (sdf_filter_id value)) else []) @ []"

definition encode_pfcp_sdf_filter_ie_t :: "pfcp_sdf_filter_ie_t \<Rightarrow> encoder" where
  "encode_pfcp_sdf_filter_ie_t value = run_bits [
     put_call (encode_pfcp_ie_header_t (header value)),
     put_bits (ucast (sdf_fltr_spare value)) 3,
     put_bits (ucast (bid value)) 1,
     put_bits (ucast (fl value)) 1,
     put_bits (ucast (spi value)) 1,
     put_bits (ucast (ttc value)) 1,
     put_bits (ucast (fd value)) 1,
     put_bits (ucast (sdf_fltr_spare2 value)) 8,
     put_when (fd value \<noteq> 0) (put_bits (ucast (len_of_flow_desc value)) 16),
     put_when (fd value \<noteq> 0) (put_bytes (take (unat (len_of_flow_desc value)) (flow_desc value))),
     put_when (ttc value \<noteq> 0) (put_bits (ucast (tos_traffic_cls value)) 16),
     put_when (spi value \<noteq> 0) (put_bits (ucast (secur_parm_idx value)) 32),
     put_when (fl value \<noteq> 0) (put_bits (ucast (flow_label value)) 24),
     put_when (bid value \<noteq> 0) (put_bits (ucast (sdf_filter_id value)) 32)]"

definition decode_pfcp_sdf_filter_ie_t :: "pfcp_sdf_filter_ie_t decoder" where
  "decode_pfcp_sdf_filter_ie_t = parse_bytes [
     get_call decode_pfcp_ie_header_t header (\<lambda>x value. value\<lparr>header := x\<rparr>),
     get_bits 3 (\<lambda>x value. value\<lparr>sdf_fltr_spare := ucast x\<rparr>),
     get_bits 1 (\<lambda>x value. value\<lparr>bid := ucast x\<rparr>),
     get_bits 1 (\<lambda>x value. value\<lparr>fl := ucast x\<rparr>),
     get_bits 1 (\<lambda>x value. value\<lparr>spi := ucast x\<rparr>),
     get_bits 1 (\<lambda>x value. value\<lparr>ttc := ucast x\<rparr>),
     get_bits 1 (\<lambda>x value. value\<lparr>fd := ucast x\<rparr>),
     get_bits 8 (\<lambda>x value. value\<lparr>sdf_fltr_spare2 := ucast x\<rparr>),
     get_when (\<lambda>value. fd value \<noteq> 0) (get_bits 16 (\<lambda>x value. value\<lparr>len_of_flow_desc := len_of_flow_desc value + ucast x\<rparr>)),
     get_when (\<lambda>value. fd value \<noteq> 0) (get_dep (\<lambda>value. get_bytes (unat (len_of_flow_desc value)) (\<lambda>bs value. value\<lparr>flow_desc := bs @ drop (length bs) (flow_desc value)\<rparr>))),
     get_when (\<lambda>value. ttc value \<noteq> 0) (get_bits 16 (\<lambda>x value. value\<lparr>tos_traffic_cls := tos_traffic_cls value + ucast x\<rparr>)),
     get_when (\<lambda>value. spi value \<noteq> 0) (get_bits 32 (\<lambda>x value. value\<lparr>secur_parm_idx := secur_parm_idx value + ucast x\<rparr>)),
     get_when (\<lambda>value. fl value \<noteq> 0) (get_bits 24 (\<lambda>x value. value\<lparr>flow_label := flow_label value + ucast x\<rparr>)),
     get_when (\<lambda>value. bid value \<noteq> 0) (get_bits 32 (\<lambda>x value. value\<lparr>sdf_filter_id := sdf_filter_id value + ucast x\<rparr>))]"

definition valid_pfcp_sdf_filter_ie_t :: "pfcp_sdf_filter_ie_t \<Rightarrow> bool" where
  "valid_pfcp_sdf_filter_ie_t v \<longleftrightarrow> padded (unat (len_of_flow_desc v)) 255 (flow_desc v) \<and> (fd v = 0 \<longrightarrow> len_of_flow_desc v = 0) \<and> 
    (ttc v = 0 \<longrightarrow> tos_traffic_cls v = 0) \<and> (spi v = 0 \<longrightarrow> secur_parm_idx v = 0) \<and> (fl v = 0 \<longrightarrow> flow_label v = 0) \<and> (bid v = 0 \<longrightarrow> sdf_filter_id v = 0)"

definition fresh_pfcp_sdf_filter_ie_t :: "pfcp_sdf_filter_ie_t \<Rightarrow> bool" where
  "fresh_pfcp_sdf_filter_ie_t r \<longleftrightarrow> len_of_flow_desc r = 0 \<and> flow_desc r = replicate 255 0 \<and> tos_traffic_cls r = 0 \<and> secur_parm_idx r = 0 \<and> 
    flow_label r = 0 \<and> sdf_filter_id r = 0"

lemma sdf_filter_size:
  assumes "valid_pfcp_sdf_filter_ie_t v"
  shows "length (wire_pfcp_sdf_filter_ie_t v) < 65536" "length (wire_pfcp_sdf_filter_ie_t v) mod 8 = 0"
  using assms by (auto simp: valid_pfcp_sdf_filter_ie_t_def wire_pfcp_sdf_filter_ie_t_def padded_def)

lemma sdf_filter_writes:
  assumes "valid_pfcp_sdf_filter_ie_t v"
  shows "writes 1 (encode_pfcp_sdf_filter_ie_t v) (wire_pfcp_sdf_filter_ie_t v)"
  unfolding encode_pfcp_sdf_filter_ie_t_def
  by (rule writes_run_bits[OF _ sdf_filter_size(1)[OF assms]])
    (unfold wire_pfcp_sdf_filter_ie_t_def, intro pfcp_intros, simp_all)

lemma sdf_filter_parses:
  assumes "valid_pfcp_sdf_filter_ie_t v" "fresh_pfcp_sdf_filter_ie_t r"
  shows "parses 8 decode_pfcp_sdf_filter_ie_t (wire_pfcp_sdf_filter_ie_t v) r v"
proof -
  have p: "padded (unat (len_of_flow_desc v)) 255 (flow_desc v)"
    using assms(1) by (simp add: valid_pfcp_sdf_filter_ie_t_def)
  note desc = padded_min[OF p] padded_append[OF p]
    assms[unfolded valid_pfcp_sdf_filter_ie_t_def fresh_pfcp_sdf_filter_ie_t_def]
  show ?thesis
    unfolding decode_pfcp_sdf_filter_ie_t_def
    by (rule parses_parse_bytes[OF _ sdf_filter_size[OF assms(1)]],
        unfold wire_pfcp_sdf_filter_ie_t_def,
        (intro pfcp_intros; (simp add: desc)?; rule pfcp_sdf_filter_ie_t.equality; simp add: desc))
qed

interpretation sdf_filter_ie: ie_codec 1 8 encode_pfcp_sdf_filter_ie_t decode_pfcp_sdf_filter_ie_t
    wire_pfcp_sdf_filter_ie_t valid_pfcp_sdf_filter_ie_t fresh_pfcp_sdf_filter_ie_t
  by unfold_locales (simp_all only: sdf_filter_writes sdf_filter_parses zero_less_one zero_less_numeral)

lemma sdf_filter_max_size:
  "valid_pfcp_sdf_filter_ie_t v \<Longrightarrow> length (wire_pfcp_sdf_filter_ie_t v) \<le> 2208"
  by (auto simp: valid_pfcp_sdf_filter_ie_t_def wire_pfcp_sdf_filter_ie_t_def padded_def)

text \<open>C6: an SDF filter with any combination of its five optional fields, and with a flow
  description of at most 255 bytes, survives the trip into a zeroed structure.\<close>

theorem sdf_filter_roundtrip:
  assumes "valid_pfcp_sdf_filter_ie_t v" "fresh_pfcp_sdf_filter_ie_t r"
    and "clear m (8 * buf) (8 * buf + 2208)"
  shows "decode_pfcp_sdf_filter_ie_t (snd (encode_pfcp_sdf_filter_ie_t v m buf)) buf r =
    (fst (encode_pfcp_sdf_filter_ie_t v m buf) div 8, v)"
  using sdf_filter_ie.roundtrip_at[OF assms sdf_filter_max_size[OF assms(1)]] by simp

theorem sdf_filter_roundtrip_witness:
  "\<exists>v r :: pfcp_sdf_filter_ie_t. take 3 (flow_desc v) = [1, 2, 3] \<and> fd v = 1 \<and> bid v = 1 \<and>
     sdf_filter_id v = 9 \<and>
     snd (decode_pfcp_sdf_filter_ie_t (snd (encode_pfcp_sdf_filter_ie_t v (\<lambda>_. 0) 8)) 8 r) = v"
proof -
  let ?h = "\<lparr>type = 23, len = 11\<rparr> :: pfcp_ie_header_t"
  let ?v = "\<lparr>header = ?h, sdf_fltr_spare = 0, bid = 1, fl = 0, spi = 0, ttc = 0, fd = 1,
    sdf_fltr_spare2 = 0, len_of_flow_desc = 3, flow_desc = [1, 2, 3] @ replicate 252 0,
    tos_traffic_cls = 0, secur_parm_idx = 0, flow_label = 0, sdf_filter_id = 9\<rparr> :: pfcp_sdf_filter_ie_t"
  let ?r = "?v\<lparr>len_of_flow_desc := 0, flow_desc := replicate 255 0, sdf_filter_id := 0\<rparr>"
  have "valid_pfcp_sdf_filter_ie_t ?v" "fresh_pfcp_sdf_filter_ie_t ?r"
    "clear (\<lambda>_. 0) (8 * 8) (8 * 8 + 2208)"
    by (simp_all add: valid_pfcp_sdf_filter_ie_t_def fresh_pfcp_sdf_filter_ie_t_def padded_def)
  from sdf_filter_roundtrip[OF this] show ?thesis by (intro exI[of _ ?v] exI[of _ ?r]) simp
qed

record pfcp_outer_hdr_creation_ie_t = pfcp_ie +
  outer_hdr_creation_desc :: u16
  teid :: u32
  ipv4_address :: u32
  ipv6_address :: "u8 list"
  port_number :: u16
  ctag :: "24 word"
  stag :: "24 word"

definition wire_pfcp_outer_hdr_creation_ie_t :: "pfcp_outer_hdr_creation_ie_t \<Rightarrow> bool list" where
  "wire_pfcp_outer_hdr_creation_ie_t value =
     wire_pfcp_ie_header_t (header value) @
     field_bits 16 (ucast (outer_hdr_creation_desc value)) @
     (if outer_hdr_creation_desc value \<noteq> 0 then field_bits 32 (ucast (teid value)) else []) @
     (if True then field_bits 32 (ucast (ipv4_address value)) else []) @ []"

definition encode_pfcp_outer_hdr_creation_ie_t :: "pfcp_outer_hdr_creation_ie_t \<Rightarrow> encoder" where
  "encode_pfcp_outer_hdr_creation_ie_t value = run_bits [
     put_call (encode_pfcp_ie_header_t (header value)),
     put_bits (ucast (outer_hdr_creation_desc value)) 16,
     put_when (outer_hdr_creation_desc value \<noteq> 0) (put_bits (ucast (teid value)) 32),
     put_when (True) (put_bits (ucast (ipv4_address value)) 32)]"

definition decode_pfcp_outer_hdr_creation_ie_t :: "pfcp_outer_hdr_creation_ie_t decoder" where
  "decode_pfcp_outer_hdr_creation_ie_t = parse_bytes [
     get_call decode_pfcp_ie_header_t header (\<lambda>x value. value\<lparr>header := x\<rparr>),
     get_bits 16 (\<lambda>x value. value\<lparr>outer_hdr_creation_desc := ucast x\<rparr>),
     get_bits 32 (\<lambda>x value. value\<lparr>teid := ucast x\<rparr>),
     get_when (\<lambda>value. True) (get_bits 32 (\<lambda>x value. value\<lparr>ipv4_address := ucast x\<rparr>))]"

definition valid_pfcp_outer_hdr_creation_ie_t :: "pfcp_outer_hdr_creation_ie_t \<Rightarrow> bool" where
  "valid_pfcp_outer_hdr_creation_ie_t v \<longleftrightarrow> outer_hdr_creation_desc v \<noteq> 0 \<and> ipv6_address v = replicate 16 0 \<and> port_number v = 0 \<and> ctag v = 0 \<and> stag v = 0"

definition fresh_pfcp_outer_hdr_creation_ie_t :: "pfcp_outer_hdr_creation_ie_t \<Rightarrow> bool" where
  "fresh_pfcp_outer_hdr_creation_ie_t r \<longleftrightarrow> ipv6_address r = replicate 16 0 \<and> port_number r = 0 \<and> ctag r = 0 \<and> stag r = 0"

interpretation outer_hdr_creation_ie: ie_codec 1 8 encode_pfcp_outer_hdr_creation_ie_t decode_pfcp_outer_hdr_creation_ie_t wire_pfcp_outer_hdr_creation_ie_t
    valid_pfcp_outer_hdr_creation_ie_t fresh_pfcp_outer_hdr_creation_ie_t
  unfolding encode_pfcp_outer_hdr_creation_ie_t_def[abs_def] decode_pfcp_outer_hdr_creation_ie_t_def wire_pfcp_outer_hdr_creation_ie_t_def[abs_def]
  by (rule ie_codec_bits_bytes; (intro reads_Cons_sent[where b = "outer_hdr_creation_desc _ \<noteq> 0"] reads_Cons_always pfcp_intros)?; (rule pfcp_outer_hdr_creation_ie_t.equality)?; auto simp: valid_pfcp_outer_hdr_creation_ie_t_def fresh_pfcp_outer_hdr_creation_ie_t_def)

record pfcp_vol_thresh_ie_t = pfcp_ie +
  vol_thresh_spare :: "5 word"
  dlvol :: "1 word"
  ulvol :: "1 word"
  tovol :: "1 word"
  total_volume :: u64
  uplink_volume :: u64
  downlink_volume :: u64

definition wire_pfcp_vol_thresh_ie_t :: "pfcp_vol_thresh_ie_t \<Rightarrow> bool list" where
  "wire_pfcp_vol_thresh_ie_t value =
     wire_pfcp_ie_header_t (header value) @
     field_bits 5 (ucast (vol_thresh_spare value)) @
     field_bits 1 (ucast (dlvol value)) @
     field_bits 1 (ucast (ulvol value)) @
     field_bits 1 (ucast (tovol value)) @
     (if tovol value \<noteq> 0 then field_bits 64 (ucast (total_volume value)) else []) @
     (if ulvol value \<noteq> 0 then field_bits 64 (ucast (uplink_volume value)) else []) @
     (if dlvol value \<noteq> 0 then field_bits 64 (ucast (downlink_volume value)) else []) @ []"

definition encode_pfcp_vol_thresh_ie_t :: "pfcp_vol_thresh_ie_t \<Rightarrow> encoder" where
  "encode_pfcp_vol_thresh_ie_t value = run_bits [
     put_call (encode_pfcp_ie_header_t (header value)),
     put_bits (ucast (vol_thresh_spare value)) 5,
     put_bits (ucast (dlvol value)) 1,
     put_bits (ucast (ulvol value)) 1,
     put_bits (ucast (tovol value)) 1,
     put_when (tovol value \<noteq> 0) (put_bits (ucast (total_volume value)) 64),
     put_when (ulvol value \<noteq> 0) (put_bits (ucast (uplink_volume value)) 64),
     put_when (dlvol value \<noteq> 0) (put_bits (ucast (downlink_volume value)) 64)]"

definition decode_pfcp_vol_thresh_ie_t :: "pfcp_vol_thresh_ie_t decoder" where
  "decode_pfcp_vol_thresh_ie_t = parse_bytes [
     get_call decode_pfcp_ie_header_t header (\<lambda>x value. value\<lparr>header := x\<rparr>),
     get_bits 5 (\<lambda>x value. value\<lparr>vol_thresh_spare := ucast x\<rparr>),
     get_bits 1 (\<lambda>x value. value\<lparr>dlvol := ucast x\<rparr>),
     get_bits 1 (\<lambda>x value. value\<lparr>ulvol := ucast x\<rparr>),
     get_bits 1 (\<lambda>x value. value\<lparr>tovol := ucast x\<rparr>),
     get_when (\<lambda>value. tovol value \<noteq> 0) (peek_bits 64 (\<lambda>x value. value\<lparr>total_volume := total_volume value + ucast x\<rparr>)),
     add_decoded,
     get_when (\<lambda>value. ulvol value \<noteq> 0) (peek_bits 64 (\<lambda>x value. value\<lparr>uplink_volume := uplink_volume value + ucast x\<rparr>)),
     add_decoded,
     get_when (\<lambda>value. dlvol value \<noteq> 0) (peek_bits 64 (\<lambda>x value. value\<lparr>downlink_volume := downlink_volume value + ucast x\<rparr>)),
     add_decoded]"

definition valid_pfcp_vol_thresh_ie_t :: "pfcp_vol_thresh_ie_t \<Rightarrow> bool" where
  "valid_pfcp_vol_thresh_ie_t v \<longleftrightarrow> tovol v = 1 \<and> ulvol v = 1 \<and> dlvol v = 1"

definition fresh_pfcp_vol_thresh_ie_t :: "pfcp_vol_thresh_ie_t \<Rightarrow> bool" where
  "fresh_pfcp_vol_thresh_ie_t r \<longleftrightarrow> total_volume r = 0 \<and> uplink_volume r = 0 \<and> downlink_volume r = 0"

interpretation vol_thresh_ie: ie_codec 1 8 encode_pfcp_vol_thresh_ie_t decode_pfcp_vol_thresh_ie_t wire_pfcp_vol_thresh_ie_t
    valid_pfcp_vol_thresh_ie_t fresh_pfcp_vol_thresh_ie_t
  unfolding encode_pfcp_vol_thresh_ie_t_def[abs_def] decode_pfcp_vol_thresh_ie_t_def wire_pfcp_vol_thresh_ie_t_def[abs_def]
  by (rule ie_codec_bits_bytes; (intro pfcp_intros_peek)?; (rule pfcp_vol_thresh_ie_t.equality)?; auto simp: valid_pfcp_vol_thresh_ie_t_def fresh_pfcp_vol_thresh_ie_t_def)

record pfcp_fseid_ie_t = pfcp_ie +
  fseid_spare :: "1 word"
  fseid_spare2 :: "1 word"
  fseid_spare3 :: "1 word"
  fseid_spare4 :: "1 word"
  fseid_spare5 :: "1 word"
  fseid_spare6 :: "1 word"
  v4 :: "1 word"
  v6 :: "1 word"
  seid :: u64
  ipv4_address :: u32
  ipv6_address :: "u8 list"

definition wire_pfcp_fseid_ie_t :: "pfcp_fseid_ie_t \<Rightarrow> bool list" where
  "wire_pfcp_fseid_ie_t value =
     wire_pfcp_ie_header_t (header value) @
     field_bits 1 (ucast (fseid_spare value)) @
     field_bits 1 (ucast (fseid_spare2 value)) @
     field_bits 1 (ucast (fseid_spare3 value)) @
     field_bits 1 (ucast (fseid_spare4 value)) @
     field_bits 1 (ucast (fseid_spare5 value)) @
     field_bits 1 (ucast (fseid_spare6 value)) @
     field_bits 1 (ucast (v4 value)) @
     field_bits 1 (ucast (v6 value)) @
     field_bits 64 (ucast (seid value)) @
     (if v4 value \<noteq> 0 then byte_bits (le_bytes 4 (ipv4_address value)) else []) @
     (if v6 value \<noteq> 0 then byte_bits (take (16) (ipv6_address value)) else []) @ []"

definition encode_pfcp_fseid_ie_t :: "pfcp_fseid_ie_t \<Rightarrow> encoder" where
  "encode_pfcp_fseid_ie_t value = run_bytes [
     put_call (encode_pfcp_ie_header_t (header value)),
     put_bits (ucast (fseid_spare value)) 1,
     put_bits (ucast (fseid_spare2 value)) 1,
     put_bits (ucast (fseid_spare3 value)) 1,
     put_bits (ucast (fseid_spare4 value)) 1,
     put_bits (ucast (fseid_spare5 value)) 1,
     put_bits (ucast (fseid_spare6 value)) 1,
     put_bits (ucast (v4 value)) 1,
     put_bits (ucast (v6 value)) 1,
     put_bits (ucast (seid value)) 64,
     put_when (v4 value \<noteq> 0) (put_bytes (le_bytes 4 (ipv4_address value))),
     put_when (v6 value \<noteq> 0) (put_bytes (take (16) (ipv6_address value)))]"

definition decode_pfcp_fseid_ie_t :: "pfcp_fseid_ie_t decoder" where
  "decode_pfcp_fseid_ie_t = parse_bytes [
     get_call decode_pfcp_ie_header_t header (\<lambda>x value. value\<lparr>header := x\<rparr>),
     get_bits 1 (\<lambda>x value. value\<lparr>fseid_spare := ucast x\<rparr>),
     get_bits 1 (\<lambda>x value. value\<lparr>fseid_spare2 := ucast x\<rparr>),
     get_bits 1 (\<lambda>x value. value\<lparr>fseid_spare3 := ucast x\<rparr>),
     get_bits 1 (\<lambda>x value. value\<lparr>fseid_spare4 := ucast x\<rparr>),
     get_bits 1 (\<lambda>x value. value\<lparr>fseid_spare5 := ucast x\<rparr>),
     get_bits 1 (\<lambda>x value. value\<lparr>fseid_spare6 := ucast x\<rparr>),
     get_bits 1 (\<lambda>x value. value\<lparr>v4 := ucast x\<rparr>),
     get_bits 1 (\<lambda>x value. value\<lparr>v6 := ucast x\<rparr>),
     get_bits 64 (\<lambda>x value. value\<lparr>seid := ucast x\<rparr>),
     get_when (\<lambda>value. v4 value \<noteq> 0) (get_bytes 4 (\<lambda>bs value. value\<lparr>ipv4_address := of_le_bytes bs\<rparr>)),
     get_when (\<lambda>value. v6 value \<noteq> 0) (get_bytes 16 (\<lambda>bs value. value\<lparr>ipv6_address := bs\<rparr>))]"

definition valid_pfcp_fseid_ie_t :: "pfcp_fseid_ie_t \<Rightarrow> bool" where
  "valid_pfcp_fseid_ie_t v \<longleftrightarrow> length (ipv6_address v) = 16 \<and> (v4 v = 0 \<longrightarrow> ipv4_address v = 0) \<and> 
    (v6 v = 0 \<longrightarrow> ipv6_address v = replicate 16 0)"

definition fresh_pfcp_fseid_ie_t :: "pfcp_fseid_ie_t \<Rightarrow> bool" where
  "fresh_pfcp_fseid_ie_t r \<longleftrightarrow> ipv4_address r = 0 \<and> ipv6_address r = replicate 16 0"

interpretation fseid_ie: ie_codec 8 8 encode_pfcp_fseid_ie_t decode_pfcp_fseid_ie_t wire_pfcp_fseid_ie_t
    valid_pfcp_fseid_ie_t fresh_pfcp_fseid_ie_t
  unfolding encode_pfcp_fseid_ie_t_def[abs_def] decode_pfcp_fseid_ie_t_def wire_pfcp_fseid_ie_t_def[abs_def]
  by (rule ie_codec_bytes_bytes; (intro pfcp_intros)?; (rule pfcp_fseid_ie_t.equality)?; auto simp: valid_pfcp_fseid_ie_t_def fresh_pfcp_fseid_ie_t_def)

lemma fseid_size:
  "valid_pfcp_fseid_ie_t v \<Longrightarrow> length (wire_pfcp_fseid_ie_t v) \<le> 264"
  by (simp add: valid_pfcp_fseid_ie_t_def wire_pfcp_fseid_ie_t_def)

text \<open>An F-SEID whose absent addresses are zero survives the trip through a zeroed stretch of
  the buffer into a structure whose addresses are zero: every flag, the SEID and the addresses come
  back, and decoder and encoder count the same number of bytes.\<close>

theorem fseid_roundtrip:
  assumes "valid_pfcp_fseid_ie_t v" "fresh_pfcp_fseid_ie_t r" "clear m (8 * buf) (8 * buf + 264)"
  shows "decode_pfcp_fseid_ie_t (snd (encode_pfcp_fseid_ie_t v m buf)) buf r =
    (fst (encode_pfcp_fseid_ie_t v m buf), v)"
  using fseid_ie.roundtrip_at[OF assms fseid_size[OF assms(1)]] by simp

theorem fseid_roundtrip_witness:
  "\<exists>v r :: pfcp_fseid_ie_t. v4 v = 1 \<and> seid v = 0x0123456789ABCDEF \<and>
     ipv4_address v = 0x0100000A \<and> seid r = 7 \<and>
     snd (decode_pfcp_fseid_ie_t (snd (encode_pfcp_fseid_ie_t v (\<lambda>_. 0) 16)) 16 r) = v"
proof -
  let ?h = "\<lparr>type = 57, len = 13\<rparr> :: pfcp_ie_header_t"
  let ?v = "\<lparr>header = ?h, fseid_spare = 0, fseid_spare2 = 0, fseid_spare3 = 0, fseid_spare4 = 0,
    fseid_spare5 = 0, fseid_spare6 = 0, v4 = 1, v6 = 0, seid = 0x0123456789ABCDEF,
    ipv4_address = 0x0100000A, ipv6_address = replicate 16 0\<rparr> :: pfcp_fseid_ie_t"
  let ?r = "?v\<lparr>seid := 7, ipv4_address := 0\<rparr>"
  have "valid_pfcp_fseid_ie_t ?v" "fresh_pfcp_fseid_ie_t ?r" "clear (\<lambda>_. 0) (8 * 16) (8 * 16 + 264)"
    by (simp_all add: valid_pfcp_fseid_ie_t_def fresh_pfcp_fseid_ie_t_def)
  from fseid_roundtrip[OF this] show ?thesis by (intro exI[of _ ?v] exI[of _ ?r]) simp
qed

record pfcp_stag_ie_t = pfcp_ie +
  stag_spare :: "5 word"
  stag_vid :: "1 word"
  stag_dei :: "1 word"
  stag_pcp :: "1 word"
  svid_value :: "4 word"
  stag_dei_flag :: "1 word"
  stag_pcp_value :: "3 word"
  svid_value2 :: u8

definition wire_pfcp_stag_ie_t :: "pfcp_stag_ie_t \<Rightarrow> bool list" where
  "wire_pfcp_stag_ie_t value =
     wire_pfcp_ie_header_t (header value) @
     field_bits 5 (ucast (stag_spare value)) @
     field_bits 1 (ucast (stag_vid value)) @
     field_bits 1 (ucast (stag_dei value)) @
     field_bits 1 (ucast (stag_pcp value)) @
     field_bits 4 (ucast (svid_value value)) @
     field_bits 1 (ucast (stag_dei_flag value)) @
     field_bits 3 (ucast (stag_pcp_value value)) @
     (if stag_vid value \<noteq> 0 then field_bits 8 (ucast (svid_value2 value)) else []) @ []"

definition encode_pfcp_stag_ie_t :: "pfcp_stag_ie_t \<Rightarrow> encoder" where
  "encode_pfcp_stag_ie_t value = run_bytes [
     put_call (encode_pfcp_ie_header_t (header value)),
     put_bits (ucast (stag_spare value)) 5,
     put_bits (ucast (stag_vid value)) 1,
     put_bits (ucast (stag_dei value)) 1,
     put_bits (ucast (stag_pcp value)) 1,
     put_bits (ucast (svid_value value)) 4,
     put_bits (ucast (stag_dei_flag value)) 1,
     put_bits (ucast (stag_pcp_value value)) 3,
     put_when (stag_vid value \<noteq> 0) (put_bits (ucast (svid_value2 value)) 8)]"

definition decode_pfcp_stag_ie_t :: "pfcp_stag_ie_t decoder" where
  "decode_pfcp_stag_ie_t = parse_bytes [
     get_call decode_pfcp_ie_header_t header (\<lambda>x value. value\<lparr>header := x\<rparr>),
     get_bits 5 (\<lambda>x value. value\<lparr>stag_spare := ucast x\<rparr>),
     get_bits 1 (\<lambda>x value. value\<lparr>stag_vid := ucast x\<rparr>),
     get_bits 1 (\<lambda>x value. value\<lparr>stag_dei := ucast x\<rparr>),
     get_bits 1 (\<lambda>x value. value\<lparr>stag_pcp := ucast x\<rparr>),
     get_bits 4 (\<lambda>x value. value\<lparr>svid_value := ucast x\<rparr>),
     get_bits 1 (\<lambda>x value. value\<lparr>stag_dei_flag := ucast x\<rparr>),
     get_bits 3 (\<lambda>x value. value\<lparr>stag_pcp_value := ucast x\<rparr>),
     get_when (\<lambda>value. stag_vid value \<noteq> 0) (peek_bits 8 (\<lambda>x value. value\<lparr>svid_value2 := svid_value2 value + ucast x\<rparr>)),
     add_decoded]"

definition valid_pfcp_stag_ie_t :: "pfcp_stag_ie_t \<Rightarrow> bool" where
  "valid_pfcp_stag_ie_t v \<longleftrightarrow> stag_vid v = 1"

definition fresh_pfcp_stag_ie_t :: "pfcp_stag_ie_t \<Rightarrow> bool" where
  "fresh_pfcp_stag_ie_t r \<longleftrightarrow> svid_value2 r = 0"

interpretation stag_ie: ie_codec 8 8 encode_pfcp_stag_ie_t decode_pfcp_stag_ie_t wire_pfcp_stag_ie_t
    valid_pfcp_stag_ie_t fresh_pfcp_stag_ie_t
  unfolding encode_pfcp_stag_ie_t_def[abs_def] decode_pfcp_stag_ie_t_def wire_pfcp_stag_ie_t_def[abs_def]
  by (rule ie_codec_bytes_bytes; (intro pfcp_intros_peek)?; (rule pfcp_stag_ie_t.equality)?; auto simp: valid_pfcp_stag_ie_t_def fresh_pfcp_stag_ie_t_def)

end
