(* ===== verification/Pfcp_Ies_Node.thy ===== *)
theory Pfcp_Ies_Node
  imports Pfcp_Ie_Header
begin

text \<open>
  The PFCP message header and the information elements that need their own treatment: Node ID and
  FQ-CSID, whose decoders may write past an array of the structure (modelled by None), F-TEID, whose
  decoder copies too much, elements with loops and length-dependent parts, and elements whose
  encoder and decoder disagree.
\<close>

section \<open>Message header\<close>

text \<open>\<open>pfcp_header_t\<close>.  The members of the union \<open>seid_seqno\<close> are kept as separate fields: coder and
  decoder only touch the member that the S flag selects.\<close>

record pfcp_header_t =
  s_flag :: "1 word"
  mp_flag :: "1 word"
  header_spare :: "3 word"
  version :: "3 word"
  message_type :: u8
  message_len :: u16
  has_seid_seid :: u64
  has_seid_seq_no :: "24 word"
  has_seid_message_prio :: "4 word"
  has_seid_spare :: "4 word"
  no_seid_seq_no :: "24 word"
  no_seid_spare :: u8

definition wire_pfcp_header_t :: "pfcp_header_t \<Rightarrow> bool list" where
  "wire_pfcp_header_t value =
     field_bits 3 (ucast (version value)) @
     field_bits 3 (ucast (header_spare value)) @
     field_bits 1 (ucast (mp_flag value)) @
     field_bits 1 (ucast (s_flag value)) @
     field_bits 8 (ucast (message_type value)) @
     field_bits 16 (ucast (message_len value)) @
     (if s_flag value = 1 then
        field_bits 64 (has_seid_seid value) @
        field_bits 24 (ucast (has_seid_seq_no value)) @
        field_bits 4 (ucast (has_seid_spare value)) @
        field_bits 4 (ucast (has_seid_message_prio value)) @ []
      else
        field_bits 24 (ucast (no_seid_seq_no value)) @
        field_bits 8 (ucast (no_seid_spare value)) @ [])"

definition encode_pfcp_header_t :: "pfcp_header_t \<Rightarrow> encoder" where
  "encode_pfcp_header_t value = run_bytes ([
     put_bits (ucast (version value)) 3,
     put_bits (ucast (header_spare value)) 3,
     put_bits (ucast (mp_flag value)) 1,
     put_bits (ucast (s_flag value)) 1,
     put_bits (ucast (message_type value)) 8,
     put_bits (ucast (message_len value)) 16] @
     (if s_flag value = 1 then [
        put_bits (has_seid_seid value) 64,
        put_bits (ucast (has_seid_seq_no value)) 24,
        put_bits (ucast (has_seid_spare value)) 4,
        put_bits (ucast (has_seid_message_prio value)) 4]
      else [
        put_bits (ucast (no_seid_seq_no value)) 24,
        put_bits (ucast (no_seid_spare value)) 8]))"

definition decode_pfcp_header_t :: "pfcp_header_t decoder" where
  "decode_pfcp_header_t = parse_bytes [
     get_bits 3 (\<lambda>x value. value\<lparr>version := ucast x\<rparr>),
     get_bits 3 (\<lambda>x value. value\<lparr>header_spare := ucast x\<rparr>),
     get_bits 1 (\<lambda>x value. value\<lparr>mp_flag := ucast x\<rparr>),
     get_bits 1 (\<lambda>x value. value\<lparr>s_flag := ucast x\<rparr>),
     get_bits 8 (\<lambda>x value. value\<lparr>message_type := ucast x\<rparr>),
     get_bits 16 (\<lambda>x value. value\<lparr>message_len := ucast x\<rparr>),
     get_dep (\<lambda>value. get_all
       (if s_flag value = 1 then [
          get_bits 64 (\<lambda>x value. value\<lparr>has_seid_seid := x\<rparr>),
          get_bits 24 (\<lambda>x value. value\<lparr>has_seid_seq_no := ucast x\<rparr>),
          get_bits 4 (\<lambda>x value. value\<lparr>has_seid_spare := ucast x\<rparr>),
          get_bits 4 (\<lambda>x value. value\<lparr>has_seid_message_prio := ucast x\<rparr>)]
        else [
          get_bits 24 (\<lambda>x value. value\<lparr>no_seid_seq_no := ucast x\<rparr>),
          get_bits 8 (\<lambda>x value. value\<lparr>no_seid_spare := ucast x\<rparr>)]))]"

definition valid_pfcp_header_t :: "pfcp_header_t \<Rightarrow> bool" where
  "valid_pfcp_header_t v \<longleftrightarrow>
     (if s_flag v = 1 then no_seid_seq_no v = 0 \<and> no_seid_spare v = 0
      else has_seid_seid v = 0 \<and> has_seid_seq_no v = 0 \<and> has_seid_message_prio v = 0 \<and>
        has_seid_spare v = 0)"

definition fresh_pfcp_header_t :: "pfcp_header_t \<Rightarrow> bool" where
  "fresh_pfcp_header_t r \<longleftrightarrow> no_seid_seq_no r = 0 \<and> no_seid_spare r = 0 \<and> has_seid_seid r = 0 \<and>
     has_seid_seq_no r = 0 \<and> has_seid_message_prio r = 0 \<and> has_seid_spare r = 0"

lemma length_wire_pfcp_header_t:
  "length (wire_pfcp_header_t v) = (if s_flag v = 1 then 128 else 64)"
  by (simp add: wire_pfcp_header_t_def)

lemma pfcp_header_writes: "writes 8 (encode_pfcp_header_t v) (wire_pfcp_header_t v)"
proof (cases "s_flag v = 1")
  case True
  show ?thesis
    unfolding encode_pfcp_header_t_def wire_pfcp_header_t_def if_P[OF True] append.simps
    by (rule writes_run_bytes; (intro emits_intros)?; simp)
next
  case False
  show ?thesis
    unfolding encode_pfcp_header_t_def wire_pfcp_header_t_def if_not_P[OF False] append.simps
    by (rule writes_run_bytes; (intro emits_intros)?; simp)
qed

lemma pfcp_header_parses:
  assumes "valid_pfcp_header_t v" "fresh_pfcp_header_t r"
  shows "parses 8 decode_pfcp_header_t (wire_pfcp_header_t v) r v"
  using assms
  unfolding decode_pfcp_header_t_def wire_pfcp_header_t_def valid_pfcp_header_t_def fresh_pfcp_header_t_def
  by - (rule parses_parse_bytes; (intro reads_Nil reads_Cons_bits reads_Cons_branch)?; (unfold append.simps)?;
     (intro reads_intros)?; (rule pfcp_header_t.equality)?; simp split: if_splits)

interpretation pfcp_header: ie_codec 8 8 encode_pfcp_header_t decode_pfcp_header_t
    wire_pfcp_header_t valid_pfcp_header_t fresh_pfcp_header_t
  by unfold_locales (simp_all only: pfcp_header_writes pfcp_header_parses zero_less_numeral)

text \<open>C3: the message header, with or without a session identifier, survives the trip through a
  zeroed stretch of the buffer into a structure whose union is zero; sequence number, priority and
  SEID come back and both sides count 16 or 8 bytes according to the S flag.\<close>

theorem pfcp_header_roundtrip:
  assumes "valid_pfcp_header_t v" "fresh_pfcp_header_t r" "clear m (8 * buf) (8 * buf + 128)"
  shows "decode_pfcp_header_t (snd (encode_pfcp_header_t v m buf)) buf r = (if s_flag v = 1 then 16 else 8, v) \<and>
    fst (encode_pfcp_header_t v m buf) = (if s_flag v = 1 then 16 else 8)"
proof -
  have len: "length (wire_pfcp_header_t v) \<le> 128" by (simp add: length_wire_pfcp_header_t)
  have "clear m (8 * buf) (8 * buf + length (wire_pfcp_header_t v))"
    using assms(3) by (rule clear_mono) (use len in simp_all)
  from writesD(1)[OF pfcp_header_writes this prod.collapse[symmetric]]
  have size: "fst (encode_pfcp_header_t v m buf) = (if s_flag v = 1 then 16 else 8)"
    by (simp add: length_wire_pfcp_header_t split: if_splits)
  with pfcp_header.roundtrip_at[OF assms len] show ?thesis by simp
qed

theorem pfcp_header_roundtrip_witness:
  "\<exists>v r :: pfcp_header_t. has_seid_seid v = 0xCAFE \<and> has_seid_seq_no v = 77 \<and>
     decode_pfcp_header_t (snd (encode_pfcp_header_t v (\<lambda>_. 0) 0)) 0 r = (16, v)"
proof -
  let ?v = "\<lparr>s_flag = 1, mp_flag = 0, header_spare = 0, version = 1, message_type = 50, message_len = 100,
    has_seid_seid = 0xCAFE, has_seid_seq_no = 77, has_seid_message_prio = 2, has_seid_spare = 0,
    no_seid_seq_no = 0, no_seid_spare = 0\<rparr> :: pfcp_header_t"
  let ?r = "?v\<lparr>s_flag := 0, has_seid_seid := 0, has_seid_seq_no := 0, has_seid_message_prio := 0\<rparr>"
  have "valid_pfcp_header_t ?v" "fresh_pfcp_header_t ?r" "clear (\<lambda>_. 0) (8 * 0) (8 * 0 + 128)"
    by (simp_all add: valid_pfcp_header_t_def fresh_pfcp_header_t_def)
  from pfcp_header_roundtrip[OF this] show ?thesis by (intro exI[of _ ?v] exI[of _ ?r]) simp
qed

section \<open>Node ID\<close>

text \<open>\<open>pfcp_node_id_ie_t\<close>.  The decoder copies \<open>header.len - 1\<close> bytes into the array
  \<open>node_id_value\<close> of \<open>NODE_ID_VALUE_LEN\<close> bytes without looking at its size.  A copy that does not
  fit (or a negative length, which \<open>memcpy\<close> takes for a huge one) has no defined result: None.\<close>

definition NODE_ID_VALUE_LEN :: nat where
  "NODE_ID_VALUE_LEN = 8"

record pfcp_node_id_ie_t = pfcp_ie +
  node_id_spare :: "4 word"
  node_id_type :: "4 word"
  node_id_value :: "u8 list"

definition wire_pfcp_node_id_ie_t :: "pfcp_node_id_ie_t \<Rightarrow> bool list" where
  "wire_pfcp_node_id_ie_t value =
     wire_pfcp_ie_header_t (header value) @
     field_bits 4 (ucast (node_id_spare value)) @
     field_bits 4 (ucast (node_id_type value)) @
     (if node_id_type value = 0 then byte_bits (take 4 (node_id_value value)) else []) @ []"

definition encode_pfcp_node_id_ie_t :: "pfcp_node_id_ie_t \<Rightarrow> encoder" where
  "encode_pfcp_node_id_ie_t value = run_bytes [
     put_call (encode_pfcp_ie_header_t (header value)),
     put_bits (ucast (node_id_spare value)) 4,
     put_bits (ucast (node_id_type value)) 4,
     put_when (node_id_type value = 0) (put_bytes (take 4 (node_id_value value)))]"

definition decode_pfcp_node_id_ie_t ::
  "memory \<Rightarrow> nat \<Rightarrow> pfcp_node_id_ie_t \<Rightarrow> (nat \<times> pfcp_node_id_ie_t) option" where
  "decode_pfcp_node_id_ie_t m buf value =
     (case get_all [
         get_call decode_pfcp_ie_header_t header (\<lambda>x value. value\<lparr>header := x\<rparr>),
         get_bits 4 (\<lambda>x value. value\<lparr>node_id_spare := ucast x\<rparr>),
         get_bits 4 (\<lambda>x value. value\<lparr>node_id_type := ucast x\<rparr>)] m buf (0, 0, value)
      of (total_decoded, decoded, value) \<Rightarrow>
        let n = unat (len (header value)) in
        if n < 1 \<or> NODE_ID_VALUE_LEN < n - 1 then None
        else
          case get_bytes (n - 1)
              (\<lambda>bs value. value\<lparr>node_id_value := bs @ drop (length bs) (node_id_value value)\<rparr>)
              m buf (total_decoded, decoded, value)
          of (total_decoded, decoded, value) \<Rightarrow> Some (total_decoded div CHAR_SIZE, value))"

definition valid_pfcp_node_id_ie_t :: "pfcp_node_id_ie_t \<Rightarrow> bool" where
  "valid_pfcp_node_id_ie_t v \<longleftrightarrow> len (header v) = 5 \<and> node_id_type v = 0 \<and> padded 4 8 (node_id_value v)"

lemma node_id_writes:
  assumes "valid_pfcp_node_id_ie_t v"
  shows "writes 8 (encode_pfcp_node_id_ie_t v) (wire_pfcp_node_id_ie_t v)"
  using assms unfolding encode_pfcp_node_id_ie_t_def wire_pfcp_node_id_ie_t_def
    valid_pfcp_node_id_ie_t_def padded_def
  by - (rule writes_run_bytes; (intro pfcp_intros)?; simp)

text \<open>What the decoder finds in front of the identity: the header and the two nibbles.\<close>

lemma node_id_prefix:
  assumes "agrees m (8 * buf) (wire_pfcp_ie_header_t h @ field_bits 4 (ucast (x :: 4 word)) @
      field_bits 4 (ucast (y :: 4 word)) @ [])"
  obtains d where "get_all [
       get_call decode_pfcp_ie_header_t header (\<lambda>x value. value\<lparr>header := x\<rparr>),
       get_bits 4 (\<lambda>x value. value\<lparr>node_id_spare := ucast x\<rparr>),
       get_bits 4 (\<lambda>x value. value\<lparr>node_id_type := ucast x\<rparr>)] m buf (0, 0, r)
     = (40, d, r\<lparr>header := h, node_id_spare := x, node_id_type := y\<rparr>)"
proof -
  have "reads 0 (get_all [
       get_call decode_pfcp_ie_header_t header (\<lambda>x value. value\<lparr>header := x\<rparr>),
       get_bits 4 (\<lambda>x value. value\<lparr>node_id_spare := ucast x\<rparr>),
       get_bits 4 (\<lambda>x value. value\<lparr>node_id_type := ucast x\<rparr>)])
     (wire_pfcp_ie_header_t h @ field_bits 4 (ucast x) @ field_bits 4 (ucast y) @ []) r
     (r\<lparr>header := h, node_id_spare := x, node_id_type := y\<rparr>)"
    by (intro pfcp_intros; simp)
  from readsD[OF this, of 0 m buf 0] assms that show thesis by (auto simp: add.assoc)
qed

lemma node_id_decodes:
  assumes "valid_pfcp_node_id_ie_t v" "node_id_value r = replicate 8 0"
    and "agrees m (8 * buf) (wire_pfcp_node_id_ie_t v)"
  shows "decode_pfcp_node_id_ie_t m buf r = Some (9, v)"
proof -
  let ?r = "r\<lparr>header := header v, node_id_spare := node_id_spare v, node_id_type := node_id_type v\<rparr>"
  from assms(1) have v: "len (header v) = 5" "node_id_type v = 0" "padded 4 8 (node_id_value v)"
    by (auto simp: valid_pfcp_node_id_ie_t_def)
  have pre: "agrees m (8 * buf) (wire_pfcp_ie_header_t (header v) @ field_bits 4 (ucast (node_id_spare v)) @
      field_bits 4 (ucast (node_id_type v)) @ [])"
    and post: "agrees m (8 * buf + 40) (byte_bits (take 4 (node_id_value v)))"
    using assms(3) v(2) by (simp_all add: wire_pfcp_node_id_ie_t_def add.assoc)
  obtain d where 1: "get_all [
       get_call decode_pfcp_ie_header_t header (\<lambda>x value. value\<lparr>header := x\<rparr>),
       get_bits 4 (\<lambda>x value. value\<lparr>node_id_spare := ucast x\<rparr>),
       get_bits 4 (\<lambda>x value. value\<lparr>node_id_type := ucast x\<rparr>)] m buf (0, 0, r) = (40, d, ?r)"
    using node_id_prefix[OF pre] .
  have upd: "?r\<lparr>node_id_value := take 4 (node_id_value v) @
      drop (length (take 4 (node_id_value v))) (node_id_value ?r)\<rparr> = v"
    by (rule pfcp_node_id_ie_t.equality)
      (use padded_append[OF v(3)] padded_length[OF v(3)] assms(2) in simp_all)
  have "reads 0 (get_bytes 4 (\<lambda>bs value. value\<lparr>node_id_value := bs @ drop (length bs) (node_id_value value)\<rparr>))
      (byte_bits (take 4 (node_id_value v))) ?r v"
    by (rule subst[OF upd, where P = "reads 0 _ _ _"], rule reads_get_bytes)
      (simp add: padded_length[OF v(3)])
  from readsD[OF this, of 40 m buf d] post padded_length[OF v(3)] obtain d' where
    "get_bytes 4 (\<lambda>bs value. value\<lparr>node_id_value := bs @ drop (length bs) (node_id_value value)\<rparr>)
       m buf (40, d, ?r) = (72, d', v)" by auto
  with 1 v(1) show ?thesis
    by (simp add: decode_pfcp_node_id_ie_t_def NODE_ID_VALUE_LEN_def)
qed

text \<open>The copy stays inside \<open>node_id_value\<close> exactly for lengths 1 to 9.\<close>

lemma node_id_safe_iff:
  assumes "agrees m (8 * buf) (wire_pfcp_ie_header_t h @ field_bits 4 (ucast (x :: 4 word)) @
      field_bits 4 (ucast (y :: 4 word)) @ [])"
  shows "(\<exists>n v. decode_pfcp_node_id_ie_t m buf r = Some (n, v)) \<longleftrightarrow> 1 \<le> unat (len h) \<and> unat (len h) \<le> 9"
proof -
  obtain d where "get_all [
       get_call decode_pfcp_ie_header_t header (\<lambda>x value. value\<lparr>header := x\<rparr>),
       get_bits 4 (\<lambda>x value. value\<lparr>node_id_spare := ucast x\<rparr>),
       get_bits 4 (\<lambda>x value. value\<lparr>node_id_type := ucast x\<rparr>)] m buf (0, 0, r)
     = (40, d, r\<lparr>header := h, node_id_spare := x, node_id_type := y\<rparr>)"
    using node_id_prefix[OF assms] .
  then show ?thesis
    by (auto simp: decode_pfcp_node_id_ie_t_def NODE_ID_VALUE_LEN_def Let_def split: prod.splits)
qed

text \<open>C9: the Node ID decoder writes inside \<open>node_id_value\<close> exactly when the announced length is
  between 1 and 9; a peer that announces another length makes it write past the structure.\<close>

theorem node_id_decoder_safe:
  assumes "agrees m (8 * buf) (wire_pfcp_ie_header_t h @ field_bits 4 (ucast (x :: 4 word)) @
      field_bits 4 (ucast (y :: 4 word)) @ [])"
  shows "decode_pfcp_node_id_ie_t m buf r \<noteq> None \<longleftrightarrow> 1 \<le> unat (len h) \<and> unat (len h) \<le> 9"
  using node_id_safe_iff[OF assms, of r] by auto

lemma agrees_zero_memory: "agrees (\<lambda>_. 0) a (wire_pfcp_ie_header_t \<lparr>type = 0, len = 0\<rparr> @
    field_bits 4 (ucast (0 :: 4 word)) @ field_bits 4 (ucast (0 :: 4 word)) @ [])"
proof -
  have "field_bits n 0 = replicate n False" for n
    by (auto simp: nth_field_bits intro: nth_equalityI)
  then show ?thesis
    by (auto simp: wire_pfcp_ie_header_t_def agrees_def bit_at_def msb_bit_def nth_append)
qed

theorem node_id_decoder_safe_witness:
  "decode_pfcp_node_id_ie_t (\<lambda>_. 0) 4 \<lparr>header = \<lparr>type = 0, len = 0\<rparr>, node_id_spare = 0,
     node_id_type = 0, node_id_value = replicate 8 0\<rparr> = None"
  using node_id_decoder_safe[OF agrees_zero_memory, of 4 "\<lparr>header = \<lparr>type = 0, len = 0\<rparr>,
     node_id_spare = 0, node_id_type = 0, node_id_value = replicate 8 0\<rparr>"] by (simp del: not_None_eq)

text \<open>An IPv4 Node ID survives the trip into a structure with a zeroed identity.\<close>

theorem node_id_roundtrip:
  assumes "valid_pfcp_node_id_ie_t v" "node_id_value r = replicate 8 0" "clear m (8 * buf) (8 * buf + 72)"
  shows "decode_pfcp_node_id_ie_t (snd (encode_pfcp_node_id_ie_t v m buf)) buf r =
    Some (fst (encode_pfcp_node_id_ie_t v m buf), v)"
proof -
  have len: "length (wire_pfcp_node_id_ie_t v) = 72"
    using assms(1) by (auto simp: valid_pfcp_node_id_ie_t_def wire_pfcp_node_id_ie_t_def padded_def)
  note w = writesD[OF node_id_writes[OF assms(1)], of m buf, OF _ prod.collapse[symmetric], unfolded len]
  from node_id_decodes[OF assms(1,2) wrote_agrees[OF w(2)[OF assms(3)]]] w(1)[OF assms(3)]
  show ?thesis by simp
qed

theorem node_id_roundtrip_witness:
  "\<exists>v r. take 4 (node_id_value v) = [10, 0, 0, 1] \<and> node_id_value r = replicate 8 0 \<and>
     decode_pfcp_node_id_ie_t (snd (encode_pfcp_node_id_ie_t v (\<lambda>_. 0) 16)) 16 r =
       Some (fst (encode_pfcp_node_id_ie_t v (\<lambda>_. 0) 16), v)"
proof -
  let ?v = "\<lparr>header = \<lparr>type = 60, len = 5\<rparr>, node_id_spare = 0, node_id_type = 0,
    node_id_value = [10, 0, 0, 1, 0, 0, 0, 0]\<rparr> :: pfcp_node_id_ie_t"
  let ?r = "?v\<lparr>node_id_value := replicate 8 0\<rparr>"
  have "valid_pfcp_node_id_ie_t ?v" "node_id_value ?r = replicate 8 0" "clear (\<lambda>_. 0) (8 * 16) (8 * 16 + 72)"
    by (simp_all add: valid_pfcp_node_id_ie_t_def padded_def numeral_eq_Suc)
  from node_id_roundtrip[OF this] show ?thesis by (intro exI[of _ ?v] exI[of _ ?r]) simp
qed

section \<open>F-TEID\<close>

text \<open>\<open>pfcp_fteid_ie_t\<close>.  The macro \<open>DECODE_IPV4_ADDRESS_COND_5\<close> copies \<open>IPV6_ADDRESS_LEN\<close> bytes to
  \<open>&value->ipv4_address\<close>: four bytes of address, and twelve bytes of whatever follows into the
  adjacent \<open>ipv6_address\<close>; the cursor moves by four bytes.\<close>

record pfcp_fteid_ie_t = pfcp_ie +
  fteid_spare :: "4 word"
  chid :: "1 word"
  ch :: "1 word"
  v6 :: "1 word"
  v4 :: "1 word"
  teid :: u32
  ipv4_address :: u32
  ipv6_address :: "u8 list"
  choose_id :: u8

definition wire_pfcp_fteid_ie_t :: "pfcp_fteid_ie_t \<Rightarrow> bool list" where
  "wire_pfcp_fteid_ie_t value =
     (wire_pfcp_ie_header_t (header value) @
      field_bits 4 (ucast (fteid_spare value)) @
      field_bits 1 (ucast (chid value)) @
      field_bits 1 (ucast (ch value)) @
      field_bits 1 (ucast (v6 value)) @
      field_bits 1 (ucast (v4 value)) @
      (if ch value = 0 then field_bits 32 (ucast (teid value)) else []) @ []) @
     (if v4 value \<noteq> 0 \<and> ch value = 0 then byte_bits (le_bytes 4 (ipv4_address value)) else []) @
     (if v6 value \<noteq> 0 \<and> ch value = 0 then byte_bits (take 16 (ipv6_address value)) else []) @
     (if ch value \<noteq> 0 then field_bits 8 (ucast (choose_id value)) else []) @ []"

definition encode_pfcp_fteid_ie_t :: "pfcp_fteid_ie_t \<Rightarrow> encoder" where
  "encode_pfcp_fteid_ie_t value = run_bits [
     put_call (encode_pfcp_ie_header_t (header value)),
     put_bits (ucast (fteid_spare value)) 4,
     put_bits (ucast (chid value)) 1,
     put_bits (ucast (ch value)) 1,
     put_bits (ucast (v6 value)) 1,
     put_bits (ucast (v4 value)) 1,
     put_when (ch value = 0) (put_bits (ucast (teid value)) 32),
     put_when (v4 value \<noteq> 0 \<and> ch value = 0) (put_bytes (le_bytes 4 (ipv4_address value))),
     put_when (v6 value \<noteq> 0 \<and> ch value = 0) (put_bytes (take 16 (ipv6_address value))),
     put_when (ch value \<noteq> 0) (put_bits (ucast (choose_id value)) 8)]"

definition decode_pfcp_fteid_ie_t :: "pfcp_fteid_ie_t decoder" where
  "decode_pfcp_fteid_ie_t = parse_bytes ([
     get_call decode_pfcp_ie_header_t header (\<lambda>x value. value\<lparr>header := x\<rparr>),
     get_bits 4 (\<lambda>x value. value\<lparr>fteid_spare := ucast x\<rparr>),
     get_bits 1 (\<lambda>x value. value\<lparr>chid := ucast x\<rparr>),
     get_bits 1 (\<lambda>x value. value\<lparr>ch := ucast x\<rparr>),
     get_bits 1 (\<lambda>x value. value\<lparr>v6 := ucast x\<rparr>),
     get_bits 1 (\<lambda>x value. value\<lparr>v4 := ucast x\<rparr>),
     get_when (\<lambda>value. ch value = 0) (get_bytes 4 (\<lambda>bs value. value\<lparr>teid := of_le_bytes bs\<rparr>))] @ [
     get_when (\<lambda>value. v4 value \<noteq> 0 \<and> ch value = 0) (get_all [
       peek_bytes 16 (\<lambda>bs value. value\<lparr>ipv4_address := of_le_bytes (take 4 bs),
         ipv6_address := drop 4 bs @ drop 12 (ipv6_address value)\<rparr>),
       skip_bytes 4])] @ [
     get_when (\<lambda>value. v6 value \<noteq> 0 \<and> ch value = 0) (get_bytes 16 (\<lambda>bs value. value\<lparr>ipv6_address := bs\<rparr>)),
     get_when (\<lambda>value. ch value \<noteq> 0) (get_bits 8 (\<lambda>x value. value\<lparr>choose_id := choose_id value + ucast x\<rparr>))])"

text \<open>A value that can be sent: absent fields are zero.\<close>

definition valid_pfcp_fteid_ie_t :: "pfcp_fteid_ie_t \<Rightarrow> bool" where
  "valid_pfcp_fteid_ie_t v \<longleftrightarrow> length (ipv6_address v) = 16 \<and>
     (ch v \<noteq> 0 \<longrightarrow> teid v = 0) \<and> (v4 v = 0 \<or> ch v \<noteq> 0 \<longrightarrow> ipv4_address v = 0) \<and>
     (v6 v = 0 \<or> ch v \<noteq> 0 \<longrightarrow> ipv6_address v = replicate 16 0) \<and> (ch v = 0 \<longrightarrow> choose_id v = 0)"

definition fresh_pfcp_fteid_ie_t :: "pfcp_fteid_ie_t \<Rightarrow> bool" where
  "fresh_pfcp_fteid_ie_t r \<longleftrightarrow> teid r = 0 \<and> ipv4_address r = 0 \<and> ipv6_address r = replicate 16 0 \<and>
     choose_id r = 0"

lemma fteid_writes:
  assumes "valid_pfcp_fteid_ie_t v"
  shows "writes 1 (encode_pfcp_fteid_ie_t v) (wire_pfcp_fteid_ie_t v)"
  using assms unfolding encode_pfcp_fteid_ie_t_def wire_pfcp_fteid_ie_t_def
    valid_pfcp_fteid_ie_t_def append.simps append_assoc
  by - (rule writes_run_bits; (intro pfcp_intros)?; simp)

text \<open>The step that copies sixteen bytes over the two addresses: the IPv4 address is right, the
  IPv6 address is overwritten.\<close>

lemma fteid_ipv4_reads:
  assumes "length (ipv6_address r) = 16" "v4 r \<noteq> 0 \<and> ch r = 0 \<or> ipv4_address r = x"
  shows "reads_to 0 (get_all [get_when (\<lambda>value. v4 value \<noteq> 0 \<and> ch value = 0) (get_all [
       peek_bytes 16 (\<lambda>bs value. value\<lparr>ipv4_address := of_le_bytes (take 4 bs),
         ipv6_address := drop 4 bs @ drop 12 (ipv6_address value)\<rparr>),
       skip_bytes 4])])
     (if v4 r \<noteq> 0 \<and> ch r = 0 then byte_bits (le_bytes 4 x) else []) r
     (\<lambda>r'. \<exists>g. r' = r\<lparr>ipv4_address := x, ipv6_address := g\<rparr> \<and>
       (\<not> (v4 r \<noteq> 0 \<and> ch r = 0) \<longrightarrow> g = ipv6_address r))"
proof (cases "v4 r \<noteq> 0 \<and> ch r = 0")
  case True
  show ?thesis
    unfolding reads_to_def if_P[OF True]
  proof (intro allI impI)
    fix m buf t d
    assume *: "t mod 8 = 0 \<and> t + length (byte_bits (le_bytes 4 x)) < 65536 \<and>
      agrees m (8 * buf + t) (byte_bits (le_bytes 4 x))"
    then obtain q where q: "t = 8 * q" by auto
    let ?bs = "map (\<lambda>i. m (buf + q + i)) [0..<16]"
    have pos: "8 * buf + t = 8 * (buf + q)" using q by simp
    have "take 4 ?bs = le_bytes 4 x"
      using * unfolding pos agrees_byte_bits[of m "buf + q"] by (intro nth_equalityI) auto
    then have "of_le_bytes (take 4 ?bs) = x" by simp
    then show "\<exists>d' r'. get_all [get_when (\<lambda>value. v4 value \<noteq> 0 \<and> ch value = 0) (get_all [
         peek_bytes 16 (\<lambda>bs value. value\<lparr>ipv4_address := of_le_bytes (take 4 bs),
           ipv6_address := drop 4 bs @ drop 12 (ipv6_address value)\<rparr>),
         skip_bytes 4])] m buf (t, d, r) = (t + length (byte_bits (le_bytes 4 x)), d', r') \<and>
       (\<exists>g. r' = r\<lparr>ipv4_address := x, ipv6_address := g\<rparr> \<and>
         (\<not> (v4 r \<noteq> 0 \<and> ch r = 0) \<longrightarrow> g = ipv6_address r))"
      using True q * by (auto simp: get_all_def get_when_def peek_bytes_def skip_bytes_def simp del: take_map)
  qed
next
  case False
  with assms(2) have "r\<lparr>ipv4_address := x, ipv6_address := ipv6_address r\<rparr> = r" by auto
  then show ?thesis
    unfolding if_not_P[OF False] using False
    by (auto simp: reads_to_def get_all_def get_when_def intro!: exI[of _ "ipv6_address r"])
qed

text \<open>The fields in front of the addresses.\<close>

lemma fteid_head_reads:
  assumes "valid_pfcp_fteid_ie_t v" "fresh_pfcp_fteid_ie_t r"
  shows "reads 0 (get_all [
     get_call decode_pfcp_ie_header_t header (\<lambda>x value. value\<lparr>header := x\<rparr>),
     get_bits 4 (\<lambda>x value. value\<lparr>fteid_spare := ucast x\<rparr>),
     get_bits 1 (\<lambda>x value. value\<lparr>chid := ucast x\<rparr>),
     get_bits 1 (\<lambda>x value. value\<lparr>ch := ucast x\<rparr>),
     get_bits 1 (\<lambda>x value. value\<lparr>v6 := ucast x\<rparr>),
     get_bits 1 (\<lambda>x value. value\<lparr>v4 := ucast x\<rparr>),
     get_when (\<lambda>value. ch value = 0) (get_bytes 4 (\<lambda>bs value. value\<lparr>teid := of_le_bytes bs\<rparr>))])
     (wire_pfcp_ie_header_t (header v) @
      field_bits 4 (ucast (fteid_spare v)) @
      field_bits 1 (ucast (chid v)) @
      field_bits 1 (ucast (ch v)) @
      field_bits 1 (ucast (v6 v)) @
      field_bits 1 (ucast (v4 v)) @
      (if ch v = 0 then field_bits 32 (ucast (teid v)) else []) @ []) r
     (r\<lparr>header := header v, fteid_spare := fteid_spare v, chid := chid v, ch := ch v,
      v6 := v6 v, v4 := v4 v, teid := htonl (teid v)\<rparr>)"
  using assms unfolding valid_pfcp_fteid_ie_t_def fresh_pfcp_fteid_ie_t_def
  by - (intro reads_Cons_when_be32 pfcp_intros; simp)

text \<open>The fields behind the IPv4 address, read into a structure \<open>r1\<close> with an arbitrary IPv6
  address \<open>g\<close>.\<close>

lemma fteid_tail_reads:
  assumes "length (ipv6_address v) = 16" "v6 r1 = v6 v" "ch r1 = ch v" "ch v = 0 \<longrightarrow> choose_id v = 0"
    "choose_id r1 = 0"
  shows "reads 0 (get_all [
     get_when (\<lambda>value. v6 value \<noteq> 0 \<and> ch value = 0) (get_bytes 16 (\<lambda>bs value. value\<lparr>ipv6_address := bs\<rparr>)),
     get_when (\<lambda>value. ch value \<noteq> 0) (get_bits 8 (\<lambda>x value. value\<lparr>choose_id := choose_id value + ucast x\<rparr>))])
     ((if v6 v \<noteq> 0 \<and> ch v = 0 then byte_bits (take 16 (ipv6_address v)) else []) @
      (if ch v \<noteq> 0 then field_bits 8 (ucast (choose_id v)) else []) @ []) r1
     (r1\<lparr>ipv6_address := (if v6 v \<noteq> 0 \<and> ch v = 0 then ipv6_address v else ipv6_address r1),
       choose_id := choose_id v\<rparr>)"
proof (cases "v6 v \<noteq> 0 \<and> ch v = 0")
  case True
  then show ?thesis
    using assms by - (intro reads_Cons_present[where b = "v6 v \<noteq> 0 \<and> ch v = 0"] pfcp_intros; simp)
next
  case False
  then show ?thesis
    using assms by - (intro reads_Cons_absent[where b = "v6 v \<noteq> 0 \<and> ch v = 0"] pfcp_intros; auto)
qed

lemma length_wire_fteid:
  assumes "valid_pfcp_fteid_ie_t v"
  shows "length (wire_pfcp_fteid_ie_t v) < 65536" "length (wire_pfcp_fteid_ie_t v) mod 8 = 0"
  using assms by (auto simp: valid_pfcp_fteid_ie_t_def wire_pfcp_fteid_ie_t_def)

text \<open>A sent F-TEID is received with its TEID in network byte order; the IPv6 address is right
  unless an IPv4 address came without an IPv6 address, when it holds bytes of the next element.\<close>

definition fteid_received :: "pfcp_fteid_ie_t \<Rightarrow> pfcp_fteid_ie_t \<Rightarrow> bool" where
  "fteid_received v w \<longleftrightarrow> (\<exists>g. w = v\<lparr>teid := htonl (teid v), ipv6_address := g\<rparr> \<and>
     (v4 v = 0 \<or> v6 v \<noteq> 0 \<or> ch v \<noteq> 0 \<longrightarrow> g = ipv6_address v))"

lemma fteid_tail_received:
  assumes "valid_pfcp_fteid_ie_t v" "fresh_pfcp_fteid_ie_t r"
    and r1: "r1 = r\<lparr>header := header v, fteid_spare := fteid_spare v, chid := chid v, ch := ch v,
      v6 := v6 v, v4 := v4 v, teid := htonl (teid v), ipv4_address := ipv4_address v, ipv6_address := g\<rparr>"
    and g: "\<not> (v4 v \<noteq> 0 \<and> ch v = 0) \<longrightarrow> g = replicate 16 0"
  shows "reads_to 0 (get_all [
     get_when (\<lambda>value. v6 value \<noteq> 0 \<and> ch value = 0) (get_bytes 16 (\<lambda>bs value. value\<lparr>ipv6_address := bs\<rparr>)),
     get_when (\<lambda>value. ch value \<noteq> 0) (get_bits 8 (\<lambda>x value. value\<lparr>choose_id := choose_id value + ucast x\<rparr>))])
     ((if v6 v \<noteq> 0 \<and> ch v = 0 then byte_bits (take 16 (ipv6_address v)) else []) @
      (if ch v \<noteq> 0 then field_bits 8 (ucast (choose_id v)) else []) @ []) r1 (fteid_received v)"
proof (rule reads_reads_to[OF fteid_tail_reads])
  note valid = assms(1)[unfolded valid_pfcp_fteid_ie_t_def]
  note fresh = assms(2)[unfolded fresh_pfcp_fteid_ie_t_def]
  show "length (ipv6_address v) = 16" "v6 r1 = v6 v" "ch r1 = ch v" "ch v = 0 \<longrightarrow> choose_id v = 0"
    "choose_id r1 = 0"
    using valid fresh r1 by simp_all
  let ?g = "if v6 v \<noteq> 0 \<and> ch v = 0 then ipv6_address v else g"
  have "r1\<lparr>ipv6_address := if v6 v \<noteq> 0 \<and> ch v = 0 then ipv6_address v else ipv6_address r1,
      choose_id := choose_id v\<rparr> = v\<lparr>teid := htonl (teid v), ipv6_address := ?g\<rparr>"
    using r1 by (intro pfcp_fteid_ie_t.equality) simp_all
  moreover have "v4 v = 0 \<or> v6 v \<noteq> 0 \<or> ch v \<noteq> 0 \<longrightarrow> ?g = ipv6_address v"
    using g valid by auto
  ultimately show "fteid_received v (r1\<lparr>ipv6_address := if v6 v \<noteq> 0 \<and> ch v = 0 then ipv6_address v
      else ipv6_address r1, choose_id := choose_id v\<rparr>)"
    unfolding fteid_received_def by blast
qed

lemma fteid_decodes:
  assumes "valid_pfcp_fteid_ie_t v" "fresh_pfcp_fteid_ie_t r"
    and "agrees m (8 * buf) (wire_pfcp_fteid_ie_t v)"
  shows "\<exists>w. decode_pfcp_fteid_ie_t m buf r = (length (wire_pfcp_fteid_ie_t v) div 8, w) \<and> fteid_received v w"
proof -
  let ?r = "r\<lparr>header := header v, fteid_spare := fteid_spare v, chid := chid v, ch := ch v,
      v6 := v6 v, v4 := v4 v, teid := htonl (teid v)\<rparr>"
  note valid = assms(1)[unfolded valid_pfcp_fteid_ie_t_def]
  note fresh = assms(2)[unfolded fresh_pfcp_fteid_ie_t_def]
  have ip: "length (ipv6_address ?r) = 16" "v4 ?r \<noteq> 0 \<and> ch ?r = 0 \<or> ipv4_address ?r = ipv4_address v"
    using valid fresh by auto
  have ipv4: "reads_to (0 mod 8) (get_all [get_when (\<lambda>value. v4 value \<noteq> 0 \<and> ch value = 0) (get_all [
       peek_bytes 16 (\<lambda>bs value. value\<lparr>ipv4_address := of_le_bytes (take 4 bs),
         ipv6_address := drop 4 bs @ drop 12 (ipv6_address value)\<rparr>),
       skip_bytes 4])])
     (if v4 v \<noteq> 0 \<and> ch v = 0 then byte_bits (le_bytes 4 (ipv4_address v)) else []) ?r
     (\<lambda>r'. \<exists>g. r' = ?r\<lparr>ipv4_address := ipv4_address v, ipv6_address := g\<rparr> \<and>
       (\<not> (v4 v \<noteq> 0 \<and> ch v = 0) \<longrightarrow> g = replicate 16 0))"
    using fteid_ipv4_reads[OF ip] fresh by simp
  show ?thesis
    unfolding decode_pfcp_fteid_ie_t_def
  proof (rule parse_bytes_reads_to[OF _ length_wire_fteid(1)[OF assms(1)] assms(3)],
      unfold wire_pfcp_fteid_ie_t_def,
      rule reads_then_reads_to[OF fteid_head_reads[OF assms(1,2)] _ reads_to_append[OF ipv4]])
    fix r1 assume "\<exists>g. r1 = ?r\<lparr>ipv4_address := ipv4_address v, ipv6_address := g\<rparr> \<and>
       (\<not> (v4 v \<noteq> 0 \<and> ch v = 0) \<longrightarrow> g = replicate 16 0)"
    then obtain g where "r1 = ?r\<lparr>ipv4_address := ipv4_address v, ipv6_address := g\<rparr>"
      "\<not> (v4 v \<noteq> 0 \<and> ch v = 0) \<longrightarrow> g = replicate 16 0" by blast
    from fteid_tail_received[OF assms(1,2) _ this(2), of r1] this(1)
    show "reads_to ((0 mod 8 + length (if v4 v \<noteq> 0 \<and> ch v = 0 then byte_bits (le_bytes 4 (ipv4_address v)) else [])) mod 8)
       (get_all [
     get_when (\<lambda>value. v6 value \<noteq> 0 \<and> ch value = 0) (get_bytes 16 (\<lambda>bs value. value\<lparr>ipv6_address := bs\<rparr>)),
     get_when (\<lambda>value. ch value \<noteq> 0) (get_bits 8 (\<lambda>x value. value\<lparr>choose_id := choose_id value + ucast x\<rparr>))])
     ((if v6 v \<noteq> 0 \<and> ch v = 0 then byte_bits (take 16 (ipv6_address v)) else []) @
      (if ch v \<noteq> 0 then field_bits 8 (ucast (choose_id v)) else []) @ []) r1 (fteid_received v)"
      by simp
  qed (simp, blast)
qed

text \<open>C7: an F-TEID sent through a zeroed stretch of the buffer is received with its flags, its IPv4
  address and its choose id; the TEID arrives in network byte order; the IPv6 address is right unless
  an IPv4 address came without one.\<close>

theorem fteid_transfer:
  assumes "valid_pfcp_fteid_ie_t v" "fresh_pfcp_fteid_ie_t r" "clear m (8 * buf) (8 * buf + 232)"
  shows "\<exists>g. decode_pfcp_fteid_ie_t (snd (encode_pfcp_fteid_ie_t v m buf)) buf r =
      (fst (encode_pfcp_fteid_ie_t v m buf) div 8, v\<lparr>teid := htonl (teid v), ipv6_address := g\<rparr>) \<and>
    (v4 v = 0 \<or> v6 v \<noteq> 0 \<or> ch v \<noteq> 0 \<longrightarrow> g = ipv6_address v)"
proof -
  have "length (wire_pfcp_fteid_ie_t v) \<le> 232"
    using assms(1) by (auto simp: valid_pfcp_fteid_ie_t_def wire_pfcp_fteid_ie_t_def)
  with assms(3) have "clear m (8 * buf) (8 * buf + length (wire_pfcp_fteid_ie_t v))"
    by (auto intro: clear_mono)
  note w = writesD[OF fteid_writes[OF assms(1)] this prod.collapse[symmetric]]
  from fteid_decodes[OF assms(1,2) wrote_agrees[OF w(2)]] w(1) show ?thesis
    by (auto simp: fteid_received_def)
qed

theorem fteid_transfer_witness:
  "\<exists>v r. teid v = 0x00010203 \<and> v4 v = 1 \<and> v6 v = 0 \<and> (\<exists>g n.
     decode_pfcp_fteid_ie_t (snd (encode_pfcp_fteid_ie_t v (\<lambda>_. 0) 16)) 16 r =
       (n, v\<lparr>teid := htonl 0x00010203, ipv6_address := g\<rparr>))"
proof -
  let ?v = "\<lparr>header = \<lparr>type = 21, len = 9\<rparr>, fteid_spare = 0, chid = 0, ch = 0, v6 = 0, v4 = 1,
    teid = 0x00010203, ipv4_address = 0x0100000A, ipv6_address = replicate 16 0, choose_id = 0\<rparr>
    :: pfcp_fteid_ie_t"
  let ?r = "?v\<lparr>teid := 0, ipv4_address := 0\<rparr>"
  have "valid_pfcp_fteid_ie_t ?v" "fresh_pfcp_fteid_ie_t ?r" "clear (\<lambda>_. 0) (8 * 16) (8 * 16 + 232)"
    by (simp_all add: valid_pfcp_fteid_ie_t_def fresh_pfcp_fteid_ie_t_def)
  from fteid_transfer[OF this] show ?thesis by (intro exI[of _ ?v] exI[of _ ?r]) auto
qed

section \<open>Elements with repeated or length-dependent fields\<close>

record pfcp_actvt_predef_rules_ie_t = pfcp_ie +
  predef_rules_nm :: "u8 list"

definition wire_pfcp_actvt_predef_rules_ie_t :: "pfcp_actvt_predef_rules_ie_t \<Rightarrow> bool list" where
  "wire_pfcp_actvt_predef_rules_ie_t value =
     wire_pfcp_ie_header_t (header value) @ byte_bits (take 8 (predef_rules_nm value)) @ []"

definition encode_pfcp_actvt_predef_rules_ie_t :: "pfcp_actvt_predef_rules_ie_t \<Rightarrow> encoder" where
  "encode_pfcp_actvt_predef_rules_ie_t value = run_bits (
     put_call (encode_pfcp_ie_header_t (header value)) #
     map (\<lambda>i. put_bits (ucast (predef_rules_nm value ! i)) 8) [0..<8])"

definition decode_pfcp_actvt_predef_rules_ie_t :: "pfcp_actvt_predef_rules_ie_t decoder" where
  "decode_pfcp_actvt_predef_rules_ie_t = parse_bytes [
     get_call decode_pfcp_ie_header_t header (\<lambda>x value. value\<lparr>header := x\<rparr>),
     get_bytes 8 (\<lambda>bs value. value\<lparr>predef_rules_nm := bs\<rparr>)]"

interpretation actvt_predef_rules_ie: ie_codec 1 8 encode_pfcp_actvt_predef_rules_ie_t
    decode_pfcp_actvt_predef_rules_ie_t wire_pfcp_actvt_predef_rules_ie_t
    "\<lambda>v. length (predef_rules_nm v) = 8" "\<lambda>_. True"
  unfolding encode_pfcp_actvt_predef_rules_ie_t_def[abs_def] decode_pfcp_actvt_predef_rules_ie_t_def
    wire_pfcp_actvt_predef_rules_ie_t_def[abs_def]
proof (rule ie_codec_bits_bytes)
  fix v :: pfcp_actvt_predef_rules_ie_t assume l: "length (predef_rules_nm v) = 8"
  have "map (\<lambda>i. put_bits (ucast (predef_rules_nm v ! i)) 8) [0..<8] =
      map (\<lambda>b. put_bits (ucast b) 8) (predef_rules_nm v)"
    using l by (intro nth_equalityI) auto
  moreover have "emits 0 (put_all (map (\<lambda>b. put_bits (ucast b) 8) (predef_rules_nm v)))
      (byte_bits (predef_rules_nm v))"
    unfolding byte_bits_field_bits by (rule emits_put_bits_list) simp_all
  ultimately show "emits 0 (put_all (put_call (encode_pfcp_ie_header_t (header v)) #
      map (\<lambda>i. put_bits (ucast (predef_rules_nm v ! i)) 8) [0..<8]))
      (wire_pfcp_ie_header_t (header v) @ byte_bits (take 8 (predef_rules_nm v)) @ [])"
    using l by (intro pfcp_header_intros) simp_all
next
  fix v r :: pfcp_actvt_predef_rules_ie_t assume l: "length (predef_rules_nm v) = 8"
  show "reads 0 (get_all [
     get_call decode_pfcp_ie_header_t header (\<lambda>x value. value\<lparr>header := x\<rparr>),
     get_bytes 8 (\<lambda>bs value. value\<lparr>predef_rules_nm := bs\<rparr>)])
     (wire_pfcp_ie_header_t (header v) @ byte_bits (take 8 (predef_rules_nm v)) @ []) r v"
    by (intro pfcp_intros; simp add: l)
qed simp_all

text \<open>\<open>pfcp_failed_rule_id_ie_t\<close>: the type says how many bytes of the rule identity are sent.\<close>

record pfcp_failed_rule_id_ie_t = pfcp_ie +
  failed_rule_id_spare :: "3 word"
  rule_id_type :: "5 word"
  rule_id_value :: "u8 list"

definition rule_id_size :: "5 word \<Rightarrow> nat" where
  "rule_id_size t =
     (if t = 0 then 2
      else if t = 2 then 4
      else if t = 3 then 4
      else if t = 4 then 1
      else 4)"

definition wire_pfcp_failed_rule_id_ie_t :: "pfcp_failed_rule_id_ie_t \<Rightarrow> bool list" where
  "wire_pfcp_failed_rule_id_ie_t value =
     wire_pfcp_ie_header_t (header value) @
     field_bits 3 (ucast (failed_rule_id_spare value)) @
     field_bits 5 (ucast (rule_id_type value)) @
     byte_bits (take (rule_id_size (rule_id_type value)) (rule_id_value value)) @ []"

definition encode_pfcp_failed_rule_id_ie_t :: "pfcp_failed_rule_id_ie_t \<Rightarrow> encoder" where
  "encode_pfcp_failed_rule_id_ie_t value = run_bytes [
     put_call (encode_pfcp_ie_header_t (header value)),
     put_bits (ucast (failed_rule_id_spare value)) 3,
     put_bits (ucast (rule_id_type value)) 5,
     put_bytes (take (rule_id_size (rule_id_type value)) (rule_id_value value))]"

definition decode_pfcp_failed_rule_id_ie_t :: "pfcp_failed_rule_id_ie_t decoder" where
  "decode_pfcp_failed_rule_id_ie_t = parse_bytes [
     get_call decode_pfcp_ie_header_t header (\<lambda>x value. value\<lparr>header := x\<rparr>),
     get_bits 3 (\<lambda>x value. value\<lparr>failed_rule_id_spare := ucast x\<rparr>),
     get_bits 5 (\<lambda>x value. value\<lparr>rule_id_type := ucast x\<rparr>),
     get_dep (\<lambda>value. get_bytes (rule_id_size (rule_id_type value))
       (\<lambda>bs value. value\<lparr>rule_id_value := bs @ drop (length bs) (rule_id_value value)\<rparr>))]"

lemma rule_id_size_le: "rule_id_size t \<le> 4"
  by (simp add: rule_id_size_def)

interpretation failed_rule_id_ie: ie_codec 8 8 encode_pfcp_failed_rule_id_ie_t
    decode_pfcp_failed_rule_id_ie_t wire_pfcp_failed_rule_id_ie_t
    "\<lambda>v. padded (rule_id_size (rule_id_type v)) 8 (rule_id_value v)"
    "\<lambda>r. rule_id_value r = replicate 8 0"
proof (unfold encode_pfcp_failed_rule_id_ie_t_def[abs_def] decode_pfcp_failed_rule_id_ie_t_def
    wire_pfcp_failed_rule_id_ie_t_def[abs_def], rule ie_codec_bytes_bytes)
  fix v r :: pfcp_failed_rule_id_ie_t
  assume v: "padded (rule_id_size (rule_id_type v)) 8 (rule_id_value v)" and r: "rule_id_value r = replicate 8 0"
  note facts = padded_min[OF v] padded_append[OF v] r
  show "reads 0 (get_all [
     get_call decode_pfcp_ie_header_t header (\<lambda>x value. value\<lparr>header := x\<rparr>),
     get_bits 3 (\<lambda>x value. value\<lparr>failed_rule_id_spare := ucast x\<rparr>),
     get_bits 5 (\<lambda>x value. value\<lparr>rule_id_type := ucast x\<rparr>),
     get_dep (\<lambda>value. get_bytes (rule_id_size (rule_id_type value))
       (\<lambda>bs value. value\<lparr>rule_id_value := bs @ drop (length bs) (rule_id_value value)\<rparr>))])
     (wire_pfcp_ie_header_t (header v) @ field_bits 3 (ucast (failed_rule_id_spare v)) @
      field_bits 5 (ucast (rule_id_type v)) @
      byte_bits (take (rule_id_size (rule_id_type v)) (rule_id_value v)) @ []) r v"
    by (intro pfcp_intros; (rule pfcp_failed_rule_id_ie_t.equality)?; simp add: facts)
next
  fix v :: pfcp_failed_rule_id_ie_t
  assume v: "padded (rule_id_size (rule_id_type v)) 8 (rule_id_value v)"
  show "length (wire_pfcp_ie_header_t (header v) @ field_bits 3 (ucast (failed_rule_id_spare v)) @
      field_bits 5 (ucast (rule_id_type v)) @
      byte_bits (take (rule_id_size (rule_id_type v)) (rule_id_value v)) @ []) < 65536"
    using rule_id_size_le[of "rule_id_type v"] by (simp add: padded_min[OF v])
qed (intro pfcp_intros, simp_all)

text \<open>\<open>pfcp_fqcsid_ie_t\<close>: up to fifteen set identifiers may be announced for an array of
  \<open>PDN_CONN_SET_IDENT_LEN\<close>; the decoder does not check, and writing past the array has no defined
  result.\<close>

definition PDN_CONN_SET_IDENT_LEN :: nat where
  "PDN_CONN_SET_IDENT_LEN = 8"

record pfcp_fqcsid_ie_t = pfcp_ie +
  fqcsid_node_id_type :: "4 word"
  number_of_csids :: "4 word"
  node_address :: u32
  pdn_conn_set_ident :: "u16 list"

definition wire_pfcp_fqcsid_ie_t :: "pfcp_fqcsid_ie_t \<Rightarrow> bool list" where
  "wire_pfcp_fqcsid_ie_t value =
     wire_pfcp_ie_header_t (header value) @
     field_bits 4 (ucast (fqcsid_node_id_type value)) @
     field_bits 4 (ucast (number_of_csids value)) @
     (if fqcsid_node_id_type value = 0 then byte_bits (le_bytes 4 (node_address value)) else []) @
     concat (map (\<lambda>x. field_bits 16 (ucast x)) (take (unat (number_of_csids value)) (pdn_conn_set_ident value)))"

definition encode_pfcp_fqcsid_ie_t :: "pfcp_fqcsid_ie_t \<Rightarrow> encoder" where
  "encode_pfcp_fqcsid_ie_t value = run_bytes (
     put_call (encode_pfcp_ie_header_t (header value)) #
     put_bits (ucast (fqcsid_node_id_type value)) 4 #
     put_bits (ucast (number_of_csids value)) 4 #
     put_when (fqcsid_node_id_type value = 0) (put_bytes (le_bytes 4 (node_address value))) #
     map (\<lambda>i. put_bits (ucast (pdn_conn_set_ident value ! i)) 16) [0..<unat (number_of_csids value)])"

definition decode_pfcp_fqcsid_ie_t ::
  "memory \<Rightarrow> nat \<Rightarrow> pfcp_fqcsid_ie_t \<Rightarrow> (nat \<times> pfcp_fqcsid_ie_t) option" where
  "decode_pfcp_fqcsid_ie_t m buf value =
     (case get_all [
         get_call decode_pfcp_ie_header_t header (\<lambda>x value. value\<lparr>header := x\<rparr>),
         get_bits 4 (\<lambda>x value. value\<lparr>fqcsid_node_id_type := ucast x\<rparr>),
         get_bits 4 (\<lambda>x value. value\<lparr>number_of_csids := ucast x\<rparr>),
         get_bits 32 (\<lambda>x value. value\<lparr>node_address := ucast x\<rparr>)] m buf (0, 0, value)
      of (total_decoded, decoded, value) \<Rightarrow>
        if PDN_CONN_SET_IDENT_LEN < unat (number_of_csids value) then None
        else
          case get_all (map (\<lambda>itr. get_bits 16
              (\<lambda>x value. value\<lparr>pdn_conn_set_ident := (pdn_conn_set_ident value)[itr := ucast x]\<rparr>))
              [0..<unat (number_of_csids value)]) m buf (total_decoded, decoded, value)
          of (total_decoded, decoded, value) \<Rightarrow> Some (total_decoded div CHAR_SIZE, value))"

definition valid_pfcp_fqcsid_ie_t :: "pfcp_fqcsid_ie_t \<Rightarrow> bool" where
  "valid_pfcp_fqcsid_ie_t v \<longleftrightarrow> fqcsid_node_id_type v = 0 \<and>
     padded (unat (number_of_csids v)) 8 (pdn_conn_set_ident v)"

lemma fqcsid_writes:
  assumes "valid_pfcp_fqcsid_ie_t v"
  shows "writes 8 (encode_pfcp_fqcsid_ie_t v) (wire_pfcp_fqcsid_ie_t v)"
proof -
  from assms have v: "fqcsid_node_id_type v = 0" "padded (unat (number_of_csids v)) 8 (pdn_conn_set_ident v)"
    by (auto simp: valid_pfcp_fqcsid_ie_t_def)
  then have n: "unat (number_of_csids v) \<le> 8" by (simp add: padded_def)
  then have n2: "2 * unat (number_of_csids v) < 8183" by linarith
  have "map (\<lambda>i. put_bits (ucast (pdn_conn_set_ident v ! i)) 16) [0..<unat (number_of_csids v)] =
      map (\<lambda>x. put_bits (ucast x) 16) (take (unat (number_of_csids v)) (pdn_conn_set_ident v))"
    using v(2) n by (intro nth_equalityI) (auto simp: padded_def)
  then show ?thesis
    unfolding encode_pfcp_fqcsid_ie_t_def wire_pfcp_fqcsid_ie_t_def
    by (simp only:) (rule writes_run_bytes; (intro pfcp_intros emits_put_bits_list)?;
        simp add: v(1) padded_min[OF v(2)] n2)
qed

text \<open>A loop that decodes into consecutive array elements.\<close>

lemma fqcsid_loop_reads:
  assumes "n \<le> length xs" "length (pdn_conn_set_ident r) = length xs"
  shows "reads 0 (get_all (map (\<lambda>itr. get_bits 16
      (\<lambda>x value. value\<lparr>pdn_conn_set_ident := (pdn_conn_set_ident value)[itr := ucast x]\<rparr>)) [0..<n]))
    (concat (map (\<lambda>x. field_bits 16 (ucast x)) (take n xs))) r
    (r\<lparr>pdn_conn_set_ident := take n xs @ drop n (pdn_conn_set_ident r)\<rparr>)"
  using assms(1)
proof (induction n)
  case 0
  show ?case by (simp add: reads_Nil)
next
  case (Suc n)
  let ?f = "\<lambda>itr. get_bits 16
      (\<lambda>x value. value\<lparr>pdn_conn_set_ident := (pdn_conn_set_ident value)[itr := ucast x]\<rparr>)"
  let ?r = "r\<lparr>pdn_conn_set_ident := take n xs @ drop n (pdn_conn_set_ident r)\<rparr>"
  have "reads 0 (get_all [?f n]) (field_bits 16 (ucast (xs ! n)) @ []) ?r
      (r\<lparr>pdn_conn_set_ident := take (Suc n) xs @ drop (Suc n) (pdn_conn_set_ident r)\<rparr>)"
    using Suc.prems assms(2)
    by (intro pfcp_intros)
      (simp_all add: take_Suc_conv_app_nth list_update_append Cons_nth_drop_Suc[symmetric])
  with Suc reads_append[of 0 "map ?f [0..<n]" _ r ?r "[?f n]"] show ?case
    by (simp add: take_Suc_conv_app_nth)
qed

lemma fqcsid_decodes:
  assumes "valid_pfcp_fqcsid_ie_t v" "pdn_conn_set_ident r = replicate 8 0"
    and "agrees m (8 * buf) (wire_pfcp_fqcsid_ie_t v)"
  shows "decode_pfcp_fqcsid_ie_t m buf r =
    Some (9 + 2 * unat (number_of_csids v), v\<lparr>node_address := htonl (node_address v)\<rparr>)"
proof -
  from assms have v: "fqcsid_node_id_type v = 0" "padded (unat (number_of_csids v)) 8 (pdn_conn_set_ident v)"
    by (auto simp: valid_pfcp_fqcsid_ie_t_def)
  then have n: "unat (number_of_csids v) \<le> 8" by (simp add: padded_def)
  let ?a = "field_bits 32 (ucast (htonl (node_address v)))"
  let ?r = "r\<lparr>header := header v, fqcsid_node_id_type := fqcsid_node_id_type v,
    number_of_csids := number_of_csids v, node_address := htonl (node_address v)\<rparr>"
  have addr: "byte_bits (le_bytes 4 (node_address v)) = ?a"
    unfolding field_bits_32 using le_bytes_of_le_bytes[where 'a = 32, of "rev (le_bytes 4 (node_address v))"]
    by (simp add: htonl_def del: of_le_bytes_rev)
  have "reads 0 (get_all [
         get_call decode_pfcp_ie_header_t header (\<lambda>x value. value\<lparr>header := x\<rparr>),
         get_bits 4 (\<lambda>x value. value\<lparr>fqcsid_node_id_type := ucast x\<rparr>),
         get_bits 4 (\<lambda>x value. value\<lparr>number_of_csids := ucast x\<rparr>),
         get_bits 32 (\<lambda>x value. value\<lparr>node_address := ucast x\<rparr>)])
      (wire_pfcp_ie_header_t (header v) @ field_bits 4 (ucast (fqcsid_node_id_type v)) @
       field_bits 4 (ucast (number_of_csids v)) @ ?a @ []) r ?r"
    by (intro pfcp_intros; simp)
  from readsD[OF this, of 0 m buf 0] assms(3) v(1) obtain d where 1: "get_all [
         get_call decode_pfcp_ie_header_t header (\<lambda>x value. value\<lparr>header := x\<rparr>),
         get_bits 4 (\<lambda>x value. value\<lparr>fqcsid_node_id_type := ucast x\<rparr>),
         get_bits 4 (\<lambda>x value. value\<lparr>number_of_csids := ucast x\<rparr>),
         get_bits 32 (\<lambda>x value. value\<lparr>node_address := ucast x\<rparr>)] m buf (0, 0, r) = (72, d, ?r)"
    by (auto simp: wire_pfcp_fqcsid_ie_t_def addr add.assoc)
  have eq: "?r\<lparr>pdn_conn_set_ident := take (unat (number_of_csids v)) (pdn_conn_set_ident v) @
      drop (unat (number_of_csids v)) (pdn_conn_set_ident ?r)\<rparr> = v\<lparr>node_address := htonl (node_address v)\<rparr>"
    by (rule pfcp_fqcsid_ie_t.equality) (use padded_append[OF v(2)] assms(2) in simp_all)
  have loop: "reads 0 (get_all (map (\<lambda>itr. get_bits 16
              (\<lambda>x value. value\<lparr>pdn_conn_set_ident := (pdn_conn_set_ident value)[itr := ucast x]\<rparr>))
              [0..<unat (number_of_csids v)]))
      (concat (map (\<lambda>x. field_bits 16 (ucast x)) (take (unat (number_of_csids v)) (pdn_conn_set_ident v))))
      ?r (v\<lparr>node_address := htonl (node_address v)\<rparr>)"
    by (rule subst[OF eq, where P = "reads 0 _ _ _"], rule fqcsid_loop_reads)
      (use n assms(2) padded_length[OF v(2)] in simp_all)
  have "agrees m (8 * buf + 72) (concat (map (\<lambda>x. field_bits 16 (ucast x))
      (take (unat (number_of_csids v)) (pdn_conn_set_ident v))))"
    using assms(3) v(1) by (simp add: wire_pfcp_fqcsid_ie_t_def add.assoc)
  with readsD[OF loop, of 72 m buf d] n obtain d' where "get_all (map (\<lambda>itr. get_bits 16
              (\<lambda>x value. value\<lparr>pdn_conn_set_ident := (pdn_conn_set_ident value)[itr := ucast x]\<rparr>))
              [0..<unat (number_of_csids v)]) m buf (72, d, ?r)
     = (72 + 16 * unat (number_of_csids v), d', v\<lparr>node_address := htonl (node_address v)\<rparr>)"
    by (auto simp: padded_min[OF v(2)])
  with 1 n show ?thesis
    by (simp add: decode_pfcp_fqcsid_ie_t_def PDN_CONN_SET_IDENT_LEN_def)
qed

lemma fqcsid_size:
  "valid_pfcp_fqcsid_ie_t v \<Longrightarrow>
    length (wire_pfcp_fqcsid_ie_t v) = 72 + 16 * unat (number_of_csids v)"
  using padded_min[of "unat (number_of_csids v)" 8 "pdn_conn_set_ident v"]
  by (auto simp: valid_pfcp_fqcsid_ie_t_def wire_pfcp_fqcsid_ie_t_def)

text \<open>An FQ-CSID with at most eight set identifiers is received with all of them and with its node
  address in network byte order; the decoder counts the bytes that were sent.\<close>

theorem fqcsid_transfer:
  assumes "valid_pfcp_fqcsid_ie_t v" "pdn_conn_set_ident r = replicate 8 0"
    and "clear m (8 * buf) (8 * buf + 200)"
  shows "decode_pfcp_fqcsid_ie_t (snd (encode_pfcp_fqcsid_ie_t v m buf)) buf r =
    Some (fst (encode_pfcp_fqcsid_ie_t v m buf), v\<lparr>node_address := htonl (node_address v)\<rparr>)"
proof -
  have "unat (number_of_csids v) \<le> 8"
    using assms(1) by (simp add: valid_pfcp_fqcsid_ie_t_def padded_def)
  with assms(3) have "clear m (8 * buf) (8 * buf + length (wire_pfcp_fqcsid_ie_t v))"
    by (auto simp: fqcsid_size[OF assms(1)] intro: clear_mono)
  note w = writesD[OF fqcsid_writes[OF assms(1)] this prod.collapse[symmetric]]
  from fqcsid_decodes[OF assms(1,2) wrote_agrees[OF w(2)]] w(1) show ?thesis
    by (simp add: fqcsid_size[OF assms(1)])
qed

theorem fqcsid_transfer_witness:
  "\<exists>v r. take 2 (pdn_conn_set_ident v) = [5, 6] \<and> number_of_csids v = 2 \<and>
     decode_pfcp_fqcsid_ie_t (snd (encode_pfcp_fqcsid_ie_t v (\<lambda>_. 0) 16)) 16 r =
       Some (fst (encode_pfcp_fqcsid_ie_t v (\<lambda>_. 0) 16), v\<lparr>node_address := htonl 0x0A000001\<rparr>)"
proof -
  let ?v = "\<lparr>header = \<lparr>type = 65, len = 9\<rparr>, fqcsid_node_id_type = 0, number_of_csids = 2,
    node_address = 0x0A000001, pdn_conn_set_ident = [5, 6, 0, 0, 0, 0, 0, 0]\<rparr> :: pfcp_fqcsid_ie_t"
  let ?r = "?v\<lparr>pdn_conn_set_ident := replicate 8 0\<rparr>"
  have "valid_pfcp_fqcsid_ie_t ?v" "pdn_conn_set_ident ?r = replicate 8 0"
    "clear (\<lambda>_. 0) (8 * 16) (8 * 16 + 200)"
    by (simp_all add: valid_pfcp_fqcsid_ie_t_def padded_def) (simp_all add: numeral_eq_Suc)
  from fqcsid_transfer[OF this] show ?thesis by (intro exI[of _ ?v] exI[of _ ?r]) simp
qed

text \<open>\<open>pfcp_up_func_feat_ie_t\<close>: the decoder reads the additional feature words while the element is
  long enough.\<close>

definition get_if :: "(nat \<Rightarrow> 'r \<Rightarrow> bool) \<Rightarrow> 'r dec_step \<Rightarrow> 'r dec_step" where
  "get_if c f m buf s = (if c (fst s) (snd (snd s)) then f m buf s else s)"

record pfcp_up_func_feat_ie_t = pfcp_ie +
  sup_feat :: u16
  add_sup_feat1 :: u16
  add_sup_feat2 :: u16

definition encode_pfcp_up_func_feat_ie_t :: "pfcp_up_func_feat_ie_t \<Rightarrow> encoder" where
  "encode_pfcp_up_func_feat_ie_t value = run_bytes [
     put_call (encode_pfcp_ie_header_t (header value)),
     put_bits (ucast (sup_feat value)) 16,
     put_bits (ucast (add_sup_feat1 value)) 16,
     put_bits (ucast (add_sup_feat2 value)) 16]"

definition decode_pfcp_up_func_feat_ie_t :: "pfcp_up_func_feat_ie_t decoder" where
  "decode_pfcp_up_func_feat_ie_t = parse_bytes ([
     get_call decode_pfcp_ie_header_t header (\<lambda>x value. value\<lparr>header := x\<rparr>),
     get_bits 16 (\<lambda>x value. value\<lparr>sup_feat := ucast x\<rparr>)] @ [
     get_if (\<lambda>total_decoded value. total_decoded div CHAR_SIZE < unat (len (header value)) + 4)
       (get_bits 16 (\<lambda>x value. value\<lparr>add_sup_feat1 := ucast x\<rparr>)),
     get_if (\<lambda>total_decoded value. total_decoded div CHAR_SIZE < unat (len (header value)) + 4)
       (get_bits 16 (\<lambda>x value. value\<lparr>add_sup_feat2 := ucast x\<rparr>))])"

text \<open>The image an element of \<open>n\<close> feature words has; the encoder always sends three words.\<close>

definition wire_up_func_feat :: "nat \<Rightarrow> pfcp_up_func_feat_ie_t \<Rightarrow> bool list" where
  "wire_up_func_feat n value = wire_pfcp_ie_header_t (header value) @
     concat (map (\<lambda>x. field_bits 16 (ucast x)) (take n [sup_feat value, add_sup_feat1 value, add_sup_feat2 value]))"

lemma up_func_feat_writes: "writes 8 (encode_pfcp_up_func_feat_ie_t v) (wire_up_func_feat 3 v)"
proof -
  have wire: "wire_up_func_feat 3 v = wire_pfcp_ie_header_t (header v) @ field_bits 16 (ucast (sup_feat v)) @
      field_bits 16 (ucast (add_sup_feat1 v)) @ field_bits 16 (ucast (add_sup_feat2 v)) @ []"
    by (simp add: wire_up_func_feat_def)
  show ?thesis
    unfolding encode_pfcp_up_func_feat_ie_t_def wire
    by (rule writes_run_bytes; (intro pfcp_intros)?; simp)
qed

lemma up_func_feat_decodes:
  assumes "unat (len (header v)) = 2 * n" "1 \<le> n" "n \<le> 3"
    and "agrees m (8 * buf) (wire_up_func_feat n v)"
    and "n < 2 \<Longrightarrow> add_sup_feat1 r = add_sup_feat1 v" "n < 3 \<Longrightarrow> add_sup_feat2 r = add_sup_feat2 v"
  shows "decode_pfcp_up_func_feat_ie_t m buf r = (4 + 2 * n, v)"
proof -
  let ?r = "r\<lparr>header := header v, sup_feat := sup_feat v\<rparr>"
  let ?c = "\<lambda>total_decoded value. total_decoded div CHAR_SIZE < unat (len (header value)) + 4"
  have pre: "reads 0 (get_all [
     get_call decode_pfcp_ie_header_t header (\<lambda>x value. value\<lparr>header := x\<rparr>),
     get_bits 16 (\<lambda>x value. value\<lparr>sup_feat := ucast x\<rparr>)])
     (wire_pfcp_ie_header_t (header v) @ field_bits 16 (ucast (sup_feat v)) @ []) r ?r"
    by (intro pfcp_intros; simp)
  have "n = 1 \<or> n = 2 \<or> n = 3" using assms(2,3) by auto
  moreover from this have "agrees m (8 * buf) (wire_pfcp_ie_header_t (header v) @ field_bits 16 (ucast (sup_feat v)) @ [])"
    using assms(4) by (auto simp: wire_up_func_feat_def add.assoc)
  with readsD[OF pre, of 0 m buf 0] obtain d where 1: "get_all [
     get_call decode_pfcp_ie_header_t header (\<lambda>x value. value\<lparr>header := x\<rparr>),
     get_bits 16 (\<lambda>x value. value\<lparr>sup_feat := ucast x\<rparr>)] m buf (0, 0, r) = (48, d, ?r)" by auto
  have w: "agrees m (8 * buf + 48) (field_bits 16 (ucast (add_sup_feat1 v)))" if "2 \<le> n"
    using assms(3,4) that by (cases "n = 2") (auto simp: wire_up_func_feat_def add.assoc)
  have w2: "agrees m (8 * buf + 64) (field_bits 16 (ucast (add_sup_feat2 v)))" if "n = 3"
    using assms(4) that by (auto simp: wire_up_func_feat_def add.assoc)
  have "v = ?r\<lparr>add_sup_feat1 := add_sup_feat1 v, add_sup_feat2 := add_sup_feat2 v\<rparr>"
    by (rule pfcp_up_func_feat_ie_t.equality) simp_all
  with assms(1,5,6) w w2 show ?thesis
    unfolding decode_pfcp_up_func_feat_ie_t_def parse_bytes_def get_all_append 1
    by (cases "n = 1"; cases "n = 2"; cases "n = 3")
      (use \<open>n = 1 \<or> n = 2 \<or> n = 3\<close> in \<open>auto simp: get_all_def get_if_def get_bits_agrees\<close>)
qed

text \<open>The decoder of the UP function features accepts elements with one, two or three feature
  words, as the announced length says, reads exactly that many words and leaves the others as they
  were.\<close>

theorem up_func_feat_compatible:
  assumes "unat (len (header v)) = 2 * n" "1 \<le> n" "n \<le> 3"
    and "agrees m (8 * buf) (wire_up_func_feat n v)"
  shows "decode_pfcp_up_func_feat_ie_t m buf r = (4 + 2 * n,
     v\<lparr>add_sup_feat1 := (if n < 2 then add_sup_feat1 r else add_sup_feat1 v),
       add_sup_feat2 := (if n < 3 then add_sup_feat2 r else add_sup_feat2 v)\<rparr>)"
proof (rule up_func_feat_decodes)
  have "n = 1 \<or> n = 2 \<or> n = 3" using assms(2,3) by auto
  with assms(4) show "agrees m (8 * buf) (wire_up_func_feat n (v\<lparr>add_sup_feat1 :=
      (if n < 2 then add_sup_feat1 r else add_sup_feat1 v),
      add_sup_feat2 := (if n < 3 then add_sup_feat2 r else add_sup_feat2 v)\<rparr>))"
    by (auto simp: wire_up_func_feat_def)
qed (use assms in simp_all)

theorem up_func_feat_compatible_witness:
  "\<exists>m v r. len (header v) = 2 \<and> sup_feat v = 0x0100 \<and> add_sup_feat2 r = 9 \<and>
     decode_pfcp_up_func_feat_ie_t m 3 r = (6, v\<lparr>add_sup_feat1 := add_sup_feat1 r, add_sup_feat2 := 9\<rparr>)"
proof -
  let ?v = "\<lparr>header = \<lparr>type = 43, len = 2\<rparr>, sup_feat = 0x0100, add_sup_feat1 = 0, add_sup_feat2 = 0\<rparr>
    :: pfcp_up_func_feat_ie_t"
  let ?r = "?v\<lparr>add_sup_feat2 := 9\<rparr>"
  let ?m = "snd (encode_pfcp_up_func_feat_ie_t ?v (\<lambda>_. 0) 3)"
  have "wire_up_func_feat 3 ?v = wire_up_func_feat 1 ?v @ concat (map (\<lambda>x. field_bits 16 (ucast x)) [0 :: u16, 0])"
    by (simp add: wire_up_func_feat_def)
  with writesD(2)[OF up_func_feat_writes, of "\<lambda>_. 0" 3 ?v, OF _ prod.collapse[symmetric]]
  have "agrees ?m (8 * 3) (wire_up_func_feat 1 ?v)"
    using wrote_agrees by (fastforce simp del: concat.simps list.map)
  from up_func_feat_compatible[OF _ _ _ this, of ?r] show ?thesis
    by (intro exI[of _ ?m] exI[of _ ?v] exI[of _ ?r]) simp
qed

section \<open>Elements whose encoder and decoder disagree\<close>

text \<open>\<open>pfcp_usage_info_ie_t\<close> has five spare bits and four flags, nine bits in all: the last flag
  falls into the octet behind the element.\<close>

record pfcp_usage_info_ie_t = pfcp_ie +
  usage_info_spare :: "5 word"
  ube :: "1 word"
  uae :: "1 word"
  aft :: "1 word"
  bef :: "1 word"

definition wire_pfcp_usage_info_ie_t :: "pfcp_usage_info_ie_t \<Rightarrow> bool list" where
  "wire_pfcp_usage_info_ie_t value =
     wire_pfcp_ie_header_t (header value) @
     field_bits 5 (ucast (usage_info_spare value)) @
     field_bits 1 (ucast (ube value)) @
     field_bits 1 (ucast (uae value)) @
     field_bits 1 (ucast (aft value)) @
     field_bits 1 (ucast (bef value)) @ []"

definition encode_pfcp_usage_info_ie_t :: "pfcp_usage_info_ie_t \<Rightarrow> encoder" where
  "encode_pfcp_usage_info_ie_t value = run_bytes [
     put_call (encode_pfcp_ie_header_t (header value)),
     put_bits (ucast (usage_info_spare value)) 5,
     put_bits (ucast (ube value)) 1,
     put_bits (ucast (uae value)) 1,
     put_bits (ucast (aft value)) 1,
     put_bits (ucast (bef value)) 1]"

definition decode_pfcp_usage_info_ie_t :: "pfcp_usage_info_ie_t decoder" where
  "decode_pfcp_usage_info_ie_t = parse_bytes [
     get_call decode_pfcp_ie_header_t header (\<lambda>x value. value\<lparr>header := x\<rparr>),
     get_bits 5 (\<lambda>x value. value\<lparr>usage_info_spare := ucast x\<rparr>),
     get_bits 1 (\<lambda>x value. value\<lparr>ube := ucast x\<rparr>),
     get_bits 1 (\<lambda>x value. value\<lparr>uae := ucast x\<rparr>),
     get_bits 1 (\<lambda>x value. value\<lparr>aft := ucast x\<rparr>),
     get_bits 1 (\<lambda>x value. value\<lparr>bef := ucast x\<rparr>)]"

lemma usage_info_emits:
  "emits 0 (put_all [
     put_call (encode_pfcp_ie_header_t (header v)),
     put_bits (ucast (usage_info_spare v)) 5,
     put_bits (ucast (ube v)) 1,
     put_bits (ucast (uae v)) 1,
     put_bits (ucast (aft v)) 1,
     put_bits (ucast (bef v)) 1]) (wire_pfcp_usage_info_ie_t v)"
  unfolding wire_pfcp_usage_info_ie_t_def by (intro pfcp_intros; simp)

lemma usage_info_reads:
  "reads 0 (get_all [
     get_call decode_pfcp_ie_header_t header (\<lambda>x value. value\<lparr>header := x\<rparr>),
     get_bits 5 (\<lambda>x value. value\<lparr>usage_info_spare := ucast x\<rparr>),
     get_bits 1 (\<lambda>x value. value\<lparr>ube := ucast x\<rparr>),
     get_bits 1 (\<lambda>x value. value\<lparr>uae := ucast x\<rparr>),
     get_bits 1 (\<lambda>x value. value\<lparr>aft := ucast x\<rparr>),
     get_bits 1 (\<lambda>x value. value\<lparr>bef := ucast x\<rparr>)]) (wire_pfcp_usage_info_ie_t v) r v"
  unfolding wire_pfcp_usage_info_ie_t_def by (intro pfcp_intros; simp)

text \<open>The flag that is received is the first bit of whatever octet follows the element.\<close>

lemma usage_info_spills:
  assumes "clear m (8 * buf) (8 * buf + 41)" "encode_pfcp_usage_info_ie_t v m buf = (n, m')"
  shows "n = 5"
    and "decode_pfcp_usage_info_ie_t (m'(buf + n := b)) buf r =
      (5, v\<lparr>bef := (if msb_bit b 0 then 1 else 0)\<rparr>)"
proof -
  obtain e m1 where s: "put_all [
     put_call (encode_pfcp_ie_header_t (header v)),
     put_bits (ucast (usage_info_spare v)) 5,
     put_bits (ucast (ube v)) 1,
     put_bits (ucast (uae v)) 1,
     put_bits (ucast (aft v)) 1,
     put_bits (ucast (bef v)) 1] buf (0, m) = (e, m1)" by fastforce
  have w: "length (wire_pfcp_usage_info_ie_t v) = 41" by (simp add: wire_pfcp_usage_info_ie_t_def)
  have e: "e = 41" "wrote m (8 * buf) (wire_pfcp_usage_info_ie_t v) m1"
    using emitsD[OF usage_info_emits _ _ _ s] assms(1) w by simp_all
  then show n: "n = 5" using assms(2) s by (simp add: encode_pfcp_usage_info_ie_t_def run_bytes_def)
  have m': "m' = m1" using assms(2) s by (simp add: encode_pfcp_usage_info_ie_t_def run_bytes_def)
  let ?v = "v\<lparr>bef := (if msb_bit b 0 then 1 else 0)\<rparr>"
  have "agrees (m'(buf + n := b)) (8 * buf) (wire_pfcp_usage_info_ie_t ?v)"
  proof -
    have split: "wire_pfcp_usage_info_ie_t w = (wire_pfcp_ie_header_t (header w) @
       field_bits 5 (ucast (usage_info_spare w)) @ field_bits 1 (ucast (ube w)) @
       field_bits 1 (ucast (uae w)) @ field_bits 1 (ucast (aft w))) @ field_bits 1 (ucast (bef w))" for w
      by (simp add: wire_pfcp_usage_info_ie_t_def)
    let ?p = "wire_pfcp_ie_header_t (header v) @
       field_bits 5 (ucast (usage_info_spare v)) @ field_bits 1 (ucast (ube v)) @
       field_bits 1 (ucast (uae v)) @ field_bits 1 (ucast (aft v))"
    have "agrees m1 (8 * buf) ?p" using wrote_agrees[OF e(2)] unfolding split by simp
    then have "agrees (m'(buf + n := b)) (8 * buf) ?p"
      by (rule agrees_frame) (auto simp: m' n bit_at_upd)
    moreover have "agrees (m'(buf + n := b)) (8 * buf + 40) (field_bits 1 (ucast (bef ?v)))"
      by (auto simp: agrees_def n bit_at_upd nth_field_bits)
    ultimately show ?thesis unfolding split by (cases "msb_bit b 0") (simp_all add: ac_simps)
  qed
  moreover have "length (wire_pfcp_usage_info_ie_t ?v) = 41" by (simp add: wire_pfcp_usage_info_ie_t_def)
  ultimately show "decode_pfcp_usage_info_ie_t (m'(buf + n := b)) buf r = (5, ?v)"
    unfolding decode_pfcp_usage_info_ie_t_def
    using parse_bytes_reads[OF usage_info_reads[of ?v r], of "m'(buf + n := b)" buf] by simp
qed

text \<open>The Usage Information element is sent in five bytes and received with its other fields
  intact, but the flag BEF is sent as the first bit of the octet behind it: once that octet is
  written by the next element, the receiver sees that octet's first bit instead.\<close>

theorem usage_info_loses_bef:
  assumes "clear m (8 * buf) (8 * buf + 41)"
  shows "fst (encode_pfcp_usage_info_ie_t v m buf) = 5 \<and>
    decode_pfcp_usage_info_ie_t ((snd (encode_pfcp_usage_info_ie_t v m buf))(buf + 5 := b)) buf r =
      (5, v\<lparr>bef := (if msb_bit b 0 then 1 else 0)\<rparr>)"
  using usage_info_spills(1)[OF assms prod.collapse[symmetric], of v]
    usage_info_spills(2)[OF assms prod.collapse[symmetric], where v = v and b = b and r = r] by simp

theorem usage_info_loses_bef_witness:
  "\<exists>v r. bef v = 1 \<and> bef (snd (decode_pfcp_usage_info_ie_t
     ((snd (encode_pfcp_usage_info_ie_t v (\<lambda>_. 0) 8))(8 + 5 := 0)) 8 r)) = 0"
proof -
  let ?v = "\<lparr>header = \<lparr>type = 90, len = 1\<rparr>, usage_info_spare = 0, ube = 0, uae = 0, aft = 0, bef = 1\<rparr>
    :: pfcp_usage_info_ie_t"
  have "clear (\<lambda>_. 0) (8 * 8) (8 * 8 + 41)" by simp
  from usage_info_loses_bef[OF this, of ?v 0 ?v] show ?thesis
    by (intro exI[of _ ?v]) (simp add: msb_bit_def)
qed

text \<open>\<open>pfcp_rmt_gtpu_peer_ie_t\<close>: the decoder adds \<open>decoded\<close> a second time behind an absent IPv6
  address.\<close>

record pfcp_rmt_gtpu_peer_ie_t = pfcp_ie +
  rmt_gtpu_peer_spare :: "6 word"
  v4 :: "1 word"
  v6 :: "1 word"
  ipv4_address :: u32
  ipv6_address :: "u8 list"

definition wire_pfcp_rmt_gtpu_peer_ie_t :: "pfcp_rmt_gtpu_peer_ie_t \<Rightarrow> bool list" where
  "wire_pfcp_rmt_gtpu_peer_ie_t value =
     wire_pfcp_ie_header_t (header value) @
     field_bits 6 (ucast (rmt_gtpu_peer_spare value)) @
     field_bits 1 (ucast (v4 value)) @
     field_bits 1 (ucast (v6 value)) @
     (if v4 value \<noteq> 0 then field_bits 32 (ucast (ipv4_address value)) else []) @
     (if v6 value \<noteq> 0 then byte_bits (take (16) (ipv6_address value)) else []) @ []"

definition encode_pfcp_rmt_gtpu_peer_ie_t :: "pfcp_rmt_gtpu_peer_ie_t \<Rightarrow> encoder" where
  "encode_pfcp_rmt_gtpu_peer_ie_t value = run_bytes [
     put_call (encode_pfcp_ie_header_t (header value)),
     put_bits (ucast (rmt_gtpu_peer_spare value)) 6,
     put_bits (ucast (v4 value)) 1,
     put_bits (ucast (v6 value)) 1,
     put_when (v4 value \<noteq> 0) (put_bits (ucast (ipv4_address value)) 32),
     put_when (v6 value \<noteq> 0) (put_bytes (take (16) (ipv6_address value)))]"

definition decode_pfcp_rmt_gtpu_peer_ie_t :: "pfcp_rmt_gtpu_peer_ie_t decoder" where
  "decode_pfcp_rmt_gtpu_peer_ie_t = parse_bytes [
     get_call decode_pfcp_ie_header_t header (\<lambda>x value. value\<lparr>header := x\<rparr>),
     get_bits 6 (\<lambda>x value. value\<lparr>rmt_gtpu_peer_spare := ucast x\<rparr>),
     get_bits 1 (\<lambda>x value. value\<lparr>v4 := ucast x\<rparr>),
     get_bits 1 (\<lambda>x value. value\<lparr>v6 := ucast x\<rparr>),
     get_when (\<lambda>value. v4 value \<noteq> 0) (peek_bits 32 (\<lambda>x value. value\<lparr>ipv4_address := ipv4_address value + ucast x\<rparr>)),
     add_decoded,
     get_when (\<lambda>value. v6 value \<noteq> 0) (get_bytes 16 (\<lambda>bs value. value\<lparr>ipv6_address := bs\<rparr>)),
     add_decoded]"

lemma rmt_gtpu_peer_v4_overrun:
  assumes "v4 v = 1" "v6 v = 0" "ipv6_address r = ipv6_address v" "ipv4_address r = 0"
    and "agrees m (8 * buf) (wire_pfcp_rmt_gtpu_peer_ie_t v)"
  shows "length (wire_pfcp_rmt_gtpu_peer_ie_t v) = 72"
    and "decode_pfcp_rmt_gtpu_peer_ie_t m buf r = (13, v)"
proof -
  show "length (wire_pfcp_rmt_gtpu_peer_ie_t v) = 72"
    using assms by (simp add: wire_pfcp_rmt_gtpu_peer_ie_t_def)
  let ?r = "r\<lparr>header := header v, rmt_gtpu_peer_spare := rmt_gtpu_peer_spare v, v4 := v4 v, v6 := v6 v\<rparr>"
  have pre: "reads 0 (get_all [
     get_call decode_pfcp_ie_header_t header (\<lambda>x value. value\<lparr>header := x\<rparr>),
     get_bits 6 (\<lambda>x value. value\<lparr>rmt_gtpu_peer_spare := ucast x\<rparr>),
     get_bits 1 (\<lambda>x value. value\<lparr>v4 := ucast x\<rparr>),
     get_bits 1 (\<lambda>x value. value\<lparr>v6 := ucast x\<rparr>)])
     (wire_pfcp_ie_header_t (header v) @ field_bits 6 (ucast (rmt_gtpu_peer_spare v)) @
      field_bits 1 (ucast (v4 v)) @ field_bits 1 (ucast (v6 v)) @ []) r ?r"
    by (intro pfcp_intros; simp)
  have "agrees m (8 * buf) (wire_pfcp_ie_header_t (header v) @ field_bits 6 (ucast (rmt_gtpu_peer_spare v)) @
      field_bits 1 (ucast (v4 v)) @ field_bits 1 (ucast (v6 v)) @ [])"
    and addr: "agrees m (8 * buf + 40) (field_bits 32 (ucast (ipv4_address v)))"
    using assms by (simp_all add: wire_pfcp_rmt_gtpu_peer_ie_t_def ac_simps)
  with readsD[OF pre, of 0 m buf 0] obtain d where 1: "get_all [
     get_call decode_pfcp_ie_header_t header (\<lambda>x value. value\<lparr>header := x\<rparr>),
     get_bits 6 (\<lambda>x value. value\<lparr>rmt_gtpu_peer_spare := ucast x\<rparr>),
     get_bits 1 (\<lambda>x value. value\<lparr>v4 := ucast x\<rparr>),
     get_bits 1 (\<lambda>x value. value\<lparr>v6 := ucast x\<rparr>)] m buf (0, 0, r) = (40, d, ?r)" by auto
  have "?r\<lparr>ipv4_address := ipv4_address v\<rparr> = v"
    by (rule pfcp_rmt_gtpu_peer_ie_t.equality) (use assms in simp_all)
  then show "decode_pfcp_rmt_gtpu_peer_ie_t m buf r = (13, v)"
    using 1 addr assms(1,2,4)
    by (simp add: decode_pfcp_rmt_gtpu_peer_ie_t_def parse_bytes_def get_all_def get_when_def
        peek_bits_agrees add_decoded_def)
qed

end
