(* ===== verification/Tables.thy ===== *)
theory Tables
  imports Prelude
begin

text \<open>
  The lookup tables of the control plane (\<open>cpplib/spgw_tables.h\<close>, \<open>cpplib/spgw_tables.cpp\<close> and the
  other table classes of \<open>cpplib\<close>) and the C functions of \<open>cpplib/spgw_wrapper.cpp\<close> through which
  the control plane reaches them.  A \<open>std::map\<close> or \<open>std::unordered_map\<close> is a map, a \<open>std::queue\<close> a
  list with its front at the head, a pointer a natural number with 0 for NULL.  \<open>insert\<close> keeps the
  entry that is there.

  The locales \<open>lookup_table\<close> and \<open>fifo_queue\<close> are what the rest of the control plane relies on.
\<close>

type_synonym ptr = nat

abbreviation NULL :: ptr where
  "NULL \<equiv> 0"

section \<open>Standard containers\<close>

definition map_insert :: "'k \<Rightarrow> 'v \<Rightarrow> ('k \<rightharpoonup> 'v) \<Rightarrow> ('k \<rightharpoonup> 'v)" where
  "map_insert k v m = (case m k of None \<Rightarrow> m(k \<mapsto> v) | Some _ \<Rightarrow> m)"

definition map_find :: "'k \<Rightarrow> ('k \<rightharpoonup> ptr) \<Rightarrow> ptr" where
  "map_find k m = (case m k of None \<Rightarrow> NULL | Some p \<Rightarrow> p)"

definition map_erase :: "'k \<Rightarrow> ('k \<rightharpoonup> 'v) \<Rightarrow> ('k \<rightharpoonup> 'v)" where
  "map_erase k m = m(k := None)"

definition queue_push :: "'a \<Rightarrow> 'a list \<Rightarrow> 'a list" where
  "queue_push x q = q @ [x]"

definition queue_pop :: "ptr list \<Rightarrow> ptr \<times> ptr list" where
  "queue_pop q = (case q of [] \<Rightarrow> (NULL, []) | x # rest \<Rightarrow> (x, rest))"

section \<open>Contracts\<close>

text \<open>A table from keys to pointers: \<open>lookup\<close> is what it stands for.\<close>

locale lookup_table =
  fixes add :: "'k \<Rightarrow> ptr \<Rightarrow> 't \<Rightarrow> 't"
    and find :: "'k \<Rightarrow> 't \<Rightarrow> ptr"
    and delete :: "'k \<Rightarrow> 't \<Rightarrow> 't"
    and lookup :: "'t \<Rightarrow> 'k \<rightharpoonup> ptr"
  assumes lookup_add: "lookup (add k p t) = map_insert k p (lookup t)"
    and lookup_delete: "lookup (delete k t) = map_erase k (lookup t)"
    and find_lookup: "find k t = map_find k (lookup t)"
begin

lemma find_add_same: "lookup t k = None \<Longrightarrow> find k (add k p t) = p"
  by (simp add: find_lookup lookup_add map_find_def map_insert_def)

lemma find_add_other: "k' \<noteq> k \<Longrightarrow> find k' (add k p t) = find k' t"
  by (simp add: find_lookup lookup_add map_find_def map_insert_def split: option.splits)

text \<open>A second insertion under a key has no effect.\<close>

lemma find_add_add: "lookup t k \<noteq> None \<Longrightarrow> find k (add k p t) = find k t"
  by (auto simp: find_lookup lookup_add map_find_def map_insert_def)

lemma find_delete: "find k' (delete k t) = (if k' = k then NULL else find k' t)"
  by (simp add: find_lookup lookup_delete map_find_def map_erase_def)

lemma delete_add: "lookup t k = None \<Longrightarrow> lookup (delete k (add k p t)) = lookup t"
  by (simp add: lookup_add lookup_delete map_insert_def map_erase_def fun_upd_idem)

lemma add_commute:
  "k \<noteq> k' \<Longrightarrow> lookup (add k p (add k' p' t)) = lookup (add k' p' (add k p t))"
  by (auto simp: lookup_add map_insert_def fun_upd_twist split: option.splits)

end

text \<open>A queue of pointers: \<open>elems\<close> lists what waits in it, NULL is the answer of an empty queue.\<close>

locale fifo_queue =
  fixes push :: "ptr \<Rightarrow> 't \<Rightarrow> 't"
    and pop :: "'t \<Rightarrow> ptr \<times> 't"
    and elems :: "'t \<Rightarrow> ptr list"
  assumes elems_push: "elems (push x t) = elems t @ [x]"
    and pop_empty: "elems t = [] \<Longrightarrow> fst (pop t) = NULL \<and> elems (snd (pop t)) = []"
    and pop_front: "elems t = x # xs \<Longrightarrow> fst (pop t) = x \<and> elems (snd (pop t)) = xs"
begin

lemma elems_push_all: "elems (fold push xs t) = elems t @ xs"
  by (induction xs arbitrary: t) (simp_all add: elems_push)

text \<open>What is popped is what was pushed, in order.\<close>

lemma pop_tl: "elems (snd (pop t)) = tl (elems t)"
  using pop_empty pop_front by (cases "elems t") auto

lemma pop_drop: "elems (((\<lambda>t. snd (pop t)) ^^ k) t) = drop k (elems t)"
  by (induction k) (simp_all add: pop_tl drop_Suc tl_drop)

lemma pop_order:
  "fst (pop (((\<lambda>t. snd (pop t)) ^^ k) t)) = (if k < length (elems t) then elems t ! k else NULL)"
proof (cases "k < length (elems t)")
  case True
  then have "elems (((\<lambda>t. snd (pop t)) ^^ k) t) = elems t ! k # drop (Suc k) (elems t)"
    by (simp add: pop_drop Cons_nth_drop_Suc)
  from pop_front[OF this] True show ?thesis by simp
qed (simp add: pop_drop pop_empty)

end

lemmas container_defs = map_insert_def map_find_def map_erase_def queue_push_def queue_pop_def

section \<open>Transactions and event queues\<close>

text \<open>\<open>spgwTables\<close>.  The initialiser of \<open>transKey\<close> in the code lists sequence number, address and
  port, while the structure declares port, address and sequence number.\<close>

record transKey =
  src_port :: u32
  src_ip :: u32
  seq_num :: u32

definition comp :: "transKey \<Rightarrow> transKey \<Rightarrow> bool" where
  "comp lhs rhs =
     (if src_port lhs = src_port rhs then
        if src_ip lhs = src_ip rhs then
          if seq_num lhs = seq_num rhs then False
          else seq_num lhs < seq_num rhs
        else src_ip lhs < src_ip rhs
      else src_port lhs < src_port rhs)"

definition trans_key :: "u32 \<Rightarrow> u16 \<Rightarrow> u32 \<Rightarrow> transKey" where
  "trans_key src_addr src_prt msg_seq =
     \<lparr>src_port = msg_seq, src_ip = src_addr, seq_num = ucast src_prt\<rparr>"

record spgwTables =
  spgw_pfcp_transaction_map :: "transKey \<rightharpoonup> ptr"
  spgw_gtp_transaction_map :: "transKey \<rightharpoonup> ptr"
  spgw_gx_transaction_map :: "u32 \<rightharpoonup> ptr"
  stack_events_queue :: "ptr list"
  stack_test_events_queue :: "ptr list"
  gtp_out_queue :: "ptr list"
  t2tmsg_queue :: "ptr list"
  pfcp_out_queue :: "ptr list"
  gx_out_queue :: "ptr list"

definition add_pfcp_trans :: "u32 \<Rightarrow> u16 \<Rightarrow> u32 \<Rightarrow> ptr \<Rightarrow> spgwTables \<Rightarrow> bool \<times> spgwTables" where
  "add_pfcp_trans src_addr src_prt msg_seq tr t =
     (True, t\<lparr>spgw_pfcp_transaction_map := map_insert (trans_key src_addr src_prt msg_seq) tr (spgw_pfcp_transaction_map t)\<rparr>)"

definition find_pfcp_trans :: "u32 \<Rightarrow> u16 \<Rightarrow> u32 \<Rightarrow> spgwTables \<Rightarrow> ptr" where
  "find_pfcp_trans src_addr src_prt msg_seq t =
     map_find (trans_key src_addr src_prt msg_seq) (spgw_pfcp_transaction_map t)"

definition delete_pfcp_trans :: "u32 \<Rightarrow> u16 \<Rightarrow> u32 \<Rightarrow> spgwTables \<Rightarrow> ptr \<times> spgwTables" where
  "delete_pfcp_trans src_addr src_prt msg_seq t =
     (let key = trans_key src_addr src_prt msg_seq
      in (map_find key (spgw_pfcp_transaction_map t), t\<lparr>spgw_pfcp_transaction_map := map_erase key (spgw_pfcp_transaction_map t)\<rparr>))"

definition add_gtp_trans :: "u32 \<Rightarrow> u16 \<Rightarrow> u32 \<Rightarrow> ptr \<Rightarrow> spgwTables \<Rightarrow> bool \<times> spgwTables" where
  "add_gtp_trans src_addr src_prt msg_seq tr t =
     (True, t\<lparr>spgw_gtp_transaction_map := map_insert (trans_key src_addr src_prt msg_seq) tr (spgw_gtp_transaction_map t)\<rparr>)"

definition find_gtp_trans :: "u32 \<Rightarrow> u16 \<Rightarrow> u32 \<Rightarrow> spgwTables \<Rightarrow> ptr" where
  "find_gtp_trans src_addr src_prt msg_seq t =
     map_find (trans_key src_addr src_prt msg_seq) (spgw_gtp_transaction_map t)"

definition delete_gtp_trans :: "u32 \<Rightarrow> u16 \<Rightarrow> u32 \<Rightarrow> spgwTables \<Rightarrow> ptr \<times> spgwTables" where
  "delete_gtp_trans src_addr src_prt msg_seq t =
     (let key = trans_key src_addr src_prt msg_seq
      in (map_find key (spgw_gtp_transaction_map t), t\<lparr>spgw_gtp_transaction_map := map_erase key (spgw_gtp_transaction_map t)\<rparr>))"

definition add_gx_trans :: "u32 \<Rightarrow> ptr \<Rightarrow> spgwTables \<Rightarrow> bool \<times> spgwTables" where
  "add_gx_trans msg_seq tr t = (True, t\<lparr>spgw_gx_transaction_map := map_insert msg_seq tr (spgw_gx_transaction_map t)\<rparr>)"

definition find_gx_trans :: "u32 \<Rightarrow> spgwTables \<Rightarrow> ptr" where
  "find_gx_trans msg_seq t = map_find msg_seq (spgw_gx_transaction_map t)"

definition delete_gx_trans :: "u32 \<Rightarrow> spgwTables \<Rightarrow> ptr \<times> spgwTables" where
  "delete_gx_trans msg_seq t =
     (map_find msg_seq (spgw_gx_transaction_map t), t\<lparr>spgw_gx_transaction_map := map_erase msg_seq (spgw_gx_transaction_map t)\<rparr>)"

definition queue_event :: "ptr \<Rightarrow> spgwTables \<Rightarrow> spgwTables" where
  "queue_event context t = t\<lparr>stack_events_queue := queue_push context (stack_events_queue t)\<rparr>"

definition pop_event :: "spgwTables \<Rightarrow> ptr \<times> spgwTables" where
  "pop_event t = (case queue_pop (stack_events_queue t) of (context, q) \<Rightarrow> (context, t\<lparr>stack_events_queue := q\<rparr>))"

definition queue_test_event :: "ptr \<Rightarrow> spgwTables \<Rightarrow> spgwTables" where
  "queue_test_event context t = t\<lparr>stack_test_events_queue := queue_push context (stack_test_events_queue t)\<rparr>"

definition pop_test_event :: "spgwTables \<Rightarrow> ptr \<times> spgwTables" where
  "pop_test_event t = (case queue_pop (stack_test_events_queue t) of (context, q) \<Rightarrow> (context, t\<lparr>stack_test_events_queue := q\<rparr>))"

definition queue_gtp_out_event :: "ptr \<Rightarrow> spgwTables \<Rightarrow> spgwTables" where
  "queue_gtp_out_event context t = t\<lparr>gtp_out_queue := queue_push context (gtp_out_queue t)\<rparr>"

definition pop_gtp_out_event :: "spgwTables \<Rightarrow> ptr \<times> spgwTables" where
  "pop_gtp_out_event t = (case queue_pop (gtp_out_queue t) of (context, q) \<Rightarrow> (context, t\<lparr>gtp_out_queue := q\<rparr>))"

definition queue_pfcp_out_event :: "ptr \<Rightarrow> spgwTables \<Rightarrow> spgwTables" where
  "queue_pfcp_out_event context t = t\<lparr>pfcp_out_queue := queue_push context (pfcp_out_queue t)\<rparr>"

definition pop_pfcp_out_event :: "spgwTables \<Rightarrow> ptr \<times> spgwTables" where
  "pop_pfcp_out_event t = (case queue_pop (pfcp_out_queue t) of (context, q) \<Rightarrow> (context, t\<lparr>pfcp_out_queue := q\<rparr>))"

definition queue_gx_out_event :: "ptr \<Rightarrow> spgwTables \<Rightarrow> spgwTables" where
  "queue_gx_out_event context t = t\<lparr>gx_out_queue := queue_push context (gx_out_queue t)\<rparr>"

definition pop_gx_out_event :: "spgwTables \<Rightarrow> ptr \<times> spgwTables" where
  "pop_gx_out_event t = (case queue_pop (gx_out_queue t) of (context, q) \<Rightarrow> (context, t\<lparr>gx_out_queue := q\<rparr>))"

definition queue_t2t_msg_event :: "ptr \<Rightarrow> spgwTables \<Rightarrow> spgwTables" where
  "queue_t2t_msg_event context t = t\<lparr>t2tmsg_queue := queue_push context (t2tmsg_queue t)\<rparr>"

definition pop_t2t_msg_event :: "spgwTables \<Rightarrow> ptr \<times> spgwTables" where
  "pop_t2t_msg_event t = (case queue_pop (t2tmsg_queue t) of (context, q) \<Rightarrow> (context, t\<lparr>t2tmsg_queue := q\<rparr>))"

text \<open>The mutexes make each queue operation one step.  \<open>delayTask\<close> of \<open>cpplib/delayed_task.cpp\<close>: the
  memory to be freed later; removing also reports how much is left.\<close>

record delayTask =
  delayed_memory_free_m :: "ptr list"

definition add_delayed_free_memory_task :: "ptr \<Rightarrow> delayTask \<Rightarrow> delayTask" where
  "add_delayed_free_memory_task tr d =
     d\<lparr>delayed_memory_free_m := queue_push tr (delayed_memory_free_m d)\<rparr>"

definition delete_delayed_free_memory_task :: "delayTask \<Rightarrow> ptr \<times> nat \<times> delayTask" where
  "delete_delayed_free_memory_task d =
     (case delayed_memory_free_m d of [] \<Rightarrow> (NULL, 0, d)
      | temp # rest \<Rightarrow> (temp, length rest, d\<lparr>delayed_memory_free_m := rest\<rparr>))"

section \<open>Contexts\<close>

record ueTables =
  imsi_session_hash :: "u64 \<rightharpoonup> ptr"
  seid_session_hash :: "u64 \<rightharpoonup> ptr"
  teid_session_hash :: "u32 \<rightharpoonup> ptr"
  gx_sessid_session_hash :: "string \<rightharpoonup> ptr"

definition add_imsi_to_ue_mapping :: "u64 \<Rightarrow> ptr \<Rightarrow> ueTables \<Rightarrow> int \<times> ueTables" where
  "add_imsi_to_ue_mapping imsi entry t = (0, t\<lparr>imsi_session_hash := map_insert imsi entry (imsi_session_hash t)\<rparr>)"

definition find_ue_from_imsi :: "u64 \<Rightarrow> ueTables \<Rightarrow> ptr" where
  "find_ue_from_imsi imsi t = map_find imsi (imsi_session_hash t)"

definition delete_imsi_ue_mapping :: "u64 \<Rightarrow> ueTables \<Rightarrow> int \<times> ueTables" where
  "delete_imsi_ue_mapping imsi t = (0, t\<lparr>imsi_session_hash := map_erase imsi (imsi_session_hash t)\<rparr>)"

definition add_seid_to_ue_mapping :: "u64 \<Rightarrow> ptr \<Rightarrow> ueTables \<Rightarrow> int \<times> ueTables" where
  "add_seid_to_ue_mapping seid entry t = (0, t\<lparr>seid_session_hash := map_insert seid entry (seid_session_hash t)\<rparr>)"

definition find_ue_from_seid :: "u64 \<Rightarrow> ueTables \<Rightarrow> ptr" where
  "find_ue_from_seid seid t = map_find seid (seid_session_hash t)"

definition delete_seid_ue_mapping :: "u64 \<Rightarrow> ueTables \<Rightarrow> int \<times> ueTables" where
  "delete_seid_ue_mapping seid t = (0, t\<lparr>seid_session_hash := map_erase seid (seid_session_hash t)\<rparr>)"

definition add_teid_to_ue_mapping :: "u32 \<Rightarrow> ptr \<Rightarrow> ueTables \<Rightarrow> int \<times> ueTables" where
  "add_teid_to_ue_mapping teid entry t = (0, t\<lparr>teid_session_hash := map_insert teid entry (teid_session_hash t)\<rparr>)"

definition find_ue_from_teid :: "u32 \<Rightarrow> ueTables \<Rightarrow> ptr" where
  "find_ue_from_teid teid t = map_find teid (teid_session_hash t)"

definition delete_teid_ue_mapping :: "u32 \<Rightarrow> ueTables \<Rightarrow> int \<times> ueTables" where
  "delete_teid_ue_mapping teid t = (0, t\<lparr>teid_session_hash := map_erase teid (teid_session_hash t)\<rparr>)"

definition add_gx_sessid_to_ue_mapping :: "string \<Rightarrow> ptr \<Rightarrow> ueTables \<Rightarrow> int \<times> ueTables" where
  "add_gx_sessid_to_ue_mapping sess_id entry t = (0, t\<lparr>gx_sessid_session_hash := map_insert sess_id entry (gx_sessid_session_hash t)\<rparr>)"

definition find_ue_from_gx_sessid :: "string \<Rightarrow> ueTables \<Rightarrow> ptr" where
  "find_ue_from_gx_sessid sess_id t = map_find sess_id (gx_sessid_session_hash t)"

definition delete_gx_sessid_ue_mapping :: "string \<Rightarrow> ueTables \<Rightarrow> int \<times> ueTables" where
  "delete_gx_sessid_ue_mapping sess_id t = (0, t\<lparr>gx_sessid_session_hash := map_erase sess_id (gx_sessid_session_hash t)\<rparr>)"

record pdnTables =
  pdn_by_callid_hash :: "u32 \<rightharpoonup> ptr"
  pdn_by_fteid_hash :: "u32 \<rightharpoonup> ptr"

definition add_callid_to_pdn_mapping :: "u32 \<Rightarrow> ptr \<Rightarrow> pdnTables \<Rightarrow> int \<times> pdnTables" where
  "add_callid_to_pdn_mapping call_id entry t = (0, t\<lparr>pdn_by_callid_hash := map_insert call_id entry (pdn_by_callid_hash t)\<rparr>)"

definition find_pdn_from_callid :: "u32 \<Rightarrow> pdnTables \<Rightarrow> ptr" where
  "find_pdn_from_callid call_id t = map_find call_id (pdn_by_callid_hash t)"

definition delete_callid_pdn_mapping :: "u32 \<Rightarrow> pdnTables \<Rightarrow> int \<times> pdnTables" where
  "delete_callid_pdn_mapping call_id t = (0, t\<lparr>pdn_by_callid_hash := map_erase call_id (pdn_by_callid_hash t)\<rparr>)"

definition add_teid_to_pdn_mapping :: "u32 \<Rightarrow> ptr \<Rightarrow> pdnTables \<Rightarrow> int \<times> pdnTables" where
  "add_teid_to_pdn_mapping teid entry t = (0, t\<lparr>pdn_by_fteid_hash := map_insert teid entry (pdn_by_fteid_hash t)\<rparr>)"

definition find_pdn_from_teid :: "u32 \<Rightarrow> pdnTables \<Rightarrow> ptr" where
  "find_pdn_from_teid teid t = map_find teid (pdn_by_fteid_hash t)"

definition delete_teid_pdn_mapping :: "u32 \<Rightarrow> pdnTables \<Rightarrow> int \<times> pdnTables" where
  "delete_teid_pdn_mapping teid t = (0, t\<lparr>pdn_by_fteid_hash := map_erase teid (pdn_by_fteid_hash t)\<rparr>)"

record bearerTables =
  bearer_by_fteid_hash :: "u32 \<rightharpoonup> ptr"

definition add_teid_to_bearer_mapping :: "u32 \<Rightarrow> ptr \<Rightarrow> bearerTables \<Rightarrow> int \<times> bearerTables" where
  "add_teid_to_bearer_mapping teid entry t = (0, t\<lparr>bearer_by_fteid_hash := map_insert teid entry (bearer_by_fteid_hash t)\<rparr>)"

definition find_bearer_from_teid :: "u32 \<Rightarrow> bearerTables \<Rightarrow> ptr" where
  "find_bearer_from_teid teid t = map_find teid (bearer_by_fteid_hash t)"

definition delete_bearer_teid_mapping :: "u32 \<Rightarrow> bearerTables \<Rightarrow> int \<times> bearerTables" where
  "delete_bearer_teid_mapping teid t = (0, t\<lparr>bearer_by_fteid_hash := map_erase teid (bearer_by_fteid_hash t)\<rparr>)"

record upfTables =
  upf_context_by_ip_hash :: "u32 \<rightharpoonup> ptr"
  upf_context_by_service_hash :: "string \<rightharpoonup> ptr"

definition add_upf :: "u32 \<Rightarrow> ptr \<Rightarrow> upfTables \<Rightarrow> int \<times> upfTables" where
  "add_upf upf_ip entry t = (0, t\<lparr>upf_context_by_ip_hash := map_insert upf_ip entry (upf_context_by_ip_hash t)\<rparr>)"

definition find_upf :: "u32 \<Rightarrow> upfTables \<Rightarrow> ptr" where
  "find_upf upf_ip t = map_find upf_ip (upf_context_by_ip_hash t)"

definition delete_upf :: "u32 \<Rightarrow> upfTables \<Rightarrow> int \<times> upfTables" where
  "delete_upf upf_ip t = (0, t\<lparr>upf_context_by_ip_hash := map_erase upf_ip (upf_context_by_ip_hash t)\<rparr>)"

definition add_upf_service :: "string \<Rightarrow> ptr \<Rightarrow> upfTables \<Rightarrow> int \<times> upfTables" where
  "add_upf_service upf_service entry t = (0, t\<lparr>upf_context_by_service_hash := map_insert upf_service entry (upf_context_by_service_hash t)\<rparr>)"

definition find_upf_service :: "string \<Rightarrow> upfTables \<Rightarrow> ptr" where
  "find_upf_service upf_service t = map_find upf_service (upf_context_by_service_hash t)"

definition delete_upf_service :: "string \<Rightarrow> upfTables \<Rightarrow> int \<times> upfTables" where
  "delete_upf_service upf_service t = (0, t\<lparr>upf_context_by_service_hash := map_erase upf_service (upf_context_by_service_hash t)\<rparr>)"

text \<open>The tables of rules free what they delete: the deletion returns -1 or 0 and the pointer that
  was freed.\<close>

record pdrTables =
  pdrid_pdrctxt_hash :: "u32 \<rightharpoonup> ptr"

definition add_pdrid_to_pdrctxt_mapping :: "u32 \<Rightarrow> ptr \<Rightarrow> pdrTables \<Rightarrow> int \<times> pdrTables" where
  "add_pdrid_to_pdrctxt_mapping pdr_id entry t = (0, t\<lparr>pdrid_pdrctxt_hash := map_insert pdr_id entry (pdrid_pdrctxt_hash t)\<rparr>)"

definition find_pdrctxt_from_pdrid :: "u32 \<Rightarrow> pdrTables \<Rightarrow> ptr" where
  "find_pdrctxt_from_pdrid pdr_id t = map_find pdr_id (pdrid_pdrctxt_hash t)"

definition delete_pdrid_pdrctxt_mapping :: "u32 \<Rightarrow> pdrTables \<Rightarrow> int \<times> ptr \<times> pdrTables" where
  "delete_pdrid_pdrctxt_mapping pdr_id t =
     (case pdrid_pdrctxt_hash t pdr_id of None \<Rightarrow> (-1, NULL, t)
      | Some temp \<Rightarrow> (0, temp, t\<lparr>pdrid_pdrctxt_hash := map_erase pdr_id (pdrid_pdrctxt_hash t)\<rparr>))"

record qerTables =
  qerid_qerctxt_hash :: "u32 \<rightharpoonup> ptr"

definition add_qerid_to_qerctxt_mapping :: "u32 \<Rightarrow> ptr \<Rightarrow> qerTables \<Rightarrow> int \<times> qerTables" where
  "add_qerid_to_qerctxt_mapping qer_id entry t = (0, t\<lparr>qerid_qerctxt_hash := map_insert qer_id entry (qerid_qerctxt_hash t)\<rparr>)"

definition find_qerctxt_from_qerid :: "u32 \<Rightarrow> qerTables \<Rightarrow> ptr" where
  "find_qerctxt_from_qerid qer_id t = map_find qer_id (qerid_qerctxt_hash t)"

definition delete_qerid_qerctxt_mapping :: "u32 \<Rightarrow> qerTables \<Rightarrow> int \<times> ptr \<times> qerTables" where
  "delete_qerid_qerctxt_mapping qer_id t =
     (case qerid_qerctxt_hash t qer_id of None \<Rightarrow> (-1, NULL, t)
      | Some temp \<Rightarrow> (0, temp, t\<lparr>qerid_qerctxt_hash := map_erase qer_id (qerid_qerctxt_hash t)\<rparr>))"

record urrTables =
  urrid_urrctxt_hash :: "u32 \<rightharpoonup> ptr"

definition add_urrid_to_urrctxt_mapping :: "u32 \<Rightarrow> ptr \<Rightarrow> urrTables \<Rightarrow> int \<times> urrTables" where
  "add_urrid_to_urrctxt_mapping urr_id entry t = (0, t\<lparr>urrid_urrctxt_hash := map_insert urr_id entry (urrid_urrctxt_hash t)\<rparr>)"

definition find_urrctxt_from_urrid :: "u32 \<Rightarrow> urrTables \<Rightarrow> ptr" where
  "find_urrctxt_from_urrid urr_id t = map_find urr_id (urrid_urrctxt_hash t)"

definition delete_urrid_urrctxt_mapping :: "u32 \<Rightarrow> urrTables \<Rightarrow> int \<times> ptr \<times> urrTables" where
  "delete_urrid_urrctxt_mapping urr_id t =
     (case urrid_urrctxt_hash t urr_id of None \<Rightarrow> (-1, NULL, t)
      | Some temp \<Rightarrow> (0, temp, t\<lparr>urrid_urrctxt_hash := map_erase urr_id (urrid_urrctxt_hash t)\<rparr>))"

text \<open>\<open>peerTables\<close>: a peer's entry also holds its last recovery time.  Of \<open>find_peer_recov_time\<close> the
  model returns what is written through the pointer, if anything.\<close>

record peerRecord =
  recov_time_m :: u32
  peer_rec_m :: ptr

record peerTables =
  addr_to_peer_context_hash :: "u32 \<rightharpoonup> peerRecord"

definition add_addr_to_peer_mapping :: "u32 \<Rightarrow> ptr \<Rightarrow> peerTables \<Rightarrow> int \<times> peerTables" where
  "add_addr_to_peer_mapping peer_addr entry t =
     (0, t\<lparr>addr_to_peer_context_hash :=
        map_insert peer_addr \<lparr>recov_time_m = 0, peer_rec_m = entry\<rparr> (addr_to_peer_context_hash t)\<rparr>)"

definition find_peer_from_addr :: "u32 \<Rightarrow> peerTables \<Rightarrow> ptr" where
  "find_peer_from_addr peer_addr t =
     (case addr_to_peer_context_hash t peer_addr of None \<Rightarrow> NULL | Some peer \<Rightarrow> peer_rec_m peer)"

definition delete_addr_peer_mapping :: "u32 \<Rightarrow> peerTables \<Rightarrow> int \<times> peerTables" where
  "delete_addr_peer_mapping peer_addr t =
     (0, t\<lparr>addr_to_peer_context_hash := map_erase peer_addr (addr_to_peer_context_hash t)\<rparr>)"

definition add_peer_addr_to_recov_time_mapping :: "u32 \<Rightarrow> u32 \<Rightarrow> peerTables \<Rightarrow> int \<times> peerTables" where
  "add_peer_addr_to_recov_time_mapping peer_addr recov_time t =
     (case addr_to_peer_context_hash t peer_addr of None \<Rightarrow> (-1, t)
      | Some peer \<Rightarrow> (0, t\<lparr>addr_to_peer_context_hash :=
          (addr_to_peer_context_hash t)(peer_addr \<mapsto> peer\<lparr>recov_time_m := recov_time\<rparr>)\<rparr>))"

definition find_peer_recov_time :: "u32 \<Rightarrow> peerTables \<Rightarrow> int \<times> u32 option" where
  "find_peer_recov_time peer_addr t =
     (case addr_to_peer_context_hash t peer_addr of None \<Rightarrow> (-1, None)
      | Some peer \<Rightarrow> (0, Some (recov_time_m peer)))"

definition reset_peer_recov_time :: "u32 \<Rightarrow> peerTables \<Rightarrow> int \<times> peerTables" where
  "reset_peer_recov_time peer_addr t =
     (case addr_to_peer_context_hash t peer_addr of None \<Rightarrow> (-1, t)
      | Some peer \<Rightarrow> (0, t\<lparr>addr_to_peer_context_hash :=
          (addr_to_peer_context_hash t)(peer_addr \<mapsto> peer\<lparr>recov_time_m := 0\<rparr>)\<rparr>))"

text \<open>\<open>ruleTables\<close>: the bearer identity is stored as \<open>uint8_t\<close> and returned as \<open>int8_t\<close>.\<close>

record ruleTables =
  rulename_bearerid_hash :: "string \<rightharpoonup> u8"

definition add_rulename_to_bearerid_mapping :: "string \<Rightarrow> u8 \<Rightarrow> ruleTables \<Rightarrow> int \<times> ruleTables" where
  "add_rulename_to_bearerid_mapping rule_name bearerid t =
     (0, t\<lparr>rulename_bearerid_hash := map_insert rule_name bearerid (rulename_bearerid_hash t)\<rparr>)"

definition find_bearerid_from_rulename :: "string \<Rightarrow> ruleTables \<Rightarrow> int" where
  "find_bearerid_from_rulename rule_name t =
     (case rulename_bearerid_hash t rule_name of None \<Rightarrow> -1 | Some bearerid \<Rightarrow> sint bearerid)"

definition delete_bearerid_rulename_mapping :: "string \<Rightarrow> ruleTables \<Rightarrow> int \<times> ruleTables" where
  "delete_bearerid_rulename_mapping rule_name t =
     (0, t\<lparr>rulename_bearerid_hash := map_erase rule_name (rulename_bearerid_hash t)\<rparr>)"

section \<open>The C interface\<close>

text \<open>The table objects behind the wrapper functions.\<close>

record cpp_tables =
  table :: spgwTables
  upf_table :: upfTables
  bearer_table :: bearerTables
  pdn_table :: pdnTables
  ue_table :: ueTables
  peer_table :: peerTables
  urr_table :: urrTables
  qer_table :: qerTables
  pdr_table :: pdrTables
  rule_table :: ruleTables
  delay_task :: delayTask

definition init_cpp_tables :: cpp_tables where
  "init_cpp_tables = \<lparr>
     table = \<lparr>spgw_pfcp_transaction_map = Map.empty, spgw_gtp_transaction_map = Map.empty,
       spgw_gx_transaction_map = Map.empty, stack_events_queue = [], stack_test_events_queue = [],
       gtp_out_queue = [], t2tmsg_queue = [], pfcp_out_queue = [], gx_out_queue = []\<rparr>,
     upf_table = \<lparr>upf_context_by_ip_hash = Map.empty, upf_context_by_service_hash = Map.empty\<rparr>,
     bearer_table = \<lparr>bearer_by_fteid_hash = Map.empty\<rparr>,
     pdn_table = \<lparr>pdn_by_callid_hash = Map.empty, pdn_by_fteid_hash = Map.empty\<rparr>,
     ue_table = \<lparr>imsi_session_hash = Map.empty, seid_session_hash = Map.empty,
       teid_session_hash = Map.empty, gx_sessid_session_hash = Map.empty\<rparr>,
     peer_table = \<lparr>addr_to_peer_context_hash = Map.empty\<rparr>,
     urr_table = \<lparr>urrid_urrctxt_hash = Map.empty\<rparr>,
     qer_table = \<lparr>qerid_qerctxt_hash = Map.empty\<rparr>,
     pdr_table = \<lparr>pdrid_pdrctxt_hash = Map.empty\<rparr>,
     rule_table = \<lparr>rulename_bearerid_hash = Map.empty\<rparr>,
     delay_task = \<lparr>delayed_memory_free_m = []\<rparr>\<rparr>"

definition add_gx_transaction :: "u32 \<Rightarrow> ptr \<Rightarrow> cpp_tables \<Rightarrow> bool \<times> cpp_tables" where
  "add_gx_transaction msg_seq tr c = (case add_gx_trans msg_seq tr (table c) of (r, t) \<Rightarrow> (r, c\<lparr>table := t\<rparr>))"

definition find_gx_transaction :: "u32 \<Rightarrow> cpp_tables \<Rightarrow> ptr" where
  "find_gx_transaction msg_seq c = find_gx_trans msg_seq (table c)"

definition delete_gx_transaction :: "u32 \<Rightarrow> cpp_tables \<Rightarrow> ptr \<times> cpp_tables" where
  "delete_gx_transaction msg_seq c = (case delete_gx_trans msg_seq (table c) of (r, t) \<Rightarrow> (r, c\<lparr>table := t\<rparr>))"

definition add_pfcp_transaction :: "u32 \<Rightarrow> u16 \<Rightarrow> u32 \<Rightarrow> ptr \<Rightarrow> cpp_tables \<Rightarrow> bool \<times> cpp_tables" where
  "add_pfcp_transaction addr port msg_seq tr c = (case add_pfcp_trans addr port msg_seq tr (table c) of (r, t) \<Rightarrow> (r, c\<lparr>table := t\<rparr>))"

definition find_pfcp_transaction :: "u32 \<Rightarrow> u16 \<Rightarrow> u32 \<Rightarrow> cpp_tables \<Rightarrow> ptr" where
  "find_pfcp_transaction addr port msg_seq c = find_pfcp_trans addr port msg_seq (table c)"

definition delete_pfcp_transaction :: "u32 \<Rightarrow> u16 \<Rightarrow> u32 \<Rightarrow> cpp_tables \<Rightarrow> ptr \<times> cpp_tables" where
  "delete_pfcp_transaction addr port msg_seq c = (case delete_pfcp_trans addr port msg_seq (table c) of (r, t) \<Rightarrow> (r, c\<lparr>table := t\<rparr>))"

definition add_gtp_transaction :: "u32 \<Rightarrow> u16 \<Rightarrow> u32 \<Rightarrow> ptr \<Rightarrow> cpp_tables \<Rightarrow> bool \<times> cpp_tables" where
  "add_gtp_transaction addr port msg_seq tr c = (case add_gtp_trans addr port msg_seq tr (table c) of (r, t) \<Rightarrow> (r, c\<lparr>table := t\<rparr>))"

definition find_gtp_transaction :: "u32 \<Rightarrow> u16 \<Rightarrow> u32 \<Rightarrow> cpp_tables \<Rightarrow> ptr" where
  "find_gtp_transaction addr port msg_seq c = find_gtp_trans addr port msg_seq (table c)"

definition delete_gtp_transaction :: "u32 \<Rightarrow> u16 \<Rightarrow> u32 \<Rightarrow> cpp_tables \<Rightarrow> ptr \<times> cpp_tables" where
  "delete_gtp_transaction addr port msg_seq c = (case delete_gtp_trans addr port msg_seq (table c) of (r, t) \<Rightarrow> (r, c\<lparr>table := t\<rparr>))"

definition queue_stack_unwind_event_cpp :: "ptr \<Rightarrow> cpp_tables \<Rightarrow> cpp_tables" where
  "queue_stack_unwind_event_cpp context c = c\<lparr>table := queue_event context (table c)\<rparr>"

definition queue_test_stack_unwind_event_cpp :: "ptr \<Rightarrow> cpp_tables \<Rightarrow> cpp_tables" where
  "queue_test_stack_unwind_event_cpp context c = c\<lparr>table := queue_test_event context (table c)\<rparr>"

definition queue_gtp_out_event_cpp :: "ptr \<Rightarrow> cpp_tables \<Rightarrow> cpp_tables" where
  "queue_gtp_out_event_cpp context c = c\<lparr>table := queue_gtp_out_event context (table c)\<rparr>"

definition queue_pfcp_out_event_cpp :: "ptr \<Rightarrow> cpp_tables \<Rightarrow> cpp_tables" where
  "queue_pfcp_out_event_cpp context c = c\<lparr>table := queue_pfcp_out_event context (table c)\<rparr>"

definition queue_gx_out_event_cpp :: "ptr \<Rightarrow> cpp_tables \<Rightarrow> cpp_tables" where
  "queue_gx_out_event_cpp context c = c\<lparr>table := queue_gx_out_event context (table c)\<rparr>"

definition get_stack_unwind_event_cpp :: "cpp_tables \<Rightarrow> ptr \<times> cpp_tables" where
  "get_stack_unwind_event_cpp c = (case pop_event (table c) of (r, t) \<Rightarrow> (r, c\<lparr>table := t\<rparr>))"

definition get_test_stack_unwind_event_cpp :: "cpp_tables \<Rightarrow> ptr \<times> cpp_tables" where
  "get_test_stack_unwind_event_cpp c = (case pop_test_event (table c) of (r, t) \<Rightarrow> (r, c\<lparr>table := t\<rparr>))"

definition get_gtp_out_event :: "cpp_tables \<Rightarrow> ptr \<times> cpp_tables" where
  "get_gtp_out_event c = (case pop_gtp_out_event (table c) of (r, t) \<Rightarrow> (r, c\<lparr>table := t\<rparr>))"

definition get_pfcp_out_event :: "cpp_tables \<Rightarrow> ptr \<times> cpp_tables" where
  "get_pfcp_out_event c = (case pop_pfcp_out_event (table c) of (r, t) \<Rightarrow> (r, c\<lparr>table := t\<rparr>))"

definition get_gx_out_event :: "cpp_tables \<Rightarrow> ptr \<times> cpp_tables" where
  "get_gx_out_event c = (case pop_gx_out_event (table c) of (r, t) \<Rightarrow> (r, c\<lparr>table := t\<rparr>))"

definition get_t2tMsg :: "cpp_tables \<Rightarrow> ptr \<times> cpp_tables" where
  "get_t2tMsg c = (case pop_t2t_msg_event (table c) of (r, t) \<Rightarrow> (r, c\<lparr>table := t\<rparr>))"

definition upf_context_entry_add_service :: "string \<Rightarrow> ptr \<Rightarrow> cpp_tables \<Rightarrow> int \<times> cpp_tables" where
  "upf_context_entry_add_service upf_service entry c = (case add_upf_service upf_service entry (upf_table c) of (r, t) \<Rightarrow> (r, c\<lparr>upf_table := t\<rparr>))"

definition upf_context_entry_lookup_service :: "string \<Rightarrow> cpp_tables \<Rightarrow> ptr" where
  "upf_context_entry_lookup_service upf_service c = find_upf_service upf_service (upf_table c)"

definition upf_context_delete_entry_service :: "string \<Rightarrow> cpp_tables \<Rightarrow> int \<times> cpp_tables" where
  "upf_context_delete_entry_service upf_service c = (case delete_upf_service upf_service (upf_table c) of (r, t) \<Rightarrow> (r, c\<lparr>upf_table := t\<rparr>))"

definition upf_context_entry_add :: "u32 \<Rightarrow> ptr \<Rightarrow> cpp_tables \<Rightarrow> int \<times> cpp_tables" where
  "upf_context_entry_add upf_ip entry c = (case add_upf upf_ip entry (upf_table c) of (r, t) \<Rightarrow> (r, c\<lparr>upf_table := t\<rparr>))"

definition upf_context_entry_lookup :: "u32 \<Rightarrow> cpp_tables \<Rightarrow> ptr" where
  "upf_context_entry_lookup upf_ip c = find_upf upf_ip (upf_table c)"

definition upf_context_delete_entry :: "u32 \<Rightarrow> cpp_tables \<Rightarrow> int \<times> cpp_tables" where
  "upf_context_delete_entry upf_ip c = (case delete_upf upf_ip (upf_table c) of (r, t) \<Rightarrow> (r, c\<lparr>upf_table := t\<rparr>))"

definition bearer_context_entry_add_teidKey :: "u32 \<Rightarrow> ptr \<Rightarrow> cpp_tables \<Rightarrow> int \<times> cpp_tables" where
  "bearer_context_entry_add_teidKey teid entry c = (case add_teid_to_bearer_mapping teid entry (bearer_table c) of (r, t) \<Rightarrow> (r, c\<lparr>bearer_table := t\<rparr>))"

definition get_bearer_by_teid :: "u32 \<Rightarrow> cpp_tables \<Rightarrow> ptr" where
  "get_bearer_by_teid teid c = find_bearer_from_teid teid (bearer_table c)"

definition bearer_context_delete_entry_teidKey :: "u32 \<Rightarrow> cpp_tables \<Rightarrow> int \<times> cpp_tables" where
  "bearer_context_delete_entry_teidKey teid c = (case delete_bearer_teid_mapping teid (bearer_table c) of (r, t) \<Rightarrow> (r, c\<lparr>bearer_table := t\<rparr>))"

definition add_pdn_conn_entry :: "u32 \<Rightarrow> ptr \<Rightarrow> cpp_tables \<Rightarrow> int \<times> cpp_tables" where
  "add_pdn_conn_entry call_id entry c = (case add_callid_to_pdn_mapping call_id entry (pdn_table c) of (r, t) \<Rightarrow> (r, c\<lparr>pdn_table := t\<rparr>))"

definition get_pdn_conn_entry :: "u32 \<Rightarrow> cpp_tables \<Rightarrow> ptr" where
  "get_pdn_conn_entry call_id c = find_pdn_from_callid call_id (pdn_table c)"

definition del_pdn_conn_entry :: "u32 \<Rightarrow> cpp_tables \<Rightarrow> int \<times> cpp_tables" where
  "del_pdn_conn_entry call_id c = (case delete_callid_pdn_mapping call_id (pdn_table c) of (r, t) \<Rightarrow> (r, c\<lparr>pdn_table := t\<rparr>))"

definition pdn_context_entry_add_teidKey :: "u32 \<Rightarrow> ptr \<Rightarrow> cpp_tables \<Rightarrow> int \<times> cpp_tables" where
  "pdn_context_entry_add_teidKey teid entry c = (case add_teid_to_pdn_mapping teid entry (pdn_table c) of (r, t) \<Rightarrow> (r, c\<lparr>pdn_table := t\<rparr>))"

definition get_pdn_context :: "u32 \<Rightarrow> cpp_tables \<Rightarrow> ptr" where
  "get_pdn_context teid c = find_pdn_from_teid teid (pdn_table c)"

definition pdn_context_delete_entry_teidKey :: "u32 \<Rightarrow> cpp_tables \<Rightarrow> int \<times> cpp_tables" where
  "pdn_context_delete_entry_teidKey teid c = (case delete_teid_pdn_mapping teid (pdn_table c) of (r, t) \<Rightarrow> (r, c\<lparr>pdn_table := t\<rparr>))"

definition add_sess_entry_seid :: "u64 \<Rightarrow> ptr \<Rightarrow> cpp_tables \<Rightarrow> int \<times> cpp_tables" where
  "add_sess_entry_seid seid entry c = (case add_seid_to_ue_mapping seid entry (ue_table c) of (r, t) \<Rightarrow> (r, c\<lparr>ue_table := t\<rparr>))"

definition get_sess_entry_seid :: "u64 \<Rightarrow> cpp_tables \<Rightarrow> ptr" where
  "get_sess_entry_seid seid c = find_ue_from_seid seid (ue_table c)"

definition del_sess_entry_seid :: "u64 \<Rightarrow> cpp_tables \<Rightarrow> int \<times> cpp_tables" where
  "del_sess_entry_seid seid c = (case delete_seid_ue_mapping seid (ue_table c) of (r, t) \<Rightarrow> (r, c\<lparr>ue_table := t\<rparr>))"

definition ue_context_entry_add_teidKey :: "u32 \<Rightarrow> ptr \<Rightarrow> cpp_tables \<Rightarrow> int \<times> cpp_tables" where
  "ue_context_entry_add_teidKey teid entry c = (case add_teid_to_ue_mapping teid entry (ue_table c) of (r, t) \<Rightarrow> (r, c\<lparr>ue_table := t\<rparr>))"

definition get_ue_context :: "u32 \<Rightarrow> cpp_tables \<Rightarrow> ptr" where
  "get_ue_context teid c = find_ue_from_teid teid (ue_table c)"

definition ue_context_delete_entry_teidKey :: "u32 \<Rightarrow> cpp_tables \<Rightarrow> int \<times> cpp_tables" where
  "ue_context_delete_entry_teidKey teid c = (case delete_teid_ue_mapping teid (ue_table c) of (r, t) \<Rightarrow> (r, c\<lparr>ue_table := t\<rparr>))"

definition ue_context_entry_add_imsiKey :: "u64 \<Rightarrow> ptr \<Rightarrow> cpp_tables \<Rightarrow> int \<times> cpp_tables" where
  "ue_context_entry_add_imsiKey imsi entry c = (case add_imsi_to_ue_mapping imsi entry (ue_table c) of (r, t) \<Rightarrow> (r, c\<lparr>ue_table := t\<rparr>))"

definition ue_context_entry_lookup_imsiKey :: "u64 \<Rightarrow> cpp_tables \<Rightarrow> ptr" where
  "ue_context_entry_lookup_imsiKey imsi c = find_ue_from_imsi imsi (ue_table c)"

definition ue_context_delete_entry_imsiKey :: "u64 \<Rightarrow> cpp_tables \<Rightarrow> int \<times> cpp_tables" where
  "ue_context_delete_entry_imsiKey imsi c = (case delete_imsi_ue_mapping imsi (ue_table c) of (r, t) \<Rightarrow> (r, c\<lparr>ue_table := t\<rparr>))"

definition gxsessid_context_entry_add :: "string \<Rightarrow> ptr \<Rightarrow> cpp_tables \<Rightarrow> int \<times> cpp_tables" where
  "gxsessid_context_entry_add sess_id entry c = (case add_gx_sessid_to_ue_mapping sess_id entry (ue_table c) of (r, t) \<Rightarrow> (r, c\<lparr>ue_table := t\<rparr>))"

definition get_ue_context_from_gxsessid :: "string \<Rightarrow> cpp_tables \<Rightarrow> ptr" where
  "get_ue_context_from_gxsessid sess_id c = find_ue_from_gx_sessid sess_id (ue_table c)"

definition remove_gxsessid_to_context :: "string \<Rightarrow> cpp_tables \<Rightarrow> int \<times> cpp_tables" where
  "remove_gxsessid_to_context sess_id c = (case delete_gx_sessid_ue_mapping sess_id (ue_table c) of (r, t) \<Rightarrow> (r, c\<lparr>ue_table := t\<rparr>))"

definition add_urr_entry :: "u32 \<Rightarrow> ptr \<Rightarrow> cpp_tables \<Rightarrow> int \<times> cpp_tables" where
  "add_urr_entry urr_id cntxt c = (case add_urrid_to_urrctxt_mapping urr_id cntxt (urr_table c) of (r, t) \<Rightarrow> (r, c\<lparr>urr_table := t\<rparr>))"

definition get_urr_entry :: "u32 \<Rightarrow> cpp_tables \<Rightarrow> ptr" where
  "get_urr_entry urr_id c = find_urrctxt_from_urrid urr_id (urr_table c)"

definition del_urr_entry :: "u32 \<Rightarrow> cpp_tables \<Rightarrow> int \<times> ptr \<times> cpp_tables" where
  "del_urr_entry urr_id c = (case delete_urrid_urrctxt_mapping urr_id (urr_table c) of (r, freed, t) \<Rightarrow> (r, freed, c\<lparr>urr_table := t\<rparr>))"

definition add_qer_entry :: "u32 \<Rightarrow> ptr \<Rightarrow> cpp_tables \<Rightarrow> int \<times> cpp_tables" where
  "add_qer_entry qer_id cntxt c = (case add_qerid_to_qerctxt_mapping qer_id cntxt (qer_table c) of (r, t) \<Rightarrow> (r, c\<lparr>qer_table := t\<rparr>))"

definition get_qer_entry :: "u32 \<Rightarrow> cpp_tables \<Rightarrow> ptr" where
  "get_qer_entry qer_id c = find_qerctxt_from_qerid qer_id (qer_table c)"

definition del_qer_entry :: "u32 \<Rightarrow> cpp_tables \<Rightarrow> int \<times> ptr \<times> cpp_tables" where
  "del_qer_entry qer_id c = (case delete_qerid_qerctxt_mapping qer_id (qer_table c) of (r, freed, t) \<Rightarrow> (r, freed, c\<lparr>qer_table := t\<rparr>))"

definition add_pdr_entry :: "u16 \<Rightarrow> ptr \<Rightarrow> cpp_tables \<Rightarrow> int \<times> cpp_tables" where
  "add_pdr_entry pdr_id cntxt c = (case add_pdrid_to_pdrctxt_mapping (ucast pdr_id) cntxt (pdr_table c) of (r, t) \<Rightarrow> (r, c\<lparr>pdr_table := t\<rparr>))"

definition get_pdr_entry :: "u16 \<Rightarrow> cpp_tables \<Rightarrow> ptr" where
  "get_pdr_entry pdr_id c = find_pdrctxt_from_pdrid (ucast pdr_id) (pdr_table c)"

definition del_pdr_entry :: "u16 \<Rightarrow> cpp_tables \<Rightarrow> int \<times> ptr \<times> cpp_tables" where
  "del_pdr_entry pdr_id c = (case delete_pdrid_pdrctxt_mapping (ucast pdr_id) (pdr_table c) of (r, freed, t) \<Rightarrow> (r, freed, c\<lparr>pdr_table := t\<rparr>))"

definition add_peer_entry :: "u32 \<Rightarrow> ptr \<Rightarrow> cpp_tables \<Rightarrow> int \<times> cpp_tables" where
  "add_peer_entry peer_addr entry c = (case add_addr_to_peer_mapping peer_addr entry (peer_table c) of (r, t) \<Rightarrow> (r, c\<lparr>peer_table := t\<rparr>))"

definition get_peer_entry :: "u32 \<Rightarrow> cpp_tables \<Rightarrow> ptr" where
  "get_peer_entry peer_addr c = find_peer_from_addr peer_addr (peer_table c)"

definition del_entry_from_hash :: "u32 \<Rightarrow> cpp_tables \<Rightarrow> int \<times> cpp_tables" where
  "del_entry_from_hash peer_addr c = (case delete_addr_peer_mapping peer_addr (peer_table c) of (r, t) \<Rightarrow> (r, c\<lparr>peer_table := t\<rparr>))"

definition peer_heartbeat_entry_lookup :: "u32 \<Rightarrow> cpp_tables \<Rightarrow> int \<times> u32 option" where
  "peer_heartbeat_entry_lookup peer_ip c = find_peer_recov_time peer_ip (peer_table c)"

definition add_ip_to_heartbeat_hash :: "u32 \<Rightarrow> u32 \<Rightarrow> cpp_tables \<Rightarrow> cpp_tables" where
  "add_ip_to_heartbeat_hash peer_addr recovery_time c =
     c\<lparr>peer_table := snd (add_peer_addr_to_recov_time_mapping peer_addr recovery_time (peer_table c))\<rparr>"

definition delete_entry_heartbeat_hash :: "u32 \<Rightarrow> cpp_tables \<Rightarrow> cpp_tables" where
  "delete_entry_heartbeat_hash peer_addr c =
     c\<lparr>peer_table := snd (reset_peer_recov_time peer_addr (peer_table c))\<rparr>"

definition add_rule_name_entry :: "string \<Rightarrow> u8 \<Rightarrow> cpp_tables \<Rightarrow> int \<times> cpp_tables" where
  "add_rule_name_entry rule_name bearer c = (case add_rulename_to_bearerid_mapping rule_name bearer (rule_table c) of (r, t) \<Rightarrow> (r, c\<lparr>rule_table := t\<rparr>))"

definition get_rule_name_entry :: "string \<Rightarrow> cpp_tables \<Rightarrow> int" where
  "get_rule_name_entry rule_name c = find_bearerid_from_rulename rule_name (rule_table c)"

definition del_rule_name_entry :: "string \<Rightarrow> cpp_tables \<Rightarrow> int \<times> cpp_tables" where
  "del_rule_name_entry rule_name c = (case delete_bearerid_rulename_mapping rule_name (rule_table c) of (r, t) \<Rightarrow> (r, c\<lparr>rule_table := t\<rparr>))"

section \<open>The tables keep the contracts\<close>

lemma trans_key_inject [simp]: "trans_key a p s = trans_key a' p' s' \<longleftrightarrow> a = a' \<and> p = p' \<and> s = s'"
proof -
  have "(ucast (ucast q :: u32) :: u16) = q" for q :: u16
    by (rule bit_word_eqI) (simp add: bit_simps)
  then have "(ucast p :: u32) = ucast p' \<longleftrightarrow> p = p'" by metis
  then show ?thesis by (auto simp: trans_key_def)
qed

interpretation pfcp_trans: lookup_table
    "\<lambda>(a, p, s) tr t. snd (add_pfcp_trans a p s tr t)" "\<lambda>(a, p, s) t. find_pfcp_trans a p s t"
    "\<lambda>(a, p, s) t. snd (delete_pfcp_trans a p s t)" "\<lambda>t (a, p, s). spgw_pfcp_transaction_map t (trans_key a p s)"
  by unfold_locales
    (auto simp: add_pfcp_trans_def find_pfcp_trans_def delete_pfcp_trans_def container_defs Let_def
      fun_eq_iff split: option.splits if_splits)

interpretation gtp_trans: lookup_table
    "\<lambda>(a, p, s) tr t. snd (add_gtp_trans a p s tr t)" "\<lambda>(a, p, s) t. find_gtp_trans a p s t"
    "\<lambda>(a, p, s) t. snd (delete_gtp_trans a p s t)" "\<lambda>t (a, p, s). spgw_gtp_transaction_map t (trans_key a p s)"
  by unfold_locales
    (auto simp: add_gtp_trans_def find_gtp_trans_def delete_gtp_trans_def container_defs Let_def
      fun_eq_iff split: option.splits if_splits)

interpretation gx_trans: lookup_table "\<lambda>k p t. snd (add_gx_trans k p t)"
    find_gx_trans "\<lambda>k t. snd (delete_gx_trans k t)" spgw_gx_transaction_map
  by unfold_locales (simp_all add: add_gx_trans_def find_gx_trans_def delete_gx_trans_def container_defs fun_upd_idem split: option.splits)

interpretation ue_by_imsi: lookup_table "\<lambda>k p t. snd (add_imsi_to_ue_mapping k p t)"
    find_ue_from_imsi "\<lambda>k t. snd (delete_imsi_ue_mapping k t)" imsi_session_hash
  by unfold_locales (simp_all add: add_imsi_to_ue_mapping_def find_ue_from_imsi_def delete_imsi_ue_mapping_def container_defs fun_upd_idem split: option.splits)

interpretation ue_by_seid: lookup_table "\<lambda>k p t. snd (add_seid_to_ue_mapping k p t)"
    find_ue_from_seid "\<lambda>k t. snd (delete_seid_ue_mapping k t)" seid_session_hash
  by unfold_locales (simp_all add: add_seid_to_ue_mapping_def find_ue_from_seid_def delete_seid_ue_mapping_def container_defs fun_upd_idem split: option.splits)

interpretation ue_by_teid: lookup_table "\<lambda>k p t. snd (add_teid_to_ue_mapping k p t)"
    find_ue_from_teid "\<lambda>k t. snd (delete_teid_ue_mapping k t)" teid_session_hash
  by unfold_locales (simp_all add: add_teid_to_ue_mapping_def find_ue_from_teid_def delete_teid_ue_mapping_def container_defs fun_upd_idem split: option.splits)

interpretation ue_by_sess_id: lookup_table "\<lambda>k p t. snd (add_gx_sessid_to_ue_mapping k p t)"
    find_ue_from_gx_sessid "\<lambda>k t. snd (delete_gx_sessid_ue_mapping k t)" gx_sessid_session_hash
  by unfold_locales (simp_all add: add_gx_sessid_to_ue_mapping_def find_ue_from_gx_sessid_def delete_gx_sessid_ue_mapping_def container_defs fun_upd_idem split: option.splits)

interpretation pdn_by_call_id: lookup_table "\<lambda>k p t. snd (add_callid_to_pdn_mapping k p t)"
    find_pdn_from_callid "\<lambda>k t. snd (delete_callid_pdn_mapping k t)" pdn_by_callid_hash
  by unfold_locales (simp_all add: add_callid_to_pdn_mapping_def find_pdn_from_callid_def delete_callid_pdn_mapping_def container_defs fun_upd_idem split: option.splits)

interpretation pdn_by_teid: lookup_table "\<lambda>k p t. snd (add_teid_to_pdn_mapping k p t)"
    find_pdn_from_teid "\<lambda>k t. snd (delete_teid_pdn_mapping k t)" pdn_by_fteid_hash
  by unfold_locales (simp_all add: add_teid_to_pdn_mapping_def find_pdn_from_teid_def delete_teid_pdn_mapping_def container_defs fun_upd_idem split: option.splits)

interpretation bearer_by_teid: lookup_table "\<lambda>k p t. snd (add_teid_to_bearer_mapping k p t)"
    find_bearer_from_teid "\<lambda>k t. snd (delete_bearer_teid_mapping k t)" bearer_by_fteid_hash
  by unfold_locales (simp_all add: add_teid_to_bearer_mapping_def find_bearer_from_teid_def delete_bearer_teid_mapping_def container_defs fun_upd_idem split: option.splits)

interpretation upf_by_upf_ip: lookup_table "\<lambda>k p t. snd (add_upf k p t)"
    find_upf "\<lambda>k t. snd (delete_upf k t)" upf_context_by_ip_hash
  by unfold_locales (simp_all add: add_upf_def find_upf_def delete_upf_def container_defs fun_upd_idem split: option.splits)

interpretation upf_by_upf_service: lookup_table "\<lambda>k p t. snd (add_upf_service k p t)"
    find_upf_service "\<lambda>k t. snd (delete_upf_service k t)" upf_context_by_service_hash
  by unfold_locales (simp_all add: add_upf_service_def find_upf_service_def delete_upf_service_def container_defs fun_upd_idem split: option.splits)

interpretation pdr_by_pdr_id: lookup_table "\<lambda>k p t. snd (add_pdrid_to_pdrctxt_mapping k p t)"
    find_pdrctxt_from_pdrid "\<lambda>k t. snd (snd (delete_pdrid_pdrctxt_mapping k t))" pdrid_pdrctxt_hash
  by unfold_locales (simp_all add: add_pdrid_to_pdrctxt_mapping_def find_pdrctxt_from_pdrid_def delete_pdrid_pdrctxt_mapping_def container_defs fun_upd_idem split: option.splits)

interpretation qer_by_qer_id: lookup_table "\<lambda>k p t. snd (add_qerid_to_qerctxt_mapping k p t)"
    find_qerctxt_from_qerid "\<lambda>k t. snd (snd (delete_qerid_qerctxt_mapping k t))" qerid_qerctxt_hash
  by unfold_locales (simp_all add: add_qerid_to_qerctxt_mapping_def find_qerctxt_from_qerid_def delete_qerid_qerctxt_mapping_def container_defs fun_upd_idem split: option.splits)

interpretation urr_by_urr_id: lookup_table "\<lambda>k p t. snd (add_urrid_to_urrctxt_mapping k p t)"
    find_urrctxt_from_urrid "\<lambda>k t. snd (snd (delete_urrid_urrctxt_mapping k t))" urrid_urrctxt_hash
  by unfold_locales (simp_all add: add_urrid_to_urrctxt_mapping_def find_urrctxt_from_urrid_def delete_urrid_urrctxt_mapping_def container_defs fun_upd_idem split: option.splits)

interpretation peer_by_addr: lookup_table "\<lambda>k p t. snd (add_addr_to_peer_mapping k p t)"
    find_peer_from_addr "\<lambda>k t. snd (delete_addr_peer_mapping k t)"
    "\<lambda>t k. map_option peer_rec_m (addr_to_peer_context_hash t k)"
  by unfold_locales
    (auto simp: add_addr_to_peer_mapping_def find_peer_from_addr_def delete_addr_peer_mapping_def
      container_defs fun_eq_iff split: option.splits if_splits)

interpretation stack_events_q: fifo_queue queue_event pop_event stack_events_queue
  by unfold_locales (simp_all add: queue_event_def pop_event_def container_defs)

interpretation stack_test_events_q: fifo_queue queue_test_event pop_test_event stack_test_events_queue
  by unfold_locales (simp_all add: queue_test_event_def pop_test_event_def container_defs)

interpretation gtp_out_q: fifo_queue queue_gtp_out_event pop_gtp_out_event gtp_out_queue
  by unfold_locales (simp_all add: queue_gtp_out_event_def pop_gtp_out_event_def container_defs)

interpretation pfcp_out_q: fifo_queue queue_pfcp_out_event pop_pfcp_out_event pfcp_out_queue
  by unfold_locales (simp_all add: queue_pfcp_out_event_def pop_pfcp_out_event_def container_defs)

interpretation gx_out_q: fifo_queue queue_gx_out_event pop_gx_out_event gx_out_queue
  by unfold_locales (simp_all add: queue_gx_out_event_def pop_gx_out_event_def container_defs)

interpretation t2tmsg_q: fifo_queue queue_t2t_msg_event pop_t2t_msg_event t2tmsg_queue
  by unfold_locales (simp_all add: queue_t2t_msg_event_def pop_t2t_msg_event_def container_defs)

interpretation delayed_q: fifo_queue add_delayed_free_memory_task
    "\<lambda>d. case delete_delayed_free_memory_task d of (p, n, d') \<Rightarrow> (p, d')" delayed_memory_free_m
  by unfold_locales
    (auto simp: add_delayed_free_memory_task_def delete_delayed_free_memory_task_def container_defs
      split: list.splits)

interpretation gtp_out_events: fifo_queue queue_gtp_out_event_cpp get_gtp_out_event "\<lambda>c. gtp_out_queue (table c)"
  by unfold_locales
    (simp_all add: queue_gtp_out_event_cpp_def get_gtp_out_event_def queue_gtp_out_event_def
      pop_gtp_out_event_def container_defs)

interpretation pfcp_out_events: fifo_queue queue_pfcp_out_event_cpp get_pfcp_out_event "\<lambda>c. pfcp_out_queue (table c)"
  by unfold_locales
    (simp_all add: queue_pfcp_out_event_cpp_def get_pfcp_out_event_def queue_pfcp_out_event_def
      pop_pfcp_out_event_def container_defs)

interpretation stack_unwind_events: fifo_queue queue_stack_unwind_event_cpp get_stack_unwind_event_cpp
    "\<lambda>c. stack_events_queue (table c)"
  by unfold_locales
    (simp_all add: queue_stack_unwind_event_cpp_def get_stack_unwind_event_cpp_def queue_event_def
      pop_event_def container_defs)

section \<open>Properties\<close>

text \<open>C14: the comparison that orders the transaction maps is a strict total order whose
  equivalence is equality, as \<open>std::map\<close> requires: irreflexive, transitive, and any two different keys
  are ordered.\<close>

theorem comp_strict_order:
  "\<not> comp a a \<and> (comp a b \<and> comp b c \<longrightarrow> comp a c) \<and> (a \<noteq> b \<longrightarrow> comp a b \<noteq> comp b a)"
  by (auto simp: comp_def split: if_splits)

theorem comp_strict_order_witness:
  "comp (trans_key 1 2123 7) (trans_key 0 2123 9) \<noteq> comp (trans_key 0 2123 9) (trans_key 1 2123 7)"
proof -
  have "trans_key 1 2123 7 \<noteq> trans_key 0 2123 9" by simp
  with comp_strict_order[of "trans_key 1 2123 7" "trans_key 0 2123 9"] show ?thesis by blast
qed


text \<open>The messages that procedures queue for the GTP socket leave in the order in which they
  were queued, and the queue answers NULL once it is empty.\<close>

theorem gtp_out_events_fifo:
  "fst (get_gtp_out_event (((\<lambda>c. snd (get_gtp_out_event c)) ^^ k)
     (fold queue_gtp_out_event_cpp xs init_cpp_tables))) = (if k < length xs then xs ! k else NULL)"
  by (simp add: gtp_out_events.pop_order gtp_out_events.elems_push_all init_cpp_tables_def)


end
