(* ===== verification/Ip_Pool.thy ===== *)
theory Ip_Pool
  imports Ie_Codec
begin

text \<open>
  The pools of UE addresses: \<open>cpplib/ip_pool_mgmt.h\<close> (a queue of free addresses and a tree of static
  addresses), the C interface of \<open>cpplib/spgw_wrapper.cpp\<close> and \<open>cp/ip_pool.c\<close>.  Addresses are 32-bit
  words in host byte order unless said otherwise.  A call through a pool that has not been
  configured dereferences a null pointer: None.

  The locale \<open>address_pool\<close> is the contract that clients of a pool rely on; both pools keep it.
\<close>

section \<open>Counting addresses\<close>

text \<open>The loop at the head of both \<open>gen_pool\<close> methods: it doubles \<open>total_address\<close> for every zero bit
  at the right end of the mask.  On an empty mask it does not end.\<close>

partial_function (option) count_addresses :: "u32 \<Rightarrow> u32 \<Rightarrow> u32 option" where
  "count_addresses total_address n =
     (if n AND 1 = 0 then count_addresses (push_bit 1 total_address) (drop_bit 1 n)
      else Some total_address)"

declare count_addresses.simps [code]

section \<open>The dynamic pool\<close>

text \<open>\<open>ue_dynamic_pool\<close>: \<open>pool_m\<close> is a \<open>std::queue\<close>, its front is the head of the list.\<close>

record ue_dynamic_pool =
  pool_m :: "u32 list"

text \<open>The loop \<open>for (i = total_address - 2; i > 0; i--)\<close>.\<close>

fun push_addresses :: "nat \<Rightarrow> u32 \<Rightarrow> u32 list \<Rightarrow> u32 list" where
  "push_addresses 0 net q = q"
| "push_addresses (Suc i) net q = push_addresses i net (q @ [net + of_nat (Suc i)])"

definition dynamic_gen_pool :: "u32 \<Rightarrow> u32 \<Rightarrow> ue_dynamic_pool \<Rightarrow> ue_dynamic_pool option" where
  "dynamic_gen_pool net net_mask p =
     (case count_addresses 1 net_mask of None \<Rightarrow> None
      | Some total_address \<Rightarrow> Some (p\<lparr>pool_m := push_addresses (unat (total_address - 2)) net (pool_m p)\<rparr>))"

definition get_ip :: "ue_dynamic_pool \<Rightarrow> u32 \<times> ue_dynamic_pool" where
  "get_ip p = (case pool_m p of [] \<Rightarrow> (0, p) | addr # rest \<Rightarrow> (addr, p\<lparr>pool_m := rest\<rparr>))"

definition free_ip :: "u32 \<Rightarrow> ue_dynamic_pool \<Rightarrow> ue_dynamic_pool" where
  "free_ip ip p = p\<lparr>pool_m := pool_m p @ [ip]\<rparr>"

section \<open>The static pool\<close>

text \<open>\<open>struct ip_table\<close>: a node has 256 children, one per value of an octet.  The label \<open>ue_address\<close> is
  the text of the address, as \<open>inet_ntoa\<close> prints it.\<close>

datatype ip_table = Ip_Table (octet: "u8 \<Rightarrow> ip_table option") (ue_address: "string option") (used: bool)

definition calloc_ip_table :: ip_table where
  "calloc_ip_table = Ip_Table (\<lambda>_. None) None False"

record ue_static_pool =
  addr_pool_m :: "ip_table option"

text \<open>The four values \<open>byte\<close> takes in the loops over the tree.\<close>

definition octets :: "u32 \<Rightarrow> u8 list" where
  "octets addr = map2 (\<lambda>msk shift. ucast (drop_bit shift (msk AND addr)))
     [0xff000000, 0xff0000, 0xff00, 0xff] [24, 16, 8, 0]"

fun decimal :: "nat \<Rightarrow> string" where
  "decimal n = (if n < 10 then [char_of (48 + n)] else decimal (n div 10) @ [char_of (48 + n mod 10)])"

definition inet_ntoa :: "u32 \<Rightarrow> string" where
  "inet_ntoa net_addr = concat (map (\<lambda>(i, b). (if i = 0 then [] else ''.'') @ decimal (unat b))
     (enumerate 0 (le_bytes 4 net_addr)))"

fun add_path :: "u8 list \<Rightarrow> string \<Rightarrow> ip_table \<Rightarrow> ip_table" where
  "add_path [] p search_tree = Ip_Table (octet search_tree) (Some p) (used search_tree)"
| "add_path (byte # bytes) p search_tree =
     Ip_Table ((octet search_tree)(byte \<mapsto> add_path bytes p
         (case octet search_tree byte of None \<Rightarrow> calloc_ip_table | Some t \<Rightarrow> t)))
       (ue_address search_tree) (used search_tree)"

definition add_ipaddr_in_pool :: "u32 \<Rightarrow> ip_table \<Rightarrow> ip_table" where
  "add_ipaddr_in_pool host t = add_path (octets host) (inet_ntoa (htonl host)) t"

definition static_gen_pool :: "u32 \<Rightarrow> u32 \<Rightarrow> ue_static_pool \<Rightarrow> ue_static_pool option" where
  "static_gen_pool net net_mask p =
     (case count_addresses 1 net_mask of None \<Rightarrow> None
      | Some total_address \<Rightarrow> Some (p\<lparr>addr_pool_m :=
          Some (fold (\<lambda>i. add_ipaddr_in_pool (net + of_nat i)) [1..<unat (total_address - 1)] calloc_ip_table)\<rparr>))"

text \<open>The walk down the tree, and the assignment to \<open>used\<close> at its end.\<close>

fun find_node :: "u8 list \<Rightarrow> ip_table \<Rightarrow> ip_table option" where
  "find_node [] search_tree = Some search_tree"
| "find_node (byte # bytes) search_tree =
     (case octet search_tree byte of None \<Rightarrow> None | Some t \<Rightarrow> find_node bytes t)"

fun set_used :: "u8 list \<Rightarrow> bool \<Rightarrow> ip_table \<Rightarrow> ip_table" where
  "set_used [] b search_tree = Ip_Table (octet search_tree) (ue_address search_tree) b"
| "set_used (byte # bytes) b search_tree =
     Ip_Table ((octet search_tree)(byte := map_option (set_used bytes b) (octet search_tree byte)))
       (ue_address search_tree) (used search_tree)"

definition static_reserve_ip_node :: "u32 \<Rightarrow> ue_static_pool \<Rightarrow> bool \<times> ue_static_pool" where
  "static_reserve_ip_node host p =
     (case addr_pool_m p of None \<Rightarrow> (False, p)
      | Some tree \<Rightarrow>
          (case find_node (octets host) tree of None \<Rightarrow> (False, p)
           | Some search_tree \<Rightarrow>
               if used search_tree then (False, p)
               else (True, p\<lparr>addr_pool_m := Some (set_used (octets host) True tree)\<rparr>)))"

definition static_release_ip_node :: "u32 \<Rightarrow> ue_static_pool \<Rightarrow> bool \<times> ue_static_pool" where
  "static_release_ip_node host p =
     (case addr_pool_m p of None \<Rightarrow> (False, p)
      | Some tree \<Rightarrow>
          (case find_node (octets host) tree of None \<Rightarrow> (False, p)
           | Some search_tree \<Rightarrow>
               if used search_tree then (True, p\<lparr>addr_pool_m := Some (set_used (octets host) False tree)\<rparr>)
               else (False, p)))"

section \<open>Pools by name\<close>

text \<open>The virtual methods of \<open>ue_pool\<close> answer for the pool that does not override them.\<close>

datatype ue_pool = Dynamic_Pool ue_dynamic_pool | Static_Pool ue_static_pool

type_synonym ip_pools = "string \<rightharpoonup> ue_pool"

definition getIpPool :: "string \<Rightarrow> ip_pools \<Rightarrow> ue_pool option" where
  "getIpPool pool_name pools = pools pool_name"

definition addIpPool :: "ue_pool \<Rightarrow> string \<Rightarrow> ip_pools \<Rightarrow> ip_pools" where
  "addIpPool p pool_name pools = pools(pool_name \<mapsto> p)"

definition acquire_ip_cpp :: "string \<Rightarrow> ip_pools \<Rightarrow> (u32 \<times> ip_pools) option" where
  "acquire_ip_cpp pool_n pools =
     (case getIpPool pool_n pools of None \<Rightarrow> None
      | Some (Dynamic_Pool p) \<Rightarrow> (case get_ip p of (addr, p') \<Rightarrow> Some (addr, pools(pool_n \<mapsto> Dynamic_Pool p')))
      | Some (Static_Pool p) \<Rightarrow> Some (0, pools))"

definition release_ip_cpp :: "string \<Rightarrow> u32 \<Rightarrow> ip_pools \<Rightarrow> ip_pools option" where
  "release_ip_cpp pool_n addr pools =
     (case getIpPool pool_n pools of None \<Rightarrow> None
      | Some (Dynamic_Pool p) \<Rightarrow> Some (pools(pool_n \<mapsto> Dynamic_Pool (free_ip addr p)))
      | Some (Static_Pool p) \<Rightarrow> Some pools)"

definition reserve_static_ip_cpp :: "string \<Rightarrow> u32 \<Rightarrow> ip_pools \<Rightarrow> (bool \<times> ip_pools) option" where
  "reserve_static_ip_cpp pool_n host pools =
     (case getIpPool pool_n pools of None \<Rightarrow> None
      | Some (Dynamic_Pool p) \<Rightarrow> Some (False, pools)
      | Some (Static_Pool p) \<Rightarrow>
          (case static_reserve_ip_node host p of (ok, p') \<Rightarrow> Some (ok, pools(pool_n \<mapsto> Static_Pool p'))))"

definition release_static_ip_cpp :: "string \<Rightarrow> u32 \<Rightarrow> ip_pools \<Rightarrow> (bool \<times> ip_pools) option" where
  "release_static_ip_cpp pool_n addr pools =
     (case getIpPool pool_n pools of None \<Rightarrow> None
      | Some (Dynamic_Pool p) \<Rightarrow> Some (False, pools)
      | Some (Static_Pool p) \<Rightarrow>
          (case static_release_ip_node addr p of (ok, p') \<Rightarrow> Some (ok, pools(pool_n \<mapsto> Static_Pool p'))))"

text \<open>\<open>cp/ip_pool.c\<close>.  \<open>acquire_ip\<close> returns a cause and writes the address in network order.\<close>

definition GTPV2C_CAUSE_ALL_DYNAMIC_ADDRESSES_OCCUPIED :: u32 where
  "GTPV2C_CAUSE_ALL_DYNAMIC_ADDRESSES_OCCUPIED = 84"

definition acquire_ip :: "u32 \<Rightarrow> ip_pools \<Rightarrow> (u32 \<times> u32 \<times> ip_pools) option" where
  "acquire_ip ipv4 pools =
     (case acquire_ip_cpp ''ueIpPool'' pools of None \<Rightarrow> None
      | Some (addr, pools') \<Rightarrow>
          if addr = 0 then Some (GTPV2C_CAUSE_ALL_DYNAMIC_ADDRESSES_OCCUPIED, ipv4, pools')
          else Some (0, htonl addr, pools'))"

definition release_ip :: "u32 \<Rightarrow> ip_pools \<Rightarrow> ip_pools option" where
  "release_ip ipv4 pools =
     (let ipv4 = htonl ipv4; ipv4 = htonl ipv4 in release_ip_cpp ''ueIpPool'' ipv4 pools)"

definition reserve_ip_node :: "u32 \<Rightarrow> ip_pools \<Rightarrow> (bool \<times> ip_pools) option" where
  "reserve_ip_node host pools = reserve_static_ip_cpp ''staticUeIpPool'' host pools"

definition release_ip_node :: "u32 \<Rightarrow> ip_pools \<Rightarrow> (bool \<times> ip_pools) option" where
  "release_ip_node host pools = release_static_ip_cpp ''staticUeIpPool'' host pools"

section \<open>The counting loop\<close>

text \<open>It ends exactly on masks that are not empty, with a power of two.\<close>

lemma count_addresses_lowest_bit:
  "bit n k \<Longrightarrow> \<forall>j<k. \<not> bit n j \<Longrightarrow> count_addresses t n = Some (push_bit k t)"
proof (induction k arbitrary: n t)
  case 0
  then have "n AND 1 \<noteq> 0" by (simp add: and_one_eq bit_0 mod_2_eq_odd)
  then show ?case by (subst count_addresses.simps) simp
next
  case (Suc k)
  then have "n AND 1 = 0" by (auto simp: and_one_eq bit_0[symmetric] mod_2_eq_odd)
  moreover have "count_addresses (push_bit 1 t) (drop_bit 1 n) = Some (push_bit k (push_bit 1 t))"
    by (rule Suc.IH) (use Suc.prems in \<open>auto simp: bit_drop_bit_eq\<close>)
  ultimately show ?case by (subst count_addresses.simps) (simp add: push_bit_push_bit)
qed

lemma count_addresses_Some_nonzero: "count_addresses t n = Some y \<Longrightarrow> n \<noteq> 0"
  by (erule count_addresses.raw_induct[where P = "\<lambda>_ n _. n \<noteq> 0", rotated]) (fastforce split: if_splits)

lemma count_addresses_zero [simp]: "count_addresses t 0 = None"
  using count_addresses_Some_nonzero[of t 0] by fastforce

lemma word_lowest_bit:
  fixes n :: "'a::len word"
  assumes "n \<noteq> 0"
  obtains k where "k < LENGTH('a)" "bit n k" "\<forall>j<k. \<not> bit n j"
proof -
  from assms have "\<exists>k. bit n k" by (metis bit_eqI bit_0_eq bot_apply bot_bool_def)
  then have "bit n (LEAST k. bit n k)" "\<forall>j < (LEAST k. bit n k). \<not> bit n j"
    by (auto intro: LeastI_ex dest: not_less_Least)
  with that show thesis by (blast dest: bit_imp_le_length)
qed

lemma push_addresses_eq:
  "push_addresses i net q = q @ rev (map (\<lambda>j. net + of_nat j) [1..<Suc i])"
  by (induction i arbitrary: q) simp_all

section \<open>The contract of an address pool\<close>

text \<open>A client asks a pool for an address and gives back only what it holds.\<close>

datatype 'r pool_event = Acquire 'r | Release u32

fun client_step ::
  "('r \<Rightarrow> 's \<Rightarrow> u32 option \<times> 's) \<Rightarrow> (u32 \<Rightarrow> 's \<Rightarrow> 's) \<Rightarrow> 'r pool_event \<Rightarrow> 's \<times> u32 list \<Rightarrow> 's \<times> u32 list" where
  "client_step acquire release (Acquire r) (s, held) =
     (case acquire r s of (None, s') \<Rightarrow> (s', held) | (Some a, s') \<Rightarrow> (s', a # held))"
| "client_step acquire release (Release a) (s, held) =
     (if a \<in> set held then (release a s, removeAll a held) else (s, held))"

definition client_run ::
  "('r \<Rightarrow> 's \<Rightarrow> u32 option \<times> 's) \<Rightarrow> (u32 \<Rightarrow> 's \<Rightarrow> 's) \<Rightarrow> 'r pool_event list \<Rightarrow> 's \<Rightarrow> 's \<times> u32 list" where
  "client_run acquire release es s = fold (client_step acquire release) es (s, [])"

locale address_pool =
  fixes acquire :: "'r \<Rightarrow> 's \<Rightarrow> u32 option \<times> 's"
    and release :: "u32 \<Rightarrow> 's \<Rightarrow> 's"
    and free :: "'s \<Rightarrow> u32 set"
    and space :: "'s \<Rightarrow> u32 set"
    and inv :: "'s \<Rightarrow> bool"
  assumes free_space: "inv s \<Longrightarrow> free s \<subseteq> space s"
    and acquire_Some: "inv s \<Longrightarrow> acquire r s = (Some a, s') \<Longrightarrow>
      a \<in> free s \<and> free s' = free s - {a} \<and> space s' = space s \<and> inv s'"
    and acquire_None: "inv s \<Longrightarrow> acquire r s = (None, s') \<Longrightarrow> s' = s"
    and release: "inv s \<Longrightarrow> a \<in> space s \<Longrightarrow> a \<notin> free s \<Longrightarrow>
      free (release a s) = insert a (free s) \<and> space (release a s) = space s \<and> inv (release a s)"
begin

text \<open>The addresses of the pool are either free or held, and held once.\<close>

definition accounted :: "u32 set \<Rightarrow> u32 set \<Rightarrow> 's \<times> u32 list \<Rightarrow> bool" where
  "accounted sp al x \<longleftrightarrow> inv (fst x) \<and> distinct (snd x) \<and> set (snd x) \<inter> free (fst x) = {} \<and>
     set (snd x) \<union> free (fst x) = al \<and> space (fst x) = sp \<and> al \<subseteq> sp"

lemma accounted_step:
  assumes "accounted sp al x"
  shows "accounted sp al (client_step acquire release e x)"
proof (cases e)
  case (Acquire r)
  obtain s held where x: "x = (s, held)" by fastforce
  obtain oa s' where a: "acquire r s = (oa, s')" by fastforce
  show ?thesis
  proof (cases oa)
    case None
    with assms acquire_None a x Acquire show ?thesis by (auto simp: accounted_def)
  next
    case (Some b)
    with assms acquire_Some[of s r b s'] a x Acquire show ?thesis by (auto simp: accounted_def)
  qed
next
  case (Release a)
  obtain s held where x: "x = (s, held)" by fastforce
  show ?thesis
  proof (cases "a \<in> set held")
    case True
    with assms x have "inv s" "a \<in> space s" "a \<notin> free s" by (auto simp: accounted_def)
    from release[OF this] True assms x Release show ?thesis by (auto simp: accounted_def distinct_removeAll)
  next
    case False
    with assms x Release show ?thesis by simp
  qed
qed

theorem run_accounted:
  assumes "inv s"
  shows "accounted (space s) (free s) (client_run acquire release es s)"
  unfolding client_run_def
proof -
  have "accounted sp al (fold (client_step acquire release) es x)" if "accounted sp al x" for sp al x
    using that by (induction es arbitrary: x) (simp_all add: accounted_step)
  then show "accounted (space s) (free s) (fold (client_step acquire release) es (s, []))"
    using assms free_space by (simp add: accounted_def)
qed

lemma held_unique:
  assumes "inv s" "client_run acquire release es s = (s', held)"
  shows "distinct held" "set held \<inter> free s' = {}" "set held \<union> free s' = free s" "inv s'"
  using run_accounted[OF assms(1), of es] assms(2) by (auto simp: accounted_def)

end

section \<open>The dynamic pool keeps the contract\<close>

definition dynamic_acquire :: "unit \<Rightarrow> ue_dynamic_pool \<Rightarrow> u32 option \<times> ue_dynamic_pool" where
  "dynamic_acquire r p = (case get_ip p of (addr, p') \<Rightarrow> (if addr = 0 then None else Some addr, p'))"

definition dynamic_inv :: "ue_dynamic_pool \<Rightarrow> bool" where
  "dynamic_inv p \<longleftrightarrow> distinct (pool_m p) \<and> 0 \<notin> set (pool_m p)"

interpretation dynamic: address_pool dynamic_acquire free_ip "\<lambda>p. set (pool_m p)" "\<lambda>p. - {0}" dynamic_inv
proof unfold_locales
  fix s s' :: ue_dynamic_pool and r :: unit and a
  assume inv: "dynamic_inv s"
  show "set (pool_m s) \<subseteq> - {0}" using inv by (auto simp: dynamic_inv_def)
  show "a \<in> set (pool_m s) \<and> set (pool_m s') = set (pool_m s) - {a} \<and> - {0} = - {0 :: u32} \<and> dynamic_inv s'"
    if "dynamic_acquire r s = (Some a, s')"
    using that inv by (auto simp: dynamic_acquire_def get_ip_def dynamic_inv_def split: list.splits if_splits)
  show "s' = s" if "dynamic_acquire r s = (None, s')"
    using that inv by (auto simp: dynamic_acquire_def get_ip_def dynamic_inv_def split: list.splits if_splits)
  show "set (pool_m (free_ip a s)) = insert a (set (pool_m s)) \<and> - {0} = - {0 :: u32} \<and> dynamic_inv (free_ip a s)"
    if "a \<in> - {0}" "a \<notin> set (pool_m s)"
    using that inv by (auto simp: free_ip_def dynamic_inv_def)
qed

section \<open>The static pool keeps the contract\<close>

lemma octets_rev_le_bytes: "octets a = rev (le_bytes 4 a)"
proof -
  have "(ucast (drop_bit n (push_bit n (mask 8) AND a)) :: u8) = ucast (drop_bit n a)" if "n \<le> 24" for n
    using that by (intro bit_word_eqI) (auto simp: bit_simps dest: bit_imp_le_length)
  from this[of 24] this[of 16] this[of 8] this[of 0] show ?thesis
    by (simp add: octets_def le_bytes_def upt_conv_Cons push_bit_eq_mult mask_eq_exp_minus_1)
qed

lemma octets_inject [simp]: "octets a = octets b \<longleftrightarrow> a = b"
proof
  assume "octets a = octets b"
  then have "(of_le_bytes (le_bytes 4 a) :: u32) = of_le_bytes (le_bytes 4 b)"
    by (simp add: octets_rev_le_bytes del: of_le_bytes_le_bytes)
  then show "a = b" by simp
qed simp

lemma length_octets [simp]: "length (octets a) = 4"
  by (simp add: octets_rev_le_bytes)

text \<open>Looking down a path after a change of the tree, for paths of one length.\<close>

lemma find_node_add_path:
  "length q = length p \<Longrightarrow> find_node q (add_path p s t) =
    (if q = p then Some (case find_node p t of
        None \<Rightarrow> Ip_Table (\<lambda>_. None) (Some s) False
      | Some n \<Rightarrow> Ip_Table (octet n) (Some s) (used n))
     else find_node q t)"
proof (induction p arbitrary: q t)
  case (Cons b p)
  then obtain c q' where q: "q = c # q'" "length q' = length p" by (cases q) auto
  have "find_node q' calloc_ip_table = (if q' = [] then Some calloc_ip_table else None)" for q'
    by (cases q') (simp_all add: calloc_ip_table_def)
  with Cons.IH[of q'] q show ?case
    by (cases "octet t b") (auto simp: calloc_ip_table_def)
qed simp

lemma find_node_set_used:
  "length q = length p \<Longrightarrow> find_node q (set_used p b t) =
    (if q = p then map_option (\<lambda>n. Ip_Table (octet n) (ue_address n) b) (find_node p t)
     else find_node q t)"
proof (induction p arbitrary: q t)
  case (Cons c p)
  then obtain d q' where "q = d # q'" "length q' = length p" by (cases q) auto
  with Cons.IH[of q'] show ?case by (auto split: option.splits)
qed simp

text \<open>The addresses of a static pool and those not in use.\<close>

definition static_space :: "ue_static_pool \<Rightarrow> u32 set" where
  "static_space p = {a. \<exists>t n. addr_pool_m p = Some t \<and> find_node (octets a) t = Some n}"

definition static_free :: "ue_static_pool \<Rightarrow> u32 set" where
  "static_free p = {a. \<exists>t n. addr_pool_m p = Some t \<and> find_node (octets a) t = Some n \<and> \<not> used n}"

definition static_acquire :: "u32 \<Rightarrow> ue_static_pool \<Rightarrow> u32 option \<times> ue_static_pool" where
  "static_acquire a p = (case static_reserve_ip_node a p of (ok, p') \<Rightarrow> (if ok then Some a else None, p'))"

definition static_release :: "u32 \<Rightarrow> ue_static_pool \<Rightarrow> ue_static_pool" where
  "static_release a p = snd (static_release_ip_node a p)"

lemma static_reserve_Some:
  assumes "static_reserve_ip_node a s = (True, s')"
  obtains t n where "addr_pool_m s = Some t" "find_node (octets a) t = Some n" "\<not> used n"
    "s' = s\<lparr>addr_pool_m := Some (set_used (octets a) True t)\<rparr>"
  using assms by (auto simp: static_reserve_ip_node_def split: option.splits if_splits)

lemma static_free_set_used:
  assumes "addr_pool_m s = Some t" "find_node (octets a) t = Some n"
  shows "static_space (s\<lparr>addr_pool_m := Some (set_used (octets a) b t)\<rparr>) = static_space s"
    and "static_free (s\<lparr>addr_pool_m := Some (set_used (octets a) True t)\<rparr>) = static_free s - {a}"
    and "static_free (s\<lparr>addr_pool_m := Some (set_used (octets a) False t)\<rparr>) = insert a (static_free s)"
  using assms by (auto simp: static_space_def static_free_def find_node_set_used split: if_splits)

interpretation static: address_pool static_acquire static_release static_free static_space "\<lambda>_. True"
proof unfold_locales
  fix s s' :: ue_static_pool and r a
  show "static_free s \<subseteq> static_space s" by (auto simp: static_free_def static_space_def)
  show "s' = s" if "static_acquire r s = (None, s')"
    using that by (auto simp: static_acquire_def static_reserve_ip_node_def split: option.splits if_splits)
  show "a \<in> static_free s \<and> static_free s' = static_free s - {a} \<and> static_space s' = static_space s \<and> True"
    if "static_acquire r s = (Some a, s')"
  proof -
    from that have "static_reserve_ip_node a s = (True, s')"
      by (auto simp: static_acquire_def split: prod.splits if_splits)
    then obtain t n where *: "addr_pool_m s = Some t" "find_node (octets a) t = Some n" "\<not> used n"
      "s' = s\<lparr>addr_pool_m := Some (set_used (octets a) True t)\<rparr>" by (rule static_reserve_Some)
    moreover from * have "a \<in> static_free s" by (auto simp: static_free_def)
    ultimately show ?thesis using static_free_set_used[OF *(1,2)] by simp
  qed
  show "static_free (static_release a s) = insert a (static_free s) \<and>
      static_space (static_release a s) = static_space s \<and> True"
    if sp: "a \<in> static_space s" "a \<notin> static_free s"
  proof -
    from sp obtain t n where *: "addr_pool_m s = Some t" "find_node (octets a) t = Some n" "used n"
      by (auto simp: static_space_def static_free_def)
    then have "static_release a s = s\<lparr>addr_pool_m := Some (set_used (octets a) False t)\<rparr>"
      by (simp add: static_release_def static_release_ip_node_def)
    then show ?thesis using static_free_set_used[OF *(1,2)] by simp
  qed
qed

section \<open>What the generated pools hold\<close>

lemma unat_add_of_nat:
  "unat (net :: u32) + i < 2 ^ 32 \<Longrightarrow> unat (net + of_nat i) = unat net + i"
  by (simp add: unat_word_ariths unat_of_nat take_bit_nat_eq_self)

lemma pool_range:
  fixes net :: u32
  assumes "unat net + n \<le> 2 ^ 32" "0 < n"
  shows "(\<lambda>i. net + of_nat i) ` {1..<n - 1} = {a. unat net < unat a \<and> unat a < unat net + n - 1}"
    (is "?f ` _ = ?R")
proof (intro equalityI subsetI)
  fix a assume "a \<in> ?f ` {1..<n - 1}"
  then obtain i where "a = net + of_nat i" "1 \<le> i" "i < n - 1" by auto
  with assms unat_add_of_nat[of net i] show "a \<in> ?R" by auto
next
  fix a assume "a \<in> ?R"
  then have a: "unat net < unat a" "unat a < unat net + n - 1" by auto
  then have "unat (net + of_nat (unat a - unat net)) = unat a"
    using unat_add_of_nat[of net "unat a - unat net"] unsigned_less[of a] by simp
  then have "a = ?f (unat a - unat net)" by (metis unsigned_word_eqI)
  moreover from a have "unat a - unat net \<in> {1..<n - 1}" by auto
  ultimately show "a \<in> ?f ` {1..<n - 1}" by (rule image_eqI)
qed

lemma pool_range_inj:
  fixes net :: u32
  assumes "unat net + n \<le> 2 ^ 32"
  shows "inj_on (\<lambda>i. net + of_nat i) {1..<n - 1}"
proof (rule inj_onI)
  fix i j assume *: "i \<in> {1..<n - 1}" "j \<in> {1..<n - 1}" and eq: "net + of_nat i = net + of_nat j"
  from * assms have "unat net + i < 2 ^ 32" "unat net + j < 2 ^ 32" by auto
  from this[THEN unat_add_of_nat] eq show "i = j" by (metis add_left_cancel)
qed

lemma dynamic_gen_pool_range:
  assumes "count_addresses 1 net_mask = Some total_address" "2 \<le> total_address"
    and "unat net + unat total_address \<le> 2 ^ 32"
    and "dynamic_gen_pool net net_mask \<lparr>pool_m = []\<rparr> = Some p"
  shows "dynamic_inv p"
    and "set (pool_m p) = {a. unat net < unat a \<and> unat a < unat net + unat total_address - 1}"
proof -
  let ?n = "unat total_address"
  have n: "2 \<le> ?n" using assms(2) by (simp add: word_le_nat_alt)
  then have n1: "Suc (?n - 2) = ?n - 1" by simp
  have "unat (total_address - 2) = ?n - 2" using assms(2) by (simp add: unat_sub)
  then have pool: "pool_m p = rev (map (\<lambda>j. net + of_nat j) [1..<?n - 1])"
    using assms(1,4) by (auto simp: dynamic_gen_pool_def push_addresses_eq n1 simp del: upt_Suc)
  then show range: "set (pool_m p) = {a. unat net < unat a \<and> unat a < unat net + ?n - 1}"
    using pool_range[OF assms(3)] n by simp
  have "distinct (pool_m p)"
    unfolding pool using pool_range_inj[OF assms(3)] by (simp add: distinct_map)
  with range show "dynamic_inv p" by (simp add: dynamic_inv_def)
qed

text \<open>No address of a tree is in use.\<close>

definition unused_tree :: "ip_table \<Rightarrow> bool" where
  "unused_tree t \<longleftrightarrow> (\<forall>a n. find_node (octets a) t = Some n \<longrightarrow> \<not> used n)"

lemma unused_tree_add: "unused_tree t \<Longrightarrow> unused_tree (add_ipaddr_in_pool host t)"
  by (auto simp: unused_tree_def add_ipaddr_in_pool_def find_node_add_path split: option.splits if_splits)

lemma unused_tree_fold:
  "unused_tree t \<Longrightarrow> unused_tree (fold (\<lambda>i. add_ipaddr_in_pool (f i)) is t)"
  by (induction "is" arbitrary: t) (simp_all add: unused_tree_add)

lemma find_node_pool_iff:
  "find_node (octets a) (fold (\<lambda>i. add_ipaddr_in_pool (net + of_nat i)) is t) \<noteq> None \<longleftrightarrow>
    find_node (octets a) t \<noteq> None \<or> a \<in> (\<lambda>i. net + of_nat i) ` set is"
  by (induction "is" arbitrary: t) (auto simp: add_ipaddr_in_pool_def find_node_add_path)

lemma find_node_empty [simp]: "find_node (octets a) calloc_ip_table = None"
  by (cases "octets a") (use length_octets[of a] in \<open>simp_all add: calloc_ip_table_def\<close>)

lemma static_free_unused:
  "addr_pool_m p = Some t \<Longrightarrow> unused_tree t \<Longrightarrow> static_free p = {a. find_node (octets a) t \<noteq> None}"
  by (auto simp: static_free_def unused_tree_def)

lemma static_gen_pool_range:
  assumes "count_addresses 1 net_mask = Some total_address" "2 \<le> total_address"
    and "unat net + unat total_address \<le> 2 ^ 32"
    and "static_gen_pool net net_mask p0 = Some p"
  shows "static_free p = {a. unat net < unat a \<and> unat a < unat net + unat total_address - 1}"
proof -
  let ?t = "fold (\<lambda>i. add_ipaddr_in_pool (net + of_nat i)) [1..<unat (total_address - 1)] calloc_ip_table"
  have n: "0 < unat total_address" using assms(2) by (simp add: word_le_nat_alt)
  then have "1 \<le> total_address" by (simp add: word_le_nat_alt)
  then have n1: "unat (total_address - 1) = unat total_address - 1" by (simp add: unat_sub)
  have t: "addr_pool_m p = Some ?t" using assms(1,4) by (auto simp: static_gen_pool_def)
  have "unused_tree ?t" by (rule unused_tree_fold) (simp add: unused_tree_def)
  with t have "static_free p = {a. find_node (octets a) ?t \<noteq> None}" by (rule static_free_unused)
  also have "\<dots> = (\<lambda>i. net + of_nat i) ` {1..<unat total_address - 1}"
    unfolding find_node_pool_iff n1 by (simp only: find_node_empty simp_thms set_upt Collect_mem_eq)
  finally show ?thesis using pool_range[OF assms(3) n] by simp
qed

lemma static_reserve_iff: "fst (static_reserve_ip_node a p) \<longleftrightarrow> a \<in> static_free p"
  by (auto simp: static_reserve_ip_node_def static_free_def split: option.splits if_splits)

section \<open>Properties\<close>

text \<open>C12: the loop that counts the addresses of a pool returns exactly for masks that are not
  empty, and then returns two to the power of the number of zero bits at the right end of the mask;
  on the mask 0.0.0.0 it never ends.\<close>

theorem pool_size_loop:
  "count_addresses 1 n = (if n = 0 then None else Some (2 ^ (LEAST k. bit n k)))"
proof (cases "n = 0")
  case False
  then obtain k where k: "bit n k" "\<forall>j<k. \<not> bit n j" using word_lowest_bit by metis
  then have "(LEAST k. bit n k) = k" by (metis Least_equality linorder_not_le)
  with False count_addresses_lowest_bit[OF k, of 1] show ?thesis by (simp add: push_bit_eq_mult)
qed simp




text \<open>C11: after any sequence of reservations and releases, the static pool grants an address
  exactly when it belongs to the configured range and no session holds it: the tree of octets
  implements a set of free addresses.\<close>

theorem static_pool_exclusive:
  assumes "count_addresses 1 net_mask = Some total_address" "2 \<le> total_address"
    and "unat net + unat total_address \<le> 2 ^ 32"
    and "static_gen_pool net net_mask \<lparr>addr_pool_m = None\<rparr> = Some p"
    and "client_run static_acquire static_release es p = (p', held)"
  shows "fst (static_reserve_ip_node a p') \<longleftrightarrow>
    unat net < unat a \<and> unat a < unat net + unat total_address - 1 \<and> a \<notin> set held"
proof -
  note held = static.held_unique[OF TrueI assms(5)]
  have "a \<in> static_free p' \<longleftrightarrow> a \<in> static_free p \<and> a \<notin> set held"
    using held(2,3) by blast
  then show ?thesis
    by (simp add: static_reserve_iff static_gen_pool_range[OF assms(1-4)])
qed

theorem static_pool_exclusive_witness:
  "\<exists>p. static_gen_pool 0x0A000000 0xFFFFFFFC \<lparr>addr_pool_m = None\<rparr> = Some p \<and>
     fst (static_reserve_ip_node 0x0A000002 p) \<and> \<not> fst (static_reserve_ip_node 0x0A000003 p)"
proof -
  have total: "count_addresses 1 0xFFFFFFFC = Some 4"
    by (simp add: count_addresses.simps)
  then obtain p where gen: "static_gen_pool 0x0A000000 0xFFFFFFFC \<lparr>addr_pool_m = None\<rparr> = Some p"
    by (simp add: static_gen_pool_def)
  have run: "client_run static_acquire static_release [] p = (p, [])" by (simp add: client_run_def)
  have "2 \<le> (4 :: u32)" "unat (0x0A000000 :: u32) + unat (4 :: u32) \<le> 2 ^ 32" by simp_all
  from static_pool_exclusive[OF total this gen run, of "0x0A000002"]
    static_pool_exclusive[OF total this gen run, of "0x0A000003"] gen show ?thesis by simp
qed

lemmas ip_api_defs = acquire_ip_def acquire_ip_cpp_def release_ip_def release_ip_cpp_def getIpPool_def
  get_ip_def free_ip_def GTPV2C_CAUSE_ALL_DYNAMIC_ADDRESSES_OCCUPIED_def

text \<open>An address acquired through \<open>acquire_ip\<close> (which reports it in network order) and given back
  in host order, as the callers do, is at the back of the pool; the other addresses keep their order.\<close>

theorem acquire_release_rotates:
  assumes "pools ''ueIpPool'' = Some (Dynamic_Pool p)" "dynamic_inv p"
    and "acquire_ip ip pools = Some (0, ip', pools')"
  shows "release_ip (htonl ip') pools' =
    Some (pools(''ueIpPool'' \<mapsto> Dynamic_Pool (p\<lparr>pool_m := rotate1 (pool_m p)\<rparr>)))"
proof (cases "pool_m p")
  case Nil
  with assms show ?thesis by (simp add: ip_api_defs)
next
  case (Cons a q)
  with assms(2) have "a \<noteq> 0" by (auto simp: dynamic_inv_def)
  with assms(1,3) Cons show ?thesis by (auto simp: ip_api_defs)
qed

theorem acquire_release_rotates_witness:
  "\<exists>pools'. acquire_ip 0 [''ueIpPool'' \<mapsto> Dynamic_Pool \<lparr>pool_m = [0x0A000002, 0x0A000001]\<rparr>] =
       Some (0, 0x0200000A, pools') \<and>
     release_ip (htonl 0x0200000A) pools' =
       Some [''ueIpPool'' \<mapsto> Dynamic_Pool \<lparr>pool_m = [0x0A000001, 0x0A000002]\<rparr>]"
proof -
  let ?p = "\<lparr>pool_m = [0x0A000002, 0x0A000001]\<rparr>"
  let ?pools = "[''ueIpPool'' \<mapsto> Dynamic_Pool ?p]"
  have inv: "dynamic_inv ?p" by (simp add: dynamic_inv_def)
  have "htonl 0x0A000002 = 0x0200000A"
    by (simp add: htonl_def le_bytes_def of_le_bytes_def upt_conv_Cons)
  then have acq: "acquire_ip 0 ?pools = Some (0, 0x0200000A, [''ueIpPool'' \<mapsto> Dynamic_Pool \<lparr>pool_m = [0x0A000001]\<rparr>])"
    by (simp add: ip_api_defs)
  have "?pools ''ueIpPool'' = Some (Dynamic_Pool ?p)" by simp
  from acquire_release_rotates[OF this inv acq] acq show ?thesis by simp
qed

text \<open>Releasing the address 0, as \<open>process_create_sess_req\<close> does when it fails before
  an address was acquired, puts 0 into the queue: when 0 reaches the front a session is refused for
  lack of addresses although one is free.\<close>

theorem zero_release_reports_depletion:
  assumes "pools ''ueIpPool'' = Some (Dynamic_Pool \<lparr>pool_m = []\<rparr>)" "a \<noteq> 0"
    and "release_ip 0 pools = Some pools1" "release_ip a pools1 = Some pools2"
  shows "\<exists>pools3. acquire_ip ip pools2 = Some (84, ip, pools3) \<and>
    (\<exists>pools4. acquire_ip ip pools3 = Some (0, htonl a, pools4))"
proof -
  from assms(1,3,4) have p2: "pools2 ''ueIpPool'' = Some (Dynamic_Pool \<lparr>pool_m = [0, a]\<rparr>)"
    by (auto simp: ip_api_defs)
  then have "acquire_ip ip pools2 = Some (84, ip, pools2(''ueIpPool'' \<mapsto> Dynamic_Pool \<lparr>pool_m = [a]\<rparr>))"
    by (simp add: ip_api_defs)
  moreover have "acquire_ip ip (pools2(''ueIpPool'' \<mapsto> Dynamic_Pool \<lparr>pool_m = [a]\<rparr>)) =
      Some (0, htonl a, pools2(''ueIpPool'' \<mapsto> Dynamic_Pool \<lparr>pool_m = []\<rparr>))"
    using assms(2) by (simp add: ip_api_defs)
  ultimately show ?thesis by blast
qed

theorem zero_release_reports_depletion_witness:
  "\<exists>pools2 pools3. acquire_ip 7 pools2 = Some (84, 7, pools3) \<and>
     (\<exists>pools4. acquire_ip 7 pools3 = Some (0, htonl 0x0A000001, pools4))"
proof -
  let ?pools = "[''ueIpPool'' \<mapsto> Dynamic_Pool \<lparr>pool_m = []\<rparr>]"
  obtain pools1 where 1: "release_ip 0 ?pools = Some pools1" by (simp add: ip_api_defs)
  then obtain pools2 where 2: "release_ip 0x0A000001 pools1 = Some pools2" by (auto simp: ip_api_defs)
  have "?pools ''ueIpPool'' = Some (Dynamic_Pool \<lparr>pool_m = []\<rparr>)" "(0x0A000001 :: u32) \<noteq> 0" by simp_all
  from zero_release_reports_depletion[OF this 1 2, of 7] show ?thesis by blast
qed

end
