(* ===== verification/Uli.thy ===== *)
theory Uli
  imports Prelude
begin

text \<open>
  User location information: the element as the GTP library decodes it
  (\<open>libgtpv2c/include/gtp_ies.h\<close>; its members carry the prefix \<open>ie_\<close>), the copy of it in the UE context
  (\<open>cp/ue.h\<close>) and the function \<open>fill_uli_info\<close> of \<open>cp/procedures/proc_initial_attach.c\<close> that fills the
  copy.  \<open>uli_of_ie\<close> is the reference: all parts that are announced, with all their members.
\<close>

section \<open>The element\<close>

record cgi_field =
  ie_cgi_mcc_digit_2 :: "4 word"
  ie_cgi_mcc_digit_1 :: "4 word"
  ie_cgi_mnc_digit_3 :: "4 word"
  ie_cgi_mcc_digit_3 :: "4 word"
  ie_cgi_mnc_digit_2 :: "4 word"
  ie_cgi_mnc_digit_1 :: "4 word"
  ie_cgi_lac :: u16
  ie_cgi_ci :: u16

record sai_field =
  ie_sai_mcc_digit_2 :: "4 word"
  ie_sai_mcc_digit_1 :: "4 word"
  ie_sai_mnc_digit_3 :: "4 word"
  ie_sai_mcc_digit_3 :: "4 word"
  ie_sai_mnc_digit_2 :: "4 word"
  ie_sai_mnc_digit_1 :: "4 word"
  ie_sai_lac :: u16
  ie_sai_sac :: u16

record rai_field =
  ie_ria_mcc_digit_2 :: "4 word"
  ie_ria_mcc_digit_1 :: "4 word"
  ie_ria_mnc_digit_3 :: "4 word"
  ie_ria_mcc_digit_3 :: "4 word"
  ie_ria_mnc_digit_2 :: "4 word"
  ie_ria_mnc_digit_1 :: "4 word"
  ie_ria_lac :: u16
  ie_ria_rac :: u16

record tai_field =
  ie_tai_mcc_digit_2 :: "4 word"
  ie_tai_mcc_digit_1 :: "4 word"
  ie_tai_mnc_digit_3 :: "4 word"
  ie_tai_mcc_digit_3 :: "4 word"
  ie_tai_mnc_digit_2 :: "4 word"
  ie_tai_mnc_digit_1 :: "4 word"
  ie_tai_tac :: u16

record lai_field =
  ie_lai_mcc_digit_2 :: "4 word"
  ie_lai_mcc_digit_1 :: "4 word"
  ie_lai_mnc_digit_3 :: "4 word"
  ie_lai_mcc_digit_3 :: "4 word"
  ie_lai_mnc_digit_2 :: "4 word"
  ie_lai_mnc_digit_1 :: "4 word"
  ie_lai_lac :: u16

record ecgi_field =
  ie_ecgi_mcc_digit_2 :: "4 word"
  ie_ecgi_mcc_digit_1 :: "4 word"
  ie_ecgi_mnc_digit_3 :: "4 word"
  ie_ecgi_mcc_digit_3 :: "4 word"
  ie_ecgi_mnc_digit_2 :: "4 word"
  ie_ecgi_mnc_digit_1 :: "4 word"
  ie_ecgi_spare :: "4 word"
  ie_eci :: "28 word"

record macro_enb_id_fld =
  ie_menbid_mcc_digit_2 :: "4 word"
  ie_menbid_mcc_digit_1 :: "4 word"
  ie_menbid_mnc_digit_3 :: "4 word"
  ie_menbid_mcc_digit_3 :: "4 word"
  ie_menbid_mnc_digit_2 :: "4 word"
  ie_menbid_mnc_digit_1 :: "4 word"
  ie_menbid_spare :: "4 word"
  ie_menbid_macro_enodeb_id :: "4 word"
  ie_menbid_macro_enb_id2 :: u16

record extnded_macro_enb_id_fld =
  ie_emenbid_mcc_digit_2 :: "4 word"
  ie_emenbid_mcc_digit_1 :: "4 word"
  ie_emenbid_mnc_digit_3 :: "4 word"
  ie_emenbid_mcc_digit_3 :: "4 word"
  ie_emenbid_mnc_digit_2 :: "4 word"
  ie_emenbid_mnc_digit_1 :: "4 word"
  ie_emenbid_smenb :: "1 word"
  ie_emenbid_spare :: "2 word"
  ie_emenbid_extnded_macro_enb_id :: "5 word"
  ie_emenbid_extnded_macro_enb_id2 :: u16

record gtp_user_loc_info_ie =
  ie_cgi :: "1 word"
  ie_sai :: "1 word"
  ie_rai :: "1 word"
  ie_tai :: "1 word"
  ie_lai :: "1 word"
  ie_ecgi :: "1 word"
  ie_macro_enodeb_id :: "1 word"
  ie_extnded_macro_enb_id :: "1 word"
  ie_cgi2 :: cgi_field
  ie_sai2 :: sai_field
  ie_rai2 :: rai_field
  ie_tai2 :: tai_field
  ie_lai2 :: lai_field
  ie_ecgi2 :: ecgi_field
  ie_macro_enodeb_id2 :: macro_enb_id_fld
  ie_extended_macro_enodeb_id2 :: extnded_macro_enb_id_fld

section \<open>The copy in the UE context\<close>

record cgi_t =
  cgi_mcc_digit_2 :: u8
  cgi_mcc_digit_1 :: u8
  cgi_mnc_digit_3 :: u8
  cgi_mcc_digit_3 :: u8
  cgi_mnc_digit_2 :: u8
  cgi_mnc_digit_1 :: u8
  cgi_lac :: u16
  cgi_ci :: u16

record sai_t =
  sai_mcc_digit_2 :: u8
  sai_mcc_digit_1 :: u8
  sai_mnc_digit_3 :: u8
  sai_mcc_digit_3 :: u8
  sai_mnc_digit_2 :: u8
  sai_mnc_digit_1 :: u8
  sai_lac :: u16
  sai_sac :: u16

record rai_t =
  ria_mcc_digit_2 :: u8
  ria_mcc_digit_1 :: u8
  ria_mnc_digit_3 :: u8
  ria_mcc_digit_3 :: u8
  ria_mnc_digit_2 :: u8
  ria_mnc_digit_1 :: u8
  ria_lac :: u16
  ria_rac :: u16

record tai_t =
  tai_mcc_digit_2 :: u8
  tai_mcc_digit_1 :: u8
  tai_mnc_digit_3 :: u8
  tai_mcc_digit_3 :: u8
  tai_mnc_digit_2 :: u8
  tai_mnc_digit_1 :: u8
  tai_tac :: u16

record lai_t =
  lai_mcc_digit_2 :: u8
  lai_mcc_digit_1 :: u8
  lai_mnc_digit_3 :: u8
  lai_mcc_digit_3 :: u8
  lai_mnc_digit_2 :: u8
  lai_mnc_digit_1 :: u8
  lai_lac :: u16

record ecgi_t =
  ecgi_mcc_digit_2 :: u8
  ecgi_mcc_digit_1 :: u8
  ecgi_mnc_digit_3 :: u8
  ecgi_mcc_digit_3 :: u8
  ecgi_mnc_digit_2 :: u8
  ecgi_mnc_digit_1 :: u8
  ecgi_spare :: u8
  eci :: u32

record macro_enb_id_t =
  menbid_mcc_digit_2 :: u8
  menbid_mcc_digit_1 :: u8
  menbid_mnc_digit_3 :: u8
  menbid_mcc_digit_3 :: u8
  menbid_mnc_digit_2 :: u8
  menbid_mnc_digit_1 :: u8
  menbid_spare :: u8
  menbid_macro_enodeb_id :: u8
  menbid_macro_enb_id2 :: u16

record extnded_macro_enb_id_t =
  emenbid_mcc_digit_2 :: u8
  emenbid_mcc_digit_1 :: u8
  emenbid_mnc_digit_3 :: u8
  emenbid_mcc_digit_3 :: u8
  emenbid_mnc_digit_2 :: u8
  emenbid_mnc_digit_1 :: u8
  emenbid_smenb :: u8
  emenbid_spare :: u8
  emenbid_extnded_macro_enb_id :: u8
  emenbid_extnded_macro_enb_id2 :: u16

record user_loc_info_t =
  uli_cgi :: u8
  uli_sai :: u8
  uli_rai :: u8
  uli_tai :: u8
  uli_lai :: u8
  uli_ecgi :: u8
  uli_macro_enodeb_id :: u8
  uli_extnded_macro_enb_id :: u8
  cgi2 :: cgi_t
  sai2 :: sai_t
  rai2 :: rai_t
  tai2 :: tai_t
  lai2 :: lai_t
  ecgi2 :: ecgi_t
  macro_enodeb_id2 :: macro_enb_id_t
  extended_macro_enodeb_id2 :: extnded_macro_enb_id_t

definition calloc_uli :: user_loc_info_t where
  "calloc_uli = \<lparr>uli_cgi = 0, uli_sai = 0, uli_rai = 0, uli_tai = 0, uli_lai = 0, uli_ecgi = 0, uli_macro_enodeb_id = 0, uli_extnded_macro_enb_id = 0,
     cgi2 = \<lparr>cgi_mcc_digit_2 = 0, cgi_mcc_digit_1 = 0, cgi_mnc_digit_3 = 0, cgi_mcc_digit_3 = 0, cgi_mnc_digit_2 = 0, cgi_mnc_digit_1 = 0, cgi_lac = 0, cgi_ci = 0\<rparr>,
     sai2 = \<lparr>sai_mcc_digit_2 = 0, sai_mcc_digit_1 = 0, sai_mnc_digit_3 = 0, sai_mcc_digit_3 = 0, sai_mnc_digit_2 = 0, sai_mnc_digit_1 = 0, sai_lac = 0, sai_sac = 0\<rparr>,
     rai2 = \<lparr>ria_mcc_digit_2 = 0, ria_mcc_digit_1 = 0, ria_mnc_digit_3 = 0, ria_mcc_digit_3 = 0, ria_mnc_digit_2 = 0, ria_mnc_digit_1 = 0, ria_lac = 0, ria_rac = 0\<rparr>,
     tai2 = \<lparr>tai_mcc_digit_2 = 0, tai_mcc_digit_1 = 0, tai_mnc_digit_3 = 0, tai_mcc_digit_3 = 0, tai_mnc_digit_2 = 0, tai_mnc_digit_1 = 0, tai_tac = 0\<rparr>,
     lai2 = \<lparr>lai_mcc_digit_2 = 0, lai_mcc_digit_1 = 0, lai_mnc_digit_3 = 0, lai_mcc_digit_3 = 0, lai_mnc_digit_2 = 0, lai_mnc_digit_1 = 0, lai_lac = 0\<rparr>,
     ecgi2 = \<lparr>ecgi_mcc_digit_2 = 0, ecgi_mcc_digit_1 = 0, ecgi_mnc_digit_3 = 0, ecgi_mcc_digit_3 = 0, ecgi_mnc_digit_2 = 0, ecgi_mnc_digit_1 = 0, ecgi_spare = 0, eci = 0\<rparr>,
     macro_enodeb_id2 = \<lparr>menbid_mcc_digit_2 = 0, menbid_mcc_digit_1 = 0, menbid_mnc_digit_3 = 0, menbid_mcc_digit_3 = 0, menbid_mnc_digit_2 = 0, menbid_mnc_digit_1 = 0, menbid_spare = 0, menbid_macro_enodeb_id = 0, menbid_macro_enb_id2 = 0\<rparr>,
     extended_macro_enodeb_id2 = \<lparr>emenbid_mcc_digit_2 = 0, emenbid_mcc_digit_1 = 0, emenbid_mnc_digit_3 = 0, emenbid_mcc_digit_3 = 0, emenbid_mnc_digit_2 = 0, emenbid_mnc_digit_1 = 0, emenbid_smenb = 0, emenbid_spare = 0, emenbid_extnded_macro_enb_id = 0, emenbid_extnded_macro_enb_id2 = 0\<rparr>\<rparr>"

text \<open>The branches of \<open>fill_uli_info\<close>, one per part, with the assignments they make.\<close>

definition fill_lai :: "gtp_user_loc_info_ie \<Rightarrow> user_loc_info_t \<Rightarrow> user_loc_info_t" where
  "fill_lai uli u = (if ie_lai uli \<noteq> 0 then
     u\<lparr>uli_lai := ucast (ie_lai uli),
       lai2 := (lai2 u)\<lparr>
         lai_mcc_digit_2 := ucast (ie_lai_mcc_digit_2 (ie_lai2 uli)),
         lai_mcc_digit_1 := ucast (ie_lai_mcc_digit_1 (ie_lai2 uli)),
         lai_mnc_digit_3 := ucast (ie_lai_mnc_digit_3 (ie_lai2 uli)),
         lai_mcc_digit_3 := ucast (ie_lai_mcc_digit_3 (ie_lai2 uli)),
         lai_mnc_digit_2 := ucast (ie_lai_mnc_digit_2 (ie_lai2 uli)),
         lai_mnc_digit_1 := ucast (ie_lai_mnc_digit_1 (ie_lai2 uli)),
         lai_lac := ucast (ie_lai_lac (ie_lai2 uli))\<rparr>\<rparr>
     else u)"

definition fill_tai :: "gtp_user_loc_info_ie \<Rightarrow> user_loc_info_t \<Rightarrow> user_loc_info_t" where
  "fill_tai uli u = (if ie_tai uli \<noteq> 0 then
     u\<lparr>uli_tai := ucast (ie_tai uli),
       tai2 := (tai2 u)\<lparr>
         tai_mcc_digit_2 := ucast (ie_tai_mcc_digit_2 (ie_tai2 uli)),
         tai_mcc_digit_1 := ucast (ie_tai_mcc_digit_1 (ie_tai2 uli)),
         tai_mnc_digit_3 := ucast (ie_tai_mnc_digit_3 (ie_tai2 uli)),
         tai_mcc_digit_3 := ucast (ie_tai_mcc_digit_3 (ie_tai2 uli)),
         tai_mnc_digit_2 := ucast (ie_tai_mnc_digit_2 (ie_tai2 uli)),
         tai_mnc_digit_1 := ucast (ie_tai_mnc_digit_1 (ie_tai2 uli)),
         tai_tac := ucast (ie_tai_tac (ie_tai2 uli))\<rparr>\<rparr>
     else u)"

definition fill_rai :: "gtp_user_loc_info_ie \<Rightarrow> user_loc_info_t \<Rightarrow> user_loc_info_t" where
  "fill_rai uli u = (if ie_rai uli \<noteq> 0 then
     u\<lparr>uli_rai := ucast (ie_rai uli),
       rai2 := (rai2 u)\<lparr>
         ria_mcc_digit_2 := ucast (ie_ria_mcc_digit_2 (ie_rai2 uli)),
         ria_mcc_digit_1 := ucast (ie_ria_mcc_digit_1 (ie_rai2 uli)),
         ria_mnc_digit_3 := ucast (ie_ria_mnc_digit_3 (ie_rai2 uli)),
         ria_mcc_digit_3 := ucast (ie_ria_mcc_digit_3 (ie_rai2 uli)),
         ria_mnc_digit_2 := ucast (ie_ria_mnc_digit_2 (ie_rai2 uli)),
         ria_mnc_digit_1 := ucast (ie_ria_mnc_digit_1 (ie_rai2 uli)),
         ria_lac := ucast (ie_ria_lac (ie_rai2 uli)),
         ria_rac := ucast (ie_ria_rac (ie_rai2 uli))\<rparr>\<rparr>
     else u)"

definition fill_sai :: "gtp_user_loc_info_ie \<Rightarrow> user_loc_info_t \<Rightarrow> user_loc_info_t" where
  "fill_sai uli u = (if ie_sai uli \<noteq> 0 then
     u\<lparr>uli_sai := ucast (ie_sai uli),
       sai2 := (sai2 u)\<lparr>
         sai_mcc_digit_2 := ucast (ie_sai_mcc_digit_2 (ie_sai2 uli)),
         sai_mcc_digit_1 := ucast (ie_sai_mcc_digit_1 (ie_sai2 uli)),
         sai_mnc_digit_3 := ucast (ie_sai_mnc_digit_3 (ie_sai2 uli)),
         sai_mcc_digit_3 := ucast (ie_sai_mcc_digit_3 (ie_sai2 uli)),
         sai_mnc_digit_2 := ucast (ie_sai_mnc_digit_2 (ie_sai2 uli)),
         sai_mnc_digit_1 := ucast (ie_sai_mnc_digit_1 (ie_sai2 uli)),
         sai_lac := ucast (ie_sai_lac (ie_sai2 uli)),
         sai_sac := ucast (ie_sai_sac (ie_sai2 uli))\<rparr>\<rparr>
     else u)"

definition fill_cgi :: "gtp_user_loc_info_ie \<Rightarrow> user_loc_info_t \<Rightarrow> user_loc_info_t" where
  "fill_cgi uli u = (if ie_cgi uli \<noteq> 0 then
     u\<lparr>uli_cgi := ucast (ie_cgi uli),
       cgi2 := (cgi2 u)\<lparr>
         cgi_mcc_digit_2 := ucast (ie_cgi_mcc_digit_2 (ie_cgi2 uli)),
         cgi_mcc_digit_1 := ucast (ie_cgi_mcc_digit_1 (ie_cgi2 uli)),
         cgi_mnc_digit_3 := ucast (ie_cgi_mnc_digit_3 (ie_cgi2 uli)),
         cgi_mcc_digit_3 := ucast (ie_cgi_mcc_digit_3 (ie_cgi2 uli)),
         cgi_mnc_digit_2 := ucast (ie_cgi_mnc_digit_2 (ie_cgi2 uli)),
         cgi_mnc_digit_1 := ucast (ie_cgi_mnc_digit_1 (ie_cgi2 uli)),
         cgi_lac := ucast (ie_cgi_lac (ie_cgi2 uli)),
         cgi_ci := ucast (ie_cgi_ci (ie_cgi2 uli))\<rparr>\<rparr>
     else u)"

definition fill_ecgi :: "gtp_user_loc_info_ie \<Rightarrow> user_loc_info_t \<Rightarrow> user_loc_info_t" where
  "fill_ecgi uli u = (if ie_ecgi uli \<noteq> 0 then
     u\<lparr>uli_ecgi := ucast (ie_ecgi uli),
       ecgi2 := (ecgi2 u)\<lparr>
         ecgi_mcc_digit_2 := ucast (ie_ecgi_mcc_digit_2 (ie_ecgi2 uli)),
         ecgi_mcc_digit_1 := ucast (ie_ecgi_mcc_digit_1 (ie_ecgi2 uli)),
         ecgi_mnc_digit_3 := ucast (ie_ecgi_mnc_digit_3 (ie_ecgi2 uli)),
         ecgi_mcc_digit_3 := ucast (ie_ecgi_mcc_digit_3 (ie_ecgi2 uli)),
         ecgi_mnc_digit_2 := ucast (ie_ecgi_mnc_digit_2 (ie_ecgi2 uli)),
         ecgi_mnc_digit_1 := ucast (ie_ecgi_mnc_digit_1 (ie_ecgi2 uli)),
         ecgi_spare := ucast (ie_ecgi_spare (ie_ecgi2 uli)),
         eci := ucast (ie_eci (ie_ecgi2 uli))\<rparr>\<rparr>
     else u)"

definition fill_macro_enodeb_id :: "gtp_user_loc_info_ie \<Rightarrow> user_loc_info_t \<Rightarrow> user_loc_info_t" where
  "fill_macro_enodeb_id uli u = (if ie_macro_enodeb_id uli \<noteq> 0 then
     u\<lparr>uli_macro_enodeb_id := ucast (ie_macro_enodeb_id uli),
       macro_enodeb_id2 := (macro_enodeb_id2 u)\<lparr>
         menbid_mcc_digit_2 := ucast (ie_menbid_mcc_digit_2 (ie_macro_enodeb_id2 uli)),
         menbid_mcc_digit_1 := ucast (ie_menbid_mcc_digit_1 (ie_macro_enodeb_id2 uli)),
         menbid_mnc_digit_3 := ucast (ie_menbid_mnc_digit_3 (ie_macro_enodeb_id2 uli)),
         menbid_mcc_digit_3 := ucast (ie_menbid_mcc_digit_3 (ie_macro_enodeb_id2 uli)),
         menbid_mnc_digit_2 := ucast (ie_menbid_mnc_digit_2 (ie_macro_enodeb_id2 uli)),
         menbid_mnc_digit_1 := ucast (ie_menbid_mnc_digit_1 (ie_macro_enodeb_id2 uli)),
         menbid_spare := ucast (ie_menbid_spare (ie_macro_enodeb_id2 uli)),
         menbid_macro_enodeb_id := ucast (ie_menbid_macro_enodeb_id (ie_macro_enodeb_id2 uli)),
         menbid_macro_enb_id2 := ucast (ie_menbid_macro_enb_id2 (ie_macro_enodeb_id2 uli))\<rparr>\<rparr>
     else u)"

definition fill_extnded_macro_enb_id :: "gtp_user_loc_info_ie \<Rightarrow> user_loc_info_t \<Rightarrow> user_loc_info_t" where
  "fill_extnded_macro_enb_id uli u = (if ie_extnded_macro_enb_id uli \<noteq> 0 then
     u\<lparr>uli_extnded_macro_enb_id := ucast (ie_extnded_macro_enb_id uli),
       extended_macro_enodeb_id2 := (extended_macro_enodeb_id2 u)\<lparr>
         emenbid_mcc_digit_1 := ucast (ie_emenbid_mcc_digit_1 (ie_extended_macro_enodeb_id2 uli)),
         emenbid_mnc_digit_3 := ucast (ie_emenbid_mnc_digit_3 (ie_extended_macro_enodeb_id2 uli)),
         emenbid_mcc_digit_3 := ucast (ie_emenbid_mcc_digit_3 (ie_extended_macro_enodeb_id2 uli)),
         emenbid_mnc_digit_2 := ucast (ie_emenbid_mnc_digit_2 (ie_extended_macro_enodeb_id2 uli)),
         emenbid_mnc_digit_1 := ucast (ie_emenbid_mnc_digit_1 (ie_extended_macro_enodeb_id2 uli)),
         emenbid_smenb := ucast (ie_emenbid_smenb (ie_extended_macro_enodeb_id2 uli)),
         emenbid_spare := ucast (ie_emenbid_spare (ie_extended_macro_enodeb_id2 uli)),
         emenbid_extnded_macro_enb_id := ucast (ie_emenbid_extnded_macro_enb_id (ie_extended_macro_enodeb_id2 uli)),
         emenbid_extnded_macro_enb_id2 := ucast (ie_emenbid_extnded_macro_enb_id2 (ie_extended_macro_enodeb_id2 uli))\<rparr>\<rparr>
     else u)"

definition fill_uli_info :: "gtp_user_loc_info_ie \<Rightarrow> user_loc_info_t \<Rightarrow> user_loc_info_t" where
  "fill_uli_info uli u =
     (fill_extnded_macro_enb_id uli \<circ> fill_macro_enodeb_id uli \<circ> fill_ecgi uli \<circ> fill_cgi uli \<circ> fill_sai uli \<circ> fill_rai uli \<circ> fill_tai uli \<circ> fill_lai uli) u"

lemmas fill_defs = fill_lai_def fill_tai_def fill_rai_def fill_sai_def fill_cgi_def fill_ecgi_def fill_macro_enodeb_id_def fill_extnded_macro_enb_id_def

section \<open>The reference\<close>

definition cgi_of :: "cgi_field \<Rightarrow> cgi_t" where
  "cgi_of x = \<lparr>cgi_mcc_digit_2 = ucast (ie_cgi_mcc_digit_2 x), cgi_mcc_digit_1 = ucast (ie_cgi_mcc_digit_1 x), cgi_mnc_digit_3 = ucast (ie_cgi_mnc_digit_3 x), cgi_mcc_digit_3 = ucast (ie_cgi_mcc_digit_3 x), cgi_mnc_digit_2 = ucast (ie_cgi_mnc_digit_2 x), cgi_mnc_digit_1 = ucast (ie_cgi_mnc_digit_1 x), cgi_lac = ucast (ie_cgi_lac x), cgi_ci = ucast (ie_cgi_ci x)\<rparr>"

definition sai_of :: "sai_field \<Rightarrow> sai_t" where
  "sai_of x = \<lparr>sai_mcc_digit_2 = ucast (ie_sai_mcc_digit_2 x), sai_mcc_digit_1 = ucast (ie_sai_mcc_digit_1 x), sai_mnc_digit_3 = ucast (ie_sai_mnc_digit_3 x), sai_mcc_digit_3 = ucast (ie_sai_mcc_digit_3 x), sai_mnc_digit_2 = ucast (ie_sai_mnc_digit_2 x), sai_mnc_digit_1 = ucast (ie_sai_mnc_digit_1 x), sai_lac = ucast (ie_sai_lac x), sai_sac = ucast (ie_sai_sac x)\<rparr>"

definition rai_of :: "rai_field \<Rightarrow> rai_t" where
  "rai_of x = \<lparr>ria_mcc_digit_2 = ucast (ie_ria_mcc_digit_2 x), ria_mcc_digit_1 = ucast (ie_ria_mcc_digit_1 x), ria_mnc_digit_3 = ucast (ie_ria_mnc_digit_3 x), ria_mcc_digit_3 = ucast (ie_ria_mcc_digit_3 x), ria_mnc_digit_2 = ucast (ie_ria_mnc_digit_2 x), ria_mnc_digit_1 = ucast (ie_ria_mnc_digit_1 x), ria_lac = ucast (ie_ria_lac x), ria_rac = ucast (ie_ria_rac x)\<rparr>"

definition tai_of :: "tai_field \<Rightarrow> tai_t" where
  "tai_of x = \<lparr>tai_mcc_digit_2 = ucast (ie_tai_mcc_digit_2 x), tai_mcc_digit_1 = ucast (ie_tai_mcc_digit_1 x), tai_mnc_digit_3 = ucast (ie_tai_mnc_digit_3 x), tai_mcc_digit_3 = ucast (ie_tai_mcc_digit_3 x), tai_mnc_digit_2 = ucast (ie_tai_mnc_digit_2 x), tai_mnc_digit_1 = ucast (ie_tai_mnc_digit_1 x), tai_tac = ucast (ie_tai_tac x)\<rparr>"

definition lai_of :: "lai_field \<Rightarrow> lai_t" where
  "lai_of x = \<lparr>lai_mcc_digit_2 = ucast (ie_lai_mcc_digit_2 x), lai_mcc_digit_1 = ucast (ie_lai_mcc_digit_1 x), lai_mnc_digit_3 = ucast (ie_lai_mnc_digit_3 x), lai_mcc_digit_3 = ucast (ie_lai_mcc_digit_3 x), lai_mnc_digit_2 = ucast (ie_lai_mnc_digit_2 x), lai_mnc_digit_1 = ucast (ie_lai_mnc_digit_1 x), lai_lac = ucast (ie_lai_lac x)\<rparr>"

definition ecgi_of :: "ecgi_field \<Rightarrow> ecgi_t" where
  "ecgi_of x = \<lparr>ecgi_mcc_digit_2 = ucast (ie_ecgi_mcc_digit_2 x), ecgi_mcc_digit_1 = ucast (ie_ecgi_mcc_digit_1 x), ecgi_mnc_digit_3 = ucast (ie_ecgi_mnc_digit_3 x), ecgi_mcc_digit_3 = ucast (ie_ecgi_mcc_digit_3 x), ecgi_mnc_digit_2 = ucast (ie_ecgi_mnc_digit_2 x), ecgi_mnc_digit_1 = ucast (ie_ecgi_mnc_digit_1 x), ecgi_spare = ucast (ie_ecgi_spare x), eci = ucast (ie_eci x)\<rparr>"

definition macro_enb_id_of :: "macro_enb_id_fld \<Rightarrow> macro_enb_id_t" where
  "macro_enb_id_of x = \<lparr>menbid_mcc_digit_2 = ucast (ie_menbid_mcc_digit_2 x), menbid_mcc_digit_1 = ucast (ie_menbid_mcc_digit_1 x), menbid_mnc_digit_3 = ucast (ie_menbid_mnc_digit_3 x), menbid_mcc_digit_3 = ucast (ie_menbid_mcc_digit_3 x), menbid_mnc_digit_2 = ucast (ie_menbid_mnc_digit_2 x), menbid_mnc_digit_1 = ucast (ie_menbid_mnc_digit_1 x), menbid_spare = ucast (ie_menbid_spare x), menbid_macro_enodeb_id = ucast (ie_menbid_macro_enodeb_id x), menbid_macro_enb_id2 = ucast (ie_menbid_macro_enb_id2 x)\<rparr>"

definition extnded_macro_enb_id_of :: "extnded_macro_enb_id_fld \<Rightarrow> extnded_macro_enb_id_t" where
  "extnded_macro_enb_id_of x = \<lparr>emenbid_mcc_digit_2 = ucast (ie_emenbid_mcc_digit_2 x), emenbid_mcc_digit_1 = ucast (ie_emenbid_mcc_digit_1 x), emenbid_mnc_digit_3 = ucast (ie_emenbid_mnc_digit_3 x), emenbid_mcc_digit_3 = ucast (ie_emenbid_mcc_digit_3 x), emenbid_mnc_digit_2 = ucast (ie_emenbid_mnc_digit_2 x), emenbid_mnc_digit_1 = ucast (ie_emenbid_mnc_digit_1 x), emenbid_smenb = ucast (ie_emenbid_smenb x), emenbid_spare = ucast (ie_emenbid_spare x), emenbid_extnded_macro_enb_id = ucast (ie_emenbid_extnded_macro_enb_id x), emenbid_extnded_macro_enb_id2 = ucast (ie_emenbid_extnded_macro_enb_id2 x)\<rparr>"

definition part :: "1 word \<Rightarrow> 'a \<Rightarrow> 'a \<Rightarrow> 'a" where
  "part announced old new = (if announced = 0 then old else new)"

definition uli_of_ie :: "gtp_user_loc_info_ie \<Rightarrow> user_loc_info_t" where
  "uli_of_ie x = \<lparr>uli_cgi = ucast (ie_cgi x), uli_sai = ucast (ie_sai x), uli_rai = ucast (ie_rai x), uli_tai = ucast (ie_tai x), uli_lai = ucast (ie_lai x), uli_ecgi = ucast (ie_ecgi x), uli_macro_enodeb_id = ucast (ie_macro_enodeb_id x), uli_extnded_macro_enb_id = ucast (ie_extnded_macro_enb_id x),
     cgi2 = part (ie_cgi x) (cgi2 calloc_uli) (cgi_of (ie_cgi2 x)),
     sai2 = part (ie_sai x) (sai2 calloc_uli) (sai_of (ie_sai2 x)),
     rai2 = part (ie_rai x) (rai2 calloc_uli) (rai_of (ie_rai2 x)),
     tai2 = part (ie_tai x) (tai2 calloc_uli) (tai_of (ie_tai2 x)),
     lai2 = part (ie_lai x) (lai2 calloc_uli) (lai_of (ie_lai2 x)),
     ecgi2 = part (ie_ecgi x) (ecgi2 calloc_uli) (ecgi_of (ie_ecgi2 x)),
     macro_enodeb_id2 = part (ie_macro_enodeb_id x) (macro_enodeb_id2 calloc_uli) (macro_enb_id_of (ie_macro_enodeb_id2 x)),
     extended_macro_enodeb_id2 = part (ie_extnded_macro_enb_id x) (extended_macro_enodeb_id2 calloc_uli) (extnded_macro_enb_id_of (ie_extended_macro_enodeb_id2 x))\<rparr>"

lemmas part_defs = cgi_of_def sai_of_def rai_of_def tai_of_def lai_of_def ecgi_of_def macro_enb_id_of_def extnded_macro_enb_id_of_def

lemma fill_lai_eq:
  "uli_lai u = 0 \<Longrightarrow> fill_lai uli u = u\<lparr>uli_lai := ucast (ie_lai uli),
     lai2 := part (ie_lai uli) (lai2 u) (lai_of (ie_lai2 uli))\<rparr>"
  by (cases "ie_lai uli = 0") (simp_all add: fill_lai_def lai_of_def part_def)

lemma fill_tai_eq:
  "uli_tai u = 0 \<Longrightarrow> fill_tai uli u = u\<lparr>uli_tai := ucast (ie_tai uli),
     tai2 := part (ie_tai uli) (tai2 u) (tai_of (ie_tai2 uli))\<rparr>"
  by (cases "ie_tai uli = 0") (simp_all add: fill_tai_def tai_of_def part_def)

lemma fill_rai_eq:
  "uli_rai u = 0 \<Longrightarrow> fill_rai uli u = u\<lparr>uli_rai := ucast (ie_rai uli),
     rai2 := part (ie_rai uli) (rai2 u) (rai_of (ie_rai2 uli))\<rparr>"
  by (cases "ie_rai uli = 0") (simp_all add: fill_rai_def rai_of_def part_def)

lemma fill_sai_eq:
  "uli_sai u = 0 \<Longrightarrow> fill_sai uli u = u\<lparr>uli_sai := ucast (ie_sai uli),
     sai2 := part (ie_sai uli) (sai2 u) (sai_of (ie_sai2 uli))\<rparr>"
  by (cases "ie_sai uli = 0") (simp_all add: fill_sai_def sai_of_def part_def)

lemma fill_cgi_eq:
  "uli_cgi u = 0 \<Longrightarrow> fill_cgi uli u = u\<lparr>uli_cgi := ucast (ie_cgi uli),
     cgi2 := part (ie_cgi uli) (cgi2 u) (cgi_of (ie_cgi2 uli))\<rparr>"
  by (cases "ie_cgi uli = 0") (simp_all add: fill_cgi_def cgi_of_def part_def)

lemma fill_ecgi_eq:
  "uli_ecgi u = 0 \<Longrightarrow> fill_ecgi uli u = u\<lparr>uli_ecgi := ucast (ie_ecgi uli),
     ecgi2 := part (ie_ecgi uli) (ecgi2 u) (ecgi_of (ie_ecgi2 uli))\<rparr>"
  by (cases "ie_ecgi uli = 0") (simp_all add: fill_ecgi_def ecgi_of_def part_def)

lemma fill_macro_enodeb_id_eq:
  "uli_macro_enodeb_id u = 0 \<Longrightarrow> fill_macro_enodeb_id uli u = u\<lparr>uli_macro_enodeb_id := ucast (ie_macro_enodeb_id uli),
     macro_enodeb_id2 := part (ie_macro_enodeb_id uli) (macro_enodeb_id2 u) (macro_enb_id_of (ie_macro_enodeb_id2 uli))\<rparr>"
  by (cases "ie_macro_enodeb_id uli = 0") (simp_all add: fill_macro_enodeb_id_def macro_enb_id_of_def part_def)

lemma fill_extnded_macro_enb_id_eq:
  "uli_extnded_macro_enb_id u = 0 \<Longrightarrow> fill_extnded_macro_enb_id uli u = u\<lparr>uli_extnded_macro_enb_id := ucast (ie_extnded_macro_enb_id uli),
     extended_macro_enodeb_id2 := part (ie_extnded_macro_enb_id uli) (extended_macro_enodeb_id2 u) ((extnded_macro_enb_id_of (ie_extended_macro_enodeb_id2 uli))\<lparr>emenbid_mcc_digit_2 := emenbid_mcc_digit_2 (extended_macro_enodeb_id2 u)\<rparr>)\<rparr>"
  by (cases "ie_extnded_macro_enb_id uli = 0") (simp_all add: fill_extnded_macro_enb_id_def extnded_macro_enb_id_of_def part_def)

lemmas fill_eqs = fill_lai_eq fill_tai_eq fill_rai_eq fill_sai_eq fill_cgi_eq fill_ecgi_eq fill_macro_enodeb_id_eq fill_extnded_macro_enb_id_eq

section \<open>Properties\<close>

text \<open>C20: a fresh UE context receives every announced part of the user location information with
  all its members, except the second digit of the country code of the extended macro eNodeB identity, which is
  never copied.\<close>

theorem fill_uli_info_copies:
  "fill_uli_info uli calloc_uli =
     (let u = uli_of_ie uli
      in u\<lparr>extended_macro_enodeb_id2 := (extended_macro_enodeb_id2 u)\<lparr>emenbid_mcc_digit_2 := 0\<rparr>\<rparr>)"
proof -
  have ext: "part b (u\<lparr>emenbid_mcc_digit_2 := 0\<rparr>) (v\<lparr>emenbid_mcc_digit_2 := 0\<rparr>) =
      (part b u v)\<lparr>emenbid_mcc_digit_2 := 0\<rparr>" for b and u v :: extnded_macro_enb_id_t
    by (simp add: part_def)
  show ?thesis
    by (simp add: fill_uli_info_def fill_eqs uli_of_ie_def calloc_uli_def Let_def ext[symmetric])
qed

end
