(* ===== verification/Spgw_Config.thy ===== *)
theory Spgw_Config
  imports Prelude "HOL-Library.Monad_Syntax"
begin

text \<open>
  Subscriber configuration (\<open>cpplib/spgw_config.cpp\<close>, \<open>cpplib/spgw_config.h\<close>,
  \<open>cpplib/spgw_config_struct.h\<close>): reading the profiles from a document, choosing the rule of a
  subscriber and the profile of an access point name.

  The document is what the JSON library delivers; \<open>json\<close> is its data type and the access functions
  abort (None) where the library asserts, on a missing member or a value of another type.  A character
  array holds a C string: \<open>c_string\<close> cuts it at the first zero.
\<close>

section \<open>Documents\<close>

datatype json = J_Int int | J_Bool bool | J_String string | J_Array "json list" | J_Object "(string \<times> json) list"

fun HasMember :: "json \<Rightarrow> string \<Rightarrow> bool" where
  "HasMember (J_Object ms) k \<longleftrightarrow> map_of ms k \<noteq> None"
| "HasMember _ k \<longleftrightarrow> False"

fun member :: "json \<Rightarrow> string \<Rightarrow> json option" where
  "member (J_Object ms) k = map_of ms k"
| "member _ k = None"

fun members :: "json \<Rightarrow> (string \<times> json) list option" where
  "members (J_Object ms) = Some ms"
| "members _ = None"

fun elements :: "json \<Rightarrow> json list option" where
  "elements (J_Array xs) = Some xs"
| "elements _ = None"

fun IsObject :: "json \<Rightarrow> bool" where
  "IsObject (J_Object _) \<longleftrightarrow> True"
| "IsObject _ \<longleftrightarrow> False"

fun GetInt :: "json \<Rightarrow> int option" where
  "GetInt (J_Int i) = Some i"
| "GetInt _ = None"

fun GetBool :: "json \<Rightarrow> bool option" where
  "GetBool (J_Bool b) = Some b"
| "GetBool _ = None"

fun GetString :: "json \<Rightarrow> string option" where
  "GetString (J_String t) = Some t"
| "GetString _ = None"

text \<open>\<open>if (v.HasMember(k)) x = get(v[k])\<close>, with \<open>d\<close> the value that \<open>x\<close> had before.\<close>

definition opt_member :: "json \<Rightarrow> string \<Rightarrow> (json \<Rightarrow> 'a option) \<Rightarrow> 'a \<Rightarrow> 'a option" where
  "opt_member v k get d = (if HasMember v k then do { x \<leftarrow> member v k; get x } else Some d)"

fun collect :: "('a \<Rightarrow> 'b option) \<Rightarrow> 'a list \<Rightarrow> 'b list option" where
  "collect f [] = Some []"
| "collect f (x # xs) = do { y \<leftarrow> f x; ys \<leftarrow> collect f xs; Some (y # ys) }"

definition c_string :: "string \<Rightarrow> string" where
  "c_string = takeWhile (\<lambda>c. c \<noteq> CHR 0x00)"

section \<open>Profiles and rules\<close>

record imsi_selection =
  imsi_is_valid :: bool
  from_imsi :: u64
  to_imsi :: u64

record serving_plmn =
  plmn_is_valid :: bool
  plmn :: "u8 list"
  tac :: u16

record apn_key =
  apn_is_valid :: bool
  requested_apn :: string

record sub_selection_keys =
  key_imsi :: imsi_selection
  key_plmn :: serving_plmn
  key_apn :: apn_key

record sub_selection_rule =
  rule_priority :: u32
  keys :: "sub_selection_keys option"
  selected_apn_profile :: "string option"
  selected_user_plane_profile :: "string option"
  selected_qos_profile :: "string option"
  selected_access_profile :: "string list"

record apn_profile =
  apn_profile_name :: string
  apn_name :: string
  apn_name_length :: u8
  apn_usage_type :: int
  apn_net_cap :: string
  apn_gx_enabled :: bool
  apn_dns_primary :: u32
  apn_dns_secondary :: u32
  apn_mtu :: u16

record user_plane_profile =
  user_plane_profile_name :: string
  user_plane_service :: string
  user_plane_global_address :: bool

record qos_profile =
  qos_profile_name :: string
  apn_ambr_ul :: u32
  apn_ambr_dl :: u32
  qos_qci :: u8
  qos_arp :: u8

record sub_config_t =
  sub_dns_primary :: u32
  sub_dns_secondary :: u32
  sub_mtu :: u16
  sub_global_address :: bool
  sub_user_plane_service :: string
  sub_apn_ambr_ul :: u32
  sub_apn_ambr_dl :: u32
  sub_qci :: u8
  sub_arp :: u8

record spgwConfigStore =
  sub_sel_rules :: "sub_selection_rule list"
  apn_profile_list :: "apn_profile list"
  user_plane_list :: "user_plane_profile list"
  access_profile_list :: "string list"
  qos_profile_list :: "qos_profile list"

definition get_apn_profile :: "string \<Rightarrow> spgwConfigStore \<Rightarrow> apn_profile option" where
  "get_apn_profile name cfg = find (\<lambda>a. apn_profile_name a = name) (apn_profile_list cfg)"

definition get_user_plane_profile :: "string \<Rightarrow> spgwConfigStore \<Rightarrow> user_plane_profile option" where
  "get_user_plane_profile name cfg = find (\<lambda>u. user_plane_profile_name u = name) (user_plane_list cfg)"

definition get_qos_profile :: "string \<Rightarrow> spgwConfigStore \<Rightarrow> qos_profile option" where
  "get_qos_profile name cfg = find (\<lambda>q. qos_profile_name q = name) (qos_profile_list cfg)"

definition get_access_profile :: "string \<Rightarrow> spgwConfigStore \<Rightarrow> string option" where
  "get_access_profile name cfg = find (\<lambda>a. a = name) (access_profile_list cfg)"

section \<open>Keys\<close>

text \<open>The loop that turns a dotted name into labels with their lengths in front.  It runs from the last
  character to the first; the octet in front of the name counts the characters of the current label.\<close>

definition char_inc :: "char \<Rightarrow> char" where
  "char_inc c = char_of (of_char c + (1 :: nat))"

fun apn_label_loop :: "nat \<Rightarrow> string \<Rightarrow> string" where
  "apn_label_loop 0 name = name"
| "apn_label_loop (Suc i) name = apn_label_loop i
     (if name ! Suc i = CHR ''.'' then name[Suc i := name ! 0, 0 := CHR 0x00]
      else name[0 := char_inc (name ! 0)])"

definition encode_apn :: "string \<Rightarrow> string" where
  "encode_apn temp = apn_label_loop (length temp) (CHR 0x00 # temp)"

definition APN_BUF_LEN :: nat where
  "APN_BUF_LEN = 64"

definition plmn_key :: "nat \<Rightarrow> nat \<Rightarrow> u8 list" where
  "plmn_key mcc mnc =
     (let mcc_dig_1 = mcc div 100; mcc_dig_2 = (mcc mod 100) div 10; mcc_dig_3 = (mcc mod 100) mod 10;
          (mnc_dig_1, mnc_dig_2, mnc_dig_3) =
            (if mnc > 99 then (mnc div 100, (mnc mod 100) div 10, mnc mod 10)
             else (mnc div 10, mnc mod 10, 0xf))
      in [push_bit 4 (of_nat mcc_dig_2) OR of_nat mcc_dig_1,
          push_bit 4 (of_nat mnc_dig_1) OR of_nat mcc_dig_3,
          push_bit 4 (of_nat mnc_dig_3) OR of_nat mnc_dig_2])"

section \<open>Reading the profiles\<close>

text \<open>\<open>parse_json_doc\<close>, section by section.  A name that does not fit its array has no result, and
  neither has a member that the code uses without having set it.  \<open>aton\<close> is \<open>inet_aton\<close>.\<close>

definition parse_imsi_range :: "json \<Rightarrow> imsi_selection option" where
  "parse_imsi_range v = do {
     from \<leftarrow> member v ''from''; f \<leftarrow> GetInt from;
     to \<leftarrow> member v ''to''; t \<leftarrow> GetInt to;
     Some \<lparr>imsi_is_valid = True, from_imsi = of_int f, to_imsi = of_int t\<rparr>
   }"

definition parse_serving_plmn :: "json \<Rightarrow> serving_plmn option" where
  "parse_serving_plmn v = do {
     mcc \<leftarrow> member v ''mcc''; c \<leftarrow> GetInt mcc;
     mnc \<leftarrow> member v ''mnc''; n \<leftarrow> GetInt mnc;
     area \<leftarrow> member v ''tac''; a \<leftarrow> GetInt area;
     Some \<lparr>plmn_is_valid = True,
       plmn = plmn_key (unat (of_int c :: u16)) (unat (of_int n :: u16)), tac = of_int a\<rparr>
   }"

definition parse_requested_apn :: "json \<Rightarrow> apn_key option" where
  "parse_requested_apn v = do {
     temp \<leftarrow> GetString v;
     if length temp + 2 \<le> APN_BUF_LEN then Some \<lparr>apn_is_valid = True, requested_apn = encode_apn temp\<rparr> else None
   }"

definition parse_keys :: "json \<Rightarrow> sub_selection_keys option" where
  "parse_keys ruleKeys = do {
     i \<leftarrow> (case member ruleKeys ''imsi-range'' of
            Some v \<Rightarrow> if IsObject v then parse_imsi_range v
                      else Some \<lparr>imsi_is_valid = False, from_imsi = 0, to_imsi = 0\<rparr>
          | None \<Rightarrow> Some \<lparr>imsi_is_valid = False, from_imsi = 0, to_imsi = 0\<rparr>);
     p \<leftarrow> (case member ruleKeys ''serving-plmn'' of
            Some v \<Rightarrow> if IsObject v then parse_serving_plmn v
                      else Some \<lparr>plmn_is_valid = False, plmn = [0, 0, 0], tac = 0\<rparr>
          | None \<Rightarrow> Some \<lparr>plmn_is_valid = False, plmn = [0, 0, 0], tac = 0\<rparr>);
     a \<leftarrow> opt_member ruleKeys ''requested-apn'' parse_requested_apn
            \<lparr>apn_is_valid = False, requested_apn = []\<rparr>;
     Some \<lparr>key_imsi = i, key_plmn = p, key_apn = a\<rparr>
   }"

definition parse_sub_rule :: "json \<Rightarrow> sub_selection_rule option" where
  "parse_sub_rule v = do {
     priority \<leftarrow> member v ''priority''; pr \<leftarrow> GetInt priority;
     ks \<leftarrow> opt_member v ''keys'' (\<lambda>k. map_option Some (parse_keys k)) None;
     ap \<leftarrow> opt_member v ''selected-apn-profile'' (\<lambda>x. map_option Some (GetString x)) None;
     up \<leftarrow> opt_member v ''selected-user-plane-profile'' (\<lambda>x. map_option Some (GetString x)) None;
     qp \<leftarrow> opt_member v ''selected-qos-profile'' (\<lambda>x. map_option Some (GetString x)) None;
     acc \<leftarrow> opt_member v ''selected-access-profile'' (\<lambda>x. do { xs \<leftarrow> elements x; collect GetString (take 4 xs) }) [];
     Some \<lparr>rule_priority = of_int pr, keys = ks, selected_apn_profile = ap, selected_user_plane_profile = up,
       selected_qos_profile = qp, selected_access_profile = acc\<rparr>
   }"

definition compare_sub_rules :: "sub_selection_rule \<Rightarrow> sub_selection_rule \<Rightarrow> bool" where
  "compare_sub_rules rule1 rule2 = (if rule_priority rule1 < rule_priority rule2 then True else False)"

text \<open>\<open>std::list::sort\<close> is a stable sort by the comparison it is given.\<close>

fun insert_rule :: "('a \<Rightarrow> 'a \<Rightarrow> bool) \<Rightarrow> 'a \<Rightarrow> 'a list \<Rightarrow> 'a list" where
  "insert_rule lt x [] = [x]"
| "insert_rule lt x (y # ys) = (if lt y x then y # insert_rule lt x ys else x # y # ys)"

fun list_sort :: "('a \<Rightarrow> 'a \<Rightarrow> bool) \<Rightarrow> 'a list \<Rightarrow> 'a list" where
  "list_sort lt [] = []"
| "list_sort lt (x # xs) = insert_rule lt x (list_sort lt xs)"

definition parse_apn_profile :: "(string \<Rightarrow> u32) \<Rightarrow> string \<times> json \<Rightarrow> apn_profile option" where
  "parse_apn_profile aton itr = (case itr of (key, v) \<Rightarrow> do {
     name \<leftarrow> opt_member v ''apn-name'' (\<lambda>x. do {
               temp \<leftarrow> GetString x;
               if length temp + 2 \<le> APN_BUF_LEN then Some (encode_apn temp) else None }) [];
     usage \<leftarrow> opt_member v ''usage'' GetInt 0;
     network \<leftarrow> opt_member v ''network'' GetString [];
     gx \<leftarrow> opt_member v ''gx_enabled'' GetBool False;
     mtu \<leftarrow> opt_member v ''mtu'' GetInt 0;
     dns1 \<leftarrow> opt_member v ''dns_primary'' (\<lambda>x. map_option aton (GetString x)) 0;
     dns2 \<leftarrow> opt_member v ''dns_secondary'' (\<lambda>x. map_option aton (GetString x)) 0;
     if length key < APN_BUF_LEN \<and> length network < APN_BUF_LEN
     then Some \<lparr>apn_profile_name = key, apn_name = name, apn_name_length = of_nat (length (c_string name)),
            apn_usage_type = usage, apn_net_cap = network, apn_gx_enabled = gx, apn_dns_primary = dns1,
            apn_dns_secondary = dns2, apn_mtu = of_int mtu\<rparr>
     else None
   })"

definition parse_user_plane :: "string \<times> json \<Rightarrow> user_plane_profile option" where
  "parse_user_plane itr = (case itr of (key, v) \<Rightarrow> do {
     service \<leftarrow> opt_member v ''user-plane'' GetString [];
     glob \<leftarrow> opt_member v ''global-address'' GetBool True;
     if length key < APN_BUF_LEN \<and> length service < APN_BUF_LEN
     then Some \<lparr>user_plane_profile_name = key, user_plane_service = service, user_plane_global_address = glob\<rparr>
     else None
   })"

definition parse_qos_profile :: "string \<times> json \<Rightarrow> qos_profile option" where
  "parse_qos_profile itr = (case itr of (key, v) \<Rightarrow> do {
     ambr \<leftarrow> member v ''apn-ambr'';
     rates \<leftarrow> elements ambr;
     (case rates of
        ul # dl # _ \<Rightarrow> do {
          u \<leftarrow> GetInt ul; d \<leftarrow> GetInt dl;
          q \<leftarrow> opt_member v ''qci'' GetInt 9;
          if length key < APN_BUF_LEN
          then Some \<lparr>qos_profile_name = key, apn_ambr_ul = of_int u, apn_ambr_dl = of_int d, qos_qci = of_int q,
                 qos_arp = 1\<rparr>
          else None
        }
      | _ \<Rightarrow> None)
   })"

definition parse_json_doc :: "(string \<Rightarrow> u32) \<Rightarrow> json \<Rightarrow> spgwConfigStore option" where
  "parse_json_doc aton doc = do {
     rules \<leftarrow> opt_member doc ''subscriber-selection-rules''
                (\<lambda>v. do { xs \<leftarrow> elements v; rs \<leftarrow> collect parse_sub_rule xs; Some (list_sort compare_sub_rules rs) }) [];
     apns \<leftarrow> opt_member doc ''apn-profiles''
                (\<lambda>v. do { ms \<leftarrow> members v; collect (parse_apn_profile aton) (filter (\<lambda>(k, x). IsObject x) ms) }) [];
     ups \<leftarrow> opt_member doc ''user-plane-profiles'' (\<lambda>v. do { ms \<leftarrow> members v; collect parse_user_plane ms }) [];
     qoss \<leftarrow> opt_member doc ''qos-profiles'' (\<lambda>v. do { ms \<leftarrow> members v; collect parse_qos_profile ms }) [];
     accs \<leftarrow> opt_member doc ''access-profiles'' (\<lambda>v. do { ms \<leftarrow> members v; Some (map fst ms) }) [];
     Some \<lparr>sub_sel_rules = rules, apn_profile_list = apns, user_plane_list = ups, access_profile_list = accs,
       qos_profile_list = qoss\<rparr>
   }"

text \<open>What is handed to the configuration callback when a new configuration replaces an old one: the
  services of the user planes that the new one lacks.\<close>

definition clearOldUpfProfiles :: "spgwConfigStore \<Rightarrow> spgwConfigStore \<Rightarrow> string list" where
  "clearOldUpfProfiles oldCfg newCfg =
     map user_plane_service
       (filter (\<lambda>upOld. \<not> (\<exists>upNew \<in> set (user_plane_list newCfg).
          user_plane_profile_name upOld = user_plane_profile_name upNew)) (user_plane_list oldCfg))"

section \<open>Choosing a rule and a profile\<close>

text \<open>The body of the loop of \<open>match_sub_selection_cpp\<close>: does a rule match?  The two arguments of the
  \<open>memcmp\<close> on the network are the same pointer.\<close>

definition rule_matches :: "sub_selection_keys \<Rightarrow> sub_selection_rule \<Rightarrow> bool" where
  "rule_matches key rule = (case keys rule of None \<Rightarrow> True | Some key_l \<Rightarrow>
     \<not> (imsi_is_valid (key_imsi key_l) \<and>
        (\<not> imsi_is_valid (key_imsi key) \<or>
         \<not> (from_imsi (key_imsi key) \<ge> from_imsi (key_imsi key_l) \<and>
            from_imsi (key_imsi key) \<le> to_imsi (key_imsi key_l)))) \<and>
     \<not> (plmn_is_valid (key_plmn key_l) \<and>
        (\<not> plmn_is_valid (key_plmn key) \<or>
         plmn (key_plmn key_l) \<noteq> plmn (key_plmn key_l) \<or>
         tac (key_plmn key_l) \<noteq> tac (key_plmn key))) \<and>
     \<not> (apn_is_valid (key_apn key_l) \<and>
        (\<not> apn_is_valid (key_apn key) \<or>
         c_string (requested_apn (key_apn key)) \<noteq> c_string (requested_apn (key_apn key_l)))))"

text \<open>The result is None when the code would dereference a null pointer: a rule that names no profile
  or one that does not exist.\<close>

definition sub_config_of :: "spgwConfigStore \<Rightarrow> sub_selection_rule \<Rightarrow> sub_config_t option" where
  "sub_config_of cfg rule = do {
     an \<leftarrow> selected_apn_profile rule;
     a \<leftarrow> get_apn_profile an cfg;
     un \<leftarrow> selected_user_plane_profile rule;
     u \<leftarrow> get_user_plane_profile un cfg;
     qn \<leftarrow> selected_qos_profile rule;
     q \<leftarrow> get_qos_profile qn cfg;
     Some \<lparr>sub_dns_primary = apn_dns_primary a, sub_dns_secondary = apn_dns_secondary a, sub_mtu = apn_mtu a,
       sub_global_address = user_plane_global_address u, sub_user_plane_service = user_plane_service u,
       sub_apn_ambr_ul = apn_ambr_ul q, sub_apn_ambr_dl = apn_ambr_dl q, sub_qci = qos_qci q, sub_arp = qos_arp q\<rparr>
   }"

definition match_sub_selection :: "spgwConfigStore option \<Rightarrow> sub_selection_keys \<Rightarrow> sub_config_t option option" where
  "match_sub_selection config key = (case config of None \<Rightarrow> Some None | Some cfg \<Rightarrow>
     (case find (rule_matches key) (sub_sel_rules cfg) of None \<Rightarrow> Some None
      | Some rule \<Rightarrow> do { c \<leftarrow> sub_config_of cfg rule; Some (Some c) }))"

text \<open>\<open>match_apn_profile\<close>: the name of the request is the \<open>len\<close> bytes at \<open>name\<close>.\<close>

definition match_apn_profile :: "spgwConfigStore option \<Rightarrow> string \<Rightarrow> nat \<Rightarrow> apn_profile option option" where
  "match_apn_profile config name len = (case config of None \<Rightarrow> None | Some cfg \<Rightarrow>
     Some (find (\<lambda>a. length (c_string (apn_name a)) = len \<and> take len (apn_name a) = take len name)
       (apn_profile_list cfg)))"

definition get_user_plane_services :: "nat \<Rightarrow> spgwConfigStore \<Rightarrow> (string \<times> bool) list" where
  "get_user_plane_services limit cfg =
     map (\<lambda>u. (user_plane_service u, user_plane_global_address u)) (take limit (user_plane_list cfg))"

section \<open>Access point names\<close>

text \<open>The reference: the labels of a dotted name, each with its length in front.\<close>

fun labels :: "string \<Rightarrow> string list" where
  "labels [] = [[]]"
| "labels (c # cs) = (if c = CHR ''.'' then [] # labels cs else (c # hd (labels cs)) # tl (labels cs))"

definition label_bytes :: "string \<Rightarrow> string" where
  "label_bytes l = char_of (length l) # l"

fun unlabels :: "string list \<Rightarrow> string" where
  "unlabels [] = []"
| "unlabels [l] = l"
| "unlabels (l # ls) = l @ CHR ''.'' # unlabels ls"

lemma labels_not_Nil [simp]: "labels s \<noteq> []"
  by (cases s) auto

lemma unlabels_labels [simp]: "unlabels (labels s) = s"
proof (induction s)
  case (Cons c cs)
  then show ?case by (cases "labels cs"; cases "tl (labels cs)") (auto simp: neq_Nil_conv)
qed simp

lemma char_of_zero [simp]: "char_of (0 :: nat) = CHR 0x00"
  by (simp add: char_of_def)

lemma char_inc_of: "char_inc (char_of n) = char_of (Suc n)"
proof -
  have "char_inc (char_of n) = char_of ((n mod 256 + 1) mod 256)"
    by (simp only: char_inc_def of_char_of char_of_mod_256)
  also have "\<dots> = char_of (Suc n)" by (simp only: mod_add_left_eq char_of_mod_256 Suc_eq_plus1)
  finally show ?thesis .
qed

lemma apn_label_loop_inv:
  "apn_label_loop (length pre)
     (char_of (length (hd (labels suf))) # pre @ hd (labels suf) @ concat (map label_bytes (tl (labels suf)))) =
   concat (map label_bytes (labels (pre @ suf)))"
proof (induction pre arbitrary: suf rule: rev_induct)
  case Nil
  then show ?case by (cases "labels suf") (simp_all add: label_bytes_def)
next
  case (snoc c pre)
  let ?ls = "labels suf"
  have split: "concat (map label_bytes ?ls) = char_of (length (hd ?ls)) # hd ?ls @ concat (map label_bytes (tl ?ls))"
    by (cases ?ls) (simp_all add: label_bytes_def)
  show ?case
  proof (cases "c = CHR ''.''")
    case True
    with snoc[of "c # suf"] show ?thesis by (simp add: nth_append list_update_append split)
  next
    case False
    with snoc[of "c # suf"] show ?thesis by (simp add: nth_append list_update_append char_inc_of)
  qed
qed

lemma labels_length: "l \<in> set (labels s) \<Longrightarrow> length l \<le> length s"
proof (induction s arbitrary: l)
  case (Cons c cs)
  have "length (hd (labels cs)) \<le> length cs" by (rule Cons.IH) simp
  moreover have "x \<in> set (tl (labels cs)) \<Longrightarrow> length x \<le> length cs" for x
    using Cons.IH list.set_sel(2)[OF labels_not_Nil] by blast
  ultimately show ?case using Cons by (auto split: if_splits simp: le_SucI)
qed simp

lemma char_of_inj: "n < 256 \<Longrightarrow> m < 256 \<Longrightarrow> char_of (n :: nat) = char_of m \<Longrightarrow> n = m"
  by (metis mod_less of_char_of)

lemma concat_labels_inj:
  "\<forall>l \<in> set ls. length l < 256 \<Longrightarrow> \<forall>m \<in> set ms. length m < 256 \<Longrightarrow>
   concat (map label_bytes ls) = concat (map label_bytes ms) \<Longrightarrow> ls = ms"
proof (induction ls arbitrary: ms)
  case Nil
  then show ?case by (cases ms) (simp_all add: label_bytes_def)
next
  case (Cons l ls)
  then obtain m ms' where ms: "ms = m # ms'" by (cases ms) (auto simp: label_bytes_def)
  with Cons.prems have "length l = length m" by (auto simp: label_bytes_def intro: char_of_inj)
  moreover from Cons.prems(3) ms have "l @ concat (map label_bytes ls) = m @ concat (map label_bytes ms')"
    by (simp add: label_bytes_def[of l] label_bytes_def[of m])
  ultimately have eq: "l = m \<and> concat (map label_bytes ls) = concat (map label_bytes ms')"
    by (metis append_eq_append_conv)
  have "\<forall>x \<in> set ls. length x < 256" "\<forall>x \<in> set ms'. length x < 256" using Cons.prems(1,2) ms by simp_all
  then have "ls = ms'" using eq by (intro Cons.IH) blast+
  with eq ms show ?case by simp
qed

text \<open>Names that a C string can hold after the encoding: no zero octet and no empty label.\<close>

definition plain_name :: "string \<Rightarrow> bool" where
  "plain_name n \<longleftrightarrow> CHR 0x00 \<notin> set n \<and> [] \<notin> set (labels n) \<and> length n + 2 \<le> APN_BUF_LEN"

lemma set_labels: "c \<in> set l \<Longrightarrow> l \<in> set (labels n) \<Longrightarrow> c \<in> set n"
proof (induction n arbitrary: l)
  case (Cons d ds)
  have "c \<in> set ds" if "c \<in> set (hd (labels ds))" by (rule Cons.IH[OF that]) simp
  moreover have "c \<in> set ds" if "c \<in> set x" "x \<in> set (tl (labels ds))" for x
    using Cons.IH[OF that(1)] that(2) list.set_sel(2)[OF labels_not_Nil] by blast
  ultimately show ?case using Cons.prems Cons.IH[OF Cons.prems(1)] by (auto split: if_splits)
qed simp

lemma encode_apn_eq: "encode_apn name = concat (map label_bytes (labels name))"
  using apn_label_loop_inv[of name "[]"] by (simp add: encode_apn_def)

lemma encode_apn_inj:
  assumes "length name < 256" "length name' < 256"
  shows "encode_apn name = encode_apn name' \<longleftrightarrow> name = name'"
proof
  assume eq: "encode_apn name = encode_apn name'"
  have "labels name = labels name'"
  proof (rule concat_labels_inj)
    show "\<forall>l \<in> set (labels name). length l < 256" "\<forall>l \<in> set (labels name'). length l < 256"
      using assms labels_length by fastforce+
  qed (use eq in \<open>simp add: encode_apn_eq\<close>)
  then show "name = name'" by (metis unlabels_labels)
qed simp

lemma c_string_plain: "plain_name n \<Longrightarrow> c_string (encode_apn n) = encode_apn n"
proof -
  assume n: "plain_name n"
  have "CHR 0x00 \<notin> set (label_bytes l)" if "l \<in> set (labels n)" for l
  proof -
    have "length l < 256" "length l \<noteq> 0"
      using n labels_length[OF that] that by (auto simp: plain_name_def APN_BUF_LEN_def)
    then have "char_of (length l) \<noteq> CHR 0x00" using char_of_inj[of "length l" 0] by auto
    then show ?thesis using set_labels[OF _ that] n by (auto simp: label_bytes_def plain_name_def)
  qed
  then show ?thesis by (auto simp: c_string_def encode_apn_eq takeWhile_eq_all_conv)
qed

section \<open>The order of rules\<close>

lemma insert_rule_insort: "insert_rule compare_sub_rules x ys = insort_key rule_priority x ys"
  by (induction ys) (auto simp: compare_sub_rules_def not_less)

lemma list_sort_sort_key: "list_sort compare_sub_rules xs = sort_key rule_priority xs"
  by (induction xs) (simp_all add: insert_rule_insort sort_key_def)

lemma find_sorted_least:
  "sorted (map f xs) \<Longrightarrow> find P xs = Some r \<Longrightarrow> x \<in> set xs \<Longrightarrow> P x \<Longrightarrow> f r \<le> f x"
  by (induction xs) (auto split: if_splits)

lemma opt_member_sorted:
  "opt_member doc k (\<lambda>v. do { xs \<leftarrow> elements v; rs \<leftarrow> collect parse_sub_rule xs;
      Some (list_sort compare_sub_rules rs) }) [] = Some rules \<Longrightarrow> sorted (map rule_priority rules)"
  by (auto simp: opt_member_def list_sort_sort_key bind_eq_Some_conv split: if_splits)

lemma parse_json_doc_sorted: "parse_json_doc aton doc = Some cfg \<Longrightarrow> sorted (map rule_priority (sub_sel_rules cfg))"
  unfolding parse_json_doc_def bind_eq_Some_conv by (auto dest: opt_member_sorted)

section \<open>Properties\<close>

text \<open>C21: the loop that rewrites a configured access point name in place produces the labels of
  the name with their lengths in front, and different names of the permitted length have different
  encodings.\<close>

theorem encode_apn_labels:
  "encode_apn name = concat (map label_bytes (labels name)) \<and>
   (length name < 256 \<and> length name' < 256 \<longrightarrow> (encode_apn name = encode_apn name' \<longleftrightarrow> name = name'))"
  by (simp add: encode_apn_eq[symmetric] encode_apn_inj)

theorem encode_apn_labels_witness:
  "encode_apn ''internet.mnc01'' = [CHR 0x08] @ ''internet'' @ [CHR 0x05] @ ''mnc01'' \<and>
   encode_apn ''internet.mnc01'' \<noteq> encode_apn ''internet''"
proof -
  have "encode_apn ''internet.mnc01'' = [CHR 0x08] @ ''internet'' @ [CHR 0x05] @ ''mnc01''"
  proof -
    have "char_of (length ''internet'') = CHR 0x08" "char_of (length ''mnc01'') = CHR 0x05"
      "labels ''internet.mnc01'' = [''internet'', ''mnc01'']" by code_simp+
    then show ?thesis
      using encode_apn_labels[of "''internet.mnc01''" "[]"] by (simp only: label_bytes_def list.map concat.simps append.simps)
  qed
  moreover have "encode_apn ''internet.mnc01'' \<noteq> encode_apn ''internet''"
    using conjunct2[OF encode_apn_labels[of "''internet.mnc01''" "''internet''"]] by simp
  ultimately show ?thesis by blast
qed

text \<open>C23: a request for an access point name gets the first profile that was configured with
  this very name.\<close>

theorem apn_profile_match:
  assumes "map apn_name (apn_profile_list cfg) = map encode_apn names" "list_all plain_name names" "plain_name req"
  shows "map_option (map_option apn_profile_name)
      (match_apn_profile (Some cfg) (encode_apn req) (length (encode_apn req))) =
    Some (map_option fst (find (\<lambda>(p, n). n = req) (zip (map apn_profile_name (apn_profile_list cfg)) names)))"
proof -
  have eq: "encode_apn n = encode_apn req \<longleftrightarrow> n = req" if "plain_name n" for n
    using encode_apn_inj[of n req] that assms(3) by (simp add: plain_name_def APN_BUF_LEN_def)
  have "map_option apn_profile_name (find (\<lambda>a. length (c_string (apn_name a)) = length (encode_apn req) \<and>
        take (length (encode_apn req)) (apn_name a) = encode_apn req) as) =
      map_option fst (find (\<lambda>(p, n). n = req) (zip (map apn_profile_name as) ns))"
    if "map apn_name as = map encode_apn ns" "list_all plain_name ns" for as ns
    using that
  proof (induction as arbitrary: ns)
    case (Cons a as)
    then obtain n ns' where ns: "ns = n # ns'" by (cases ns) auto
    with Cons.prems have n: "apn_name a = encode_apn n" "plain_name n" by auto
    have "length (c_string (apn_name a)) = length (encode_apn req) \<and>
        take (length (encode_apn req)) (apn_name a) = encode_apn req \<longleftrightarrow> n = req"
      using eq[OF n(2)] c_string_plain[OF n(2)] n(1) by auto
    with Cons ns show ?case by simp
  qed simp
  from this[OF assms(1,2)] show ?thesis by (simp add: match_apn_profile_def)
qed

definition example_rule :: "int \<Rightarrow> string \<Rightarrow> json" where
  "example_rule priority qos = J_Object [(''priority'', J_Int priority), (''selected-apn-profile'', J_String ''ap''),
     (''selected-user-plane-profile'', J_String ''up''), (''selected-qos-profile'', J_String qos)]"

definition example_qos :: json where
  "example_qos = J_Object [(''apn-ambr'', J_Array [J_Int 10, J_Int 20])]"

definition example_doc :: json where
  "example_doc = J_Object [
     (''subscriber-selection-rules'', J_Array [example_rule 5 ''q1'', example_rule 1 ''q2'']),
     (''apn-profiles'', J_Object [(''ap'', J_Object [(''apn-name'', J_String ''internet'')])]),
     (''user-plane-profiles'', J_Object [(''up'', J_Object [(''user-plane'', J_String ''upf'')])]),
     (''qos-profiles'', J_Object [(''q1'', example_qos), (''q2'', example_qos)])]"

definition example_key :: sub_selection_keys where
  "example_key = \<lparr>key_imsi = \<lparr>imsi_is_valid = True, from_imsi = 7, to_imsi = 7\<rparr>,
     key_plmn = \<lparr>plmn_is_valid = True, plmn = [0, 0, 0], tac = 1\<rparr>,
     key_apn = \<lparr>apn_is_valid = True, requested_apn = []\<rparr>\<rparr>"

definition example_config :: "spgwConfigStore option" where
  "example_config = parse_json_doc (\<lambda>_. 0) example_doc"

theorem apn_profile_match_witness:
  "\<exists>cfg. example_config = Some cfg \<and>
     map_option (map_option apn_profile_name) (match_apn_profile (Some cfg) (encode_apn ''internet'') 9) = Some (Some ''ap'')"
proof -
  obtain cfg where cfg: "example_config = Some cfg" "map apn_name (apn_profile_list cfg) = map encode_apn [''internet'']"
    "map apn_profile_name (apn_profile_list cfg) = [''ap'']"
    by (simp add: example_config_def parse_json_doc_def example_doc_def opt_member_def parse_apn_profile_def APN_BUF_LEN_def
        parse_user_plane_def parse_qos_profile_def example_qos_def parse_sub_rule_def example_rule_def)
  have "plain_name ''internet''" by (simp add: plain_name_def APN_BUF_LEN_def)
  moreover have "length (encode_apn ''internet'') = 9" by code_simp
  ultimately show ?thesis
    using apn_profile_match[OF cfg(2), of "''internet''"] cfg by auto
qed

text \<open>C22: the configuration that a subscriber gets comes from a matching rule, and no matching
  rule has a smaller priority number.\<close>

theorem highest_priority_rule:
  assumes "parse_json_doc aton doc = Some cfg" "match_sub_selection (Some cfg) key = Some (Some c)"
  shows "\<exists>r. r \<in> set (sub_sel_rules cfg) \<and> rule_matches key r \<and> sub_config_of cfg r = Some c \<and>
    filter (\<lambda>r'. rule_matches key r' \<and> rule_priority r' < rule_priority r) (sub_sel_rules cfg) = []"
proof -
  from assms(2) obtain r where r: "find (rule_matches key) (sub_sel_rules cfg) = Some r" "sub_config_of cfg r = Some c"
    by (auto simp: match_sub_selection_def split: option.splits bind_splits)
  moreover from r(1) have "r \<in> set (sub_sel_rules cfg)" "rule_matches key r"
    by (auto simp: find_Some_iff)
  ultimately show ?thesis
    using find_sorted_least[OF parse_json_doc_sorted[OF assms(1)] r(1)]
    by (auto simp: filter_empty_conv not_less)
qed

theorem highest_priority_rule_witness:
  "\<exists>cfg c. example_config = Some cfg \<and> match_sub_selection (Some cfg) example_key = Some (Some c) \<and>
     (\<exists>r. r \<in> set (sub_sel_rules cfg) \<and> rule_matches example_key r \<and> sub_config_of cfg r = Some c)"
proof -
  obtain cfg c where "example_config = Some cfg" "match_sub_selection (Some cfg) example_key = Some (Some c)"
    by (simp add: example_config_def parse_json_doc_def example_doc_def opt_member_def parse_apn_profile_def APN_BUF_LEN_def
        parse_user_plane_def parse_qos_profile_def example_qos_def parse_sub_rule_def example_rule_def
        compare_sub_rules_def match_sub_selection_def rule_matches_def sub_config_of_def get_apn_profile_def
        get_user_plane_profile_def get_qos_profile_def)
  with highest_priority_rule[of "\<lambda>_. 0" example_doc cfg example_key c] show ?thesis
    by (auto simp: example_config_def)
qed


end
