(* ===== verification/Cp_State.thy ===== *)
theory Cp_State
  imports Tables Ip_Pool Uli Spgw_Config "HOL-Library.Monad_Syntax"
begin

text \<open>
  The state of the control plane: the structures of \<open>cp/ue.h\<close>, \<open>cp/pdn.h\<close>, \<open>cp/bearer.h\<close>,
  \<open>cp/procedures/proc_struct.h\<close> and \<open>cp/procedures/trans_struct.h\<close> with the members that the modelled
  functions use, one heap per structure type, the tables, the address pools and the counters of
  \<open>cp/ue.c\<close>.

  A function of the control plane is a function from states to an optional result: None stands for
  undefined behaviour or an abort (a null or freed pointer is dereferenced, memory is freed twice, an
  index is outside its array, an assertion fails).  Members of different structures that share a name
  carry the structure's name in front; the member \<open>context\<close> of a connection is \<open>ue_ctxt\<close>.
\<close>

section \<open>Constants and identifiers\<close>

definition MAX_BEARERS :: nat where
  "MAX_BEARERS = 15"

definition MAX_APN_LEN :: nat where
  "MAX_APN_LEN = 64"

definition MAX_FILTERS_PER_UE :: nat where
  "MAX_FILTERS_PER_UE = 16"

text \<open>The session identifiers of PFCP (\<open>cp/vepc_cp_dp_api.h\<close>): the TEID of the UE and a bearer
  identity.\<close>

definition SESS_ID :: "u32 \<Rightarrow> u8 \<Rightarrow> u64" where
  "SESS_ID ue_id br_id = (push_bit 4 (ucast ue_id) OR ucast (0xf AND br_id))"

definition UE_SESS_ID :: "u64 \<Rightarrow> u32" where
  "UE_SESS_ID x = ucast (drop_bit 4 (x AND 0xffffffff))"

definition UE_BEAR_ID :: "u64 \<Rightarrow> u64" where
  "UE_BEAR_ID x = x AND 0xf"

section \<open>Structures\<close>

datatype cp_type = SGWC | PGWC | SAEGWC

text \<open>Procedures, their states and results, and the states of subscribers and connections.\<close>

datatype sm_proc = NONE_PROC | INITIAL_PDN_ATTACH_PROC | SERVICE_REQUEST_PROC | SGW_RELOCATION_PROC
  | CONN_SUSPEND_PROC | DETACH_PROC | RAR_PROC | DED_BER_ACTIVATION_PROC
  | PDN_GW_INIT_BEARER_DEACTIVATION | MME_INI_DEDICATED_BEARER_DEACTIVATION_PROC | UPDATE_BEARER_PROC
  | RESTORATION_RECOVERY_PROC | PAGING_PROC | USAGE_REPORT_PROC | S1_RELEASE_PROC
  | PFCP_ASSOC_SETUP_PROC | SGW_RELOCATION_DETACH_PROC | NW_INIT_DETACH_PROC | END_PROC

datatype proc_result = PROC_RESULT_SUCCESS | PROC_RESULT_FAILURE

definition UE_STATE_ACTIVE :: u8 where
  "UE_STATE_ACTIVE = 2"

definition UE_STATE_IDLE_PENDING :: u8 where
  "UE_STATE_IDLE_PENDING = 3"

definition UE_STATE_IDLE :: u8 where
  "UE_STATE_IDLE = 4"

definition UE_STATE_DETACH_PENDING :: u8 where
  "UE_STATE_DETACH_PENDING = 5"

definition UE_STATE_PAGING_PENDING :: u8 where
  "UE_STATE_PAGING_PENDING = 6"

definition UE_STATE_DETACH :: u8 where
  "UE_STATE_DETACH = 7"

definition PDN_STATE_ACTIVE :: u8 where
  "PDN_STATE_ACTIVE = 2"

definition PDN_STATE_PAGING_PENDING :: u8 where
  "PDN_STATE_PAGING_PENDING = 3"

definition PDN_STATE_DETACH_PENDING :: u8 where
  "PDN_STATE_DETACH_PENDING = 4"

definition PDN_STATE_IDLE_PENDING :: u8 where
  "PDN_STATE_IDLE_PENDING = 5"

definition PDN_STATE_IDLE :: u8 where
  "PDN_STATE_IDLE = 6"

definition PDN_STATE_DETACH :: u8 where
  "PDN_STATE_DETACH = 7"

datatype sm_event = NONE_EVNT | CS_REQ_RCVD_EVNT | PFCP_ASSOC_SETUP_SNT_EVNT
  | PFCP_ASSOC_SETUP_RESP_RCVD_EVNT | PFCP_SESS_EST_REQ_RCVD_EVNT | PFCP_SESS_EST_RESP_RCVD_EVNT
  | CS_RESP_RCVD_EVNT | MB_REQ_RCVD_EVNT | PFCP_SESS_MOD_REQ_RCVD_EVNT
  | PFCP_SESS_MOD_RESP_RCVD_EVNT | MB_RESP_RCVD_EVNT | REL_ACC_BER_REQ_RCVD_EVNT | DS_REQ_RCVD_EVNT
  | PFCP_SESS_DEL_REQ_RCVD_EVNT | PFCP_SESS_DEL_RESP_RCVD_EVNT | DS_RESP_RCVD_EVNT
  | ECHO_REQ_RCVD_EVNT | ECHO_RESP_RCVD_EVNT | DDN_ACK_RESP_RCVD_EVNT | PFCP_SESS_RPT_REQ_RCVD_EVNT
  | RE_AUTH_REQ_RCVD_EVNT | CREATE_BER_RESP_RCVD_EVNT | CCA_RCVD_EVNT | CREATE_BER_REQ_RCVD_EVNT
  | PFCP_PFD_MGMT_RESP_RCVD_EVNT | ERROR_OCCURED_EVNT | UPDATE_BEARER_REQ_RCVD_EVNT
  | UPDATE_BEARER_RSP_RCVD_EVNT | DELETE_BER_REQ_RCVD_EVNT | DELETE_BER_RESP_RCVD_EVNT
  | DELETE_BER_CMD_RCVD_EVNT | CCAU_RCVD_EVNT | PGW_RSTRT_NOTIF_ACK_RCVD_EVNT
  | UPD_PDN_CONN_SET_REQ_RCVD_EVNT | UPD_PDN_CONN_SET_RESP_RCVD_EVNT
  | DEL_PDN_CONN_SET_REQ_RCVD_EVNT | DEL_PDN_CONN_SET_RESP_RCVD_EVNT
  | PFCP_SESS_SET_DEL_REQ_RCVD_EVNT | PFCP_SESS_SET_DEL_RESP_RCVD_EVNT | SEND_PFCP_DEL_SESSION_REQ
  | SEND_GTP_DEL_BEARER_REQ | PFCP_ASSOCIATION_SETUP | PFCP_ASSOCIATION_SETUP_RSP
  | PFCP_ASSOC_SETUP_SUCCESS | PFCP_ASSOC_SETUP_FAILED | PFCP_SESS_EST_EVNT
  | PFCP_SESS_EST_RESP_TIMEOUT_EVNT | GX_CCAI_FAILED | DDN_TIMEOUT | BEARER_CREATE_EVNT
  | SEND_RE_AUTH_RSP_EVNT | DEFAULT_BEARER_DELETE | NW_DETACH_DBREQ_TIMEOUT
  | RCVD_GTP_DEL_BEARER_RSP | GX_CCRI_TIMEOUT_EVNT | END_EVNT

record sockaddr_in =
  sin_addr :: u32
  sin_port :: u16

text \<open>\<open>gstimerinfo_t\<close>: a timer; \<open>ti_id\<close> is 0 when there is none.  Callbacks are the functions that the
  code registers.\<close>

datatype gstimertype = TtSingleShot | TtInterval

datatype gstimercallback = Transaction_Retry | Pfcp_Node_Transaction_Retry | Peer_Timer
  | Upf_Association_Timer

record gstimerinfo =
  ti_id :: nat
  ti_type :: gstimertype
  ti_cb :: gstimercallback
  ti_ms :: int
  ti_data :: ptr

text \<open>What \<open>timer_settime\<close> is told: the first expiry and the period.\<close>

record itimerspec =
  it_value_sec :: int
  it_value_nsec :: int
  it_interval_sec :: int
  it_interval_nsec :: int

record transData =
  trans_flags :: u8
  itr_cnt :: u8
  trans_sequence :: u32
  buf :: "u8 list"
  cb_data :: ptr
  trans_proc :: ptr
  rt :: gstimerinfo
  timeout_function :: nat
  peer_sockaddr :: sockaddr_in

definition calloc_trans :: transData where
  "calloc_trans = \<lparr>trans_flags = 0, itr_cnt = 0, trans_sequence = 0, buf = [], cb_data = NULL,
     trans_proc = NULL, rt = \<lparr>ti_id = 0, ti_type = TtSingleShot, ti_cb = Transaction_Retry, ti_ms = 0,
       ti_data = NULL\<rparr>, timeout_function = 0, peer_sockaddr = \<lparr>sin_addr = 0, sin_port = 0\<rparr>\<rparr>"

text \<open>\<open>proc_context\<close> and the messages that procedures hold on to.  A function pointer of a procedure
  is not kept: calls through it are a parameter of the functions that make them.\<close>

record proc_context =
  proc_type :: sm_proc
  proc_flags :: u32
  proc_result :: proc_result
  ue_context :: ptr
  pdn_context :: ptr
  proc_upf_context :: ptr
  pfcp_trans :: ptr
  gtpc_trans :: ptr
  gx_trans :: ptr
  msg_info :: ptr
  parent_proc :: ptr
  proc_tac :: u16
  proc_imsi64 :: u64
  sub_config :: ptr
  req_pco :: ptr

definition calloc_proc :: proc_context where
  "calloc_proc = \<lparr>proc_type = NONE_PROC, proc_flags = 0, proc_result = PROC_RESULT_SUCCESS, ue_context = NULL,
     pdn_context = NULL, proc_upf_context = NULL, pfcp_trans = NULL, gtpc_trans = NULL, gx_trans = NULL,
     msg_info = NULL, parent_proc = NULL, proc_tac = 0, proc_imsi64 = 0, sub_config = NULL, req_pco = NULL\<rparr>"

record msg_info_t =
  msg_event :: sm_event
  msg_ue_context :: ptr
  msg_pdn_context :: ptr
  msg_proc_context :: ptr
  refCnt :: u32
  raw_buf :: ptr

definition calloc_msg :: msg_info_t where
  "calloc_msg = \<lparr>msg_event = NONE_EVNT, msg_ue_context = NULL, msg_pdn_context = NULL, msg_proc_context = NULL,
     refCnt = 0, raw_buf = NULL\<rparr>"

record ar_priority_ie =
  preemption_vulnerability :: "1 word"
  priority_level :: "4 word"
  preemption_capability :: "1 word"

record bearer_qos_ie =
  qci :: u8
  ul_mbr :: u64
  dl_mbr :: u64
  ul_gbr :: u64
  dl_gbr :: u64
  arp :: ar_priority_ie

definition zero_qos :: bearer_qos_ie where
  "zero_qos = \<lparr>qci = 0, ul_mbr = 0, dl_mbr = 0, ul_gbr = 0, dl_gbr = 0,
     arp = \<lparr>preemption_vulnerability = 0, priority_level = 0, preemption_capability = 0\<rparr>\<rparr>"

text \<open>A bearer.  Of the dynamic rules it points to only the names are used.\<close>

record eps_bearer =
  eps_bearer_id :: u8
  pdr_count :: u8
  pdrs :: "ptr list"
  qer_count :: u8
  qer_id :: "u32 list"
  qos :: bearer_qos_ie
  s1u_sgw_gtpu_teid :: u32
  s5s8_sgw_gtpu_ipv4 :: u32
  s5s8_sgw_gtpu_teid :: u32
  s5s8_pgw_gtpu_ipv4 :: u32
  s5s8_pgw_gtpu_teid :: u32
  s1u_enb_gtpu_ipv4 :: u32
  s1u_enb_gtpu_teid :: u32
  bearer_pdn :: ptr
  packet_filter_map :: "int list"
  dynamic_rules :: "string option list"

definition calloc_bearer :: eps_bearer where
  "calloc_bearer = \<lparr>eps_bearer_id = 0, pdr_count = 0, pdrs = replicate 16 NULL, qer_count = 0,
     qer_id = replicate 16 0, qos = zero_qos, s1u_sgw_gtpu_teid = 0, s5s8_sgw_gtpu_ipv4 = 0,
     s5s8_sgw_gtpu_teid = 0, s5s8_pgw_gtpu_ipv4 = 0, s5s8_pgw_gtpu_teid = 0, s1u_enb_gtpu_ipv4 = 0,
     s1u_enb_gtpu_teid = 0, bearer_pdn = NULL, packet_filter_map = replicate MAX_FILTERS_PER_UE 0,
     dynamic_rules = replicate 16 None\<rparr>"

text \<open>A PDN connection.  Its pending rules are the blocks of a \<open>pcc_rule_t\<close> and of the rule it points to.\<close>

record pdn_connection =
  pdn_state :: u8
  call_id :: u32
  apn :: string
  apn_len :: u8
  apn_ambr_uplink :: u32
  apn_ambr_downlink :: u32
  apn_restriction :: u32
  upf_ipv4 :: u32
  seid :: u64
  dp_seid :: u64
  ipv4 :: u32
  s5s8_sgw_gtpc_teid :: u32
  s5s8_sgw_gtpc_ipv4 :: u32
  s5s8_pgw_gtpc_teid :: u32
  s5s8_pgw_gtpc_ipv4 :: u32
  ue_time_zone_flag :: bool
  ue_tz_tz :: u8
  ue_tz_dst :: u8
  pdn_rat_type :: u8
  pdn_type_ipv4 :: "1 word"
  pdn_type_ipv6 :: "1 word"
  charging_characteristics :: u16
  default_bearer_id :: u8
  num_bearer :: u8
  ue_ctxt :: ptr
  pdn_fqdn :: "u8 list"
  pdn_eps_bearers :: "ptr list"
  gx_sess_id :: string
  default_bearer_qos_valid :: bool
  default_bearer_qos :: bearer_qos_ie
  pending_pcc_rules :: "(ptr \<times> ptr) list"
  pdn_flags :: u32

definition calloc_pdn :: pdn_connection where
  "calloc_pdn = \<lparr>pdn_state = 0, call_id = 0, apn = [], apn_len = 0, apn_ambr_uplink = 0, apn_ambr_downlink = 0,
     apn_restriction = 0, upf_ipv4 = 0, seid = 0, dp_seid = 0, ipv4 = 0, s5s8_sgw_gtpc_teid = 0,
     s5s8_sgw_gtpc_ipv4 = 0, s5s8_pgw_gtpc_teid = 0, s5s8_pgw_gtpc_ipv4 = 0, ue_time_zone_flag = False,
     ue_tz_tz = 0, ue_tz_dst = 0, pdn_rat_type = 0, pdn_type_ipv4 = 0, pdn_type_ipv6 = 0,
     charging_characteristics = 0, default_bearer_id = 0, num_bearer = 0, ue_ctxt = NULL, pdn_fqdn = [],
     pdn_eps_bearers = replicate MAX_BEARERS NULL, gx_sess_id = [], default_bearer_qos_valid = False,
     default_bearer_qos = zero_qos, pending_pcc_rules = [], pdn_flags = 0\<rparr>"

record serving_nwrk_t =
  mcc_digit_2 :: u8
  mcc_digit_1 :: u8
  mnc_digit_3 :: u8
  mcc_digit_3 :: u8
  mnc_digit_2 :: u8
  mnc_digit_1 :: u8

record ue_context =
  ue_state :: u8
  imsi :: u64
  imsi64 :: u64
  imsi_len :: u8
  mei :: u64
  msisdn :: u64
  ue_uli :: user_loc_info_t
  serving_nw :: serving_nwrk_t
  rat_type :: u8
  rat_type_len :: u16
  indication_oi :: "1 word"
  mapped_ue_usage_type :: u16
  s11_sgw_gtpc_teid :: u32
  s11_sgw_gtpc_ipv4 :: u32
  s11_mme_gtpc_teid :: u32
  s11_mme_gtpc_ipv4 :: u32
  bearer_bitmap :: u16
  teid_bitmap :: u16
  num_pdns :: u8
  pdns :: "ptr list"
  eps_bearers :: "ptr list"
  ue_upf_context :: ptr
  pending_sub_procs :: "ptr list"

definition calloc_ue :: ue_context where
  "calloc_ue = \<lparr>ue_state = 0, imsi = 0, imsi64 = 0, imsi_len = 0, mei = 0, msisdn = 0, ue_uli = calloc_uli,
     serving_nw = \<lparr>mcc_digit_2 = 0, mcc_digit_1 = 0, mnc_digit_3 = 0, mcc_digit_3 = 0, mnc_digit_2 = 0,
       mnc_digit_1 = 0\<rparr>, rat_type = 0, rat_type_len = 0, indication_oi = 0, mapped_ue_usage_type = 0,
     s11_sgw_gtpc_teid = 0, s11_sgw_gtpc_ipv4 = 0, s11_mme_gtpc_teid = 0, s11_mme_gtpc_ipv4 = 0,
     bearer_bitmap = 0, teid_bitmap = 0, num_pdns = 0, pdns = replicate MAX_BEARERS NULL,
     eps_bearers = replicate MAX_BEARERS NULL, ue_upf_context = NULL, pending_sub_procs = []\<rparr>"

record upf_context =
  upf_sockaddr :: sockaddr_in
  fqdn :: string
  up_supp_features :: u16
  add_up_supp_features1 :: u16
  add_up_supp_features2 :: u16
  s1u_ip :: u32
  s5s8_pgwu_ip :: u32
  upf_state :: u8
  upf_proc :: ptr
  upf_pt :: gstimerinfo
  upf_pending_sub_procs :: "(ptr \<times> ptr) list"
  pending_node_procs :: "ptr list"
  global_address :: bool

definition calloc_upf :: upf_context where
  "calloc_upf = \<lparr>upf_sockaddr = \<lparr>sin_addr = 0, sin_port = 0\<rparr>, fqdn = [], up_supp_features = 0,
     add_up_supp_features1 = 0, add_up_supp_features2 = 0, s1u_ip = 0, s5s8_pgwu_ip = 0, upf_state = 0,
     upf_proc = NULL, upf_pt = rt calloc_trans,
     upf_pending_sub_procs = [], pending_node_procs = [], global_address = False\<rparr>"

text \<open>Peers: \<open>peerData_t\<close> with its periodic and its transmit timer, the message of a timer to the main
  thread (\<open>struct peer_data\<close>, whose \<open>ti\<close> points to one of the two timers of a peer), and the variables of
  \<open>cp/cp_peer.c\<close>.  \<open>echoes\<close> logs the echo and heartbeat requests: address, interface and sequence number.\<close>

record peerData =
  portId :: u8
  peer_itr :: u8
  peer_itr_cnt :: u8
  dstIP :: u32
  pt :: gstimerinfo
  tt :: gstimerinfo

definition calloc_peer :: peerData where
  "calloc_peer = \<lparr>portId = 0, peer_itr = 0, peer_itr_cnt = 0, dstIP = 0, pt = rt calloc_trans, tt = rt calloc_trans\<rparr>"

datatype timer_ref = Pt_Of ptr | Tt_Of ptr

record peer_data =
  pd_ti :: timer_ref
  pd_dest_addr :: sockaddr_in

record peer_module =
  peer_heap :: "ptr \<rightharpoonup> peerData"
  peer_data_heap :: "ptr \<rightharpoonup> peer_data"
  conn_cnt :: int
  gtpc_mme_seqnb :: u16
  gtpc_sgwc_seqnb :: u16
  gtpc_pgwc_seqnb :: u16
  pfcp_seqnb :: u16
  echoes :: "(u32 \<times> u8 \<times> u16) list"

text \<open>\<open>stack_event_t\<close>: an event for the main thread, with the function that handles it.\<close>

datatype stack_event_handler = Handle_Timeout_Event | Upf_Pfcp_Setup_Failure | Upf_Pfcp_Setup_Success
  | Handle_Upf_Association_Timeout | Process_Gtp_Msg | Process_Pfcp_Msg | Process_Gx_Msg | Process_Local_Msg

record stack_event =
  ev_event :: u16
  ev_data :: ptr
  ev_cb :: stack_event_handler

section \<open>Global state\<close>

text \<open>\<open>next_ptr\<close> is the address the next allocation returns, unless \<open>alloc_fails\<close> says that this
  allocation fails.  \<open>blocks\<close> are the allocated blocks whose contents no modelled function reads (raw
  messages, protocol options, configurations, rules).  \<open>os_timers\<close> are the timers that exist in the operating
  system, with what \<open>timer_settime\<close> was last told.  \<open>sent\<close> logs what is handed to \<open>sendto\<close>, \<open>dumped\<close> what
  is written to the capture file.  Function pointers are numbers.\<close>

record cp_state =
  cpp :: cpp_tables
  pools :: ip_pools
  ue_heap :: "ptr \<rightharpoonup> ue_context"
  pdn_heap :: "ptr \<rightharpoonup> pdn_connection"
  bearer_heap :: "ptr \<rightharpoonup> eps_bearer"
  proc_heap :: "ptr \<rightharpoonup> proc_context"
  trans_heap :: "ptr \<rightharpoonup> transData"
  msg_heap :: "ptr \<rightharpoonup> msg_info_t"
  pdr_heap :: "ptr \<rightharpoonup> u16"
  upf_heap :: "ptr \<rightharpoonup> upf_context"
  event_heap :: "ptr \<rightharpoonup> stack_event"
  blocks :: "ptr set"
  os_timers :: "nat \<rightharpoonup> itimerspec"
  peer_mod :: peer_module
  next_ptr :: ptr
  alloc_fails :: "ptr \<Rightarrow> bool"
  config_cp_type :: cp_type
  config_s11_ip :: u32
  config_s5s8_ip :: u32
  config_pfcp_port :: u16
  transmit_cnt :: u8
  transmit_timer :: int
  periodic_timer :: int
  pfcp_hb_ts_fail :: bool
  sub_classifier_config :: "spgwConfigStore option"
  static_upf_pt :: gstimerinfo
  pfcp_seq_no_offset :: u32
  request_timeout :: int
  s11_sockaddr :: sockaddr_in
  pfcp_sockaddr :: sockaddr_in
  s11_sgw_gtpc_teid_offset :: u32
  s5s8_pgw_gtpc_teid_offset :: u32
  sgw_gtpc_base_teid :: u32
  sgw_gtpc_teid_offset :: u32
  pgw_gtpc_base_teid :: u32
  pgw_gtpc_teid_offset :: u32
  teid_range :: u8
  sgw_gtpu_base_teid :: u32
  pgw_gtpu_base_teid :: u32
  pcap_dumper :: bool
  dumped :: "u8 list list"
  sent :: "(sockaddr_in \<times> u8 list) list"

text \<open>Assignments through a pointer.\<close>

definition upd_ue :: "ptr \<Rightarrow> (ue_context \<Rightarrow> ue_context) \<Rightarrow> cp_state \<Rightarrow> cp_state option" where
  "upd_ue p f s = (case ue_heap s p of None \<Rightarrow> None | Some x \<Rightarrow> Some (s\<lparr>ue_heap := (ue_heap s)(p \<mapsto> f x)\<rparr>))"

definition upd_pdn :: "ptr \<Rightarrow> (pdn_connection \<Rightarrow> pdn_connection) \<Rightarrow> cp_state \<Rightarrow> cp_state option" where
  "upd_pdn p f s = (case pdn_heap s p of None \<Rightarrow> None | Some x \<Rightarrow> Some (s\<lparr>pdn_heap := (pdn_heap s)(p \<mapsto> f x)\<rparr>))"

definition upd_bearer :: "ptr \<Rightarrow> (eps_bearer \<Rightarrow> eps_bearer) \<Rightarrow> cp_state \<Rightarrow> cp_state option" where
  "upd_bearer p f s =
     (case bearer_heap s p of None \<Rightarrow> None | Some x \<Rightarrow> Some (s\<lparr>bearer_heap := (bearer_heap s)(p \<mapsto> f x)\<rparr>))"

definition upd_proc :: "ptr \<Rightarrow> (proc_context \<Rightarrow> proc_context) \<Rightarrow> cp_state \<Rightarrow> cp_state option" where
  "upd_proc p f s =
     (case proc_heap s p of None \<Rightarrow> None | Some x \<Rightarrow> Some (s\<lparr>proc_heap := (proc_heap s)(p \<mapsto> f x)\<rparr>))"

definition upd_msg :: "ptr \<Rightarrow> (msg_info_t \<Rightarrow> msg_info_t) \<Rightarrow> cp_state \<Rightarrow> cp_state option" where
  "upd_msg p f s =
     (case msg_heap s p of None \<Rightarrow> None | Some x \<Rightarrow> Some (s\<lparr>msg_heap := (msg_heap s)(p \<mapsto> f x)\<rparr>))"

definition upd_upf :: "ptr \<Rightarrow> (upf_context \<Rightarrow> upf_context) \<Rightarrow> cp_state \<Rightarrow> cp_state option" where
  "upd_upf p f s =
     (case upf_heap s p of None \<Rightarrow> None | Some x \<Rightarrow> Some (s\<lparr>upf_heap := (upf_heap s)(p \<mapsto> f x)\<rparr>))"

definition upd_trans :: "ptr \<Rightarrow> (transData \<Rightarrow> transData) \<Rightarrow> cp_state \<Rightarrow> cp_state option" where
  "upd_trans p f s =
     (case trans_heap s p of None \<Rightarrow> None | Some x \<Rightarrow> Some (s\<lparr>trans_heap := (trans_heap s)(p \<mapsto> f x)\<rparr>))"

text \<open>\<open>assert\<close>, and \<open>free\<close> of each kind of structure; \<open>free(NULL)\<close> does nothing.\<close>

definition assert_c :: "bool \<Rightarrow> unit option" where
  "assert_c b = (if b then Some () else None)"

definition free_ue :: "ptr \<Rightarrow> cp_state \<Rightarrow> cp_state option" where
  "free_ue p s = (if p = NULL then Some s else
     case ue_heap s p of None \<Rightarrow> None | Some _ \<Rightarrow> Some (s\<lparr>ue_heap := (ue_heap s)(p := None)\<rparr>))"

definition free_pdn :: "ptr \<Rightarrow> cp_state \<Rightarrow> cp_state option" where
  "free_pdn p s = (if p = NULL then Some s else
     case pdn_heap s p of None \<Rightarrow> None | Some _ \<Rightarrow> Some (s\<lparr>pdn_heap := (pdn_heap s)(p := None)\<rparr>))"

definition free_bearer :: "ptr \<Rightarrow> cp_state \<Rightarrow> cp_state option" where
  "free_bearer p s = (if p = NULL then Some s else
     case bearer_heap s p of None \<Rightarrow> None | Some _ \<Rightarrow> Some (s\<lparr>bearer_heap := (bearer_heap s)(p := None)\<rparr>))"

definition free_proc :: "ptr \<Rightarrow> cp_state \<Rightarrow> cp_state option" where
  "free_proc p s = (if p = NULL then Some s else
     case proc_heap s p of None \<Rightarrow> None | Some _ \<Rightarrow> Some (s\<lparr>proc_heap := (proc_heap s)(p := None)\<rparr>))"

definition free_msg :: "ptr \<Rightarrow> cp_state \<Rightarrow> cp_state option" where
  "free_msg p s = (if p = NULL then Some s else
     case msg_heap s p of None \<Rightarrow> None | Some _ \<Rightarrow> Some (s\<lparr>msg_heap := (msg_heap s)(p := None)\<rparr>))"

definition free_upf :: "ptr \<Rightarrow> cp_state \<Rightarrow> cp_state option" where
  "free_upf p s = (if p = NULL then Some s else
     case upf_heap s p of None \<Rightarrow> None | Some _ \<Rightarrow> Some (s\<lparr>upf_heap := (upf_heap s)(p := None)\<rparr>))"

definition free_block :: "ptr \<Rightarrow> cp_state \<Rightarrow> cp_state option" where
  "free_block p s = (if p = NULL then Some s else if p \<in> blocks s then Some (s\<lparr>blocks := blocks s - {p}\<rparr>) else None)"

text \<open>\<open>calloc\<close> of each kind of structure that the modelled functions allocate.\<close>

definition calloc_ue_ptr :: "cp_state \<Rightarrow> ptr \<times> cp_state" where
  "calloc_ue_ptr s = (if alloc_fails s (next_ptr s) then (NULL, s\<lparr>next_ptr := next_ptr s + 1\<rparr>)
     else (next_ptr s, s\<lparr>next_ptr := next_ptr s + 1, ue_heap := (ue_heap s)(next_ptr s \<mapsto> calloc_ue)\<rparr>))"

definition calloc_pdn_ptr :: "cp_state \<Rightarrow> ptr \<times> cp_state" where
  "calloc_pdn_ptr s = (if alloc_fails s (next_ptr s) then (NULL, s\<lparr>next_ptr := next_ptr s + 1\<rparr>)
     else (next_ptr s, s\<lparr>next_ptr := next_ptr s + 1, pdn_heap := (pdn_heap s)(next_ptr s \<mapsto> calloc_pdn)\<rparr>))"

definition calloc_bearer_ptr :: "cp_state \<Rightarrow> ptr \<times> cp_state" where
  "calloc_bearer_ptr s = (if alloc_fails s (next_ptr s) then (NULL, s\<lparr>next_ptr := next_ptr s + 1\<rparr>)
     else (next_ptr s, s\<lparr>next_ptr := next_ptr s + 1,
       bearer_heap := (bearer_heap s)(next_ptr s \<mapsto> calloc_bearer)\<rparr>))"

definition calloc_trans_ptr :: "cp_state \<Rightarrow> ptr \<times> cp_state" where
  "calloc_trans_ptr s = (if alloc_fails s (next_ptr s) then (NULL, s\<lparr>next_ptr := next_ptr s + 1\<rparr>)
     else (next_ptr s, s\<lparr>next_ptr := next_ptr s + 1,
       trans_heap := (trans_heap s)(next_ptr s \<mapsto> calloc_trans)\<rparr>))"

definition calloc_proc_ptr :: "cp_state \<Rightarrow> ptr \<times> cp_state" where
  "calloc_proc_ptr s = (if alloc_fails s (next_ptr s) then (NULL, s\<lparr>next_ptr := next_ptr s + 1\<rparr>)
     else (next_ptr s, s\<lparr>next_ptr := next_ptr s + 1, proc_heap := (proc_heap s)(next_ptr s \<mapsto> calloc_proc)\<rparr>))"

definition calloc_upf_ptr :: "cp_state \<Rightarrow> ptr \<times> cp_state" where
  "calloc_upf_ptr s = (if alloc_fails s (next_ptr s) then (NULL, s\<lparr>next_ptr := next_ptr s + 1\<rparr>)
     else (next_ptr s, s\<lparr>next_ptr := next_ptr s + 1, upf_heap := (upf_heap s)(next_ptr s \<mapsto> calloc_upf)\<rparr>))"

definition calloc_msg_ptr :: "cp_state \<Rightarrow> ptr \<times> cp_state" where
  "calloc_msg_ptr s = (if alloc_fails s (next_ptr s) then (NULL, s\<lparr>next_ptr := next_ptr s + 1\<rparr>)
     else (next_ptr s, s\<lparr>next_ptr := next_ptr s + 1, msg_heap := (msg_heap s)(next_ptr s \<mapsto> calloc_msg)\<rparr>))"

definition calloc_block :: "cp_state \<Rightarrow> ptr \<times> cp_state" where
  "calloc_block s = (if alloc_fails s (next_ptr s) then (NULL, s\<lparr>next_ptr := next_ptr s + 1\<rparr>)
     else (next_ptr s, s\<lparr>next_ptr := next_ptr s + 1, blocks := insert (next_ptr s) (blocks s)\<rparr>))"

text \<open>An access to an array of \<open>n\<close> pointers.\<close>

definition array_get :: "'a list \<Rightarrow> nat \<Rightarrow> 'a option" where
  "array_get xs i = (if i < length xs then Some (xs ! i) else None)"

lemma array_get_Some [simp]: "i < length xs \<Longrightarrow> array_get xs i = Some (xs ! i)"
  by (simp add: array_get_def)

lemma array_get_eq_Some: "array_get xs i = Some x \<longleftrightarrow> i < length xs \<and> x = xs ! i"
  by (auto simp: array_get_def)

lemmas upd_defs = upd_ue_def upd_pdn_def upd_bearer_def upd_proc_def upd_msg_def upd_upf_def upd_trans_def

lemmas free_defs = free_ue_def free_pdn_def free_bearer_def free_proc_def free_msg_def free_upf_def free_block_def

lemmas calloc_ptr_defs = calloc_ue_ptr_def calloc_pdn_ptr_def calloc_bearer_ptr_def calloc_trans_ptr_def
  calloc_proc_ptr_def calloc_upf_ptr_def calloc_msg_ptr_def calloc_block_def

lemma assert_c_Some [simp]: "assert_c b = Some u \<longleftrightarrow> b"
  by (simp add: assert_c_def)

lemma upd_Some_iff [simp]:
  "upd_ue p f s = Some s' \<longleftrightarrow> (\<exists>x. ue_heap s p = Some x \<and> s' = s\<lparr>ue_heap := (ue_heap s)(p \<mapsto> f x)\<rparr>)"
  "upd_pdn p g s = Some s' \<longleftrightarrow> (\<exists>x. pdn_heap s p = Some x \<and> s' = s\<lparr>pdn_heap := (pdn_heap s)(p \<mapsto> g x)\<rparr>)"
  "upd_bearer p h s = Some s' \<longleftrightarrow>
     (\<exists>x. bearer_heap s p = Some x \<and> s' = s\<lparr>bearer_heap := (bearer_heap s)(p \<mapsto> h x)\<rparr>)"
  "upd_proc p k s = Some s' \<longleftrightarrow> (\<exists>x. proc_heap s p = Some x \<and> s' = s\<lparr>proc_heap := (proc_heap s)(p \<mapsto> k x)\<rparr>)"
  "upd_trans p l s = Some s' \<longleftrightarrow>
     (\<exists>x. trans_heap s p = Some x \<and> s' = s\<lparr>trans_heap := (trans_heap s)(p \<mapsto> l x)\<rparr>)"
  "upd_msg p m s = Some s' \<longleftrightarrow> (\<exists>x. msg_heap s p = Some x \<and> s' = s\<lparr>msg_heap := (msg_heap s)(p \<mapsto> m x)\<rparr>)"
  "upd_upf p u s = Some s' \<longleftrightarrow> (\<exists>x. upf_heap s p = Some x \<and> s' = s\<lparr>upf_heap := (upf_heap s)(p \<mapsto> u x)\<rparr>)"
  by (auto simp: upd_defs split: option.splits)

section \<open>Properties\<close>

text \<open>C16: the TEID and the bearer identity are recovered from a session identifier exactly for
  TEIDs below \<open>2 ^ 28\<close>; for larger TEIDs the top four bits are lost, and the assertion at the head of
  \<open>cleanup_pdn_context\<close> fails.\<close>

theorem sess_id_roundtrip:
  "(UE_SESS_ID (SESS_ID teid ebi) = teid \<longleftrightarrow> unat teid < 2 ^ 28) \<and>
   UE_BEAR_ID (SESS_ID teid ebi) = ucast (ebi AND 0xf)"
proof
  have m: "(0xffffffff :: u64) = mask 32" "(0xf :: u8) = mask 4" "(0xf :: u64) = mask 4"
    by (simp_all add: mask_eq_exp_minus_1)
  have "UE_SESS_ID (SESS_ID teid ebi) = take_bit 28 teid"
    by (rule bit_word_eqI) (auto simp: UE_SESS_ID_def SESS_ID_def m bit_simps)
  moreover have "take_bit 28 teid = teid \<longleftrightarrow> unat teid < 2 ^ 28"
    by (metis unsigned_take_bit_eq take_bit_nat_eq_self_iff unsigned_word_eqI)
  ultimately show "UE_SESS_ID (SESS_ID teid ebi) = teid \<longleftrightarrow> unat teid < 2 ^ 28" by simp
  show "UE_BEAR_ID (SESS_ID teid ebi) = ucast (ebi AND 0xf)"
    by (rule bit_word_eqI) (auto simp: UE_BEAR_ID_def SESS_ID_def m bit_simps)
qed

end
