(* ===== verification/Transactions.thy ===== *)
theory Transactions
  imports Cp_State
begin

text \<open>
  Timers (\<open>cp/cp_timer.c\<close>) and transactions (\<open>cp/cp_transactions.c\<close>): a request that waits for its
  response is kept in a transaction with a timer; the transaction is unlinked from its table and
  its procedure when the procedure ends and its memory is freed later by a task of its own
  (\<open>delayed_task_handler\<close> of \<open>cp/cp_init.c\<close>).

  What the operating system answers is a parameter: \<open>created\<close> is the timer that \<open>timer_create\<close>
  delivers, None when it fails.  A call through a function pointer is a parameter \<open>call\<close>.
\<close>

section \<open>Timers\<close>

definition gst_timer_init ::
  "nat option \<Rightarrow> gstimertype \<Rightarrow> gstimercallback \<Rightarrow> int \<Rightarrow> ptr \<Rightarrow> gstimerinfo \<Rightarrow> cp_state \<Rightarrow> bool \<times> gstimerinfo \<times> cp_state" where
  "gst_timer_init created typ cb milliseconds data ti s =
     (let ti = ti\<lparr>ti_type := typ, ti_cb := cb, ti_ms := milliseconds, ti_data := data\<rparr>
      in case created of None \<Rightarrow> (False, ti, s)
         | Some i \<Rightarrow> (True, ti\<lparr>ti_id := i\<rparr>, s\<lparr>os_timers := (os_timers s)(i \<mapsto> \<lparr>it_value_sec = 0, it_value_nsec = 0,
             it_interval_sec = 0, it_interval_nsec = 0\<rparr>)\<rparr>))"

definition gst_timer_deinit :: "gstimerinfo \<Rightarrow> cp_state \<Rightarrow> cp_state" where
  "gst_timer_deinit ti s = s\<lparr>os_timers := (os_timers s)(ti_id ti := None)\<rparr>"

text \<open>The expiration that \<open>gst_timer_start\<close> computes; C division truncates.\<close>

definition timer_spec :: "gstimerinfo \<Rightarrow> itimerspec" where
  "timer_spec ti =
     (let sec = sgn (ti_ms ti) * (\<bar>ti_ms ti\<bar> div 1000);
          nsec = sgn (ti_ms ti) * (\<bar>ti_ms ti\<bar> mod 1000) * 1000000
      in \<lparr>it_value_sec = sec, it_value_nsec = nsec,
          it_interval_sec = (if ti_type ti = TtInterval then sec else 0),
          it_interval_nsec = (if ti_type ti = TtInterval then nsec else 0)\<rparr>)"

text \<open>\<open>timer_settime\<close> fails for a timer that does not exist.\<close>

definition timer_settime :: "nat \<Rightarrow> itimerspec \<Rightarrow> cp_state \<Rightarrow> bool \<times> cp_state" where
  "timer_settime i ts s = (case os_timers s i of None \<Rightarrow> (False, s)
     | Some _ \<Rightarrow> (True, s\<lparr>os_timers := (os_timers s)(i \<mapsto> ts)\<rparr>))"

definition gst_timer_start :: "gstimerinfo \<Rightarrow> cp_state \<Rightarrow> bool \<times> cp_state" where
  "gst_timer_start ti s = timer_settime (ti_id ti) (timer_spec ti) s"

definition gst_timer_stop :: "gstimerinfo \<Rightarrow> cp_state \<Rightarrow> cp_state" where
  "gst_timer_stop ti s = snd (timer_settime (ti_id ti)
     \<lparr>it_value_sec = 0, it_value_nsec = 0, it_interval_sec = 0, it_interval_nsec = 0\<rparr> s)"

definition init_timer ::
  "nat option \<Rightarrow> int \<Rightarrow> gstimercallback \<Rightarrow> ptr \<Rightarrow> gstimerinfo \<Rightarrow> cp_state \<Rightarrow> bool \<times> gstimerinfo \<times> cp_state" where
  "init_timer created ptms cb data ti s = gst_timer_init created TtInterval cb ptms data ti s"

text \<open>A timer runs when its first expiry is not 0: setting it to 0 disarms it.\<close>

definition armed :: "nat \<Rightarrow> cp_state \<Rightarrow> bool" where
  "armed i s \<longleftrightarrow> (case os_timers s i of None \<Rightarrow> False | Some ts \<Rightarrow> it_value_sec ts \<noteq> 0 \<or> it_value_nsec ts \<noteq> 0)"

section \<open>Transactions\<close>

definition DELAYED_DELETE :: u8 where
  "DELAYED_DELETE = 0x01"

definition SELF_INITIATED :: u8 where
  "SELF_INITIATED = 0x02"

definition IS_TRANS_SELF_INITIATED :: "transData \<Rightarrow> bool" where
  "IS_TRANS_SELF_INITIATED tr \<longleftrightarrow> trans_flags tr AND SELF_INITIATED \<noteq> 0"

definition IS_TRANS_DELAYED_DELETE :: "transData \<Rightarrow> bool" where
  "IS_TRANS_DELAYED_DELETE tr \<longleftrightarrow> trans_flags tr AND DELAYED_DELETE \<noteq> 0"

definition SET_TRANS_SELF_INITIATED :: "transData \<Rightarrow> transData" where
  "SET_TRANS_SELF_INITIATED tr = tr\<lparr>trans_flags := trans_flags tr OR SELF_INITIATED\<rparr>"

definition SET_TRANS_DELAYED_DELETE :: "transData \<Rightarrow> transData" where
  "SET_TRANS_DELAYED_DELETE tr = tr\<lparr>trans_flags := trans_flags tr OR DELAYED_DELETE\<rparr>"

definition MAX_PFCP_MSG_SIZE :: nat where
  "MAX_PFCP_MSG_SIZE = 4096"

text \<open>When the timer cannot be created the transaction stays allocated and is forgotten.\<close>

definition start_transaction_timer ::
  "nat option \<Rightarrow> ptr \<Rightarrow> u8 list \<Rightarrow> nat \<Rightarrow> gstimercallback \<Rightarrow> cp_state \<Rightarrow> (ptr \<times> cp_state) option" where
  "start_transaction_timer created data bytes cb_timeout cb_retry s =
     (case calloc_trans_ptr s of (trans_entry, s) \<Rightarrow>
        if trans_entry = NULL then Some (NULL, s)
        else do {
          assert_c (length bytes \<le> MAX_PFCP_MSG_SIZE);
          s \<leftarrow> upd_trans trans_entry (\<lambda>t. t\<lparr>cb_data := data, buf := bytes, timeout_function := cb_timeout\<rparr>) s;
          t \<leftarrow> trans_heap s trans_entry;
          let (ok, ti, s) = init_timer created (request_timeout s) cb_retry trans_entry (rt t) s;
          s \<leftarrow> upd_trans trans_entry (\<lambda>t. t\<lparr>rt := ti\<rparr>) s;
          Some (if ok then (trans_entry, snd (gst_timer_start ti s)) else (NULL, s))
        })"

definition start_response_wait_timer ::
  "nat option \<Rightarrow> ptr \<Rightarrow> u8 list \<Rightarrow> nat \<Rightarrow> cp_state \<Rightarrow> (ptr \<times> cp_state) option" where
  "start_response_wait_timer created data bytes cb s =
     start_transaction_timer created data bytes cb Transaction_Retry s"

definition start_pfcp_response_wait_timer ::
  "nat option \<Rightarrow> ptr \<Rightarrow> u8 list \<Rightarrow> nat \<Rightarrow> cp_state \<Rightarrow> (ptr \<times> cp_state) option" where
  "start_pfcp_response_wait_timer created data bytes cb s =
     start_transaction_timer created data bytes cb Pfcp_Node_Transaction_Retry s"

definition restart_response_wait_timer :: "nat option \<Rightarrow> ptr \<Rightarrow> cp_state \<Rightarrow> (ptr \<times> cp_state) option" where
  "restart_response_wait_timer created trans_entry s = do {
     t \<leftarrow> trans_heap s trans_entry;
     let (ok, ti, s) = init_timer created (request_timeout s) Transaction_Retry trans_entry (rt t) s;
     s \<leftarrow> upd_trans trans_entry (\<lambda>t. t\<lparr>rt := ti\<rparr>) s;
     Some (if ok then (trans_entry, snd (gst_timer_start ti s)) else (NULL, s))
   }"

definition stop_transaction_timer :: "ptr \<Rightarrow> cp_state \<Rightarrow> cp_state option" where
  "stop_transaction_timer data s = do {
     t \<leftarrow> trans_heap s data;
     if ti_id (rt t) \<noteq> 0
     then upd_trans data (\<lambda>t. t\<lparr>rt := (rt t)\<lparr>ti_id := 0\<rparr>\<rparr>) (gst_timer_deinit (rt t) (gst_timer_stop (rt t) s))
     else Some s
   }"

definition is_transaction_timer_started :: "ptr \<Rightarrow> cp_state \<Rightarrow> bool option" where
  "is_transaction_timer_started data s = do {
     t \<leftarrow> trans_heap s data;
     Some (ti_id (rt t) \<noteq> 0)
   }"

definition pfcp_timer_retry_send :: "ptr \<Rightarrow> sockaddr_in \<Rightarrow> cp_state \<Rightarrow> cp_state option" where
  "pfcp_timer_retry_send t_tx peer s = do {
     t \<leftarrow> trans_heap s t_tx;
     Some (if pcap_dumper s then s\<lparr>dumped := dumped s @ [buf t]\<rparr>
           else s\<lparr>sent := sent s @ [(peer, buf t)]\<rparr>)
   }"

text \<open>The callbacks of the two kinds of timers.  A PFCP node request is sent again three times, then
  its timeout function is called on the transaction; the other requests are not repeated and their
  timeout function is called on \<open>cb_data\<close>.\<close>

definition pfcp_node_transaction_retry_callback ::
  "(nat \<Rightarrow> ptr \<Rightarrow> cp_state \<Rightarrow> cp_state option) \<Rightarrow> ptr \<Rightarrow> cp_state \<Rightarrow> cp_state option" where
  "pfcp_node_transaction_retry_callback call data s = do {
     t \<leftarrow> trans_heap s data;
     if itr_cnt t \<ge> 3 then do {
       s \<leftarrow> stop_transaction_timer data s;
       call (timeout_function t) data s
     } else do {
       upf_ctxt \<leftarrow> upf_heap s (cb_data t);
       s \<leftarrow> pfcp_timer_retry_send data (upf_sockaddr upf_ctxt) s;
       upd_trans data (\<lambda>t. t\<lparr>itr_cnt := itr_cnt t + 1\<rparr>) s
     }
   }"

definition transaction_retry_callback ::
  "(nat \<Rightarrow> ptr \<Rightarrow> cp_state \<Rightarrow> cp_state option) \<Rightarrow> ptr \<Rightarrow> cp_state \<Rightarrow> cp_state option" where
  "transaction_retry_callback call data s = do {
     t \<leftarrow> trans_heap s data;
     if IS_TRANS_DELAYED_DELETE t then Some s
     else do {
       s \<leftarrow> stop_transaction_timer data s;
       call (timeout_function t) (cb_data t) s
     }
   }"

definition delayed_free :: "ptr \<Rightarrow> cp_state \<Rightarrow> cp_state option" where
  "delayed_free tr s = do {
     t \<leftarrow> trans_heap s tr;
     if IS_TRANS_DELAYED_DELETE t then Some s
     else do {
       s \<leftarrow> upd_trans tr SET_TRANS_DELAYED_DELETE s;
       Some (s\<lparr>cpp := (cpp s)\<lparr>delay_task := add_delayed_free_memory_task tr (delay_task (cpp s))\<rparr>\<rparr>)
     }
   }"

definition cleanup_gtpc_trans :: "ptr \<Rightarrow> cp_state \<Rightarrow> cp_state option" where
  "cleanup_gtpc_trans gtpc_tr s = do {
     t \<leftarrow> trans_heap s gtpc_tr;
     let proc = trans_proc t;
     peer \<leftarrow> (if IS_TRANS_SELF_INITIATED t then Some (s11_sockaddr s)
              else do { p \<leftarrow> proc_heap s proc; t' \<leftarrow> trans_heap s (gtpc_trans p); Some (peer_sockaddr t') });
     let (tr, c) = delete_gtp_transaction (sin_addr peer) (sin_port peer) (trans_sequence t) (cpp s);
     assert_c (tr \<noteq> NULL \<longrightarrow> gtpc_tr = tr);
     s \<leftarrow> stop_transaction_timer gtpc_tr (s\<lparr>cpp := c\<rparr>);
     s \<leftarrow> delayed_free gtpc_tr s;
     if proc \<noteq> NULL then upd_proc proc (\<lambda>p. p\<lparr>gtpc_trans := NULL\<rparr>) s else Some s
   }"

definition cleanup_pfcp_trans :: "ptr \<Rightarrow> cp_state \<Rightarrow> cp_state option" where
  "cleanup_pfcp_trans pfcp_tr s = do {
     t \<leftarrow> trans_heap s pfcp_tr;
     let proc = trans_proc t;
     let peer = (if IS_TRANS_SELF_INITIATED t then pfcp_sockaddr s else peer_sockaddr t);
     let (tr, c) = delete_pfcp_transaction (sin_addr peer) (sin_port peer) (trans_sequence t) (cpp s);
     assert_c (tr \<noteq> NULL \<longrightarrow> pfcp_tr = tr);
     s \<leftarrow> stop_transaction_timer pfcp_tr (s\<lparr>cpp := c\<rparr>);
     s \<leftarrow> delayed_free pfcp_tr s;
     if proc \<noteq> NULL then upd_proc proc (\<lambda>p. p\<lparr>pfcp_trans := NULL\<rparr>) s else Some s
   }"

definition cleanup_gx_trans :: "ptr \<Rightarrow> cp_state \<Rightarrow> cp_state option" where
  "cleanup_gx_trans gx_tr s = do {
     t \<leftarrow> trans_heap s gx_tr;
     let proc = trans_proc t;
     let (tr, c) = delete_gx_transaction (trans_sequence t) (cpp s);
     assert_c (tr \<noteq> NULL \<longrightarrow> gx_tr = tr);
     s \<leftarrow> stop_transaction_timer gx_tr (s\<lparr>cpp := c\<rparr>);
     s \<leftarrow> delayed_free gx_tr s;
     if proc \<noteq> NULL then upd_proc proc (\<lambda>p. p\<lparr>gx_trans := NULL\<rparr>) s else Some s
   }"

text \<open>One round of the loop of \<open>delayed_task_handler\<close>: it frees the first waiting transaction and then
  up to a hundred more.  Freeing a block twice has no result.\<close>

definition free_trans :: "ptr \<Rightarrow> cp_state \<Rightarrow> cp_state option" where
  "free_trans p s = (if p = NULL then Some s else
     case trans_heap s p of None \<Rightarrow> None | Some _ \<Rightarrow> Some (s\<lparr>trans_heap := (trans_heap s)(p := None)\<rparr>))"

definition take_delayed :: "cp_state \<Rightarrow> ptr \<times> nat \<times> cp_state" where
  "take_delayed s = (case delete_delayed_free_memory_task (delay_task (cpp s)) of
     (temp, sz, d) \<Rightarrow> (temp, sz, s\<lparr>cpp := (cpp s)\<lparr>delay_task := d\<rparr>\<rparr>))"

fun free_delayed :: "nat \<Rightarrow> cp_state \<Rightarrow> cp_state option" where
  "free_delayed 0 s = Some s"
| "free_delayed (Suc i) s = (case take_delayed s of (temp, sz, s) \<Rightarrow> do {
     s \<leftarrow> (if temp \<noteq> NULL then free_trans temp s else Some s);
     free_delayed i s
   })"

definition delayed_task_round :: "cp_state \<Rightarrow> cp_state option" where
  "delayed_task_round s = (case take_delayed s of (temp, sz, s) \<Rightarrow> do {
     s \<leftarrow> (if temp \<noteq> NULL then free_trans temp s else Some s);
     free_delayed (if temp \<noteq> NULL \<and> sz > 100 then 100 else sz) s
   })"

section \<open>What the operations do\<close>

abbreviation delayed :: "cp_state \<Rightarrow> ptr list" where
  "delayed s \<equiv> delayed_memory_free_m (delay_task (cpp s))"

text \<open>A transaction that has been cleaned up: its timer is stopped and it is marked for deletion.\<close>

definition retired :: "transData \<Rightarrow> transData" where
  "retired t = SET_TRANS_DELAYED_DELETE (t\<lparr>rt := (rt t)\<lparr>ti_id := 0\<rparr>\<rparr>)"

lemma or_flag_idem: "x AND DELAYED_DELETE \<noteq> 0 \<Longrightarrow> x OR DELAYED_DELETE = x"
proof -
  assume a: "x AND DELAYED_DELETE \<noteq> 0"
  have "x AND 1 = (if bit x 0 then 1 else 0)" by (simp add: and_one_eq bit_0 odd_iff_mod_2_eq_one)
  with a have "bit x 0" by (simp add: DELAYED_DELETE_def split: if_splits)
  then show ?thesis
    by (intro bit_word_eqI) (auto simp: DELAYED_DELETE_def bit_simps bit_1_iff)
qed

lemma retired_flags [simp]: "IS_TRANS_DELAYED_DELETE (retired t)"
proof -
  have "(x OR 1) AND 1 = (1 :: u8)" for x by (rule bit_word_eqI) (auto simp: bit_simps bit_1_iff)
  then show ?thesis
    by (simp add: IS_TRANS_DELAYED_DELETE_def retired_def SET_TRANS_DELAYED_DELETE_def DELAYED_DELETE_def)
qed

text \<open>The timers that are left when one is deleted; 0 stands for no timer.\<close>

definition without_timer :: "nat \<Rightarrow> (nat \<rightharpoonup> itimerspec) \<Rightarrow> (nat \<rightharpoonup> itimerspec)" where
  "without_timer i m = (if i = 0 then m else m(i := None))"

lemma stop_deinit: "gst_timer_deinit ti (gst_timer_stop ti s) = s\<lparr>os_timers := (os_timers s)(ti_id ti := None)\<rparr>"
  by (simp add: gst_timer_deinit_def gst_timer_stop_def timer_settime_def split: option.splits)

lemma stop_transaction_timer_eq:
  "stop_transaction_timer data s = (case trans_heap s data of None \<Rightarrow> None
     | Some t \<Rightarrow> Some (s\<lparr>trans_heap := (trans_heap s)(data \<mapsto> t\<lparr>rt := (rt t)\<lparr>ti_id := 0\<rparr>\<rparr>),
         os_timers := without_timer (ti_id (rt t)) (os_timers s)\<rparr>))"
proof (cases "trans_heap s data")
  case (Some t)
  have "t\<lparr>rt := (rt t)\<lparr>ti_id := 0\<rparr>\<rparr> = t" if "ti_id (rt t) = 0" using that by simp
  with Some show ?thesis
    by (simp add: stop_transaction_timer_def upd_trans_def fun_upd_idem stop_deinit without_timer_def)
qed (simp add: stop_transaction_timer_def)

lemma delayed_free_eq:
  "delayed_free tr s = (case trans_heap s tr of None \<Rightarrow> None
     | Some t \<Rightarrow> Some (s\<lparr>trans_heap := (trans_heap s)(tr \<mapsto> SET_TRANS_DELAYED_DELETE t),
         cpp := (cpp s)\<lparr>delay_task := \<lparr>delayed_memory_free_m =
           (if IS_TRANS_DELAYED_DELETE t then delayed s else delayed s @ [tr])\<rparr>\<rparr>\<rparr>))"
proof (cases "trans_heap s tr")
  case (Some t)
  have "SET_TRANS_DELAYED_DELETE t = t" if "IS_TRANS_DELAYED_DELETE t"
    using that or_flag_idem by (simp add: IS_TRANS_DELAYED_DELETE_def SET_TRANS_DELAYED_DELETE_def)
  with Some show ?thesis
    by (simp add: delayed_free_def upd_trans_def add_delayed_free_memory_task_def queue_push_def fun_upd_idem)
qed (simp add: delayed_free_def)

text \<open>The memory to be freed: exactly the live transactions that are marked, each once.\<close>

definition delayed_inv :: "cp_state \<Rightarrow> bool" where
  "delayed_inv s \<longleftrightarrow> distinct (delayed s) \<and> trans_heap s NULL = None \<and>
     (\<forall>p. p \<in> set (delayed s) \<longleftrightarrow> (\<exists>t. trans_heap s p = Some t \<and> IS_TRANS_DELAYED_DELETE t))"

text \<open>The contract of the functions that clean up a transaction: \<open>find\<close> looks it up in its table,
  \<open>slot\<close> is the member of the procedure that points to it, \<open>linked\<close> what the lookup relies on.\<close>

locale trans_cleanup =
  fixes cleanup :: "ptr \<Rightarrow> cp_state \<Rightarrow> cp_state option"
    and find :: "ptr \<Rightarrow> cp_state \<Rightarrow> ptr"
    and slot :: "proc_context \<Rightarrow> ptr"
    and linked :: "ptr \<Rightarrow> cp_state \<Rightarrow> bool"
  assumes cleanup_effect: "cleanup p s = Some s' \<Longrightarrow>
      \<exists>t. trans_heap s p = Some t \<and> trans_heap s' = (trans_heap s)(p \<mapsto> retired t) \<and>
        delayed s' = (if IS_TRANS_DELAYED_DELETE t then delayed s else delayed s @ [p]) \<and>
        (trans_proc t \<noteq> NULL \<longrightarrow> (\<exists>pr. proc_heap s' (trans_proc t) = Some pr \<and> slot pr = NULL))"
    and find_cleanup: "cleanup p s = Some s' \<Longrightarrow> linked p s \<Longrightarrow> find p s' = NULL"
begin

lemma keeps_delayed_inv:
  assumes "cleanup p s = Some s'" "delayed_inv s"
  shows "delayed_inv s'"
proof -
  from cleanup_effect[OF assms(1)] obtain t where
    t: "trans_heap s p = Some t" "trans_heap s' = (trans_heap s)(p \<mapsto> retired t)"
       "delayed s' = (if IS_TRANS_DELAYED_DELETE t then delayed s else delayed s @ [p])"
    by blast
  from assms(2) t(1) have p: "p \<in> set (delayed s) \<longleftrightarrow> IS_TRANS_DELAYED_DELETE t" "p \<noteq> NULL"
    unfolding delayed_inv_def by (auto intro: ccontr)
  have "q \<in> set (delayed s') \<longleftrightarrow> (\<exists>t. trans_heap s' q = Some t \<and> IS_TRANS_DELAYED_DELETE t)" for q
    using assms(2) t p by (cases "q = p") (auto simp: delayed_inv_def)
  with assms(2) t p show ?thesis by (auto simp: delayed_inv_def)
qed

lemma retires:
  assumes "cleanup p s = Some s'"
  obtains t where "trans_heap s' p = Some (retired t)"
  using cleanup_effect[OF assms] by auto

end

lemma find_delete_trans [simp]:
  "find_gtp_transaction a p q (snd (delete_gtp_transaction a p q c)) = NULL"
  "find_pfcp_transaction a p q (snd (delete_pfcp_transaction a p q c)) = NULL"
  "find_gx_transaction q (snd (delete_gx_transaction q c)) = NULL"
  by (simp_all add: find_gtp_transaction_def delete_gtp_transaction_def find_gtp_trans_def delete_gtp_trans_def
      find_pfcp_transaction_def delete_pfcp_transaction_def find_pfcp_trans_def delete_pfcp_trans_def
      find_gx_transaction_def delete_gx_transaction_def find_gx_trans_def delete_gx_trans_def
      Let_def container_defs)

lemma find_trans_delay_task [simp]:
  "find_gtp_transaction a p q (c\<lparr>delay_task := d\<rparr>) = find_gtp_transaction a p q c"
  "find_pfcp_transaction a p q (c\<lparr>delay_task := d\<rparr>) = find_pfcp_transaction a p q c"
  "find_gx_transaction q (c\<lparr>delay_task := d\<rparr>) = find_gx_transaction q c"
  by (simp_all add: find_gtp_transaction_def find_pfcp_transaction_def find_gx_transaction_def)

lemma delay_task_delete_trans [simp]:
  "delay_task (snd (delete_gtp_transaction a p q c)) = delay_task c"
  "delay_task (snd (delete_pfcp_transaction a p q c)) = delay_task c"
  "delay_task (snd (delete_gx_transaction q c)) = delay_task c"
  by (simp_all add: delete_gtp_transaction_def delete_pfcp_transaction_def delete_gx_transaction_def
      split: prod.splits)

text \<open>The address under which a PFCP transaction is stored.\<close>

definition pfcp_trans_peer :: "transData \<Rightarrow> cp_state \<Rightarrow> sockaddr_in" where
  "pfcp_trans_peer t s = (if IS_TRANS_SELF_INITIATED t then pfcp_sockaddr s else peer_sockaddr t)"

definition find_pfcp :: "ptr \<Rightarrow> cp_state \<Rightarrow> ptr" where
  "find_pfcp p s = (case trans_heap s p of None \<Rightarrow> NULL
     | Some t \<Rightarrow> find_pfcp_transaction (sin_addr (pfcp_trans_peer t s)) (sin_port (pfcp_trans_peer t s))
         (trans_sequence t) (cpp s))"

definition find_gx :: "ptr \<Rightarrow> cp_state \<Rightarrow> ptr" where
  "find_gx p s = (case trans_heap s p of None \<Rightarrow> NULL | Some t \<Rightarrow> find_gx_transaction (trans_sequence t) (cpp s))"

lemma retired_simps [simp]:
  "trans_sequence (retired t) = trans_sequence t" "peer_sockaddr (retired t) = peer_sockaddr t"
  "trans_proc (retired t) = trans_proc t"
  "IS_TRANS_SELF_INITIATED (retired t) = IS_TRANS_SELF_INITIATED t"
proof -
  have "(x OR 1) AND 2 = x AND (2 :: u8)" for x
    by (rule bit_word_eqI) (auto simp: bit_simps bit_1_iff)
  then show "IS_TRANS_SELF_INITIATED (retired t) = IS_TRANS_SELF_INITIATED t"
    by (simp add: IS_TRANS_SELF_INITIATED_def retired_def SET_TRANS_DELAYED_DELETE_def DELAYED_DELETE_def
        SELF_INITIATED_def)
qed (simp_all add: retired_def SET_TRANS_DELAYED_DELETE_def)

lemma is_delayed_timer [simp]: "IS_TRANS_DELAYED_DELETE (t\<lparr>rt := r\<rparr>) = IS_TRANS_DELAYED_DELETE t"
  by (simp add: IS_TRANS_DELAYED_DELETE_def)

text \<open>The common end of the cleanups, once the entry is out of its table.\<close>

definition retire_state :: "ptr \<Rightarrow> transData \<Rightarrow> cpp_tables \<Rightarrow> cp_state \<Rightarrow> cp_state" where
  "retire_state p t c s = s\<lparr>os_timers := without_timer (ti_id (rt t)) (os_timers s), trans_heap := (trans_heap s)(p \<mapsto> retired t), cpp := c\<lparr>delay_task :=
     \<lparr>delayed_memory_free_m = (if IS_TRANS_DELAYED_DELETE t then delayed_memory_free_m (delay_task c)
        else delayed_memory_free_m (delay_task c) @ [p])\<rparr>\<rparr>\<rparr>"

lemma cleanup_tail:
  assumes "trans_heap s p = Some t"
  shows "do {
     s \<leftarrow> stop_transaction_timer p (s\<lparr>cpp := c\<rparr>);
     s \<leftarrow> delayed_free p s;
     if proc \<noteq> NULL then upd_proc proc f s else Some s
   } = (if proc \<noteq> NULL then upd_proc proc f (retire_state p t c s) else Some (retire_state p t c s))"
  using assms by (simp add: stop_transaction_timer_eq delayed_free_eq retire_state_def retired_def)

lemma retire_effect:
  assumes "trans_heap s p = Some t" "delay_task c = delay_task (cpp s)" "proc = trans_proc t"
    and "(if proc \<noteq> NULL then upd_proc proc f (retire_state p t c s) else Some (retire_state p t c s)) = Some s'"
    and "\<And>pr. slot (f pr) = NULL"
  shows "\<exists>t. trans_heap s p = Some t \<and> trans_heap s' = (trans_heap s)(p \<mapsto> retired t) \<and>
      delayed s' = (if IS_TRANS_DELAYED_DELETE t then delayed s else delayed s @ [p]) \<and>
      (trans_proc t \<noteq> NULL \<longrightarrow> (\<exists>pr. proc_heap s' (trans_proc t) = Some pr \<and> slot pr = NULL))"
  using assms by (auto simp: retire_state_def split: if_splits)

lemma retire_cpp:
  assumes "(if proc \<noteq> NULL then upd_proc proc f (retire_state p t c s) else Some (retire_state p t c s)) = Some s'"
  shows "trans_heap s' p = Some (retired t)" "\<exists>d. cpp s' = c\<lparr>delay_task := d\<rparr>"
    "pfcp_sockaddr s' = pfcp_sockaddr s" "s11_sockaddr s' = s11_sockaddr s"
  using assms by (auto simp: retire_state_def split: if_splits)

lemma bind_assert: "do { assert_c b; x } = (if b then x else None)"
  by (simp add: assert_c_def)

lemma cleanup_gx_trans_eq:
  assumes "cleanup_gx_trans p s = Some s'"
  obtains t c where "trans_heap s p = Some t" "c = snd (delete_gx_transaction (trans_sequence t) (cpp s))"
    "(if trans_proc t \<noteq> NULL then upd_proc (trans_proc t) (\<lambda>p. p\<lparr>gx_trans := NULL\<rparr>) (retire_state p t c s)
      else Some (retire_state p t c s)) = Some s'"
proof -
  from assms obtain t where t: "trans_heap s p = Some t"
    by (auto simp: cleanup_gx_trans_def split: bind_splits)
  show thesis
    using assms that[OF t refl]
    unfolding cleanup_gx_trans_def t bind.bind_lunit Let_def case_prod_unfold bind_assert cleanup_tail[OF t]
    by (metis option.distinct(1))
qed

lemma cleanup_pfcp_trans_eq:
  assumes "cleanup_pfcp_trans p s = Some s'"
  obtains t c where "trans_heap s p = Some t"
    "c = snd (delete_pfcp_transaction (sin_addr (pfcp_trans_peer t s)) (sin_port (pfcp_trans_peer t s))
       (trans_sequence t) (cpp s))"
    "(if trans_proc t \<noteq> NULL then upd_proc (trans_proc t) (\<lambda>p. p\<lparr>pfcp_trans := NULL\<rparr>) (retire_state p t c s)
      else Some (retire_state p t c s)) = Some s'"
proof -
  from assms obtain t where t: "trans_heap s p = Some t"
    by (auto simp: cleanup_pfcp_trans_def split: bind_splits)
  show thesis
    using assms that[OF t refl]
    unfolding cleanup_pfcp_trans_def t bind.bind_lunit Let_def case_prod_unfold bind_assert cleanup_tail[OF t]
      pfcp_trans_peer_def
    by (metis option.distinct(1))
qed

interpretation gx_cleanup: trans_cleanup cleanup_gx_trans find_gx gx_trans "\<lambda>_ _. True"
proof unfold_locales
  fix p s s'
  assume "cleanup_gx_trans p s = Some s'"
  then obtain t c where t: "trans_heap s p = Some t"
    "c = snd (delete_gx_transaction (trans_sequence t) (cpp s))"
    "(if trans_proc t \<noteq> NULL then upd_proc (trans_proc t) (\<lambda>p. p\<lparr>gx_trans := NULL\<rparr>) (retire_state p t c s)
      else Some (retire_state p t c s)) = Some s'" by (rule cleanup_gx_trans_eq)
  show "\<exists>t. trans_heap s p = Some t \<and> trans_heap s' = (trans_heap s)(p \<mapsto> retired t) \<and>
      delayed s' = (if IS_TRANS_DELAYED_DELETE t then delayed s else delayed s @ [p]) \<and>
      (trans_proc t \<noteq> NULL \<longrightarrow> (\<exists>pr. proc_heap s' (trans_proc t) = Some pr \<and> gx_trans pr = NULL))"
    by (rule retire_effect[OF t(1) _ refl t(3)]) (simp_all add: t(2))
  show "find_gx p s' = NULL"
    using retire_cpp[OF t(3)] t(2) by (auto simp: find_gx_def)
qed

interpretation pfcp_cleanup: trans_cleanup cleanup_pfcp_trans find_pfcp pfcp_trans "\<lambda>_ _. True"
proof unfold_locales
  fix p s s'
  assume "cleanup_pfcp_trans p s = Some s'"
  then obtain t c where t: "trans_heap s p = Some t"
    "c = snd (delete_pfcp_transaction (sin_addr (pfcp_trans_peer t s)) (sin_port (pfcp_trans_peer t s))
       (trans_sequence t) (cpp s))"
    "(if trans_proc t \<noteq> NULL then upd_proc (trans_proc t) (\<lambda>p. p\<lparr>pfcp_trans := NULL\<rparr>) (retire_state p t c s)
      else Some (retire_state p t c s)) = Some s'" by (rule cleanup_pfcp_trans_eq)
  show "\<exists>t. trans_heap s p = Some t \<and> trans_heap s' = (trans_heap s)(p \<mapsto> retired t) \<and>
      delayed s' = (if IS_TRANS_DELAYED_DELETE t then delayed s else delayed s @ [p]) \<and>
      (trans_proc t \<noteq> NULL \<longrightarrow> (\<exists>pr. proc_heap s' (trans_proc t) = Some pr \<and> pfcp_trans pr = NULL))"
    by (rule retire_effect[OF t(1) _ refl t(3)]) (simp_all add: t(2))
  show "find_pfcp p s' = NULL"
    using retire_cpp[OF t(3)] t(2) by (auto simp: find_pfcp_def pfcp_trans_peer_def)
qed

text \<open>A GTP transaction of a peer is looked up under the address kept in the transaction of its
  procedure.\<close>

definition gtpc_trans_peer :: "transData \<Rightarrow> cp_state \<Rightarrow> sockaddr_in" where
  "gtpc_trans_peer t s = (if IS_TRANS_SELF_INITIATED t then s11_sockaddr s else peer_sockaddr t)"

definition find_gtpc :: "ptr \<Rightarrow> cp_state \<Rightarrow> ptr" where
  "find_gtpc p s = (case trans_heap s p of None \<Rightarrow> NULL
     | Some t \<Rightarrow> find_gtp_transaction (sin_addr (gtpc_trans_peer t s)) (sin_port (gtpc_trans_peer t s))
         (trans_sequence t) (cpp s))"

definition gtpc_linked :: "ptr \<Rightarrow> cp_state \<Rightarrow> bool" where
  "gtpc_linked p s \<longleftrightarrow> (\<forall>t pr. trans_heap s p = Some t \<and> proc_heap s (trans_proc t) = Some pr \<longrightarrow> gtpc_trans pr = p)"

lemma cleanup_gtpc_trans_eq:
  assumes "cleanup_gtpc_trans p s = Some s'"
  obtains t c peer where "trans_heap s p = Some t" "gtpc_linked p s \<longrightarrow> peer = gtpc_trans_peer t s"
    "c = snd (delete_gtp_transaction (sin_addr peer) (sin_port peer) (trans_sequence t) (cpp s))"
    "(if trans_proc t \<noteq> NULL then upd_proc (trans_proc t) (\<lambda>p. p\<lparr>gtpc_trans := NULL\<rparr>) (retire_state p t c s)
      else Some (retire_state p t c s)) = Some s'"
proof -
  from assms obtain t where t: "trans_heap s p = Some t"
    by (auto simp: cleanup_gtpc_trans_def split: bind_splits)
  let ?find = "if IS_TRANS_SELF_INITIATED t then Some (s11_sockaddr s)
     else do { p \<leftarrow> proc_heap s (trans_proc t); t' \<leftarrow> trans_heap s (gtpc_trans p); Some (peer_sockaddr t') }"
  from assms t obtain peer where peer: "?find = Some peer"
    by (cases ?find) (simp_all add: cleanup_gtpc_trans_def Let_def)
  then have linked: "gtpc_linked p s \<longrightarrow> peer = gtpc_trans_peer t s"
    using t by (auto simp: gtpc_linked_def gtpc_trans_peer_def split: if_splits bind_splits)
  show thesis
    using assms that[OF t linked refl]
    unfolding cleanup_gtpc_trans_def t bind.bind_lunit Let_def peer case_prod_unfold bind_assert cleanup_tail[OF t]
    by (metis option.distinct(1))
qed

interpretation gtpc_cleanup: trans_cleanup cleanup_gtpc_trans find_gtpc gtpc_trans gtpc_linked
proof unfold_locales
  fix p s s'
  assume "cleanup_gtpc_trans p s = Some s'"
  then obtain t c peer where t: "trans_heap s p = Some t" "gtpc_linked p s \<longrightarrow> peer = gtpc_trans_peer t s"
    "c = snd (delete_gtp_transaction (sin_addr peer) (sin_port peer) (trans_sequence t) (cpp s))"
    "(if trans_proc t \<noteq> NULL then upd_proc (trans_proc t) (\<lambda>p. p\<lparr>gtpc_trans := NULL\<rparr>) (retire_state p t c s)
      else Some (retire_state p t c s)) = Some s'" by (rule cleanup_gtpc_trans_eq)
  show "\<exists>t. trans_heap s p = Some t \<and> trans_heap s' = (trans_heap s)(p \<mapsto> retired t) \<and>
      delayed s' = (if IS_TRANS_DELAYED_DELETE t then delayed s else delayed s @ [p]) \<and>
      (trans_proc t \<noteq> NULL \<longrightarrow> (\<exists>pr. proc_heap s' (trans_proc t) = Some pr \<and> gtpc_trans pr = NULL))"
    by (rule retire_effect[OF t(1) _ refl t(4)]) (simp_all add: t(3))
  show "find_gtpc p s' = NULL" if "gtpc_linked p s"
    using retire_cpp[OF t(4)] t(2)[rule_format, OF that] t(3) by (auto simp: find_gtpc_def gtpc_trans_peer_def)
qed

section \<open>The delayed deletion\<close>

lemma take_delayed_eq:
  "take_delayed s = (case delayed s of [] \<Rightarrow> (NULL, 0, s\<lparr>cpp := (cpp s)\<lparr>delay_task := delay_task (cpp s)\<rparr>\<rparr>)
     | p # ps \<Rightarrow> (p, length ps, s\<lparr>cpp := (cpp s)\<lparr>delay_task := \<lparr>delayed_memory_free_m = ps\<rparr>\<rparr>\<rparr>))"
  by (simp add: take_delayed_def delete_delayed_free_memory_task_def split: list.splits)

lemma delayed_inv_take:
  assumes "delayed_inv s" "delayed s = p # ps"
  shows "p \<noteq> NULL" "trans_heap s p \<noteq> None"
    "delayed_inv (s\<lparr>cpp := (cpp s)\<lparr>delay_task := \<lparr>delayed_memory_free_m = ps\<rparr>\<rparr>,
       trans_heap := (trans_heap s)(p := None)\<rparr>)"
proof -
  from assms obtain t where t: "trans_heap s p = Some t" "p \<notin> set ps" "distinct ps"
    by (auto simp: delayed_inv_def)
  with assms(1) show "p \<noteq> NULL" "trans_heap s p \<noteq> None"
    by (auto simp: delayed_inv_def intro: ccontr)
  show "delayed_inv (s\<lparr>cpp := (cpp s)\<lparr>delay_task := \<lparr>delayed_memory_free_m = ps\<rparr>\<rparr>,
       trans_heap := (trans_heap s)(p := None)\<rparr>)"
    using assms t by (auto simp: delayed_inv_def)
qed

lemma free_delayed_safe:
  "delayed_inv s \<Longrightarrow> \<exists>s'. free_delayed n s = Some s' \<and> delayed_inv s' \<and> delayed s' = drop n (delayed s)"
proof (induction n arbitrary: s)
  case (Suc n)
  show ?case
  proof (cases "delayed s")
    case Nil
    with Suc.IH[OF Suc.prems] show ?thesis by (simp add: take_delayed_eq)
  next
    case (Cons p ps)
    note inv = delayed_inv_take[OF Suc.prems Cons]
    from Suc.IH[OF inv(3)] inv(1,2) Cons show ?thesis
      by (auto simp: take_delayed_eq free_trans_def)
  qed
qed simp

section \<open>Properties\<close>



text \<open>C19: a PFCP node request that is never answered is sent again exactly three times, to the
  address of its user plane, and the fourth expiry stops the timer and calls the timeout function.\<close>

theorem pfcp_retry_bounded:
  assumes "trans_heap s tr = Some t" "itr_cnt t = 0"
    and "upf_heap s (cb_data t) = Some upf" "\<not> pcap_dumper s"
  shows "do {
      s \<leftarrow> pfcp_node_transaction_retry_callback call tr s;
      s \<leftarrow> pfcp_node_transaction_retry_callback call tr s;
      s \<leftarrow> pfcp_node_transaction_retry_callback call tr s;
      pfcp_node_transaction_retry_callback call tr s
    } = call (timeout_function t) tr
      (s\<lparr>sent := sent s @ replicate 3 (upf_sockaddr upf, buf t),
         trans_heap := (trans_heap s)(tr \<mapsto> t\<lparr>itr_cnt := 3, rt := (rt t)\<lparr>ti_id := 0\<rparr>\<rparr>),
         os_timers := without_timer (ti_id (rt t)) (os_timers s)\<rparr>)"
proof -
  have "\<not> (3 :: u8) \<le> 1" by (simp add: word_le_nat_alt)
  with assms show ?thesis
    by (simp add: pfcp_node_transaction_retry_callback_def pfcp_timer_retry_send_def upd_trans_def
        stop_transaction_timer_eq numeral_3_eq_3)
qed

text \<open>A timer of \<open>n\<close> milliseconds is armed with seconds and nanoseconds that add up to it,
  the nanoseconds being in the range \<open>timer_settime\<close> accepts; an interval timer repeats with the same
  period.\<close>

theorem timer_spec_sound:
  assumes "0 \<le> ti_ms ti"
  shows "it_value_sec (timer_spec ti) * 1000 + it_value_nsec (timer_spec ti) div 1000000 = ti_ms ti \<and>
    0 \<le> it_value_nsec (timer_spec ti) \<and> it_value_nsec (timer_spec ti) < 1000000000 \<and>
    (ti_type ti = TtInterval \<longrightarrow> it_interval_sec (timer_spec ti) = it_value_sec (timer_spec ti) \<and>
      it_interval_nsec (timer_spec ti) = it_value_nsec (timer_spec ti))"
proof -
  have "sgn (ti_ms ti) * \<bar>ti_ms ti\<bar> = ti_ms ti" by (simp add: mult.commute[of "sgn _"] abs_mult_sgn)
  moreover have "ti_ms ti = 0 \<or> sgn (ti_ms ti) = 1" using assms by (simp add: sgn_if)
  moreover have "ti_ms ti mod 1000 < 1000" "0 \<le> ti_ms ti mod 1000" by simp_all
  ultimately show ?thesis
    using assms by (auto simp: timer_spec_def Let_def)
qed

text \<open>The witnesses need a state.\<close>

definition example_state :: cp_state where
  "example_state = \<lparr>cpp = init_cpp_tables, pools = Map.empty, ue_heap = Map.empty, pdn_heap = Map.empty,
     bearer_heap = Map.empty, proc_heap = Map.empty, trans_heap = Map.empty, msg_heap = Map.empty,
     pdr_heap = Map.empty, upf_heap = Map.empty, event_heap = Map.empty, blocks = {}, os_timers = Map.empty,
     peer_mod = \<lparr>peer_heap = Map.empty, peer_data_heap = Map.empty, conn_cnt = 0, gtpc_mme_seqnb = 0, gtpc_sgwc_seqnb = 0, gtpc_pgwc_seqnb = 0,
       pfcp_seqnb = 1, echoes = []\<rparr>, next_ptr = 1, alloc_fails = (\<lambda>_. False),
     config_cp_type = SAEGWC, config_s11_ip = 0, config_s5s8_ip = 0, config_pfcp_port = 8805,
     transmit_cnt = 3, transmit_timer = 5, periodic_timer = 10, pfcp_hb_ts_fail = False, sub_classifier_config = None, static_upf_pt = rt calloc_trans, pfcp_seq_no_offset = 0, request_timeout = 3000, s11_sockaddr = \<lparr>sin_addr = 1, sin_port = 2123\<rparr>,
     pfcp_sockaddr = \<lparr>sin_addr = 1, sin_port = 8805\<rparr>, s11_sgw_gtpc_teid_offset = 0,
     s5s8_pgw_gtpc_teid_offset = 0, sgw_gtpc_base_teid = 0xC0FFEE, sgw_gtpc_teid_offset = 0,
     pgw_gtpc_base_teid = 0xD0FFEE, pgw_gtpc_teid_offset = 0, teid_range = 0xf0,
     sgw_gtpu_base_teid = 0xf0000001, pgw_gtpu_base_teid = 1, pcap_dumper = False, dumped = [], sent = []\<rparr>"

definition example_trans_state :: cp_state where
  "example_trans_state = example_state\<lparr>
     trans_heap := [7 \<mapsto> calloc_trans\<lparr>trans_sequence := 5, buf := [1, 2], cb_data := 9, timeout_function := 42\<rparr>],
     upf_heap := [9 \<mapsto> \<lparr>upf_sockaddr = \<lparr>sin_addr = 3, sin_port = 8805\<rparr>, fqdn = [], up_supp_features = 0,
       add_up_supp_features1 = 0, add_up_supp_features2 = 0, s1u_ip = 0, s5s8_pgwu_ip = 0, upf_state = 0,
       upf_proc = NULL, upf_pt = rt calloc_trans,
       upf_pending_sub_procs = [], pending_node_procs = [], global_address = False\<rparr>]\<rparr>"

lemma example_trans_inv: "delayed_inv example_trans_state"
  by (auto simp: delayed_inv_def example_trans_state_def example_state_def init_cpp_tables_def
      calloc_trans_def IS_TRANS_DELAYED_DELETE_def)



theorem pfcp_retry_bounded_witness:
  "\<exists>s'. do {
      s \<leftarrow> pfcp_node_transaction_retry_callback (\<lambda>f p s. Some s) 7 example_trans_state;
      s \<leftarrow> pfcp_node_transaction_retry_callback (\<lambda>f p s. Some s) 7 s;
      s \<leftarrow> pfcp_node_transaction_retry_callback (\<lambda>f p s. Some s) 7 s;
      pfcp_node_transaction_retry_callback (\<lambda>f p s. Some s) 7 s
    } = Some s' \<and> sent s' = replicate 3 (\<lparr>sin_addr = 3, sin_port = 8805\<rparr>, [1, 2])"
proof -
  let ?t = "calloc_trans\<lparr>trans_sequence := 5, buf := [1, 2], cb_data := 9, timeout_function := 42\<rparr>"
  have "trans_heap example_trans_state 7 = Some ?t" "itr_cnt ?t = 0" "\<not> pcap_dumper example_trans_state"
    "upf_heap example_trans_state (cb_data ?t) = Some \<lparr>upf_sockaddr = \<lparr>sin_addr = 3, sin_port = 8805\<rparr>,
       fqdn = [], up_supp_features = 0, add_up_supp_features1 = 0, add_up_supp_features2 = 0, s1u_ip = 0,
       s5s8_pgwu_ip = 0, upf_state = 0, upf_proc = NULL,
       upf_pt = rt calloc_trans, upf_pending_sub_procs = [], pending_node_procs = [], global_address = False\<rparr>"
    by (simp_all add: example_trans_state_def example_state_def calloc_trans_def)
  from pfcp_retry_bounded[OF this(1,2,4,3), of "\<lambda>f p s. Some s"] show ?thesis
    by (simp add: example_trans_state_def example_state_def)
qed

theorem timer_spec_sound_witness:
  "it_value_sec (timer_spec ((rt calloc_trans)\<lparr>ti_ms := 2500\<rparr>)) * 1000 +
   it_value_nsec (timer_spec ((rt calloc_trans)\<lparr>ti_ms := 2500\<rparr>)) div 1000000 = 2500"
  using timer_spec_sound[of "(rt calloc_trans)\<lparr>ti_ms := 2500\<rparr>"] by simp

end
