(* ===== verification/Ue_Context.thy ===== *)
theory Ue_Context
  imports Transactions
begin

text \<open>
  Subscribers, their connections and bearers: \<open>cp/ue.c\<close>, \<open>cp/pdn.c\<close> and \<open>cp/bearer.c\<close>.

  The tables report errors only in their return value, which these functions log; \<open>cpp_do\<close> performs a
  table operation and drops it.  Arrays are indexed as in C: an index outside the array has no result.
\<close>

section \<open>Loops and table operations\<close>

fun for_each :: "('a \<Rightarrow> 's \<Rightarrow> 's option) \<Rightarrow> 'a list \<Rightarrow> 's \<Rightarrow> 's option" where
  "for_each f [] s = Some s"
| "for_each f (x # xs) s = do { s \<leftarrow> f x s; for_each f xs s }"

definition cpp_do :: "(cpp_tables \<Rightarrow> int \<times> cpp_tables) \<Rightarrow> cp_state \<Rightarrow> cp_state" where
  "cpp_do f s = s\<lparr>cpp := snd (f (cpp s))\<rparr>"

definition free_pdr :: "ptr \<Rightarrow> cp_state \<Rightarrow> cp_state option" where
  "free_pdr p s = (if p = NULL then Some s else
     case pdr_heap s p of None \<Rightarrow> None | Some _ \<Rightarrow> Some (s\<lparr>pdr_heap := (pdr_heap s)(p := None)\<rparr>))"

section \<open>Tunnel endpoint identifiers\<close>

definition s11_sgw_gtpc_base_teid :: u32 where
  "s11_sgw_gtpc_base_teid = 0xC0FFEE"

definition s5s8_pgw_gtpc_base_teid :: u32 where
  "s5s8_pgw_gtpc_base_teid = 0xD0FFEE"

definition set_base_teid :: "u8 \<Rightarrow> cp_state \<Rightarrow> cp_state" where
  "set_base_teid val s =
     (let s = s\<lparr>teid_range := val\<rparr>
      in if config_cp_type s = SAEGWC then s\<lparr>sgw_gtpc_base_teid := push_bit 24 (ucast val) + 1\<rparr>
         else if config_cp_type s = PGWC then s\<lparr>pgw_gtpc_base_teid := push_bit 24 (ucast val) + 1\<rparr>
         else s)"

text \<open>\<open>__builtin_ffs(~bitmap) - 1\<close>: the 16 bits of the bitmap are widened to an \<open>int\<close> before they are
  inverted, so there is always a bit to be found.\<close>

definition builtin_ffs :: "u32 \<Rightarrow> nat" where
  "builtin_ffs x = (case find (bit x) [0..<32] of None \<Rightarrow> 0 | Some k \<Rightarrow> k + 1)"

definition teid_index :: "u16 \<Rightarrow> nat" where
  "teid_index bitmap = builtin_ffs (NOT (ucast bitmap)) - 1"

definition gtpu_teid :: "u32 \<Rightarrow> u32 \<Rightarrow> nat \<Rightarrow> u32" where
  "gtpu_teid base rng index = (base AND 0x00ffffff) OR push_bit 24 (rng + of_nat index)"

definition set_s1u_sgw_gtpu_teid :: "ptr \<Rightarrow> ptr \<Rightarrow> cp_state \<Rightarrow> cp_state option" where
  "set_s1u_sgw_gtpu_teid bearer context s = do {
     c \<leftarrow> ue_heap s context;
     let index = teid_index (teid_bitmap c);
     let s = (if config_cp_type s = SAEGWC
              then s\<lparr>sgw_gtpu_base_teid := sgw_gtpc_base_teid s + sgw_gtpc_teid_offset s,
                     sgw_gtpc_teid_offset := sgw_gtpc_teid_offset s + 1\<rparr> else s);
     s \<leftarrow> upd_bearer bearer (\<lambda>b. b\<lparr>s1u_sgw_gtpu_teid :=
            gtpu_teid (sgw_gtpu_base_teid s) (ucast (teid_range s)) index\<rparr>) s;
     upd_ue context (\<lambda>c. c\<lparr>teid_bitmap := teid_bitmap c OR push_bit index 1\<rparr>) s
   }"

definition set_s5s8_pgw_gtpc_teid :: "ptr \<Rightarrow> cp_state \<Rightarrow> cp_state option" where
  "set_s5s8_pgw_gtpc_teid pdn s = do {
     s \<leftarrow> upd_pdn pdn (\<lambda>p. p\<lparr>s5s8_pgw_gtpc_teid := s5s8_pgw_gtpc_base_teid + s5s8_pgw_gtpc_teid_offset s\<rparr>) s;
     Some (s\<lparr>s5s8_pgw_gtpc_teid_offset := s5s8_pgw_gtpc_teid_offset s + 1\<rparr>)
   }"

definition set_s5s8_pgw_gtpu_teid :: "ptr \<Rightarrow> ptr \<Rightarrow> cp_state \<Rightarrow> cp_state option" where
  "set_s5s8_pgw_gtpu_teid bearer context s = do {
     c \<leftarrow> ue_heap s context;
     let index = teid_index (teid_bitmap c);
     let s = (if config_cp_type s = PGWC
              then s\<lparr>pgw_gtpu_base_teid := pgw_gtpc_base_teid s + pgw_gtpc_teid_offset s,
                     pgw_gtpc_teid_offset := pgw_gtpc_teid_offset s + 1\<rparr> else s);
     s \<leftarrow> upd_bearer bearer (\<lambda>b. b\<lparr>s5s8_pgw_gtpu_teid :=
            gtpu_teid (pgw_gtpu_base_teid s) (ucast (teid_range s)) index\<rparr>) s;
     upd_ue context (\<lambda>c. c\<lparr>teid_bitmap := teid_bitmap c OR push_bit index 1\<rparr>) s
   }"

definition set_s5s8_pgw_gtpu_teid_using_pdn :: "ptr \<Rightarrow> ptr \<Rightarrow> cp_state \<Rightarrow> cp_state option" where
  "set_s5s8_pgw_gtpu_teid_using_pdn bearer pdn s = do {
     p \<leftarrow> pdn_heap s pdn;
     c \<leftarrow> ue_heap s (ue_ctxt p);
     let index = teid_index (teid_bitmap c);
     s \<leftarrow> upd_bearer bearer (\<lambda>b. b\<lparr>s5s8_pgw_gtpu_teid := gtpu_teid (s5s8_pgw_gtpc_teid p) 0xf0 index\<rparr>) s;
     upd_ue (ue_ctxt p) (\<lambda>c. c\<lparr>teid_bitmap := teid_bitmap c OR push_bit index 1\<rparr>) s
   }"

section \<open>Creation of a subscriber\<close>

definition GTPV2C_CAUSE_SYSTEM_FAILURE :: int where
  "GTPV2C_CAUSE_SYSTEM_FAILURE = 72"

definition GTPV2C_CAUSE_REQUEST_REJECTED :: int where
  "GTPV2C_CAUSE_REQUEST_REJECTED = 94"

text \<open>\<open>memcpy(&imsi, imsi_val, imsi_len)\<close> over a variable of ones; a longer copy would leave it.\<close>

definition imsi_key :: "u64 \<Rightarrow> nat \<Rightarrow> u64" where
  "imsi_key imsi_val len = (imsi_val AND mask (8 * len)) OR NOT (mask (8 * len))"

text \<open>The identifier of a new context; a pure SGW leaves it 0.\<close>

definition new_s11_teid :: "cp_state \<Rightarrow> u32 \<times> cp_state" where
  "new_s11_teid s =
     (if config_cp_type s = SAEGWC
      then (s11_sgw_gtpc_base_teid + s11_sgw_gtpc_teid_offset s,
            s\<lparr>s11_sgw_gtpc_teid_offset := s11_sgw_gtpc_teid_offset s + 1\<rparr>)
      else if config_cp_type s = PGWC then (s5s8_pgw_gtpc_base_teid + s5s8_pgw_gtpc_teid_offset s, s)
      else (0, s))"

text \<open>\<open>create_ue_context\<close>.  The context is new when this point is reached, so its bearer array is empty
  and of the two branches on \<open>bearer\<close> only the one that allocates a default bearer is taken.  The
  failures of the tables cannot occur: their insertions always answer 0.\<close>

definition create_default_bearer :: "ptr \<Rightarrow> u8 \<Rightarrow> cp_state \<Rightarrow> (int \<times> cp_state) option" where
  "create_default_bearer context ebi s = do {
     let ebi_index = unat (ebi - 5);
     c \<leftarrow> ue_heap s context;
     array_get (eps_bearers c) ebi_index;
     let (bearer, s) = calloc_bearer_ptr s;
     if bearer = NULL then Some (GTPV2C_CAUSE_SYSTEM_FAILURE, s)
     else do {
       s \<leftarrow> upd_bearer bearer (\<lambda>b. b\<lparr>eps_bearer_id := ebi\<rparr>) s;
       let (pdn, s) = calloc_pdn_ptr s;
       if pdn = NULL then Some (GTPV2C_CAUSE_SYSTEM_FAILURE, s)
       else do {
         s \<leftarrow> upd_ue context (\<lambda>c. c\<lparr>eps_bearers := (eps_bearers c)[ebi_index := bearer],
                pdns := (pdns c)[ebi_index := pdn], num_pdns := num_pdns c + 1,
                bearer_bitmap := bearer_bitmap c OR push_bit ebi_index 1\<rparr>) s;
         s \<leftarrow> upd_pdn pdn (\<lambda>p. p\<lparr>num_bearer := num_bearer p + 1,
                pdn_eps_bearers := (pdn_eps_bearers p)[ebi_index := bearer], default_bearer_id := ebi,
                pending_pcc_rules := []\<rparr>) s;
         s \<leftarrow> upd_bearer bearer (\<lambda>b. b\<lparr>packet_filter_map := replicate MAX_FILTERS_PER_UE (-2),
                bearer_pdn := pdn, eps_bearer_id := ebi\<rparr>) s;
         Some (0, s)
       }
     }
   }"

definition create_ue_context ::
  "u64 \<Rightarrow> nat \<Rightarrow> u8 \<Rightarrow> string \<Rightarrow> u8 \<Rightarrow> cp_state \<Rightarrow> (int \<times> ptr \<times> cp_state) option" where
  "create_ue_context imsi_val len ebi name apn_length s = do {
     assert_c (len \<le> 8);
     let key = imsi_key imsi_val len;
     let old = ue_context_entry_lookup_imsiKey key (cpp s);
     if old \<noteq> NULL then Some (GTPV2C_CAUSE_REQUEST_REJECTED, old, s)
     else do {
       let (context, s) = calloc_ue_ptr s;
       if context = NULL then Some (GTPV2C_CAUSE_SYSTEM_FAILURE, NULL, s)
       else do {
         s \<leftarrow> upd_ue context (\<lambda>c. c\<lparr>imsi := key, imsi_len := of_nat len\<rparr>) s;
         let s = cpp_do (ue_context_entry_add_imsiKey key context) s;
         let (teid, s) = new_s11_teid s;
         s \<leftarrow> upd_ue context (\<lambda>c. c\<lparr>s11_sgw_gtpc_teid := teid, pending_sub_procs := []\<rparr>) s;
         let s = cpp_do (ue_context_entry_add_teidKey teid context) s;
         (ret, s) \<leftarrow> create_default_bearer context ebi s;
         if ret \<noteq> 0 then Some (ret, context, s)
         else do {
           c \<leftarrow> ue_heap s context;
           let pdn = pdns c ! unat (ebi - 5);
           let s = cpp_do (pdn_context_entry_add_teidKey teid pdn) s;
           assert_c (length name < MAX_APN_LEN);
           s \<leftarrow> upd_pdn pdn (\<lambda>p. p\<lparr>apn := name, apn_len := apn_length\<rparr>) s;
           Some (0, context, s)
         }
       }
     }
   }"

section \<open>Bearers\<close>

text \<open>\<open>sprintf(key.rule_name, "%s%d", \<dots>)\<close>: the name of a rule followed by the call id as a signed number.\<close>

definition rule_key :: "string \<Rightarrow> u32 \<Rightarrow> string" where
  "rule_key name cid =
     name @ (if sint cid < 0 then ''-'' else []) @ decimal (nat \<bar>sint cid\<bar>)"

definition del_rule_entries :: "ptr \<Rightarrow> nat \<Rightarrow> cp_state \<Rightarrow> cp_state option" where
  "del_rule_entries context ebi_index s = do {
     c \<leftarrow> ue_heap s context;
     bearer \<leftarrow> array_get (eps_bearers c) ebi_index;
     b \<leftarrow> bearer_heap s bearer;
     s \<leftarrow> for_each (\<lambda>itr s. do {
            q \<leftarrow> array_get (qer_id b) itr;
            let (r, freed, t) = del_qer_entry q (cpp s);
            free_block freed (s\<lparr>cpp := t\<rparr>) }) [0..<unat (qer_count b)] s;
     for_each (\<lambda>itr s. do {
            pdr \<leftarrow> array_get (pdrs b) itr;
            if pdr = NULL then Some s
            else do {
              rule_id \<leftarrow> pdr_heap s pdr;
              let (r, freed, t) = del_pdr_entry rule_id (cpp s);
              free_pdr freed (s\<lparr>cpp := t\<rparr>)
            } }) [0..<unat (pdr_count b)] s
   }"

definition cleanup_bearer_context :: "ptr \<Rightarrow> cp_state \<Rightarrow> cp_state option" where
  "cleanup_bearer_context bearer s = do {
     b \<leftarrow> bearer_heap s bearer;
     p \<leftarrow> pdn_heap s (bearer_pdn b);
     let s = fold (\<lambda>rule s. case rule of None \<Rightarrow> s
               | Some name \<Rightarrow> cpp_do (del_rule_name_entry (rule_key name (call_id p))) s) (dynamic_rules b) s;
     let ebi_index = unat (eps_bearer_id b - 5);
     s \<leftarrow> del_rule_entries (ue_ctxt p) ebi_index s;
     assert_c (ebi_index < MAX_BEARERS);
     s \<leftarrow> upd_pdn (bearer_pdn b) (\<lambda>p. p\<lparr>pdn_eps_bearers := (pdn_eps_bearers p)[ebi_index := NULL]\<rparr>) s;
     s \<leftarrow> upd_ue (ue_ctxt p) (\<lambda>c. c\<lparr>eps_bearers := (eps_bearers c)[ebi_index := NULL]\<rparr>) s;
     free_bearer bearer s
   }"

definition add_bearer_entry_by_sgw_s5s8_tied :: "u32 \<Rightarrow> ptr \<Rightarrow> cp_state \<Rightarrow> int \<times> cp_state" where
  "add_bearer_entry_by_sgw_s5s8_tied fteid_key bearer s =
     (case bearer_context_entry_add_teidKey fteid_key bearer (cpp s) of (ret, c) \<Rightarrow>
        (if ret < 0 then GTPV2C_CAUSE_SYSTEM_FAILURE else 0, s\<lparr>cpp := c\<rparr>))"

section \<open>Connections\<close>

definition get_default_bearer :: "ptr \<Rightarrow> cp_state \<Rightarrow> ptr option" where
  "get_default_bearer pdn s = do {
     p \<leftarrow> pdn_heap s pdn;
     array_get (pdn_eps_bearers p) (unat (default_bearer_id p - 5))
   }"

definition same_qos :: "bearer_qos_ie \<Rightarrow> bearer_qos_ie \<Rightarrow> bool" where
  "same_qos q r \<longleftrightarrow> qci q = qci r \<and> preemption_vulnerability (arp q) = preemption_vulnerability (arp r) \<and>
     priority_level (arp q) = priority_level (arp r) \<and>
     preemption_capability (arp q) = preemption_capability (arp r)"

fun find_bearer :: "bearer_qos_ie \<Rightarrow> ptr list \<Rightarrow> cp_state \<Rightarrow> ptr option" where
  "find_bearer q [] s = Some NULL"
| "find_bearer q (b # bs) s =
     (if b = NULL then find_bearer q bs s
      else do {
        bearer \<leftarrow> bearer_heap s b;
        if same_qos (qos bearer) q then Some b else find_bearer q bs s
      })"

definition get_bearer :: "ptr \<Rightarrow> bearer_qos_ie \<Rightarrow> cp_state \<Rightarrow> ptr option" where
  "get_bearer pdn q s = do {
     p \<leftarrow> pdn_heap s pdn;
     find_bearer q (pdn_eps_bearers p) s
   }"

definition compare_default_bearer_qos :: "bearer_qos_ie \<Rightarrow> bearer_qos_ie \<Rightarrow> int" where
  "compare_default_bearer_qos default_qos rule_qos =
     (if qci default_qos \<noteq> qci rule_qos then -1
      else if preemption_vulnerability (arp default_qos) \<noteq> preemption_vulnerability (arp rule_qos) then -1
      else if priority_level (arp default_qos) \<noteq> priority_level (arp rule_qos) then -1
      else if preemption_capability (arp default_qos) \<noteq> preemption_capability (arp rule_qos) then -1
      else 0)"

definition get_new_bearer_id :: "pdn_connection \<Rightarrow> u8" where
  "get_new_bearer_id p = num_bearer p"

text \<open>How a connection got its address (\<open>cp/pdn.h\<close>).\<close>

definition PDN_STATIC_ADDR :: u32 where
  "PDN_STATIC_ADDR = 0x00000001"

definition PDN_ADDR_ALLOC_CONTROL :: u32 where
  "PDN_ADDR_ALLOC_CONTROL = 0x00000002"

definition PDN_ADDR_ALLOC_UPF :: u32 where
  "PDN_ADDR_ALLOC_UPF = 0x00000004"

definition SET_PDN_ADDR_STATIC :: "bool \<Rightarrow> pdn_connection \<Rightarrow> pdn_connection" where
  "SET_PDN_ADDR_STATIC flag p = (if flag then p\<lparr>pdn_flags := pdn_flags p OR PDN_STATIC_ADDR\<rparr> else p)"

definition IF_PDN_ADDR_STATIC :: "pdn_connection \<Rightarrow> bool" where
  "IF_PDN_ADDR_STATIC p \<longleftrightarrow> pdn_flags p AND PDN_STATIC_ADDR = PDN_STATIC_ADDR"

definition SET_PDN_ADDR_METHOD :: "u32 \<Rightarrow> pdn_connection \<Rightarrow> pdn_connection" where
  "SET_PDN_ADDR_METHOD flag p = p\<lparr>pdn_flags := pdn_flags p OR flag\<rparr>"

definition RESET_PDN_ADDR_METHOD :: "u32 \<Rightarrow> pdn_connection \<Rightarrow> pdn_connection" where
  "RESET_PDN_ADDR_METHOD flag p = p\<lparr>pdn_flags := pdn_flags p AND NOT flag\<rparr>"

definition IF_PDN_ADDR_ALLOC_CONTROL :: "pdn_connection \<Rightarrow> bool" where
  "IF_PDN_ADDR_ALLOC_CONTROL p \<longleftrightarrow> pdn_flags p AND PDN_ADDR_ALLOC_CONTROL \<noteq> 0"

definition IF_PDN_ADDR_ALLOC_UPF :: "pdn_connection \<Rightarrow> bool" where
  "IF_PDN_ADDR_ALLOC_UPF p \<longleftrightarrow> pdn_flags p AND PDN_ADDR_ALLOC_UPF \<noteq> 0"

text \<open>The loops of \<open>cleanup_pdn_context\<close>, its address branch and the function.\<close>

definition cleanup_bearer_slot :: "ptr \<Rightarrow> nat \<Rightarrow> cp_state \<Rightarrow> cp_state option" where
  "cleanup_bearer_slot pdn i s = do {
     p \<leftarrow> pdn_heap s pdn;
     bearer \<leftarrow> array_get (pdn_eps_bearers p) i;
     if bearer = NULL then Some s
     else do {
       s \<leftarrow> cleanup_bearer_context bearer s;
       upd_ue (ue_ctxt p) (\<lambda>c. c\<lparr>pdns := (pdns c)[i := NULL],
         bearer_bitmap := bearer_bitmap c AND NOT (push_bit i 1)\<rparr>) s
     }
   }"

definition free_pending_rule :: "ptr \<Rightarrow> ptr \<times> ptr \<Rightarrow> cp_state \<Rightarrow> cp_state option" where
  "free_pending_rule pdn rule s = do {
     s \<leftarrow> upd_pdn pdn (\<lambda>p. p\<lparr>pending_pcc_rules := tl (pending_pcc_rules p)\<rparr>) s;
     s \<leftarrow> free_block (snd rule) s;
     free_block (fst rule) s
   }"

definition release_pdn_address :: "pdn_connection \<Rightarrow> cp_state \<Rightarrow> cp_state option" where
  "release_pdn_address p s =
     (if IF_PDN_ADDR_STATIC p then do {
        (r, ps) \<leftarrow> release_ip_node (ipv4 p) (pools s);
        Some (s\<lparr>pools := ps\<rparr>)
      } else if IF_PDN_ADDR_ALLOC_CONTROL p then do {
        ps \<leftarrow> release_ip (ipv4 p) (pools s);
        Some (s\<lparr>pools := ps\<rparr>)
      } else Some s)"

definition cleanup_pdn_context :: "ptr \<Rightarrow> cp_state \<Rightarrow> cp_state option" where
  "cleanup_pdn_context pdn s = do {
     p \<leftarrow> pdn_heap s pdn;
     c \<leftarrow> ue_heap s (ue_ctxt p);
     assert_c (s11_sgw_gtpc_teid c = UE_SESS_ID (seid p));
     s \<leftarrow> for_each (cleanup_bearer_slot pdn) [0..<MAX_BEARERS] s;
     s \<leftarrow> for_each (free_pending_rule pdn) (pending_pcc_rules p) s;
     let s = cpp_do (del_sess_entry_seid (seid p)) s;
     let s = cpp_do (del_pdn_conn_entry (call_id p)) s;
     let s = cpp_do (remove_gxsessid_to_context (gx_sess_id p)) s;
     let s = cpp_do (pdn_context_delete_entry_teidKey (s11_sgw_gtpc_teid c)) s;
     s \<leftarrow> upd_ue (ue_ctxt p) (\<lambda>c. c\<lparr>num_pdns := num_pdns c - 1, teid_bitmap := 0\<rparr>) s;
     s \<leftarrow> release_pdn_address p s;
     free_pdn pdn s
   }"

section \<open>Removal of a subscriber\<close>

text \<open>One round of the loop over the pending procedures.  The Gx transaction is given to
  \<open>cleanup_pfcp_trans\<close>, as in the source.\<close>

definition cleanup_pending_proc :: "ptr \<Rightarrow> ptr \<Rightarrow> cp_state \<Rightarrow> cp_state option" where
  "cleanup_pending_proc context proc s = do {
     s \<leftarrow> upd_ue context (\<lambda>c. c\<lparr>pending_sub_procs := tl (pending_sub_procs c)\<rparr>) s;
     p \<leftarrow> proc_heap s proc;
     s \<leftarrow> (if gtpc_trans p \<noteq> NULL then cleanup_gtpc_trans (gtpc_trans p) s else Some s);
     p \<leftarrow> proc_heap s proc;
     s \<leftarrow> (if pfcp_trans p \<noteq> NULL then cleanup_pfcp_trans (pfcp_trans p) s else Some s);
     p \<leftarrow> proc_heap s proc;
     s \<leftarrow> (if gx_trans p \<noteq> NULL then cleanup_pfcp_trans (gx_trans p) s else Some s);
     free_proc proc s
   }"

definition cleanup_ue_context :: "ptr \<Rightarrow> cp_state \<Rightarrow> (ptr \<times> cp_state) option" where
  "cleanup_ue_context context s = do {
     c \<leftarrow> ue_heap s context;
     if num_pdns c = 0 then do {
       let s = cpp_do (ue_context_delete_entry_imsiKey (imsi c)) s;
       let s = cpp_do (ue_context_delete_entry_teidKey (s11_sgw_gtpc_teid c)) s;
       s \<leftarrow> for_each (cleanup_pending_proc context) (pending_sub_procs c) s;
       s \<leftarrow> free_ue context s;
       Some (NULL, s)
     } else Some (context, s)
   }"

text \<open>Lookups by tunnel endpoint; the context is written through a pointer, \<open>old\<close> is what was there.\<close>

definition get_ue_context_by_sgw_s5s8_teid :: "u32 \<Rightarrow> ptr \<Rightarrow> cp_state \<Rightarrow> (int \<times> ptr) option" where
  "get_ue_context_by_sgw_s5s8_teid teid_key old s =
     (let bearer = get_bearer_by_teid teid_key (cpp s)
      in if bearer = NULL then Some (-1, old)
         else do {
           b \<leftarrow> bearer_heap s bearer;
           if bearer_pdn b = NULL then Some (-1, old)
           else do {
             p \<leftarrow> pdn_heap s (bearer_pdn b);
             Some (if ue_ctxt p \<noteq> NULL then (0, ue_ctxt p) else (-1, old))
           }
         })"

definition get_ue_context_while_error :: "u32 \<Rightarrow> ptr \<Rightarrow> cp_state \<Rightarrow> (int \<times> ptr) option" where
  "get_ue_context_while_error teid_key old s =
     (let temp_context = get_ue_context teid_key (cpp s)
      in if temp_context = NULL then
           (let bearer = get_bearer_by_teid teid_key (cpp s)
            in if bearer = NULL then Some (-1, old)
               else do {
                 b \<leftarrow> bearer_heap s bearer;
                 p \<leftarrow> pdn_heap s (bearer_pdn b);
                 Some (0, ue_ctxt p)
               })
         else Some (0, temp_context))"

section \<open>Loops\<close>

lemma for_each_Nil [simp]: "for_each f [] = Some"
  by (rule ext) simp

lemma for_each_append: "for_each f (xs @ ys) s = do { s \<leftarrow> for_each f xs s; for_each f ys s }"
  by (induction xs arbitrary: s) (auto split: bind_splits)

lemma for_each_cong [fundef_cong]:
  "xs = ys \<Longrightarrow> s = t \<Longrightarrow> (\<And>x u. x \<in> set ys \<Longrightarrow> f x u = g x u) \<Longrightarrow> for_each f xs s = for_each g ys t"
proof (induction xs arbitrary: ys s t)
  case (Cons x xs)
  then obtain zs where ys: "ys = x # zs" and zs: "xs = zs" by (cases ys) auto
  have "for_each f xs = for_each g zs"
    by (rule ext, rule Cons.IH[OF zs refl]) (auto simp: ys intro: Cons.prems(3))
  with Cons.prems ys zs show ?case by simp
qed auto

lemma for_each_nth:
  "n \<le> length xs \<Longrightarrow> for_each (\<lambda>i s. do { x \<leftarrow> array_get xs i; f x s }) [0..<n] s = for_each f (take n xs) s"
proof (induction n arbitrary: s)
  case (Suc n)
  then have "take (Suc n) xs = take n xs @ [xs ! n]" by (simp add: take_Suc_conv_app_nth)
  with Suc show ?case by (simp add: for_each_append)
qed simp

text \<open>A loop whose rounds each have a result and keep an invariant.\<close>

lemma for_each_invariant:
  assumes "I 0 s" "\<And>k u. k < length xs \<Longrightarrow> I k u \<Longrightarrow> \<exists>u'. f (xs ! k) u = Some u' \<and> I (Suc k) u'"
  shows "\<exists>s'. for_each f xs s = Some s' \<and> I (length xs) s'"
  using assms
proof (induction xs arbitrary: s I)
  case (Cons x xs)
  from Cons.prems(2)[of 0 s] Cons.prems(1) obtain u where u: "f x s = Some u" "I (Suc 0) u" by auto
  have "\<exists>s'. for_each f xs u = Some s' \<and> I (Suc (length xs)) s'"
  proof (rule Cons.IH[of "\<lambda>k. I (Suc k)"])
    show "I (Suc 0) u" by (rule u)
    fix k v assume "k < length xs" "I (Suc k) v"
    then show "\<exists>v'. f (xs ! k) v = Some v' \<and> I (Suc (Suc k)) v'"
      using Cons.prems(2)[of "Suc k" v] by simp
  qed
  with u show ?case by simp
qed simp

section \<open>Tunnel endpoint identifiers are handed out once\<close>

lemma builtin_ffs_eq:
  assumes "k < 32" "bit x k" "\<And>j. j < k \<Longrightarrow> \<not> bit x j"
  shows "builtin_ffs x = k + 1"
proof -
  have "[0..<32] = [0..<k] @ k # [Suc k..<32]"
    using assms(1) by (metis less_imp_add_positive upt_add_eq_append upt_conv_Cons zero_le le_add1)
  moreover have "find (bit x) [0..<k] = None"
    using assms(3) by (auto simp: find_None_iff)
  moreover have "find P (xs @ ys) = (case find P xs of None \<Rightarrow> find P ys | Some z \<Rightarrow> Some z)" for P :: "nat \<Rightarrow> bool" and xs ys
    by (induction xs) auto
  ultimately show ?thesis using assms(2) by (simp add: builtin_ffs_def)
qed

lemma teid_index_mask: "teid_index (mask k) = min k 16"
proof -
  have "builtin_ffs (NOT (ucast (mask k :: u16))) = min k 16 + 1"
    by (rule builtin_ffs_eq) (auto simp: bit_simps)
  then show ?thesis by (simp add: teid_index_def)
qed

lemma teid_bitmap_run: "((\<lambda>bm :: u16. bm OR push_bit (teid_index bm) 1) ^^ k) 0 = mask k"
proof (induction k)
  case (Suc k)
  have "mask k OR push_bit (min k 16) 1 = (mask (Suc k) :: u16)"
    by (rule bit_word_eqI) (auto simp: bit_simps)
  with Suc show ?case by (simp add: teid_index_mask)
qed simp

section \<open>Tear-down of a connection\<close>

text \<open>What makes a connection well formed: the slots of the bearer array that are in use agree with the
  subscriber's array and with the identity of the bearer, and the packet detection rules of the bearers
  are distinct and registered under their numbers.  No function sets \<open>qer_count\<close>.\<close>

definition pdr_owned :: "eps_bearer \<Rightarrow> ptr list" where
  "pdr_owned b = filter (\<lambda>p. p \<noteq> NULL) (take (unat (pdr_count b)) (pdrs b))"

definition pdr_registered :: "ptr \<Rightarrow> cp_state \<Rightarrow> bool" where
  "pdr_registered p s \<longleftrightarrow> (\<exists>rule_id. pdr_heap s p = Some rule_id \<and> get_pdr_entry rule_id (cpp s) = p)"

definition bearer_ok :: "nat \<Rightarrow> ptr \<Rightarrow> ptr \<Rightarrow> cp_state \<Rightarrow> bool" where
  "bearer_ok i pdn bearer s \<longleftrightarrow> (\<exists>b. bearer_heap s bearer = Some b \<and> eps_bearer_id b = of_nat i + 5 \<and>
     bearer_pdn b = pdn \<and> qer_count b = 0 \<and> unat (pdr_count b) \<le> length (pdrs b) \<and>
     distinct (pdr_owned b) \<and> (\<forall>p\<in>set (pdr_owned b). pdr_registered p s))"

definition bearer_pdrs :: "cp_state \<Rightarrow> ptr \<Rightarrow> ptr set" where
  "bearer_pdrs s bearer = (case bearer_heap s bearer of None \<Rightarrow> {} | Some b \<Rightarrow> set (pdr_owned b))"

definition pdn_ok :: "ptr \<Rightarrow> cp_state \<Rightarrow> bool" where
  "pdn_ok pdn s \<longleftrightarrow> (\<exists>p c. pdn_heap s pdn = Some p \<and> ue_heap s (ue_ctxt p) = Some c \<and> pdn \<noteq> NULL \<and>
     length (pdn_eps_bearers p) = MAX_BEARERS \<and> length (eps_bearers c) = MAX_BEARERS \<and>
     (\<forall>i<MAX_BEARERS. pdn_eps_bearers p ! i \<noteq> NULL \<longrightarrow>
        eps_bearers c ! i = pdn_eps_bearers p ! i \<and> bearer_ok i pdn (pdn_eps_bearers p ! i) s) \<and>
     (\<forall>i<MAX_BEARERS. \<forall>j<MAX_BEARERS. i \<noteq> j \<longrightarrow> pdn_eps_bearers p ! i \<noteq> NULL \<longrightarrow> pdn_eps_bearers p ! j \<noteq> NULL \<longrightarrow>
        pdn_eps_bearers p ! i \<noteq> pdn_eps_bearers p ! j \<and>
        bearer_pdrs s (pdn_eps_bearers p ! i) \<inter> bearer_pdrs s (pdn_eps_bearers p ! j) = {}))"

text \<open>The effect of the loop over the packet detection rules.\<close>

definition drop_pdr :: "ptr \<Rightarrow> cp_state \<Rightarrow> cp_state" where
  "drop_pdr p s = s\<lparr>pdr_heap := (pdr_heap s)(p := None), cpp := (cpp s)\<lparr>pdr_table := (pdr_table (cpp s))\<lparr>
     pdrid_pdrctxt_hash := (pdrid_pdrctxt_hash (pdr_table (cpp s)))(ucast (the (pdr_heap s p)) := None)\<rparr>\<rparr>\<rparr>"

lemma drop_pdr_frame [simp]:
  "ue_heap (drop_pdr p s) = ue_heap s" "pdn_heap (drop_pdr p s) = pdn_heap s"
  "bearer_heap (drop_pdr p s) = bearer_heap s" "proc_heap (drop_pdr p s) = proc_heap s"
  "trans_heap (drop_pdr p s) = trans_heap s" "msg_heap (drop_pdr p s) = msg_heap s"
  "upf_heap (drop_pdr p s) = upf_heap s" "blocks (drop_pdr p s) = blocks s" "pools (drop_pdr p s) = pools s"
  "pdr_heap (drop_pdr p s) = (pdr_heap s)(p := None)" "next_ptr (drop_pdr p s) = next_ptr s"
  "ue_table (cpp (drop_pdr p s)) = ue_table (cpp s)" "pdn_table (cpp (drop_pdr p s)) = pdn_table (cpp s)"
  by (simp_all add: drop_pdr_def)

lemma pdr_registered_iff: "pdr_registered p s \<longleftrightarrow> (\<exists>rule_id. pdr_heap s p = Some rule_id \<and>
    map_find (ucast rule_id) (pdrid_pdrctxt_hash (pdr_table (cpp s))) = p)"
  by (simp add: pdr_registered_def get_pdr_entry_def find_pdrctxt_from_pdrid_def)

lemma map_find_eq: "p \<noteq> NULL \<Longrightarrow> map_find k m = p \<longleftrightarrow> m k = Some p"
  by (auto simp: map_find_def split: option.splits)

lemma pdr_registered_drop:
  assumes "pdr_registered p s" "pdr_registered q s" "p \<noteq> q" "p \<noteq> NULL" "q \<noteq> NULL"
  shows "pdr_registered q (drop_pdr p s)"
proof -
  from assms obtain i j where "pdr_heap s p = Some i" "pdrid_pdrctxt_hash (pdr_table (cpp s)) (ucast i) = Some p"
    "pdr_heap s q = Some j" "pdrid_pdrctxt_hash (pdr_table (cpp s)) (ucast j) = Some q"
    by (auto simp: pdr_registered_iff map_find_eq)
  with assms(3,5) show ?thesis by (auto simp: pdr_registered_iff map_find_eq drop_pdr_def)
qed

definition del_pdr :: "ptr \<Rightarrow> cp_state \<Rightarrow> cp_state option" where
  "del_pdr pdr s = (if pdr = NULL then Some s
     else do {
       rule_id \<leftarrow> pdr_heap s pdr;
       let (r, freed, t) = del_pdr_entry rule_id (cpp s);
       free_pdr freed (s\<lparr>cpp := t\<rparr>)
     })"

lemma del_pdr_eq: "pdr_registered p s \<Longrightarrow> p \<noteq> NULL \<Longrightarrow> del_pdr p s = Some (drop_pdr p s)"
  by (auto simp: pdr_registered_iff map_find_eq del_pdr_def drop_pdr_def free_pdr_def del_pdr_entry_def
      delete_pdrid_pdrctxt_mapping_def map_erase_def)

lemma del_pdrs_eq:
  "distinct (filter (\<lambda>p. p \<noteq> NULL) ps) \<Longrightarrow> (\<forall>p\<in>set (filter (\<lambda>p. p \<noteq> NULL) ps). pdr_registered p s) \<Longrightarrow>
   for_each del_pdr ps s = Some (fold drop_pdr (filter (\<lambda>p. p \<noteq> NULL) ps) s)"
proof (induction ps arbitrary: s)
  case (Cons p ps)
  show ?case
  proof (cases "p = NULL")
    case True
    with Cons show ?thesis by (simp add: del_pdr_def)
  next
    case False
    with Cons.prems have "\<forall>q\<in>set (filter (\<lambda>p. p \<noteq> NULL) ps). pdr_registered q (drop_pdr p s)"
      by (auto intro!: pdr_registered_drop)
    with Cons False show ?thesis by (simp add: del_pdr_eq)
  qed
qed simp

lemma fold_frame: "(\<And>x s. g (f x s) = g s) \<Longrightarrow> g (fold f xs s) = g s"
  by (induction xs arbitrary: s) simp_all

lemma fold_drop_pdr_frame [simp]:
  "ue_heap (fold drop_pdr ps s) = ue_heap s" "pdn_heap (fold drop_pdr ps s) = pdn_heap s"
  "bearer_heap (fold drop_pdr ps s) = bearer_heap s" "proc_heap (fold drop_pdr ps s) = proc_heap s"
  "trans_heap (fold drop_pdr ps s) = trans_heap s" "msg_heap (fold drop_pdr ps s) = msg_heap s"
  "upf_heap (fold drop_pdr ps s) = upf_heap s" "blocks (fold drop_pdr ps s) = blocks s"
  "pools (fold drop_pdr ps s) = pools s" "next_ptr (fold drop_pdr ps s) = next_ptr s"
  "ue_table (cpp (fold drop_pdr ps s)) = ue_table (cpp s)"
  "pdn_table (cpp (fold drop_pdr ps s)) = pdn_table (cpp s)"
  by (rule fold_frame, simp)+

lemma fold_drop_pdr_heap [simp]: "pdr_heap (fold drop_pdr ps s) = pdr_heap s |` (- set ps)"
  by (induction ps arbitrary: s) (auto simp: restrict_map_def fun_eq_iff)

lemma pdr_registered_fold:
  "(\<forall>p\<in>set ps. pdr_registered p s \<and> p \<noteq> NULL) \<Longrightarrow> distinct ps \<Longrightarrow> pdr_registered q s \<Longrightarrow> q \<notin> set ps \<Longrightarrow>
   q \<noteq> NULL \<Longrightarrow> pdr_registered q (fold drop_pdr ps s)"
proof (induction ps arbitrary: s)
  case (Cons p ps)
  then have "\<forall>p'\<in>set ps. pdr_registered p' (drop_pdr p s) \<and> p' \<noteq> NULL" "pdr_registered q (drop_pdr p s)"
    by (auto intro!: pdr_registered_drop)
  with Cons show ?case by simp
qed simp

text \<open>The effect of \<open>cleanup_bearer_context\<close> on a well-formed bearer.\<close>

definition drop_names :: "u32 \<Rightarrow> string option list \<Rightarrow> cp_state \<Rightarrow> cp_state" where
  "drop_names cid = fold (\<lambda>rule s. case rule of None \<Rightarrow> s
     | Some name \<Rightarrow> cpp_do (del_rule_name_entry (rule_key name cid)) s)"

lemma drop_names_frame [simp]:
  "ue_heap (drop_names n rs s) = ue_heap s" "pdn_heap (drop_names n rs s) = pdn_heap s"
  "bearer_heap (drop_names n rs s) = bearer_heap s" "proc_heap (drop_names n rs s) = proc_heap s"
  "trans_heap (drop_names n rs s) = trans_heap s" "msg_heap (drop_names n rs s) = msg_heap s"
  "upf_heap (drop_names n rs s) = upf_heap s" "blocks (drop_names n rs s) = blocks s"
  "pools (drop_names n rs s) = pools s" "pdr_heap (drop_names n rs s) = pdr_heap s"
  "next_ptr (drop_names n rs s) = next_ptr s"
  "ue_table (cpp (drop_names n rs s)) = ue_table (cpp s)"
  "pdn_table (cpp (drop_names n rs s)) = pdn_table (cpp s)"
  "pdr_table (cpp (drop_names n rs s)) = pdr_table (cpp s)"
  unfolding drop_names_def
  by (rule fold_frame, simp add: cpp_do_def del_rule_name_entry_def case_prod_unfold split: option.split)+

lemma pdr_registered_drop_names [simp]: "pdr_registered p (drop_names n rs s) = pdr_registered p s"
  by (simp add: pdr_registered_iff)

definition drop_bearer :: "nat \<Rightarrow> ptr \<Rightarrow> pdn_connection \<Rightarrow> ue_context \<Rightarrow> ptr \<Rightarrow> eps_bearer \<Rightarrow> cp_state \<Rightarrow> cp_state" where
  "drop_bearer i pdn p c bearer b s =
     (fold drop_pdr (pdr_owned b) (drop_names (call_id p) (dynamic_rules b) s))
       \<lparr>pdn_heap := (pdn_heap s)(pdn \<mapsto> p\<lparr>pdn_eps_bearers := (pdn_eps_bearers p)[i := NULL]\<rparr>),
        ue_heap := (ue_heap s)(ue_ctxt p \<mapsto> c\<lparr>eps_bearers := (eps_bearers c)[i := NULL]\<rparr>),
        bearer_heap := (bearer_heap s)(bearer := None)\<rparr>"

lemma unat_bearer_id: "i < MAX_BEARERS \<Longrightarrow> unat (of_nat i + 5 - 5 :: u8) = i"
  by (simp add: MAX_BEARERS_def unsigned_of_nat take_bit_nat_eq_self)

lemma del_rule_entries_eq:
  assumes "ue_heap s u = Some c" "i < length (eps_bearers c)" "bearer_heap s (eps_bearers c ! i) = Some b"
    and "qer_count b = 0" "unat (pdr_count b) \<le> length (pdrs b)" "distinct (pdr_owned b)"
    and "\<forall>p\<in>set (pdr_owned b). pdr_registered p s"
  shows "del_rule_entries u i s = Some (fold drop_pdr (pdr_owned b) s)"
proof -
  have "del_rule_entries u i s =
      for_each (\<lambda>itr s. do { pdr \<leftarrow> array_get (pdrs b) itr; del_pdr pdr s }) [0..<unat (pdr_count b)] s"
    using assms(1-4) by (simp add: del_rule_entries_def del_pdr_def)
  also have "\<dots> = for_each del_pdr (take (unat (pdr_count b)) (pdrs b)) s"
    by (rule for_each_nth[OF assms(5)])
  also have "\<dots> = Some (fold drop_pdr (pdr_owned b) s)"
    using assms(6,7) unfolding pdr_owned_def by (rule del_pdrs_eq)
  finally show ?thesis .
qed

lemma cleanup_bearer_context_eq:
  assumes ok: "bearer_ok i pdn bearer s" and b: "bearer_heap s bearer = Some b" and "i < MAX_BEARERS"
    and p: "pdn_heap s pdn = Some p" and c: "ue_heap s (ue_ctxt p) = Some c"
    and len: "length (eps_bearers c) = MAX_BEARERS" and slot: "eps_bearers c ! i = bearer" "bearer \<noteq> NULL"
  shows "cleanup_bearer_context bearer s = Some (drop_bearer i pdn p c bearer b s)"
proof -
  let ?s = "drop_names (call_id p) (dynamic_rules b) s"
  from ok b have f: "eps_bearer_id b = of_nat i + 5" "bearer_pdn b = pdn" "qer_count b = 0"
    "unat (pdr_count b) \<le> length (pdrs b)" "distinct (pdr_owned b)" "\<forall>p\<in>set (pdr_owned b). pdr_registered p s"
    by (auto simp: bearer_ok_def)
  have i: "unat (eps_bearer_id b - 5) = i" unfolding f(1) by (rule unat_bearer_id[OF assms(3)])
  have del: "del_rule_entries (ue_ctxt p) i ?s = Some (fold drop_pdr (pdr_owned b) ?s)"
    by (rule del_rule_entries_eq[where c = c]) (use b c len slot(1) assms(3) f in simp_all)
  have "cleanup_bearer_context bearer s = do {
      s \<leftarrow> del_rule_entries (ue_ctxt p) i ?s;
      s \<leftarrow> upd_pdn pdn (\<lambda>p. p\<lparr>pdn_eps_bearers := (pdn_eps_bearers p)[i := NULL]\<rparr>) s;
      s \<leftarrow> upd_ue (ue_ctxt p) (\<lambda>c. c\<lparr>eps_bearers := (eps_bearers c)[i := NULL]\<rparr>) s;
      free_bearer bearer s }"
    using b p f(2) i assms(3) by (simp add: cleanup_bearer_context_def drop_names_def assert_c_def Let_def)
  then show ?thesis
    using b p c slot(2) by (simp add: del upd_defs free_bearer_def drop_bearer_def)
qed

text \<open>Closed forms: the names and numbers of a connection's rules leave the tables, nothing else changes.\<close>

definition pdr_keys :: "(ptr \<rightharpoonup> u16) \<Rightarrow> ptr set \<Rightarrow> u32 set" where
  "pdr_keys h ps = (\<lambda>p. ucast (the (h p))) ` ps"

definition without_pdrs :: "ptr set \<Rightarrow> cp_state \<Rightarrow> cp_state" where
  "without_pdrs ps s = s\<lparr>pdr_heap := pdr_heap s |` (- ps), cpp := (cpp s)\<lparr>pdr_table := (pdr_table (cpp s))\<lparr>
     pdrid_pdrctxt_hash := pdrid_pdrctxt_hash (pdr_table (cpp s)) |` (- pdr_keys (pdr_heap s) ps)\<rparr>\<rparr>\<rparr>"

definition without_names :: "string set \<Rightarrow> cp_state \<Rightarrow> cp_state" where
  "without_names ns s = s\<lparr>cpp := (cpp s)\<lparr>rule_table := (rule_table (cpp s))\<lparr>
     rulename_bearerid_hash := rulename_bearerid_hash (rule_table (cpp s)) |` (- ns)\<rparr>\<rparr>\<rparr>"

lemma restrict_UNIV [simp]: "m |` UNIV = m"
  by (simp add: restrict_map_def)

lemma without_empty [simp]: "without_pdrs {} s = s" "without_names {} s = s"
  by (simp_all add: without_pdrs_def without_names_def pdr_keys_def)

lemma restrict_upd_None: "(m(k := None)) |` (- A) = m |` (- insert k A)"
  by (auto simp: restrict_map_def fun_eq_iff)

lemma without_names_insert:
  "without_names ns (cpp_do (del_rule_name_entry n) s) = without_names (insert n ns) s"
  by (simp add: without_names_def cpp_do_def del_rule_name_entry_def delete_bearerid_rulename_mapping_def
      map_erase_def restrict_upd_None del: restrict_fun_upd)

lemma fold_drop_pdr_eq: "distinct ps \<Longrightarrow> fold drop_pdr ps s = without_pdrs (set ps) s"
proof (induction ps arbitrary: s)
  case Nil
  then show ?case by simp
next
  case (Cons p ps)
  then have "pdr_keys (pdr_heap (drop_pdr p s)) (set ps) = pdr_keys (pdr_heap s) (set ps)"
    by (auto simp: pdr_keys_def intro!: image_cong)
  moreover have "insert (ucast (the (pdr_heap s p))) (pdr_keys (pdr_heap s) (set ps)) = pdr_keys (pdr_heap s) (set (p # ps))"
    by (simp add: pdr_keys_def)
  ultimately show ?case using Cons
    by (simp add: without_pdrs_def restrict_upd_None del: restrict_fun_upd)
      (simp add: drop_pdr_def restrict_upd_None del: restrict_fun_upd)
qed

lemma drop_names_eq:
  "drop_names cid rs s = without_names {rule_key name cid |name. Some name \<in> set rs} s"
proof (induction rs arbitrary: s)
  case Nil
  then show ?case by (simp add: drop_names_def)
next
  case (Cons r rs)
  have *: "{rule_key name cid |name. Some name \<in> set (Some n # rs)} =
      insert (rule_key n cid) {rule_key name cid |name. Some name \<in> set rs}" for n by auto
  with Cons show ?case
    by (cases r) (simp_all only: * drop_names_def fold_simps o_def, simp_all add: without_names_insert)
qed

text \<open>The state after the first \<open>k\<close> slots have been handled.\<close>

definition used_slot :: "pdn_connection \<Rightarrow> nat \<Rightarrow> bool" where
  "used_slot p j \<longleftrightarrow> pdn_eps_bearers p ! j \<noteq> NULL"

definition clear_slots :: "nat \<Rightarrow> pdn_connection \<Rightarrow> ptr list \<Rightarrow> ptr list" where
  "clear_slots k p xs = map (\<lambda>j. if j < k \<and> used_slot p j then NULL else xs ! j) [0..<length xs]"

definition clear_bits :: "nat \<Rightarrow> pdn_connection \<Rightarrow> u16 \<Rightarrow> u16" where
  "clear_bits k p bm = fold (\<lambda>j bm. if used_slot p j then bm AND NOT (push_bit j 1) else bm) [0..<k] bm"

definition slot_bearers :: "nat \<Rightarrow> pdn_connection \<Rightarrow> ptr set" where
  "slot_bearers k p = {pdn_eps_bearers p ! j |j. j < k \<and> used_slot p j}"

definition slot_pdrs :: "nat \<Rightarrow> pdn_connection \<Rightarrow> cp_state \<Rightarrow> ptr set" where
  "slot_pdrs k p s = (\<Union>b\<in>slot_bearers k p. bearer_pdrs s b)"

definition slot_names :: "nat \<Rightarrow> pdn_connection \<Rightarrow> cp_state \<Rightarrow> string set" where
  "slot_names k p s = {rule_key name (call_id p) |name bearer b.
     bearer \<in> slot_bearers k p \<and> bearer_heap s bearer = Some b \<and> Some name \<in> set (dynamic_rules b)}"

definition torn_ue :: "nat \<Rightarrow> pdn_connection \<Rightarrow> ue_context \<Rightarrow> ue_context" where
  "torn_ue k p c = c\<lparr>eps_bearers := clear_slots k p (eps_bearers c), pdns := clear_slots k p (pdns c),
     bearer_bitmap := clear_bits k p (bearer_bitmap c)\<rparr>"

definition torn :: "nat \<Rightarrow> ptr \<Rightarrow> pdn_connection \<Rightarrow> ue_context \<Rightarrow> cp_state \<Rightarrow> cp_state" where
  "torn k pdn p c s = (without_pdrs (slot_pdrs k p s) (without_names (slot_names k p s) s))
     \<lparr>pdn_heap := (pdn_heap s)(pdn \<mapsto> p\<lparr>pdn_eps_bearers := clear_slots k p (pdn_eps_bearers p)\<rparr>),
      ue_heap := (ue_heap s)(ue_ctxt p \<mapsto> torn_ue k p c),
      bearer_heap := bearer_heap s |` (- slot_bearers k p)\<rparr>"

lemma clear_slots_0 [simp]: "clear_slots 0 p xs = xs"
  by (simp add: clear_slots_def map_nth)

lemma length_clear_slots [simp]: "length (clear_slots k p xs) = length xs"
  by (simp add: clear_slots_def)

lemma nth_clear_slots [simp]:
  "j < length xs \<Longrightarrow> clear_slots k p xs ! j = (if j < k \<and> used_slot p j then NULL else xs ! j)"
  by (simp add: clear_slots_def)

lemma clear_slots_Suc:
  "clear_slots (Suc k) p xs = (if used_slot p k then (clear_slots k p xs)[k := NULL] else clear_slots k p xs)"
  by (rule nth_equalityI) (auto simp: nth_list_update less_Suc_eq)

lemma clear_bits_simps [simp]:
  "clear_bits 0 p bm = bm"
  "clear_bits (Suc k) p bm = (if used_slot p k then clear_bits k p bm AND NOT (push_bit k 1) else clear_bits k p bm)"
  by (simp_all add: clear_bits_def)

lemma slot_bearers_simps [simp]:
  "slot_bearers 0 p = {}"
  "slot_bearers (Suc k) p = (if used_slot p k then insert (pdn_eps_bearers p ! k) (slot_bearers k p) else slot_bearers k p)"
  by (auto simp: slot_bearers_def less_Suc_eq)

lemma torn_0: "pdn_heap s pdn = Some p \<Longrightarrow> ue_heap s (ue_ctxt p) = Some c \<Longrightarrow> torn 0 pdn p c s = s"
  by (simp add: torn_def torn_ue_def slot_pdrs_def slot_names_def fun_upd_idem)

lemma torn_unused: "\<not> used_slot p k \<Longrightarrow> torn (Suc k) pdn p c s = torn k pdn p c s"
  by (simp add: torn_def torn_ue_def slot_pdrs_def slot_names_def clear_slots_Suc)

lemma torn_heaps [simp]:
  "pdn_heap (torn k pdn p c s) = (pdn_heap s)(pdn \<mapsto> p\<lparr>pdn_eps_bearers := clear_slots k p (pdn_eps_bearers p)\<rparr>)"
  "ue_heap (torn k pdn p c s) = (ue_heap s)(ue_ctxt p \<mapsto> torn_ue k p c)"
  "bearer_heap (torn k pdn p c s) = bearer_heap s |` (- slot_bearers k p)"
  "pdr_heap (torn k pdn p c s) = pdr_heap s |` (- slot_pdrs k p s)"
  "pdrid_pdrctxt_hash (pdr_table (cpp (torn k pdn p c s))) =
     pdrid_pdrctxt_hash (pdr_table (cpp s)) |` (- pdr_keys (pdr_heap s) (slot_pdrs k p s))"
  by (simp_all add: torn_def without_pdrs_def without_names_def pdr_keys_def)

lemma without_compose:
  assumes "A \<inter> B = {}"
  shows "without_pdrs A (without_names N (without_pdrs B (without_names M s))) =
    without_pdrs (B \<union> A) (without_names (M \<union> N) s)"
proof -
  have "pdr_keys (pdr_heap s |` (- B)) A = pdr_keys (pdr_heap s) A"
    using assms by (auto simp: pdr_keys_def restrict_map_def intro!: image_cong)
  moreover have "pdr_keys (pdr_heap s) (B \<union> A) = pdr_keys (pdr_heap s) B \<union> pdr_keys (pdr_heap s) A"
    by (simp add: pdr_keys_def image_Un)
  ultimately show ?thesis
    by (simp add: without_pdrs_def without_names_def restrict_restrict Int_commute)
qed

lemma without_heaps [simp]:
  "without_pdrs A (s\<lparr>pdn_heap := x, ue_heap := y, bearer_heap := z\<rparr>) =
     (without_pdrs A s)\<lparr>pdn_heap := x, ue_heap := y, bearer_heap := z\<rparr>"
  "without_names N (s\<lparr>pdn_heap := x, ue_heap := y, bearer_heap := z\<rparr>) =
     (without_names N s)\<lparr>pdn_heap := x, ue_heap := y, bearer_heap := z\<rparr>"
  by (simp_all add: without_pdrs_def without_names_def pdr_keys_def)

lemma pdn_okD:
  assumes "pdn_ok pdn s" "pdn_heap s pdn = Some p" "ue_heap s (ue_ctxt p) = Some c"
  shows "length (pdn_eps_bearers p) = MAX_BEARERS" "length (eps_bearers c) = MAX_BEARERS" "pdn \<noteq> NULL"
    and "i < MAX_BEARERS \<Longrightarrow> used_slot p i \<Longrightarrow> eps_bearers c ! i = pdn_eps_bearers p ! i"
    and "i < MAX_BEARERS \<Longrightarrow> used_slot p i \<Longrightarrow> bearer_ok i pdn (pdn_eps_bearers p ! i) s"
    and "i < MAX_BEARERS \<Longrightarrow> used_slot p i \<Longrightarrow> pdn_eps_bearers p ! i \<notin> slot_bearers i p"
    and "i < MAX_BEARERS \<Longrightarrow> used_slot p i \<Longrightarrow> bearer_pdrs s (pdn_eps_bearers p ! i) \<inter> slot_pdrs i p s = {}"
proof -
  from assms have ok: "length (pdn_eps_bearers p) = MAX_BEARERS" "length (eps_bearers c) = MAX_BEARERS" "pdn \<noteq> NULL"
    "\<And>i. i < MAX_BEARERS \<Longrightarrow> used_slot p i \<Longrightarrow>
        eps_bearers c ! i = pdn_eps_bearers p ! i \<and> bearer_ok i pdn (pdn_eps_bearers p ! i) s"
    "\<And>i j. i < MAX_BEARERS \<Longrightarrow> j < MAX_BEARERS \<Longrightarrow> i \<noteq> j \<Longrightarrow> used_slot p i \<Longrightarrow> used_slot p j \<Longrightarrow>
       pdn_eps_bearers p ! i \<noteq> pdn_eps_bearers p ! j \<and>
       bearer_pdrs s (pdn_eps_bearers p ! i) \<inter> bearer_pdrs s (pdn_eps_bearers p ! j) = {}"
    by (auto simp: pdn_ok_def used_slot_def)
  from ok(1-3) show "length (pdn_eps_bearers p) = MAX_BEARERS" "length (eps_bearers c) = MAX_BEARERS" "pdn \<noteq> NULL" .
  assume i: "i < MAX_BEARERS" "used_slot p i"
  from ok(4)[OF i] show "eps_bearers c ! i = pdn_eps_bearers p ! i" "bearer_ok i pdn (pdn_eps_bearers p ! i) s" by simp_all
  have "pdn_eps_bearers p ! i \<noteq> pdn_eps_bearers p ! j \<and>
      bearer_pdrs s (pdn_eps_bearers p ! i) \<inter> bearer_pdrs s (pdn_eps_bearers p ! j) = {}"
    if "j < i" "used_slot p j" for j
    using ok(5)[of i j] i that by simp
  then show "pdn_eps_bearers p ! i \<notin> slot_bearers i p" "bearer_pdrs s (pdn_eps_bearers p ! i) \<inter> slot_pdrs i p s = {}"
    by (auto simp: slot_bearers_def slot_pdrs_def)
qed

lemma pdr_entry:
  assumes "pdr_registered x s \<and> x \<noteq> NULL"
  shows "\<exists>i. pdr_heap s x = Some i \<and> pdrid_pdrctxt_hash (pdr_table (cpp s)) (ucast i) = Some x"
proof -
  from assms have "pdr_registered x s" by simp
  then obtain i where i: "pdr_heap s x = Some i" "map_find (ucast i) (pdrid_pdrctxt_hash (pdr_table (cpp s))) = x"
    unfolding pdr_registered_iff by (elim exE conjE)
  with assms map_find_eq[of x "ucast i" "pdrid_pdrctxt_hash (pdr_table (cpp s))"]
  have "pdrid_pdrctxt_hash (pdr_table (cpp s)) (ucast i) = Some x" by simp
  with i(1) show ?thesis by (intro exI conjI)
qed

lemma torn_pdr_registered:
  assumes ok: "pdn_ok pdn s" "pdn_heap s pdn = Some p" "ue_heap s (ue_ctxt p) = Some c" and k: "k < MAX_BEARERS"
    and q: "q \<in> bearer_pdrs s (pdn_eps_bearers p ! k)" "used_slot p k"
  shows "pdr_registered q (torn k pdn p c s)"
proof -
  have reg: "pdr_registered x s \<and> x \<noteq> NULL" if x: "x \<in> bearer_pdrs s (pdn_eps_bearers p ! j)" "j < MAX_BEARERS" "used_slot p j" for x j
    using pdn_okD(5)[OF ok x(2,3)] x(1) by (auto simp: bearer_pdrs_def bearer_ok_def pdr_owned_def)
  from pdn_okD(7)[OF ok k q(2)] q(1) have new: "q \<notin> slot_pdrs k p s" by blast
  from pdr_entry[OF reg[OF q(1) k q(2)]] reg[OF q(1) k q(2)] obtain i where i: "pdr_heap s q = Some i"
    "pdrid_pdrctxt_hash (pdr_table (cpp s)) (ucast i) = Some q" "q \<noteq> NULL" by blast
  have "ucast i \<notin> pdr_keys (pdr_heap s) (slot_pdrs k p s)"
  proof
    assume "ucast i \<in> pdr_keys (pdr_heap s) (slot_pdrs k p s)"
    then obtain x where x: "x \<in> slot_pdrs k p s" "ucast i = (ucast (the (pdr_heap s x)) :: u32)"
      by (auto simp: pdr_keys_def)
    then obtain j where "j < k" "used_slot p j" "x \<in> bearer_pdrs s (pdn_eps_bearers p ! j)"
      by (auto simp: slot_pdrs_def slot_bearers_def)
    with pdr_entry[of x] reg[of x j] k obtain i' where "pdr_heap s x = Some i'"
      "pdrid_pdrctxt_hash (pdr_table (cpp s)) (ucast i') = Some x" by auto
    with x i new show False by auto
  qed
  with i new have "pdr_heap (torn k pdn p c s) q = Some i"
    "map_find (ucast i) (pdrid_pdrctxt_hash (pdr_table (cpp (torn k pdn p c s)))) = q"
    by (simp_all add: map_find_def)
  then show ?thesis unfolding pdr_registered_iff by (intro exI conjI)
qed

lemma torn_step:
  assumes ok: "pdn_ok pdn s" "pdn_heap s pdn = Some p" "ue_heap s (ue_ctxt p) = Some c" and k: "k < MAX_BEARERS"
  shows "cleanup_bearer_slot pdn k (torn k pdn p c s) = Some (torn (Suc k) pdn p c s)"
proof (cases "used_slot p k")
  case False
  with pdn_okD(1)[OF ok] k show ?thesis
    by (simp add: cleanup_bearer_slot_def torn_unused) (simp add: used_slot_def)
next
  case True
  let ?t = "torn k pdn p c s" and ?bearer = "pdn_eps_bearers p ! k"
  let ?p = "p\<lparr>pdn_eps_bearers := clear_slots k p (pdn_eps_bearers p)\<rparr>" and ?c = "torn_ue k p c"
  note D = pdn_okD[OF ok] and Dk = pdn_okD(4-7)[OF ok k True]
  from Dk(2) obtain b where b: "bearer_heap s ?bearer = Some b" and f: "eps_bearer_id b = of_nat k + 5"
    "bearer_pdn b = pdn" "qer_count b = 0" "unat (pdr_count b) \<le> length (pdrs b)" "distinct (pdr_owned b)"
    by (auto simp: bearer_ok_def)
  have owned: "bearer_pdrs s ?bearer = set (pdr_owned b)" by (simp add: bearer_pdrs_def b)
  have bt: "bearer_heap ?t ?bearer = Some b" using b Dk(3) by simp
  have bok: "bearer_ok k pdn ?bearer ?t"
    unfolding bearer_ok_def using bt f torn_pdr_registered[OF ok k _ True] owned by blast
  have "cleanup_bearer_context ?bearer ?t = Some (drop_bearer k pdn ?p ?c ?bearer b ?t)"
    by (rule cleanup_bearer_context_eq[OF bok bt k])
      (use D(1,2) Dk(1) k True in \<open>simp_all add: torn_ue_def\<close>, simp add: used_slot_def)
  moreover have "?bearer \<noteq> NULL" using True by (simp add: used_slot_def)
  ultimately have "cleanup_bearer_slot pdn k ?t = upd_ue (ue_ctxt p)
      (\<lambda>c. c\<lparr>pdns := (pdns c)[k := NULL], bearer_bitmap := bearer_bitmap c AND NOT (push_bit k 1)\<rparr>)
      (drop_bearer k pdn ?p ?c ?bearer b ?t)"
    using D(1) k by (simp add: cleanup_bearer_slot_def)
  also have "\<dots> = Some (torn (Suc k) pdn p c s)"
  proof -
    have "slot_pdrs (Suc k) p s = slot_pdrs k p s \<union> set (pdr_owned b)"
      using True by (auto simp: slot_pdrs_def owned)
    moreover have "slot_names (Suc k) p s =
        slot_names k p s \<union> {rule_key name (call_id p) |name. Some name \<in> set (dynamic_rules b)}"
      using True b by (auto simp: slot_names_def)
    moreover have "- insert x A = - A - {x}" for x :: ptr and A by auto
    moreover have "set (pdr_owned b) \<inter> slot_pdrs k p s = {}" using Dk(4) owned by simp
    ultimately show ?thesis using True
      by (simp add: drop_bearer_def fold_drop_pdr_eq[OF f(5)] drop_names_eq upd_defs)
        (simp add: torn_def torn_ue_def without_compose clear_slots_Suc fun_upd_idem)
  qed
  finally show ?thesis .
qed

lemma cleanup_slots:
  assumes ok: "pdn_ok pdn s" "pdn_heap s pdn = Some p" "ue_heap s (ue_ctxt p) = Some c" and k: "k \<le> MAX_BEARERS"
  shows "for_each (cleanup_bearer_slot pdn) [0..<k] s = Some (torn k pdn p c s)"
  using k
proof (induction k)
  case 0
  from torn_0[OF ok(2,3)] show ?case by simp
next
  case (Suc k)
  then show ?case by (simp add: for_each_append torn_step[OF ok])
qed

text \<open>The rest of \<open>cleanup_pdn_context\<close>: pending rules, tables and the address.\<close>

definition rule_blocks :: "(ptr \<times> ptr) list \<Rightarrow> ptr list" where
  "rule_blocks rules = filter (\<lambda>b. b \<noteq> NULL) (concat (map (\<lambda>(pcc, dyn). [dyn, pcc]) rules))"

definition rules_ok :: "(ptr \<times> ptr) list \<Rightarrow> cp_state \<Rightarrow> bool" where
  "rules_ok rules s \<longleftrightarrow> distinct (rule_blocks rules) \<and> set (rule_blocks rules) \<subseteq> blocks s"

lemma free_pair:
  "distinct (filter (\<lambda>b. b \<noteq> NULL) [x, y]) \<Longrightarrow> set (filter (\<lambda>b. b \<noteq> NULL) [x, y]) \<subseteq> blocks s \<Longrightarrow>
   do { s \<leftarrow> free_block x s; free_block y s } = Some (s\<lparr>blocks := blocks s - set (filter (\<lambda>b. b \<noteq> NULL) [x, y])\<rparr>)"
proof -
  assume *: "distinct (filter (\<lambda>b. b \<noteq> NULL) [x, y])" "set (filter (\<lambda>b. b \<noteq> NULL) [x, y]) \<subseteq> blocks s"
  have "blocks s - {x} - {y} = blocks s - {x, y}" by auto
  with * show ?thesis by (cases "x = NULL"; cases "y = NULL") (simp_all add: free_block_def)
qed

lemma free_pending_rules:
  assumes "pdn_heap s pdn = Some q" "pending_pcc_rules q = rules" "rules_ok rules s"
  shows "for_each (free_pending_rule pdn) rules s = Some (s\<lparr>pdn_heap := (pdn_heap s)(pdn \<mapsto> q\<lparr>pending_pcc_rules := []\<rparr>),
     blocks := blocks s - set (rule_blocks rules)\<rparr>)"
  using assms
proof (induction rules arbitrary: s q)
  case Nil
  then have "q\<lparr>pending_pcc_rules := []\<rparr> = q" by simp
  with Nil show ?case by (simp add: fun_upd_idem rule_blocks_def)
next
  case (Cons r rules)
  obtain pcc dyn where r: "r = (pcc, dyn)" by fastforce
  define B where "B = filter (\<lambda>b. b \<noteq> NULL) [dyn, pcc]"
  define u where "u = s\<lparr>pdn_heap := (pdn_heap s)(pdn \<mapsto> q\<lparr>pending_pcc_rules := rules\<rparr>)\<rparr>"
  have split: "rule_blocks (r # rules) = B @ rule_blocks rules"
    by (simp add: r rule_blocks_def B_def)
  have u: "blocks u = blocks s" "pdn_heap u pdn = Some (q\<lparr>pending_pcc_rules := rules\<rparr>)" by (simp_all add: u_def)
  have "distinct B" "set B \<subseteq> blocks u" using Cons.prems(3) by (auto simp: rules_ok_def split u)
  then have "do { s \<leftarrow> free_block dyn u; free_block pcc s } = Some (u\<lparr>blocks := blocks u - set B\<rparr>)"
    unfolding B_def by (rule free_pair)
  then have step: "free_pending_rule pdn r s = Some (u\<lparr>blocks := blocks u - set B\<rparr>)"
    using Cons.prems(1,2) by (simp add: free_pending_rule_def r upd_defs u_def)
  have ok: "rules_ok rules (u\<lparr>blocks := blocks u - set B\<rparr>)"
    using Cons.prems(3) by (auto simp: rules_ok_def split u)
  have "blocks s - set B - set (rule_blocks rules) = blocks s - set (rule_blocks (r # rules))"
    by (auto simp: split)
  with Cons.IH[OF _ _ ok, of "q\<lparr>pending_pcc_rules := rules\<rparr>"] show ?case
    by (simp add: step u) (simp add: u_def fun_upd_def cong: if_cong)
qed

definition released_pools :: "pdn_connection \<Rightarrow> ip_pools \<Rightarrow> ip_pools option" where
  "released_pools p ps = (if IF_PDN_ADDR_STATIC p then map_option snd (release_ip_node (ipv4 p) ps)
     else if IF_PDN_ADDR_ALLOC_CONTROL p then release_ip (ipv4 p) ps else Some ps)"

lemma release_pdn_address_eq:
  "released_pools p (pools s) = Some ps \<Longrightarrow> release_pdn_address p s = Some (s\<lparr>pools := ps\<rparr>)"
  by (auto simp: released_pools_def release_pdn_address_def split: if_splits)

definition without_sessions :: "pdn_connection \<Rightarrow> ue_context \<Rightarrow> cpp_tables \<Rightarrow> cpp_tables" where
  "without_sessions p c t = t\<lparr>
     ue_table := (ue_table t)\<lparr>seid_session_hash := (seid_session_hash (ue_table t))(seid p := None),
       gx_sessid_session_hash := (gx_sessid_session_hash (ue_table t))(gx_sess_id p := None)\<rparr>,
     pdn_table := (pdn_table t)\<lparr>pdn_by_callid_hash := (pdn_by_callid_hash (pdn_table t))(call_id p := None),
       pdn_by_fteid_hash := (pdn_by_fteid_hash (pdn_table t))(s11_sgw_gtpc_teid c := None)\<rparr>\<rparr>"

lemmas session_entry_defs = del_sess_entry_seid_def delete_seid_ue_mapping_def del_pdn_conn_entry_def
  delete_callid_pdn_mapping_def remove_gxsessid_to_context_def delete_gx_sessid_ue_mapping_def
  pdn_context_delete_entry_teidKey_def delete_teid_pdn_mapping_def cpp_do_def map_erase_def

lemma without_sessions_eq:
  "cpp_do (pdn_context_delete_entry_teidKey (s11_sgw_gtpc_teid c)) (cpp_do (remove_gxsessid_to_context (gx_sess_id p))
     (cpp_do (del_pdn_conn_entry (call_id p)) (cpp_do (del_sess_entry_seid (seid p)) s))) =
   s\<lparr>cpp := without_sessions p c (cpp s)\<rparr>"
  by (simp add: session_entry_defs without_sessions_def)

definition removed_pdn :: "ptr \<Rightarrow> pdn_connection \<Rightarrow> ue_context \<Rightarrow> ip_pools \<Rightarrow> cp_state \<Rightarrow> cp_state" where
  "removed_pdn pdn p c ps s =
     (let t = without_pdrs (slot_pdrs MAX_BEARERS p s) (without_names (slot_names MAX_BEARERS p s) s)
      in t\<lparr>pdn_heap := (pdn_heap s)(pdn := None),
           ue_heap := (ue_heap s)(ue_ctxt p \<mapsto> (torn_ue MAX_BEARERS p c)\<lparr>num_pdns := num_pdns c - 1, teid_bitmap := 0\<rparr>),
           bearer_heap := bearer_heap s |` (- slot_bearers MAX_BEARERS p),
           blocks := blocks s - set (rule_blocks (pending_pcc_rules p)),
           cpp := without_sessions p c (cpp t), pools := ps\<rparr>)"

lemma cleanup_pdn_context_eq:
  assumes ok: "pdn_ok pdn s" "pdn_heap s pdn = Some p" "ue_heap s (ue_ctxt p) = Some c"
    and teid: "s11_sgw_gtpc_teid c = UE_SESS_ID (seid p)" and rules: "rules_ok (pending_pcc_rules p) s"
    and ps: "released_pools p (pools s) = Some ps"
  shows "cleanup_pdn_context pdn s = Some (removed_pdn pdn p c ps s)"
proof -
  define t where "t = torn MAX_BEARERS pdn p c s"
  have frame: "blocks t = blocks s" "pools t = pools s" "ue_heap t (ue_ctxt p) = Some (torn_ue MAX_BEARERS p c)"
    "num_pdns (torn_ue MAX_BEARERS p c) = num_pdns c"
    "pdn_heap t = (pdn_heap s)(pdn \<mapsto> p\<lparr>pdn_eps_bearers := clear_slots MAX_BEARERS p (pdn_eps_bearers p)\<rparr>)"
    by (simp_all add: t_def torn_def torn_ue_def without_pdrs_def without_names_def)
  have slots: "for_each (cleanup_bearer_slot pdn) [0..<MAX_BEARERS] s = Some t"
    unfolding t_def by (rule cleanup_slots[OF ok order_refl])
  define u where "u = t\<lparr>pdn_heap := (pdn_heap t)(pdn \<mapsto> p\<lparr>pdn_eps_bearers := clear_slots MAX_BEARERS p (pdn_eps_bearers p),
        pending_pcc_rules := []\<rparr>), blocks := blocks t - set (rule_blocks (pending_pcc_rules p))\<rparr>"
  have "rules_ok (pending_pcc_rules p) t" using rules by (simp add: rules_ok_def frame)
  then have pending: "for_each (free_pending_rule pdn) (pending_pcc_rules p) t = Some u"
    unfolding u_def by (subst free_pending_rules) (simp_all add: frame(5))
  have uframe: "ue_heap u (ue_ctxt p) = Some (torn_ue MAX_BEARERS p c)" "pools u = pools s" "pdn_heap u pdn \<noteq> None"
    by (simp_all add: u_def frame)
  have addr: "release_pdn_address p v = Some (v\<lparr>pools := ps\<rparr>)" if "pools v = pools s" for v
    using release_pdn_address_eq[of p v ps] ps that by simp
  have "cleanup_pdn_context pdn s = do {
      s \<leftarrow> upd_ue (ue_ctxt p) (\<lambda>c. c\<lparr>num_pdns := num_pdns c - 1, teid_bitmap := 0\<rparr>) (u\<lparr>cpp := without_sessions p c (cpp u)\<rparr>);
      s \<leftarrow> release_pdn_address p s;
      free_pdn pdn s }"
    using ok teid by (simp add: cleanup_pdn_context_def slots pending without_sessions_eq assert_c_def)
  also have "\<dots> = Some (u\<lparr>cpp := without_sessions p c (cpp u),
      ue_heap := (ue_heap u)(ue_ctxt p \<mapsto> (torn_ue MAX_BEARERS p c)\<lparr>num_pdns := num_pdns c - 1, teid_bitmap := 0\<rparr>),
      pools := ps, pdn_heap := (pdn_heap u)(pdn := None)\<rparr>)"
    using uframe pdn_okD(3)[OF ok] by (auto simp: upd_defs addr free_pdn_def frame)
  also have "\<dots> = Some (removed_pdn pdn p c ps s)"
    by (simp add: u_def frame removed_pdn_def) (simp add: t_def torn_def Let_def)
  finally show ?thesis .
qed

section \<open>Closed forms of creation and removal\<close>

definition removed_ue :: "ptr \<Rightarrow> ue_context \<Rightarrow> cp_state \<Rightarrow> cp_state" where
  "removed_ue u c s = s\<lparr>ue_heap := (ue_heap s)(u := None), cpp := (cpp s)\<lparr>ue_table := (ue_table (cpp s))\<lparr>
     imsi_session_hash := (imsi_session_hash (ue_table (cpp s)))(imsi c := None),
     teid_session_hash := (teid_session_hash (ue_table (cpp s)))(s11_sgw_gtpc_teid c := None)\<rparr>\<rparr>\<rparr>"

lemma cleanup_ue_context_eq:
  "ue_heap s u = Some c \<Longrightarrow> u \<noteq> NULL \<Longrightarrow> num_pdns c = 0 \<Longrightarrow> pending_sub_procs c = [] \<Longrightarrow>
   cleanup_ue_context u s = Some (NULL, removed_ue u c s)"
  by (simp add: cleanup_ue_context_def removed_ue_def cpp_do_def ue_context_delete_entry_imsiKey_def
      delete_imsi_ue_mapping_def ue_context_delete_entry_teidKey_def delete_teid_ue_mapping_def map_erase_def free_ue_def)

definition created_ue :: "u64 \<Rightarrow> nat \<Rightarrow> u32 \<Rightarrow> nat \<Rightarrow> ptr \<Rightarrow> ue_context" where
  "created_ue key len teid i n = calloc_ue\<lparr>imsi := key, imsi_len := of_nat len, s11_sgw_gtpc_teid := teid,
     eps_bearers := (replicate MAX_BEARERS NULL)[i := n + 1], pdns := (replicate MAX_BEARERS NULL)[i := n + 2],
     num_pdns := 1, bearer_bitmap := push_bit i 1\<rparr>"

definition created_pdn :: "u8 \<Rightarrow> ptr \<Rightarrow> string \<Rightarrow> u8 \<Rightarrow> pdn_connection" where
  "created_pdn ebi n name len = calloc_pdn\<lparr>num_bearer := 1, default_bearer_id := ebi, apn := name, apn_len := len,
     pdn_eps_bearers := (replicate MAX_BEARERS NULL)[unat (ebi - 5) := n + 1]\<rparr>"

definition created_bearer :: "u8 \<Rightarrow> ptr \<Rightarrow> eps_bearer" where
  "created_bearer ebi n = calloc_bearer\<lparr>eps_bearer_id := ebi,
     packet_filter_map := replicate MAX_FILTERS_PER_UE (-2), bearer_pdn := n + 2\<rparr>"

definition with_session :: "u64 \<Rightarrow> u32 \<Rightarrow> ptr \<Rightarrow> cpp_tables \<Rightarrow> cpp_tables" where
  "with_session key teid n t = t\<lparr>
     ue_table := (ue_table t)\<lparr>imsi_session_hash := map_insert key n (imsi_session_hash (ue_table t)),
       teid_session_hash := map_insert teid n (teid_session_hash (ue_table t))\<rparr>,
     pdn_table := (pdn_table t)\<lparr>pdn_by_fteid_hash := map_insert teid (n + 2) (pdn_by_fteid_hash (pdn_table t))\<rparr>\<rparr>"

definition can_create :: "u64 \<Rightarrow> nat \<Rightarrow> u8 \<Rightarrow> string \<Rightarrow> cp_state \<Rightarrow> bool" where
  "can_create imsi_val len ebi name s \<longleftrightarrow> len \<le> 8 \<and> unat (ebi - 5) < MAX_BEARERS \<and> length name < MAX_APN_LEN \<and>
     ue_context_entry_lookup_imsiKey (imsi_key imsi_val len) (cpp s) = NULL \<and> next_ptr s \<noteq> NULL \<and>
     \<not> alloc_fails s (next_ptr s) \<and> \<not> alloc_fails s (next_ptr s + 1) \<and> \<not> alloc_fails s (next_ptr s + 2)"

lemma create_default_bearer_eq:
  assumes c: "ue_heap s u = Some c" and i: "unat (ebi - 5) < length (eps_bearers c)"
    and "next_ptr s = n" "n \<noteq> NULL" "\<not> alloc_fails s n" "\<not> alloc_fails s (n + 1)"
  shows "create_default_bearer u ebi s = Some (0, s\<lparr>next_ptr := n + 2,
     ue_heap := (ue_heap s)(u \<mapsto> c\<lparr>eps_bearers := (eps_bearers c)[unat (ebi - 5) := n],
       pdns := (pdns c)[unat (ebi - 5) := n + 1], num_pdns := num_pdns c + 1,
       bearer_bitmap := bearer_bitmap c OR push_bit (unat (ebi - 5)) 1\<rparr>),
     bearer_heap := (bearer_heap s)(n \<mapsto> calloc_bearer\<lparr>eps_bearer_id := ebi,
       packet_filter_map := replicate MAX_FILTERS_PER_UE (-2), bearer_pdn := n + 1\<rparr>),
     pdn_heap := (pdn_heap s)(n + 1 \<mapsto> calloc_pdn\<lparr>num_bearer := 1,
       pdn_eps_bearers := (replicate MAX_BEARERS NULL)[unat (ebi - 5) := n], default_bearer_id := ebi\<rparr>)\<rparr>)"
  using assms by (simp add: create_default_bearer_def calloc_ptr_defs upd_defs Let_def) (simp add: calloc_pdn_def calloc_bearer_def)

lemma create_ue_context_eq:
  assumes "can_create imsi_val len ebi name s"
  defines "n \<equiv> next_ptr s" and "key \<equiv> imsi_key imsi_val len" and "teid \<equiv> fst (new_s11_teid s)"
  shows "create_ue_context imsi_val len ebi name alen s = Some (0, n, (snd (new_s11_teid s))\<lparr>next_ptr := n + 3,
     cpp := with_session key teid n (cpp s),
     ue_heap := (ue_heap s)(n \<mapsto> created_ue key len teid (unat (ebi - 5)) n),
     bearer_heap := (bearer_heap s)(n + 1 \<mapsto> created_bearer ebi n),
     pdn_heap := (pdn_heap s)(n + 2 \<mapsto> created_pdn ebi n name alen)\<rparr>)"
proof -
  have teid': "new_s11_teid (s\<lparr>next_ptr := a, ue_heap := h, cpp := t\<rparr>) =
      (teid, (snd (new_s11_teid s))\<lparr>next_ptr := a, ue_heap := h, cpp := t\<rparr>)" for a h t
    by (simp add: new_s11_teid_def teid_def)
  have frame: "ue_heap (snd (new_s11_teid s)) = ue_heap s" "pdn_heap (snd (new_s11_teid s)) = pdn_heap s"
    "bearer_heap (snd (new_s11_teid s)) = bearer_heap s" "alloc_fails (snd (new_s11_teid s)) = alloc_fails s"
    by (simp_all add: new_s11_teid_def)
  have h: "len \<le> 8" "unat (ebi - 5) < MAX_BEARERS" "length name < MAX_APN_LEN" "n \<noteq> NULL"
    "ue_context_entry_lookup_imsiKey key (cpp s) = NULL"
    "\<not> alloc_fails s n" "\<not> alloc_fails s (n + 1)" "\<not> alloc_fails s (n + 2)"
    using assms(1) by (simp_all add: can_create_def n_def key_def)
  define c1 where "c1 = calloc_ue\<lparr>imsi := key, imsi_len := of_nat len, s11_sgw_gtpc_teid := teid, pending_sub_procs := []\<rparr>"
  define t1 where "t1 = snd (ue_context_entry_add_teidKey teid n (snd (ue_context_entry_add_imsiKey key n (cpp s))))"
  define s1 where "s1 = (snd (new_s11_teid s))\<lparr>next_ptr := n + 1, ue_heap := (ue_heap s)(n \<mapsto> c1), cpp := t1\<rparr>"
  have c1: "length (eps_bearers c1) = MAX_BEARERS" "length (pdns c1) = MAX_BEARERS"
    by (simp_all add: c1_def calloc_ue_def)
  have t1: "snd (pdn_context_entry_add_teidKey teid (n + 2) t1) = with_session key teid n (cpp s)"
    by (simp add: t1_def with_session_def pdn_context_entry_add_teidKey_def add_teid_to_pdn_mapping_def
        ue_context_entry_add_teidKey_def add_teid_to_ue_mapping_def ue_context_entry_add_imsiKey_def
        add_imsi_to_ue_mapping_def)
  have "create_ue_context imsi_val len ebi name alen s = do {
      (ret, s) \<leftarrow> create_default_bearer n ebi s1;
      if ret \<noteq> 0 then Some (ret, n, s)
      else do {
        c \<leftarrow> ue_heap s n;
        let pdn = pdns c ! unat (ebi - 5);
        let s = cpp_do (pdn_context_entry_add_teidKey teid pdn) s;
        assert_c (length name < MAX_APN_LEN);
        s \<leftarrow> upd_pdn pdn (\<lambda>p. p\<lparr>apn := name, apn_len := alen\<rparr>) s;
        Some (0, n, s)
      } }"
    using h by (simp add: create_ue_context_def calloc_ue_ptr_def n_def[symmetric] key_def[symmetric] upd_defs cpp_do_def
        assert_c_def teid' frame s1_def c1_def t1_def)
  moreover have "ue_heap s1 n = Some c1" "next_ptr s1 = n + 1" "alloc_fails s1 = alloc_fails s"
    "bearer_heap s1 = bearer_heap s" "pdn_heap s1 = pdn_heap s" "cpp s1 = t1" "ue_heap s1 = (ue_heap s)(n \<mapsto> c1)"
    by (simp_all add: s1_def frame)
  ultimately show ?thesis
    using h c1 t1 by (simp add: create_default_bearer_eq[of s1 n c1 ebi "n + 1"] Let_def upd_defs cpp_do_def assert_c_def)
      (simp add: s1_def c1_def created_ue_def created_pdn_def created_bearer_def calloc_ue_def calloc_pdn_def
        numeral_2_eq_2 numeral_3_eq_3)
qed

section \<open>Properties\<close>

text \<open>A run of \<open>set_s1u_sgw_gtpu_teid\<close> for bearers and their subscribers, with the identifiers it assigned.\<close>

fun assign_s1u :: "(ptr \<times> ptr) list \<Rightarrow> cp_state \<Rightarrow> (u32 list \<times> cp_state) option" where
  "assign_s1u [] s = Some ([], s)"
| "assign_s1u ((bearer, context) # bcs) s = do {
     s \<leftarrow> set_s1u_sgw_gtpu_teid bearer context s;
     b \<leftarrow> bearer_heap s bearer;
     (ts, s) \<leftarrow> assign_s1u bcs s;
     Some (s1u_sgw_gtpu_teid b # ts, s)
   }"

lemma gtpu_teid_low: "gtpu_teid base rng i AND mask 24 = base AND mask 24"
proof -
  have m: "(0x00ffffff :: u32) = mask 24" by (simp add: mask_eq_exp_minus_1)
  show ?thesis unfolding gtpu_teid_def m by (rule bit_word_eqI) (auto simp: bit_simps)
qed

lemma set_s1u_teid:
  assumes "set_s1u_sgw_gtpu_teid bearer context s = Some s'" "config_cp_type s = SAEGWC" "bearer_heap s' bearer = Some b"
  shows "s1u_sgw_gtpu_teid b AND mask 24 = (sgw_gtpc_base_teid s + sgw_gtpc_teid_offset s) AND mask 24"
    and "sgw_gtpc_base_teid s' = sgw_gtpc_base_teid s" "sgw_gtpc_teid_offset s' = sgw_gtpc_teid_offset s + 1"
    and "config_cp_type s' = SAEGWC"
  using assms by (auto simp: set_s1u_sgw_gtpu_teid_def bind_eq_Some_conv Let_def gtpu_teid_low)

lemma assign_s1u_low:
  "assign_s1u bcs s = Some (ts, s') \<Longrightarrow> config_cp_type s = SAEGWC \<Longrightarrow> map (\<lambda>t. t AND mask 24) ts =
   map (\<lambda>i. (sgw_gtpc_base_teid s + sgw_gtpc_teid_offset s + of_nat i) AND mask 24) [0..<length bcs]"
proof (induction bcs arbitrary: s ts)
  case (Cons bc bcs)
  obtain bearer ue where bc: "bc = (bearer, ue)" by fastforce
  from Cons.prems(1) obtain s1 b ts' where 1: "set_s1u_sgw_gtpu_teid bearer ue s = Some s1"
    "bearer_heap s1 bearer = Some b" "assign_s1u bcs s1 = Some (ts', s')" "ts = s1u_sgw_gtpu_teid b # ts'"
    by (auto simp: bc bind_eq_Some_conv)
  note t = set_s1u_teid[OF 1(1) Cons.prems(2) 1(2)]
  have "map (\<lambda>t. t AND mask 24) ts' =
      map (\<lambda>i. (sgw_gtpc_base_teid s + sgw_gtpc_teid_offset s + of_nat (Suc i)) AND mask 24) [0..<length bcs]"
    using Cons.IH[OF 1(3) t(4)] by (simp add: t ac_simps)
  then show ?case by (simp add: 1(4) t(1) map_upt_Suc del: upt_Suc of_nat_Suc)
qed simp

lemma mod_shift_inject: "(m + i) mod N = (m + j) mod N \<Longrightarrow> i < N \<Longrightarrow> j < N \<Longrightarrow> i = j" for m i j N :: nat
proof -
  have "i = j" if "i \<le> j" "(m + j) mod N = (m + i) mod N" "j < N" for i j
  proof -
    from that have "N dvd j - i" using mod_eq_dvd_iff_nat[of "m + i" "m + j" N] by simp
    with that show ?thesis using nat_dvd_not_less[of "j - i" N] by (cases "i = j") auto
  qed
  then show "(m + i) mod N = (m + j) mod N \<Longrightarrow> i < N \<Longrightarrow> j < N \<Longrightarrow> i = j"
    by (metis nat_le_linear)
qed

lemma low_bits_inject:
  "i < 2 ^ 24 \<Longrightarrow> j < 2 ^ 24 \<Longrightarrow> (a + of_nat i) AND mask 24 = (a + of_nat j) AND mask 24 \<Longrightarrow> i = j" for a :: u32
proof -
  assume ij: "i < 2 ^ 24" "j < 2 ^ 24" and eq: "(a + of_nat i) AND mask 24 = (a + of_nat j) AND mask 24"
  then have eq: "take_bit 24 (a + of_nat i) = take_bit 24 (a + of_nat j)" by (simp add: take_bit_eq_mask)
  have val: "unat (take_bit 24 (a + of_nat k)) = (unat a + k) mod 16777216" for k
    by (simp add: unsigned_take_bit_eq take_bit_eq_mod unat_word_ariths unsigned_of_nat mod_mod_cancel mod_add_right_eq)
  from eq have "(unat a + i) mod 16777216 = (unat a + j) mod 16777216" unfolding val[symmetric] by simp
  with ij show "i = j" by (intro mod_shift_inject[of "unat a" i 16777216 j]) simp_all
qed

text \<open>C25: in a combined gateway the tunnel endpoint identifiers that are assigned to any \<open>2 ^ 24\<close>
  consecutive S1-U bearers, of the same or of different subscribers, are all different, although the
  top byte of an identifier is shared with the range and the bearer index.\<close>

theorem s1u_teids_distinct:
  assumes "assign_s1u bcs s = Some (ts, s')" "config_cp_type s = SAEGWC" "length bcs \<le> 2 ^ 24"
  shows "distinct ts \<and> length ts = length bcs"
proof -
  let ?f = "\<lambda>i. (sgw_gtpc_base_teid s + sgw_gtpc_teid_offset s + of_nat i) AND mask 24"
  have low: "map (\<lambda>t. t AND mask 24) ts = map ?f [0..<length bcs]"
    by (rule assign_s1u_low[OF assms(1,2)])
  have "inj_on ?f {0..<length bcs}"
  proof (rule inj_onI)
    fix i j assume "i \<in> {0..<length bcs}" "j \<in> {0..<length bcs}" "?f i = ?f j"
    then show "i = j" using assms(3) by (intro low_bits_inject[of i j]) simp_all
  qed
  then have "distinct (map (\<lambda>t. t AND mask 24) ts)" unfolding low by (simp add: distinct_map)
  moreover have "length ts = length bcs" using arg_cong[OF low, of length] by simp
  ultimately show ?thesis by (simp add: distinct_map)
qed

theorem s1u_teids_distinct_witness:
  "\<exists>t u s'. assign_s1u [(2, 1), (3, 1)] (example_state\<lparr>ue_heap := [1 \<mapsto> calloc_ue],
     bearer_heap := [2 \<mapsto> calloc_bearer, 3 \<mapsto> calloc_bearer]\<rparr>) = Some ([t, u], s') \<and> t \<noteq> u"
proof -
  let ?s = "example_state\<lparr>ue_heap := [1 \<mapsto> calloc_ue], bearer_heap := [2 \<mapsto> calloc_bearer, 3 \<mapsto> calloc_bearer]\<rparr>"
  have "\<exists>t u s'. assign_s1u [(2, 1), (3, 1)] ?s = Some ([t, u], s')"
    by (simp add: set_s1u_sgw_gtpu_teid_def upd_defs Let_def)
  moreover have "config_cp_type ?s = SAEGWC" by (simp add: example_state_def)
  ultimately show ?thesis using s1u_teids_distinct[of "[(2, 1), (3, 1)]" ?s] by fastforce
qed

text \<open>C26: \<open>create_ue_context\<close> for a subscriber that has no context answers 0 and leaves a
  subscriber, a connection and a default bearer that point to each other and are found under the IMSI
  and under the new tunnel endpoint identifier; a second request with the same IMSI is rejected and
  changes nothing.\<close>

theorem create_ue_context_links:
  assumes "can_create imsi_val len ebi name s"
    and "imsi_session_hash (ue_table (cpp s)) (imsi_key imsi_val len) = None"
    and "teid_session_hash (ue_table (cpp s)) (fst (new_s11_teid s)) = None"
    and "pdn_by_fteid_hash (pdn_table (cpp s)) (fst (new_s11_teid s)) = None"
  shows "\<exists>ctx s' c pdn p bearer b. create_ue_context imsi_val len ebi name alen s = Some (0, ctx, s') \<and>
    ue_heap s' ctx = Some c \<and> pdns c ! unat (ebi - 5) = pdn \<and> eps_bearers c ! unat (ebi - 5) = bearer \<and>
    pdn_heap s' pdn = Some p \<and> get_default_bearer pdn s' = Some bearer \<and> apn p = name \<and>
    bearer_heap s' bearer = Some b \<and> bearer_pdn b = pdn \<and> eps_bearer_id b = ebi \<and>
    ue_context_entry_lookup_imsiKey (imsi_key imsi_val len) (cpp s') = ctx \<and>
    get_ue_context (s11_sgw_gtpc_teid c) (cpp s') = ctx \<and> get_pdn_context (s11_sgw_gtpc_teid c) (cpp s') = pdn \<and>
    create_ue_context imsi_val len ebi' name' alen' s' = Some (GTPV2C_CAUSE_REQUEST_REJECTED, ctx, s')"
proof -
  let ?n = "next_ptr s" and ?i = "unat (ebi - 5)" and ?key = "imsi_key imsi_val len" and ?teid = "fst (new_s11_teid s)"
  define s' where "s' = (snd (new_s11_teid s))\<lparr>next_ptr := ?n + 3, cpp := with_session ?key ?teid ?n (cpp s),
     ue_heap := (ue_heap s)(?n \<mapsto> created_ue ?key len ?teid ?i ?n),
     bearer_heap := (bearer_heap s)(?n + 1 \<mapsto> created_bearer ebi ?n),
     pdn_heap := (pdn_heap s)(?n + 2 \<mapsto> created_pdn ebi ?n name alen)\<rparr>"
  have h: "?i < MAX_BEARERS" "len \<le> 8" "?n \<noteq> NULL" using assms(1) by (simp_all add: can_create_def)
  have imsi: "ue_context_entry_lookup_imsiKey ?key (cpp s') = ?n"
    using assms(2) by (simp add: s'_def with_session_def ue_context_entry_lookup_imsiKey_def find_ue_from_imsi_def container_defs)
  then have "create_ue_context imsi_val len ebi' name' alen' s' = Some (GTPV2C_CAUSE_REQUEST_REJECTED, ?n, s')"
    using h by (simp add: create_ue_context_def assert_c_def)
  with create_ue_context_eq[OF assms(1), of alen, folded s'_def] imsi h assms(3,4) show ?thesis
    by (simp add: get_default_bearer_def s'_def created_ue_def created_pdn_def created_bearer_def calloc_ue_def calloc_pdn_def
        with_session_def get_ue_context_def find_ue_from_teid_def get_pdn_context_def find_pdn_from_teid_def container_defs)
qed

lemma example_can_create: "can_create 5 8 5 ''internet'' example_state"
  by (simp add: can_create_def example_state_def MAX_BEARERS_def MAX_APN_LEN_def init_cpp_tables_def
      ue_context_entry_lookup_imsiKey_def find_ue_from_imsi_def container_defs)

theorem create_ue_context_links_witness:
  "\<exists>ctx s'. create_ue_context 5 8 5 ''internet'' 8 example_state = Some (0, ctx, s') \<and>
     ue_context_entry_lookup_imsiKey (imsi_key 5 8) (cpp s') = ctx \<and>
     create_ue_context 5 8 6 ''ims'' 3 s' = Some (94, ctx, s')"
proof -
  have "imsi_session_hash (ue_table (cpp example_state)) k = None" "teid_session_hash (ue_table (cpp example_state)) t = None"
    "pdn_by_fteid_hash (pdn_table (cpp example_state)) t = None" for k t
    by (simp_all add: example_state_def init_cpp_tables_def)
  from create_ue_context_links[OF example_can_create this, of 8 6 "''ims''" 3] show ?thesis
    unfolding GTPV2C_CAUSE_REQUEST_REJECTED_def by blast
qed


text \<open>A connection with two bearers, one of them with a packet detection rule, and a pending rule.\<close>

definition example_pdn_state :: cp_state where
  "example_pdn_state = example_state\<lparr>
     ue_heap := [1 \<mapsto> calloc_ue\<lparr>s11_sgw_gtpc_teid := 0xC0FFEE, num_pdns := 1,
       eps_bearers := (replicate MAX_BEARERS NULL)[0 := 2, 1 := 3], pdns := (replicate MAX_BEARERS NULL)[0 := 4]\<rparr>],
     pdn_heap := [4 \<mapsto> calloc_pdn\<lparr>seid := SESS_ID 0xC0FFEE 5, default_bearer_id := 5, ue_ctxt := 1, num_bearer := 2,
       pdn_eps_bearers := (replicate MAX_BEARERS NULL)[0 := 2, 1 := 3], pending_pcc_rules := [(7, 8)]\<rparr>],
     bearer_heap := [2 \<mapsto> calloc_bearer\<lparr>eps_bearer_id := 5, bearer_pdn := 4\<rparr>,
       3 \<mapsto> calloc_bearer\<lparr>eps_bearer_id := 6, bearer_pdn := 4, pdr_count := 1, pdrs := (replicate 16 NULL)[0 := 6]\<rparr>],
     pdr_heap := [6 \<mapsto> 9], blocks := {7, 8},
     cpp := snd (add_pdr_entry 9 6 init_cpp_tables)\<rparr>"


end
