(* ===== verification/Proc.thy ===== *)
theory Proc
  imports Ue_Context
begin

text \<open>
  The procedure scheduler: \<open>cp/procedures/proc.c\<close> and the macro of \<open>cp/procedures/proc_struct.h\<close> that
  attaches a message to a procedure.

  A procedure is started by a call through the function pointer \<open>handler\<close> and a child reports to its
  parent through \<open>child_proc_done\<close>; the functions behind the pointers are the parameters \<open>handler\<close> and
  \<open>child_done\<close>.  What the scheduler promises is stated on an abstract queue of procedures with a
  flag for those that run.
\<close>

section \<open>Operations\<close>

definition UPF_ASSOCIATION_PENDING :: u32 where
  "UPF_ASSOCIATION_PENDING = 0x00000001"

definition PROC_FLAGS_RUNNING :: u32 where
  "PROC_FLAGS_RUNNING = 0x00000001"

type_synonym event_handler = "ptr \<Rightarrow> ptr \<Rightarrow> cp_state \<Rightarrow> cp_state option"

definition SET_PROC_MSG :: "ptr \<Rightarrow> ptr \<Rightarrow> cp_state \<Rightarrow> cp_state option" where
  "SET_PROC_MSG proc msg s = do {
     p \<leftarrow> proc_heap s proc;
     s \<leftarrow> (if msg_info p \<noteq> NULL then do {
            m \<leftarrow> msg_heap s (msg_info p);
            s \<leftarrow> free_block (raw_buf m) s;
            free_msg (msg_info p) s
          } else Some s);
     s \<leftarrow> upd_proc proc (\<lambda>p. p\<lparr>msg_info := msg\<rparr>) s;
     upd_msg msg (\<lambda>m. m\<lparr>refCnt := refCnt m + 1\<rparr>) s
   }"

text \<open>The branches of \<open>start_procedure_direct\<close> that set the states before the call, and the function.  The
  assertion of its last branch, on a string literal, never fails.\<close>

definition set_states :: "u8 \<Rightarrow> u8 \<Rightarrow> proc_context \<Rightarrow> cp_state \<Rightarrow> cp_state option" where
  "set_states ue_st pdn_st p s = do {
     s \<leftarrow> upd_ue (ue_context p) (\<lambda>c. c\<lparr>ue_state := ue_st\<rparr>) s;
     upd_pdn (pdn_context p) (\<lambda>d. d\<lparr>pdn_state := pdn_st\<rparr>) s
   }"

definition start_procedure_direct :: "event_handler \<Rightarrow> ptr \<Rightarrow> cp_state \<Rightarrow> cp_state option" where
  "start_procedure_direct handler proc s = do {
     p \<leftarrow> proc_heap s proc;
     s \<leftarrow> upd_proc proc (\<lambda>p. p\<lparr>proc_flags := proc_flags p OR PROC_FLAGS_RUNNING\<rparr>) s;
     (case proc_type p of
        INITIAL_PDN_ATTACH_PROC \<Rightarrow> handler proc (msg_info p) s
      | S1_RELEASE_PROC \<Rightarrow> do {
          s \<leftarrow> set_states UE_STATE_IDLE_PENDING PDN_STATE_IDLE_PENDING p s; handler proc (msg_info p) s }
      | SERVICE_REQUEST_PROC \<Rightarrow> handler proc (msg_info p) s
      | DETACH_PROC \<Rightarrow> do {
          s \<leftarrow> set_states UE_STATE_DETACH_PENDING PDN_STATE_DETACH_PENDING p s; handler proc (msg_info p) s }
      | NW_INIT_DETACH_PROC \<Rightarrow> do {
          s \<leftarrow> set_states UE_STATE_DETACH_PENDING PDN_STATE_DETACH_PENDING p s; handler proc (msg_info p) s }
      | USAGE_REPORT_PROC \<Rightarrow> handler proc (msg_info p) s
      | PAGING_PROC \<Rightarrow> do {
          s \<leftarrow> set_states UE_STATE_PAGING_PENDING PDN_STATE_PAGING_PENDING p s; handler proc (msg_info p) s }
      | DED_BER_ACTIVATION_PROC \<Rightarrow> handler proc (msg_info p) s
      | RAR_PROC \<Rightarrow> handler proc (msg_info p) s
      | _ \<Rightarrow> Some s)
   }"

text \<open>The loop of \<open>start_procedure\<close> over the queue, and the function.\<close>

fun allowed_parellel :: "ptr \<Rightarrow> proc_context \<Rightarrow> ptr list \<Rightarrow> bool \<Rightarrow> cp_state \<Rightarrow> bool option" where
  "allowed_parellel new_proc p [] allowed s = Some allowed"
| "allowed_parellel new_proc p (temp # q) allowed s =
     (if temp = new_proc then allowed_parellel new_proc p q allowed s
      else do {
        t \<leftarrow> proc_heap s temp;
        allowed_parellel new_proc p q
          (if proc_type t = RAR_PROC
           then (if proc_type p = DED_BER_ACTIVATION_PROC \<and> parent_proc p = temp then True
                 else if proc_type p = NW_INIT_DETACH_PROC \<and> parent_proc p = temp then True
                 else allowed)
           else False) s
      })"

definition start_procedure :: "event_handler \<Rightarrow> ptr \<Rightarrow> cp_state \<Rightarrow> cp_state option" where
  "start_procedure handler new_proc s = do {
     p \<leftarrow> proc_heap s new_proc;
     if ue_context p \<noteq> NULL then do {
       s \<leftarrow> upd_ue (ue_context p) (\<lambda>c. c\<lparr>pending_sub_procs := pending_sub_procs c @ [new_proc]\<rparr>) s;
       c \<leftarrow> ue_heap s (ue_context p);
       assert_c (pending_sub_procs c \<noteq> []);
       if hd (pending_sub_procs c) \<noteq> new_proc then do {
         allowed \<leftarrow> allowed_parellel new_proc p (pending_sub_procs c) False s;
         if \<not> allowed then Some s else start_procedure_direct handler new_proc s
       } else start_procedure_direct handler new_proc s
     } else start_procedure_direct handler new_proc s
   }"

text \<open>The parts of \<open>end_procedure\<close>: transactions, message, queue, the branch for the type of the procedure
  (which gives the subscriber that is left, if any), and the start of the next procedure.\<close>

definition end_transactions :: "ptr \<Rightarrow> cp_state \<Rightarrow> cp_state option" where
  "end_transactions proc s = do {
     p \<leftarrow> proc_heap s proc;
     s \<leftarrow> (if gtpc_trans p \<noteq> NULL then cleanup_gtpc_trans (gtpc_trans p) s else Some s);
     p \<leftarrow> proc_heap s proc;
     s \<leftarrow> (if pfcp_trans p \<noteq> NULL then cleanup_pfcp_trans (pfcp_trans p) s else Some s);
     p \<leftarrow> proc_heap s proc;
     (if gx_trans p \<noteq> NULL then cleanup_gx_trans (gx_trans p) s else Some s)
   }"

definition release_msg :: "ptr \<Rightarrow> cp_state \<Rightarrow> cp_state option" where
  "release_msg msg s = (if msg = NULL then Some s
     else do {
       s \<leftarrow> upd_msg msg (\<lambda>m. m\<lparr>refCnt := refCnt m - 1\<rparr>) s;
       m \<leftarrow> msg_heap s msg;
       if refCnt m = 1 then do { s \<leftarrow> free_block (raw_buf m) s; free_msg msg s } else Some s
     })"

definition dequeue_proc :: "ptr \<Rightarrow> ptr \<Rightarrow> cp_state \<Rightarrow> cp_state option" where
  "dequeue_proc proc context s = (if context = NULL then Some s
     else do {
       c \<leftarrow> ue_heap s context;
       assert_c (proc \<in> set (pending_sub_procs c));
       upd_ue context (\<lambda>c. c\<lparr>pending_sub_procs := remove1 proc (pending_sub_procs c)\<rparr>) s
     })"

definition remove_session :: "ptr \<Rightarrow> ptr \<Rightarrow> cp_state \<Rightarrow> (ptr \<times> cp_state) option" where
  "remove_session context pdn s = do {
     s \<leftarrow> cleanup_pdn_context pdn s;
     c \<leftarrow> ue_heap s context;
     if num_pdns c = 0 then cleanup_ue_context context s else Some (context, s)
   }"

definition end_by_type :: "event_handler \<Rightarrow> ptr \<Rightarrow> proc_context \<Rightarrow> cp_state \<Rightarrow> (ptr \<times> cp_state) option" where
  "end_by_type child_done proc p s =
     (let context = ue_context p; pdn = pdn_context p
      in case proc_type p of
           INITIAL_PDN_ATTACH_PROC \<Rightarrow> do {
             (context, s) \<leftarrow>
               (if context \<noteq> NULL \<and> proc_result p = PROC_RESULT_SUCCESS then do {
                  s \<leftarrow> set_states UE_STATE_ACTIVE PDN_STATE_ACTIVE p s; Some (context, s)
                } else if pdn \<noteq> NULL \<and> context \<noteq> NULL then remove_session context pdn s
                else Some (context, s));
             s \<leftarrow> free_block (req_pco p) s;
             s \<leftarrow> free_block (sub_config p) s;
             s \<leftarrow> free_proc proc s;
             Some (context, s)
           }
         | S1_RELEASE_PROC \<Rightarrow> do {
             s \<leftarrow> set_states UE_STATE_IDLE PDN_STATE_IDLE p s;
             s \<leftarrow> free_proc proc s;
             Some (context, s)
           }
         | SERVICE_REQUEST_PROC \<Rightarrow> do {
             s \<leftarrow> free_proc proc s;
             p \<leftarrow> proc_heap s proc;
             Some (ue_context p, s)
           }
         | DETACH_PROC \<Rightarrow> do {
             assert_c (context \<noteq> NULL);
             assert_c (pdn \<noteq> NULL);
             s \<leftarrow> set_states UE_STATE_DETACH PDN_STATE_DETACH p s;
             s \<leftarrow> free_proc proc s;
             remove_session context pdn s
           }
         | USAGE_REPORT_PROC \<Rightarrow> do {
             s \<leftarrow> set_states UE_STATE_ACTIVE PDN_STATE_ACTIVE p s;
             s \<leftarrow> free_proc proc s;
             Some (context, s)
           }
         | PAGING_PROC \<Rightarrow> do {
             s \<leftarrow> set_states UE_STATE_ACTIVE PDN_STATE_ACTIVE p s;
             s \<leftarrow> free_proc proc s;
             Some (context, s)
           }
         | DED_BER_ACTIVATION_PROC \<Rightarrow> do {
             s \<leftarrow> (if parent_proc p \<noteq> NULL then child_done (parent_proc p) proc s else Some s);
             s \<leftarrow> free_proc proc s;
             Some (context, s)
           }
         | RAR_PROC \<Rightarrow> do { s \<leftarrow> free_proc proc s; Some (context, s) }
         | NW_INIT_DETACH_PROC \<Rightarrow> do {
             s \<leftarrow> (if parent_proc p \<noteq> NULL then child_done (parent_proc p) proc s else Some s);
             s \<leftarrow> free_proc proc s;
             remove_session context pdn s
           }
         | _ \<Rightarrow> None)"

fun first_waiting :: "ptr list \<Rightarrow> cp_state \<Rightarrow> ptr option" where
  "first_waiting [] s = Some NULL"
| "first_waiting (temp # q) s = do {
     t \<leftarrow> proc_heap s temp;
     if proc_flags t AND PROC_FLAGS_RUNNING \<noteq> 0 then first_waiting q s else Some temp
   }"

definition start_next :: "event_handler \<Rightarrow> ptr \<Rightarrow> cp_state \<Rightarrow> cp_state option" where
  "start_next handler context s = (if context = NULL then Some s
     else do {
       c \<leftarrow> ue_heap s context;
       temp \<leftarrow> first_waiting (pending_sub_procs c) s;
       if temp = NULL then Some s else start_procedure_direct handler temp s
     })"

definition end_procedure :: "event_handler \<Rightarrow> event_handler \<Rightarrow> ptr \<Rightarrow> cp_state \<Rightarrow> cp_state option" where
  "end_procedure handler child_done proc s = do {
     s \<leftarrow> end_transactions proc s;
     p \<leftarrow> proc_heap s proc;
     s \<leftarrow> release_msg (msg_info p) s;
     s \<leftarrow> dequeue_proc proc (ue_context p) s;
     (context, s) \<leftarrow> end_by_type child_done proc p s;
     start_next handler context s
   }"

definition get_first_procedure :: "ptr \<Rightarrow> cp_state \<Rightarrow> ptr option" where
  "get_first_procedure context s = (if context = NULL then Some NULL
     else do { c \<leftarrow> ue_heap s context; Some (case pending_sub_procs c of [] \<Rightarrow> NULL | p # q \<Rightarrow> p) })"

section \<open>The abstract scheduler\<close>

text \<open>A subscriber's queue as the scheduler sees it: the procedures in order, with their type and
  whether they run.  A new procedure runs at once when the queue is empty, or when it is the child of
  a re-authorisation and only re-authorisations were queued since its parent.  When a procedure ends,
  the first one that waits is started.\<close>

type_synonym entry = "ptr \<times> sm_proc \<times> bool"

definition spec_may_run :: "sm_proc \<Rightarrow> ptr \<Rightarrow> entry list \<Rightarrow> bool" where
  "spec_may_run ty parent q \<longleftrightarrow> q = [] \<or> (ty = DED_BER_ACTIVATION_PROC \<or> ty = NW_INIT_DETACH_PROC) \<and>
     parent \<in> fst ` set (takeWhile (\<lambda>e. fst (snd e) = RAR_PROC) (rev q))"

definition spec_submit :: "ptr \<Rightarrow> sm_proc \<Rightarrow> ptr \<Rightarrow> entry list \<Rightarrow> entry list" where
  "spec_submit new_proc ty parent q = q @ [(new_proc, ty, spec_may_run ty parent q)]"

fun spec_start_first :: "entry list \<Rightarrow> entry list" where
  "spec_start_first [] = []"
| "spec_start_first ((p, ty, running) # q) = (p, ty, True) # (if running then spec_start_first q else q)"

definition spec_finish :: "ptr \<Rightarrow> entry list \<Rightarrow> entry list" where
  "spec_finish proc q = spec_start_first (filter (\<lambda>e. fst e \<noteq> proc) q)"

text \<open>A queue that is not empty has a procedure that runs: nothing waits for ever for a start.\<close>

definition busy :: "entry list \<Rightarrow> bool" where
  "busy q \<longleftrightarrow> q = [] \<or> (\<exists>p ty. (p, ty, True) \<in> set q)"

lemma busy_submit: "busy q \<Longrightarrow> busy (spec_submit p ty parent q)"
  by (auto simp: busy_def spec_submit_def spec_may_run_def)

lemma busy_finish: "busy (spec_finish p q)"
proof -
  have "busy (spec_start_first q)" for q
    by (cases q rule: spec_start_first.cases) (auto simp: busy_def)
  then show ?thesis by (simp add: spec_finish_def)
qed

text \<open>The abstraction of a state.\<close>

definition abs_entry :: "cp_state \<Rightarrow> ptr \<Rightarrow> entry" where
  "abs_entry s q = (case proc_heap s q of None \<Rightarrow> (q, NONE_PROC, False)
     | Some p \<Rightarrow> (q, proc_type p, proc_flags p AND PROC_FLAGS_RUNNING \<noteq> 0))"

definition pending :: "ptr \<Rightarrow> cp_state \<Rightarrow> ptr list" where
  "pending u s = (case ue_heap s u of None \<Rightarrow> [] | Some c \<Rightarrow> pending_sub_procs c)"

definition abs_queue :: "ptr \<Rightarrow> cp_state \<Rightarrow> entry list" where
  "abs_queue u s = map (abs_entry s) (pending u s)"

definition idle_handler :: event_handler where
  "idle_handler proc msg s = Some s"

definition calls_handler :: "sm_proc \<Rightarrow> bool" where
  "calls_handler ty \<longleftrightarrow> ty \<in> {INITIAL_PDN_ATTACH_PROC, S1_RELEASE_PROC, SERVICE_REQUEST_PROC, DETACH_PROC,
     NW_INIT_DETACH_PROC, USAGE_REPORT_PROC, PAGING_PROC, DED_BER_ACTIVATION_PROC, RAR_PROC}"

section \<open>The functions keep the promises\<close>

lemma fst_abs_entry [simp]: "fst (abs_entry s q) = q"
  by (simp add: abs_entry_def split: option.splits)

lemma running_flag [simp]: "PROC_FLAGS_RUNNING \<noteq> 0"
  by (simp add: PROC_FLAGS_RUNNING_def)

lemma start_direct_split:
  assumes "proc_heap s proc = Some p"
  shows "start_procedure_direct handler proc s = do {
    s' \<leftarrow> start_procedure_direct idle_handler proc s;
    if calls_handler (proc_type p) then handler proc (msg_info p) s' else Some s' }"
  using assms
  by (cases "proc_type p") (simp_all add: start_procedure_direct_def calls_handler_def idle_handler_def upd_defs)

lemma set_states_effect:
  assumes "set_states a b p s = Some s'"
  shows "proc_heap s' = proc_heap s" "pending u s' = pending u s" "msg_heap s' = msg_heap s"
  using assms by (auto simp: set_states_def bind_eq_Some_conv pending_def split: option.splits if_splits)

lemma start_direct_effect:
  assumes "start_procedure_direct idle_handler proc s = Some s'" "proc_heap s proc = Some p"
  shows "proc_heap s' = (proc_heap s)(proc \<mapsto> p\<lparr>proc_flags := proc_flags p OR PROC_FLAGS_RUNNING\<rparr>)"
    and "pending u s' = pending u s"
proof -
  let ?s = "s\<lparr>proc_heap := (proc_heap s)(proc \<mapsto> p\<lparr>proc_flags := proc_flags p OR PROC_FLAGS_RUNNING\<rparr>)\<rparr>"
  from assms consider "s' = ?s" | a b where "set_states a b p ?s = Some s'"
    by (cases "proc_type p") (auto simp: start_procedure_direct_def idle_handler_def upd_defs bind_eq_Some_conv)
  then have "proc_heap s' = proc_heap ?s \<and> pending u s' = pending u ?s"
    by cases (use set_states_effect in blast)+
  then show "proc_heap s' = (proc_heap s)(proc \<mapsto> p\<lparr>proc_flags := proc_flags p OR PROC_FLAGS_RUNNING\<rparr>)"
    "pending u s' = pending u s" by (simp_all add: pending_def)
qed

lemma abs_entry_start:
  assumes "start_procedure_direct idle_handler proc s = Some s'" "proc_heap s proc = Some p"
  shows "abs_entry s' q = (if q = proc then (q, proc_type p, True) else abs_entry s q)"
  by (simp add: abs_entry_def start_direct_effect(1)[OF assms])

lemma allowed_parellel_append_new: "allowed_parellel new_proc p (q @ [new_proc]) a s = allowed_parellel new_proc p q a s"
  by (induction q arbitrary: a) simp_all

definition is_rar :: "cp_state \<Rightarrow> ptr \<Rightarrow> bool" where
  "is_rar s x \<longleftrightarrow> fst (snd (abs_entry s x)) = RAR_PROC"

definition has_rar_parent :: "proc_context \<Rightarrow> bool" where
  "has_rar_parent p \<longleftrightarrow> proc_type p = DED_BER_ACTIVATION_PROC \<or> proc_type p = NW_INIT_DETACH_PROC"

lemma allowed_parellel_eq:
  assumes "new_proc \<notin> set q" "\<forall>x\<in>set q. proc_heap s x \<noteq> None"
  shows "allowed_parellel new_proc p q a s = Some (
    has_rar_parent p \<and> parent_proc p \<in> set (takeWhile (is_rar s) (rev q)) \<or> a \<and> (\<forall>x\<in>set q. is_rar s x))"
  using assms
proof (induction q arbitrary: a)
  case (Cons x q)
  then obtain t where t: "proc_heap s x = Some t" and x: "x \<noteq> new_proc" by auto
  have ty: "is_rar s x \<longleftrightarrow> proc_type t = RAR_PROC" by (simp add: is_rar_def abs_entry_def t)
  let ?a = "if is_rar s x then (if has_rar_parent p \<and> parent_proc p = x then True else a) else False"
  have step: "allowed_parellel new_proc p (x # q) a s = allowed_parellel new_proc p q ?a s"
    using x t by (simp add: ty has_rar_parent_def)
  have IH: "allowed_parellel new_proc p q ?a s = Some (
      has_rar_parent p \<and> parent_proc p \<in> set (takeWhile (is_rar s) (rev q)) \<or> ?a \<and> (\<forall>x\<in>set q. is_rar s x))"
    by (rule Cons.IH) (use Cons.prems in auto)
  show ?case
  proof (cases "\<forall>y\<in>set q. is_rar s y")
    case True
    then have tw: "takeWhile (is_rar s) (rev q) = rev q" "takeWhile (is_rar s) (rev (x # q)) = rev q @ (if is_rar s x then [x] else [])"
      by (simp_all add: takeWhile_append takeWhile_eq_all_conv)
    from True show ?thesis unfolding step IH tw by auto
  next
    case False
    then have "takeWhile (is_rar s) (rev (x # q)) = takeWhile (is_rar s) (rev q)"
      by (auto simp: takeWhile_append)
    with False show ?thesis unfolding step IH by auto
  qed
qed simp

lemma rar_tail: "fst ` set (takeWhile (\<lambda>e. fst (snd e) = RAR_PROC) (rev (map (abs_entry s) q))) =
    set (takeWhile (is_rar s) (rev q))"
proof -
  have "takeWhile (\<lambda>e. fst (snd e) = RAR_PROC) (map (abs_entry s) xs) = map (abs_entry s) (takeWhile (is_rar s) xs)" for xs
    by (simp add: takeWhile_map o_def is_rar_def[abs_def])
  then show ?thesis by (simp add: rev_map image_image)
qed

lemma abs_queue_append:
  assumes "ue_heap s u = Some c"
  shows "pending u (s\<lparr>ue_heap := (ue_heap s)(u \<mapsto> c\<lparr>pending_sub_procs := q\<rparr>)\<rparr>) = q"
  by (simp add: pending_def)

text \<open>What \<open>start_procedure\<close> does before the handler is called.\<close>

definition queued :: "ptr \<Rightarrow> ptr \<Rightarrow> ue_context \<Rightarrow> cp_state \<Rightarrow> cp_state" where
  "queued proc u c s = s\<lparr>ue_heap := (ue_heap s)(u \<mapsto> c\<lparr>pending_sub_procs := pending_sub_procs c @ [proc]\<rparr>)\<rparr>"

lemma start_procedure_eq:
  assumes p: "proc_heap s new_proc = Some p" and u: "ue_context p = u" "u \<noteq> NULL" "ue_heap s u = Some c"
    and new: "new_proc \<notin> set (pending_sub_procs c)" and live: "\<forall>x\<in>set (pending_sub_procs c). proc_heap s x \<noteq> None"
  shows "start_procedure handler new_proc s =
    (if spec_may_run (proc_type p) (parent_proc p) (abs_queue u s)
     then start_procedure_direct handler new_proc (queued new_proc u c s) else Some (queued new_proc u c s))"
proof -
  have q: "abs_queue u s = map (abs_entry s) (pending_sub_procs c)" by (simp add: abs_queue_def pending_def u)
  let ?s = "queued new_proc u c s"
  have "proc_heap ?s = proc_heap s" by (simp add: queued_def)
  then have "is_rar ?s = is_rar s" by (simp add: is_rar_def abs_entry_def fun_eq_iff)
  moreover have "\<forall>x\<in>set (pending_sub_procs c). proc_heap ?s x \<noteq> None" using live by (simp add: queued_def)
  ultimately have "allowed_parellel new_proc p (pending_sub_procs c @ [new_proc]) False ?s =
      Some (has_rar_parent p \<and> parent_proc p \<in> set (takeWhile (is_rar s) (rev (pending_sub_procs c))))"
    unfolding allowed_parellel_append_new using allowed_parellel_eq[OF new, of ?s p False] by simp
  moreover have "hd (pending_sub_procs c @ [new_proc]) = new_proc \<longleftrightarrow> pending_sub_procs c = []"
    using new by (cases "pending_sub_procs c") auto
  ultimately show ?thesis
    using p u by (simp add: start_procedure_def upd_defs assert_c_def spec_may_run_def q rar_tail has_rar_parent_def
        queued_def)
qed

text \<open>Cleaning up transactions changes nothing that the scheduler looks at.\<close>

definition sched_view :: "proc_context \<Rightarrow> proc_context" where
  "sched_view p = p\<lparr>gtpc_trans := NULL, pfcp_trans := NULL, gx_trans := NULL\<rparr>"

definition same_procs :: "cp_state \<Rightarrow> cp_state \<Rightarrow> bool" where
  "same_procs s s' \<longleftrightarrow> ue_heap s' = ue_heap s \<and> (\<forall>q. map_option sched_view (proc_heap s' q) = map_option sched_view (proc_heap s q))"

lemma sched_viewD:
  assumes "sched_view p = sched_view q"
  shows "proc_type p = proc_type q" "proc_flags p = proc_flags q" "msg_info p = msg_info q" "ue_context p = ue_context q"
    "pdn_context p = pdn_context q" "proc_result p = proc_result q" "parent_proc p = parent_proc q"
  using arg_cong[OF assms, of proc_type] arg_cong[OF assms, of proc_flags] arg_cong[OF assms, of msg_info]
    arg_cong[OF assms, of ue_context] arg_cong[OF assms, of pdn_context] arg_cong[OF assms, of proc_result]
    arg_cong[OF assms, of parent_proc]
  by (simp_all add: sched_view_def)

lemma same_procs_refl [simp]: "same_procs s s"
  by (simp add: same_procs_def)

lemma same_procs_trans: "same_procs s t \<Longrightarrow> same_procs t u \<Longrightarrow> same_procs s u"
  by (simp add: same_procs_def)

lemma same_procs_retire:
  assumes "(if pr \<noteq> NULL then upd_proc pr f (retire_state x t c s) else Some (retire_state x t c s)) = Some s'"
    and "\<And>p. sched_view (f p) = sched_view p"
  shows "same_procs s s'"
  using assms by (auto simp: same_procs_def retire_state_def split: if_splits)

lemma same_procs_cleanup:
  "cleanup_gtpc_trans x s = Some s' \<Longrightarrow> same_procs s s'"
  "cleanup_pfcp_trans x s = Some s' \<Longrightarrow> same_procs s s'"
  "cleanup_gx_trans x s = Some s' \<Longrightarrow> same_procs s s'"
  by (erule cleanup_gtpc_trans_eq cleanup_pfcp_trans_eq cleanup_gx_trans_eq,
      erule same_procs_retire, simp add: sched_view_def)+

lemma same_procs_end_transactions: "end_transactions proc s = Some s' \<Longrightarrow> same_procs s s'"
proof -
  assume "end_transactions proc s = Some s'"
  then obtain p1 s1 p2 s2 and p3 :: proc_context where
    "(if gtpc_trans (p1 :: proc_context) \<noteq> NULL then cleanup_gtpc_trans (gtpc_trans p1) s else Some s) = Some s1"
    "(if pfcp_trans (p2 :: proc_context) \<noteq> NULL then cleanup_pfcp_trans (pfcp_trans p2) s1 else Some s1) = Some s2"
    "(if gx_trans p3 \<noteq> NULL then cleanup_gx_trans (gx_trans p3) s2 else Some s2) = Some s'"
    unfolding end_transactions_def bind_eq_Some_conv by (elim exE conjE) (rule that, assumption+)
  then have "same_procs s s1" "same_procs s1 s2" "same_procs s2 s'"
    by (auto split: if_splits dest: same_procs_cleanup)
  then show ?thesis by (blast intro: same_procs_trans)
qed

lemma same_procs_view:
  assumes "same_procs s s'"
  shows "abs_entry s' = abs_entry s" "pending u s' = pending u s"
    and "proc_heap s q = Some p \<Longrightarrow> \<exists>p'. proc_heap s' q = Some p' \<and> sched_view p' = sched_view p"
proof -
  have view: "map_option sched_view (proc_heap s' q) = map_option sched_view (proc_heap s q)" for q
    using assms by (simp add: same_procs_def)
  show "proc_heap s q = Some p \<Longrightarrow> \<exists>p'. proc_heap s' q = Some p' \<and> sched_view p' = sched_view p"
    using view[of q] by (cases "proc_heap s' q") auto
  show "pending u s' = pending u s" using assms by (simp add: same_procs_def pending_def)
  show "abs_entry s' = abs_entry s"
  proof
    fix q
    show "abs_entry s' q = abs_entry s q"
      using view[of q] by (cases "proc_heap s q"; cases "proc_heap s' q") (auto simp: abs_entry_def dest: sched_viewD)
  qed
qed

lemma release_msg_frame:
  "release_msg m s = Some s' \<Longrightarrow> ue_heap s' = ue_heap s \<and> proc_heap s' = proc_heap s"
  by (auto simp: release_msg_def free_block_def free_msg_def bind_eq_Some_conv split: if_splits option.splits)

text \<open>The start of the next procedure.\<close>

lemma first_waiting_find:
  assumes "\<forall>x\<in>set q. proc_heap s x \<noteq> None"
  shows "first_waiting q s = Some (case find (\<lambda>e. \<not> snd (snd e)) (map (abs_entry s) q) of None \<Rightarrow> NULL | Some e \<Rightarrow> fst e)"
  using assms by (induction q) (auto simp: abs_entry_def)

lemma spec_start_first_find:
  assumes "distinct q"
  shows "spec_start_first (map (abs_entry s) q) =
    (case find (\<lambda>e. \<not> snd (snd e)) (map (abs_entry s) q) of None \<Rightarrow> map (abs_entry s) q
     | Some (t, ty, _) \<Rightarrow> map (\<lambda>x. if x = t then (t, ty, True) else abs_entry s x) q)"
  using assms
proof (induction q)
  case (Cons x q)
  obtain ty r where x: "abs_entry s x = (x, ty, r)" by (metis fst_abs_entry prod.collapse)
  have mem: "t \<in> set q" if "find P (map (abs_entry s) q) = Some (t, e)" for P t e
    using that by (auto simp: find_Some_iff) (metis fst_abs_entry fst_conv nth_map nth_mem)
  show ?case
  proof (cases r)
    case True
    with Cons x show ?thesis by (auto split: option.splits dest!: mem)
  next
    case False
    with Cons.prems x show ?thesis by auto
  qed
qed simp

definition next_waiting :: "entry list \<Rightarrow> entry option" where
  "next_waiting q = find (\<lambda>e. \<not> snd (snd e)) q"

definition queue_ok :: "ptr \<Rightarrow> cp_state \<Rightarrow> bool" where
  "queue_ok u s \<longleftrightarrow> ue_heap s u \<noteq> None \<and> distinct (pending u s) \<and>
     (\<forall>x\<in>set (pending u s). x \<noteq> NULL \<and> proc_heap s x \<noteq> None)"

lemma next_waiting_mem: "next_waiting q = Some e \<Longrightarrow> e \<in> set q \<and> \<not> snd (snd e)"
  by (auto simp: next_waiting_def find_Some_iff)

lemma abs_queue_mem:
  assumes "(x, ty, r) \<in> set (abs_queue u s)"
  shows "x \<in> set (pending u s)" "abs_entry s x = (x, ty, r)"
proof -
  from assms obtain y where y: "y \<in> set (pending u s)" "abs_entry s y = (x, ty, r)" by (auto simp: abs_queue_def)
  from arg_cong[OF y(2), of fst] have "y = x" by simp
  with y show "x \<in> set (pending u s)" "abs_entry s x = (x, ty, r)" by simp_all
qed

lemma start_next_eq:
  assumes "queue_ok u s" "u \<noteq> NULL"
  shows "start_next handler u s = (case next_waiting (abs_queue u s) of None \<Rightarrow> Some s
    | Some e \<Rightarrow> start_procedure_direct handler (fst e) s)"
proof -
  from assms obtain c where c: "ue_heap s u = Some c" and live: "\<forall>x\<in>set (pending_sub_procs c). x \<noteq> NULL \<and> proc_heap s x \<noteq> None"
    by (auto simp: queue_ok_def pending_def)
  have "fst e \<noteq> NULL" if "next_waiting (abs_queue u s) = Some e" for e
    using that live by (auto simp: next_waiting_def abs_queue_def pending_def c find_Some_iff)
  moreover have "first_waiting (pending_sub_procs c) s =
      Some (case next_waiting (abs_queue u s) of None \<Rightarrow> NULL | Some e \<Rightarrow> fst e)"
    using first_waiting_find[of "pending_sub_procs c" s] live by (simp add: next_waiting_def abs_queue_def pending_def c)
  ultimately show ?thesis using assms(2) c by (auto simp: start_next_def split: option.splits)
qed

lemma start_next_refines:
  assumes "queue_ok u s" "u \<noteq> NULL" "start_next idle_handler u s = Some s'"
  shows "abs_queue u s' = spec_start_first (abs_queue u s)"
proof (cases "next_waiting (abs_queue u s)")
  case None
  with start_next_eq[OF assms(1,2)] assms(3) have "s' = s" by simp
  with None assms(1) show ?thesis
    by (simp add: abs_queue_def next_waiting_def spec_start_first_find queue_ok_def)
next
  case (Some e)
  obtain t ty r where e: "e = (t, ty, r)" by (cases e) auto
  have "(t, ty, r) \<in> set (abs_queue u s)" using next_waiting_mem[OF Some] unfolding e by blast
  note t = abs_queue_mem[OF this]
  with assms(1) obtain p where p: "proc_heap s t = Some p" "proc_type p = ty"
    by (auto simp: queue_ok_def abs_entry_def split: option.splits)
  from Some assms(3) have start: "start_procedure_direct idle_handler t s = Some s'"
    by (simp add: start_next_eq[OF assms(1,2)] e)
  have "abs_queue u s' = map (\<lambda>x. if x = t then (t, ty, True) else abs_entry s x) (pending u s)"
    by (auto simp: abs_queue_def start_direct_effect(2)[OF start p(1)] abs_entry_start[OF start p(1)] p(2))
  with Some assms(1) show ?thesis
    by (simp add: abs_queue_def next_waiting_def spec_start_first_find queue_ok_def e)
qed

text \<open>Procedures after which the subscriber stays.\<close>

definition keeps_session :: "proc_context \<Rightarrow> bool" where
  "keeps_session p \<longleftrightarrow> proc_type p \<in> {S1_RELEASE_PROC, USAGE_REPORT_PROC, PAGING_PROC, RAR_PROC} \<or>
     proc_type p = INITIAL_PDN_ATTACH_PROC \<and> proc_result p = PROC_RESULT_SUCCESS \<or>
     proc_type p = DED_BER_ACTIVATION_PROC \<and> parent_proc p = NULL"

lemma set_states_live: "set_states a b p s = Some s' \<Longrightarrow> ue_heap s' u = None \<longleftrightarrow> ue_heap s u = None"
  by (auto simp: set_states_def bind_eq_Some_conv split: if_splits)

lemma free_proc_effect:
  "free_proc proc s = Some s' \<Longrightarrow> proc \<noteq> NULL \<Longrightarrow> proc_heap s' = (proc_heap s)(proc := None) \<and> ue_heap s' = ue_heap s"
  by (auto simp: free_proc_def split: option.splits)

lemma free_block_effect: "free_block b s = Some s' \<Longrightarrow> proc_heap s' = proc_heap s \<and> ue_heap s' = ue_heap s"
  by (auto simp: free_block_def split: if_splits)

lemma end_by_type_effect:
  assumes "end_by_type child_done proc p s = Some (u, s')" "keeps_session p" "ue_context p \<noteq> NULL" "proc \<noteq> NULL"
  shows "u = ue_context p" "proc_heap s' = (proc_heap s)(proc := None)" "pending v s' = pending v s"
    "ue_heap s' v = None \<longleftrightarrow> ue_heap s v = None"
proof -
  let ?fin = "end_by_type child_done proc p s"
  from assms(2) consider
      (states) a b where "?fin = do { s \<leftarrow> set_states a b p s; s \<leftarrow> free_proc proc s; Some (ue_context p, s) }"
    | (plain) "?fin = do { s \<leftarrow> free_proc proc s; Some (ue_context p, s) }"
    | (attach) "?fin = do { s \<leftarrow> set_states UE_STATE_ACTIVE PDN_STATE_ACTIVE p s; s \<leftarrow> free_block (req_pco p) s;
        s \<leftarrow> free_block (sub_config p) s; s \<leftarrow> free_proc proc s; Some (ue_context p, s) }"
    using assms(3) by (cases "proc_type p") (simp_all add: keeps_session_def end_by_type_def Let_def)
  then have "\<exists>s1. u = ue_context p \<and> (s1 = s \<or> (\<exists>a b. set_states a b p s = Some s1)) \<and>
      proc_heap s' = (proc_heap s1)(proc := None) \<and> ue_heap s' = ue_heap s1"
  proof cases
    case (states a b)
    with assms(1) obtain s1 where "set_states a b p s = Some s1" "free_proc proc s1 = Some s'" "u = ue_context p"
      by (auto simp: bind_eq_Some_conv)
    with free_proc_effect[OF this(2) assms(4)] show ?thesis by auto
  next
    case plain
    with assms(1) have "free_proc proc s = Some s'" "u = ue_context p" by (auto simp: bind_eq_Some_conv)
    with free_proc_effect[OF this(1) assms(4)] show ?thesis by auto
  next
    case attach
    with assms(1) obtain s1 s2 s3 where 1: "set_states UE_STATE_ACTIVE PDN_STATE_ACTIVE p s = Some s1"
      "free_block (req_pco p) s1 = Some s2" "free_block (sub_config p) s2 = Some s3" "free_proc proc s3 = Some s'"
      "u = ue_context p"
      by (auto simp: bind_eq_Some_conv)
    with free_block_effect[OF 1(2)] free_block_effect[OF 1(3)] free_proc_effect[OF 1(4) assms(4)] show ?thesis by auto
  qed
  then obtain s1 where s1: "u = ue_context p" "s1 = s \<or> (\<exists>a b. set_states a b p s = Some s1)"
    "proc_heap s' = (proc_heap s1)(proc := None)" "ue_heap s' = ue_heap s1" by blast
  from s1(2) have "proc_heap s1 = proc_heap s \<and> pending v s1 = pending v s \<and> (ue_heap s1 v = None \<longleftrightarrow> ue_heap s v = None)"
    by (elim disjE exE) (simp_all add: set_states_effect set_states_live)
  with s1 show "u = ue_context p" "proc_heap s' = (proc_heap s)(proc := None)" "pending v s' = pending v s"
    "ue_heap s' v = None \<longleftrightarrow> ue_heap s v = None" by (simp_all add: pending_def)
qed

text \<open>The state in which \<open>end_procedure\<close> looks for the next procedure.\<close>

lemma end_procedure_core:
  assumes p: "proc_heap s proc = Some p" "ue_context p = u" "u \<noteq> NULL" "proc \<noteq> NULL" "keeps_session p"
    and q: "queue_ok u s"
    and core: "do { s \<leftarrow> end_transactions proc s; p \<leftarrow> proc_heap s proc; s \<leftarrow> release_msg (msg_info p) s;
      s \<leftarrow> dequeue_proc proc (ue_context p) s; end_by_type child_done proc p s } = Some (v, t)"
  shows "v = u" "queue_ok u t" "abs_queue u t = filter (\<lambda>e. fst e \<noteq> proc) (abs_queue u s)"
    and "x \<noteq> proc \<Longrightarrow> map_option sched_view (proc_heap t x) = map_option sched_view (proc_heap s x)"
proof -
  from core obtain s1 p1 s2 s3 where 1: "end_transactions proc s = Some s1" "proc_heap s1 proc = Some p1"
    "release_msg (msg_info p1) s1 = Some s2" "dequeue_proc proc (ue_context p1) s2 = Some s3"
    "end_by_type child_done proc p1 s3 = Some (v, t)"
    by (auto simp: bind_eq_Some_conv)
  note same = same_procs_end_transactions[OF 1(1)]
  note view = same_procs_view[OF same]
  from view(3)[OF p(1)] 1(2) have p1: "sched_view p1 = sched_view p" by simp
  note same_fields = sched_viewD[OF p1]
  have u1: "ue_context p1 = u" using same_fields p(2) by simp
  have keep: "keeps_session p1" using p(5) same_fields by (simp add: keeps_session_def)
  note s2 = release_msg_frame[OF 1(3)]
  from 1(4) p(3) obtain c where c: "ue_heap s2 u = Some c" "proc \<in> set (pending_sub_procs c)"
    and s3: "s3 = s2\<lparr>ue_heap := (ue_heap s2)(u \<mapsto> c\<lparr>pending_sub_procs := remove1 proc (pending_sub_procs c)\<rparr>)\<rparr>"
    by (auto simp: dequeue_proc_def u1 bind_eq_Some_conv)
  have pc: "pending u s = pending_sub_procs c"
    using view(2)[of u] s2 c(1) by (simp add: pending_def)
  note e = end_by_type_effect[OF 1(5) keep _ p(4), unfolded u1, OF p(3)]
  show "v = u" by (rule e(1))
  have pt: "pending u t = remove1 proc (pending u s)" using e(3)[of u] unfolding pc by (simp add: s3 pending_def)
  have heap: "proc_heap t = (proc_heap s1)(proc := None)" using e(2) s2 by (simp add: s3)
  show "x \<noteq> proc \<Longrightarrow> map_option sched_view (proc_heap t x) = map_option sched_view (proc_heap s x)"
    using same by (simp add: heap same_procs_def)
  have d: "distinct (pending u s)" using q by (simp add: queue_ok_def)
  then have rest: "set (remove1 proc (pending u s)) = set (pending u s) - {proc}" by simp
  have live: "proc_heap t x \<noteq> None" if "x \<in> set (pending u s)" "x \<noteq> proc" for x
    using that q view(3)[of x] by (fastforce simp: heap queue_ok_def)
  have "ue_heap t u \<noteq> None" using e(4)[of u] by (simp add: s3)
  then show "queue_ok u t"
    using q live d unfolding queue_ok_def pt rest by (auto simp: distinct_remove1)
  have "abs_entry t x = abs_entry s x" if "x \<noteq> proc" for x
    using that view(1) by (simp add: fun_eq_iff abs_entry_def heap)
  then have "abs_queue u t = map (abs_entry s) (remove1 proc (pending u s))"
    using d rest by (auto simp: abs_queue_def pt)
  also have "\<dots> = filter (\<lambda>e. fst e \<noteq> proc) (abs_queue u s)"
    using d by (simp add: abs_queue_def distinct_remove1_removeAll removeAll_filter_not_eq filter_map o_def) (metis)
  finally show "abs_queue u t = filter (\<lambda>e. fst e \<noteq> proc) (abs_queue u s)" .
qed

lemma end_procedure_split:
  "end_procedure handler child_done proc s = do {
     (v, t) \<leftarrow> do { s \<leftarrow> end_transactions proc s; p \<leftarrow> proc_heap s proc; s \<leftarrow> release_msg (msg_info p) s;
       s \<leftarrow> dequeue_proc proc (ue_context p) s; end_by_type child_done proc p s };
     start_next handler v t }"
  by (simp add: end_procedure_def)

section \<open>Properties\<close>



text \<open>A subscriber whose re-authorisation runs and whose child waits to be started, behind a release.\<close>

definition example_queue_state :: cp_state where
  "example_queue_state = example_state\<lparr>
     ue_heap := [5 \<mapsto> calloc_ue\<lparr>pending_sub_procs := [2, 3]\<rparr>], pdn_heap := [9 \<mapsto> calloc_pdn],
     proc_heap := [2 \<mapsto> calloc_proc\<lparr>proc_type := RAR_PROC, proc_flags := PROC_FLAGS_RUNNING, ue_context := 5\<rparr>,
       3 \<mapsto> calloc_proc\<lparr>proc_type := S1_RELEASE_PROC, ue_context := 5, pdn_context := 9\<rparr>,
       4 \<mapsto> calloc_proc\<lparr>proc_type := DED_BER_ACTIVATION_PROC, ue_context := 5, parent_proc := 2\<rparr>]\<rparr>"

lemma example_queue:
  "proc_heap example_queue_state 2 = Some (calloc_proc\<lparr>proc_type := RAR_PROC, proc_flags := PROC_FLAGS_RUNNING, ue_context := 5\<rparr>)"
  "proc_heap example_queue_state 3 = Some (calloc_proc\<lparr>proc_type := S1_RELEASE_PROC, ue_context := 5, pdn_context := 9\<rparr>)"
  "proc_heap example_queue_state 4 = Some (calloc_proc\<lparr>proc_type := DED_BER_ACTIVATION_PROC, ue_context := 5, parent_proc := 2\<rparr>)"
  "pending 5 example_queue_state = [2, 3]" "queue_ok 5 example_queue_state"
  "abs_queue 5 example_queue_state = [(2, RAR_PROC, True), (3, S1_RELEASE_PROC, False)]"
  by (simp_all add: example_queue_state_def pending_def queue_ok_def abs_queue_def abs_entry_def calloc_proc_def)



text \<open>C30: every end of a service request reads the procedure after it was freed, whatever the
  procedure held: the call has no defined result.\<close>

theorem service_request_end_undefined:
  assumes "proc_heap s proc = Some p" "proc_type p = SERVICE_REQUEST_PROC" "proc \<noteq> NULL"
  shows "end_procedure handler child_done proc s = None"
proof (rule ccontr)
  assume "end_procedure handler child_done proc s \<noteq> None"
  then obtain s1 p1 s2 s3 v t where 1: "end_transactions proc s = Some s1" "proc_heap s1 proc = Some p1"
    "end_by_type child_done proc p1 s3 = Some (v, t)"
    by (auto simp: end_procedure_def bind_eq_Some_conv)
  from same_procs_view(3)[OF same_procs_end_transactions[OF 1(1)] assms(1)] 1(2)
  have "sched_view p1 = sched_view p" by simp
  from sched_viewD(1)[OF this] assms(2) have "proc_type p1 = SERVICE_REQUEST_PROC" by simp
  with 1(3) assms(3) show False
    by (auto simp: end_by_type_def Let_def bind_eq_Some_conv dest!: free_proc_effect)
qed

theorem service_request_end_undefined_witness:
  "end_procedure idle_handler idle_handler 4 (example_state\<lparr>proc_heap := [4 \<mapsto> calloc_proc\<lparr>proc_type := SERVICE_REQUEST_PROC\<rparr>]\<rparr>) = None"
  by (rule service_request_end_undefined[of _ _ "calloc_proc\<lparr>proc_type := SERVICE_REQUEST_PROC\<rparr>"])
    (simp_all add: calloc_proc_def)


definition example_msg_state :: cp_state where
  "example_msg_state = example_state\<lparr>proc_heap := [4 \<mapsto> calloc_proc], blocks := {8},
     msg_heap := [7 \<mapsto> \<lparr>msg_event = CS_REQ_RCVD_EVNT, msg_ue_context = NULL, msg_pdn_context = NULL,
       msg_proc_context = 4, refCnt = 0, raw_buf = 8\<rparr>]\<rparr>"


text \<open>A handover of the serving gateway is queued under a type that \<open>start_procedure_direct\<close> does
  not know: its handler is never called, the procedure stays marked as running, and the assertion that
  should report it never fails.\<close>

theorem relocation_never_runs:
  assumes "proc_heap s proc = Some p" "proc_type p = SGW_RELOCATION_PROC" "ue_context p = NULL"
  shows "start_procedure handler proc s =
    Some (s\<lparr>proc_heap := (proc_heap s)(proc \<mapsto> p\<lparr>proc_flags := proc_flags p OR PROC_FLAGS_RUNNING\<rparr>)\<rparr>)"
  using assms by (simp add: start_procedure_def start_procedure_direct_def upd_defs)

theorem relocation_never_runs_witness:
  "start_procedure (\<lambda>_ _ _. None) 4 (example_state\<lparr>proc_heap := [4 \<mapsto> calloc_proc\<lparr>proc_type := SGW_RELOCATION_PROC\<rparr>]\<rparr>) \<noteq> None"
  by (subst relocation_never_runs) (auto simp: calloc_proc_def)

end
