(* ===== verification/Upf.thy ===== *)
theory Upf
  imports Proc
begin

text \<open>
  User planes (\<open>cp/upf.c\<close>) and the procedure that sets up the PFCP association with one
  (\<open>cp/procedures/proc_pfcp_assoc_setup.c\<close>), as far as they do not involve the peers of
  \<open>cp/cp_peer.c\<close>, and the events for the main thread (\<open>cp/cp_events.h\<close>, \<open>cp/cp_io_poll.c\<close>).

  What the environment answers is a parameter: \<open>created\<close> is the timer that \<open>timer_create\<close> delivers,
  \<open>rand\<close> the number that \<open>rand()\<close> delivers and \<open>resolved\<close> the address that \<open>upf_name_resolve\<close> delivers
  (0 when the name is not resolved in time).  \<open>handler\<close> is the call through the pointer of a procedure to its
  event handler.
\<close>

section \<open>Events for the main thread\<close>

definition UPF_CONNECTION_SETUP_SUCCESS :: u16 where
  "UPF_CONNECTION_SETUP_SUCCESS = 0x01"

definition UPF_CONNECTION_SETUP_FAILED :: u16 where
  "UPF_CONNECTION_SETUP_FAILED = 0x02"

definition TEST_EVENTS :: u16 where
  "TEST_EVENTS = 0x09"

definition UPF_ASSOCIATION_SETUP :: u16 where
  "UPF_ASSOCIATION_SETUP = 0x0b"

definition queue_stack_unwind_event :: "u16 \<Rightarrow> ptr \<Rightarrow> stack_event_handler \<Rightarrow> cp_state \<Rightarrow> cp_state option" where
  "queue_stack_unwind_event event data cb s =
     (if alloc_fails s (next_ptr s) then None
      else let event_p = next_ptr s;
               s = s\<lparr>next_ptr := next_ptr s + 1,
                     event_heap := (event_heap s)(event_p \<mapsto> \<lparr>ev_event = event, ev_data = data, ev_cb = cb\<rparr>)\<rparr>
           in Some (s\<lparr>cpp := (if event = TEST_EVENTS then queue_test_stack_unwind_event_cpp event_p (cpp s)
                              else queue_stack_unwind_event_cpp event_p (cpp s))\<rparr>))"

text \<open>One round of the loop of \<open>incoming_event_handler\<close>; \<open>call\<close> is the call through the pointer to the handler.\<close>

definition incoming_event_handler ::
  "(stack_event_handler \<Rightarrow> ptr \<Rightarrow> u16 \<Rightarrow> cp_state \<Rightarrow> cp_state option) \<Rightarrow> cp_state \<Rightarrow> cp_state option" where
  "incoming_event_handler call s =
     (case get_stack_unwind_event_cpp (cpp s) of (event, c) \<Rightarrow>
        if event = NULL then Some (s\<lparr>cpp := c\<rparr>)
        else do {
          e \<leftarrow> event_heap s event;
          s \<leftarrow> call (ev_cb e) (ev_data e) (ev_event e) (s\<lparr>cpp := c\<rparr>);
          assert_c (event_heap s event \<noteq> None);
          Some (s\<lparr>event_heap := (event_heap s)(event := None)\<rparr>)
        })"

section \<open>Contexts of user planes\<close>

definition MAX_HOSTNAME_LENGTH :: nat where
  "MAX_HOSTNAME_LENGTH = 256"

text \<open>The result, the value of the out parameter and the state.  In the failures after the allocation the
  out parameter points to the freed context.\<close>

definition create_upf_context :: "u32 \<Rightarrow> string \<Rightarrow> cp_state \<Rightarrow> (int \<times> ptr \<times> cp_state) option" where
  "create_upf_context upf_ip service_name s =
     (case calloc_upf_ptr s of (upf_context, s) \<Rightarrow>
        if upf_context = NULL then Some (-1, NULL, s)
        else do {
          s \<leftarrow> upd_upf upf_context
                (\<lambda>u. u\<lparr>upf_sockaddr := \<lparr>sin_addr = upf_ip, sin_port = htons (config_pfcp_port s)\<rparr>\<rparr>) s;
          let (ret, c) = (if upf_ip \<noteq> 0 then upf_context_entry_add upf_ip upf_context (cpp s) else (0, cpp s));
          let s = s\<lparr>cpp := c\<rparr>;
          if ret \<noteq> 0 then do { s \<leftarrow> free_upf upf_context s; Some (-1, upf_context, s) }
          else do {
            let (ret, c) = upf_context_entry_add_service service_name upf_context (cpp s);
            let s = s\<lparr>cpp := c\<rparr>;
            if ret \<noteq> 0 then do {
              let s = (if upf_ip \<noteq> 0 then cpp_do (upf_context_delete_entry upf_ip) s else s);
              s \<leftarrow> free_upf upf_context s;
              Some (-1, upf_context, s)
            } else do {
              s \<leftarrow> upd_upf upf_context (\<lambda>u. u\<lparr>upf_pending_sub_procs := [], pending_node_procs := []\<rparr>) s;
              Some (0, upf_context, s)
            }
          }
        })"

text \<open>A request for a name has room for 64 bytes, the context for 256.\<close>

definition get_upf_context :: "u32 \<Rightarrow> string \<Rightarrow> bool \<Rightarrow> cp_state \<Rightarrow> (ptr \<times> cp_state) option" where
  "get_upf_context resolved service global_addr s = do {
     let upf_context = upf_context_entry_lookup_service service (cpp s);
     if upf_context = NULL then do {
       assert_c (length service < 64);
       (_, upf_context, s) \<leftarrow> create_upf_context resolved service s;
       if upf_context \<noteq> NULL then do {
         assert_c (length service < MAX_HOSTNAME_LENGTH);
         s \<leftarrow> upd_upf upf_context (\<lambda>u. u\<lparr>fqdn := service, global_address := global_addr\<rparr>) s;
         Some (upf_context, s)
       } else Some (upf_context, s)
     } else do {
       u \<leftarrow> upf_heap s upf_context;
       if sin_addr (upf_sockaddr u) = 0 then do {
         s \<leftarrow> upd_upf upf_context (\<lambda>u. u\<lparr>global_address := global_addr\<rparr>) s;
         assert_c (length service < 64);
         s \<leftarrow> upd_upf upf_context (\<lambda>u. u\<lparr>upf_sockaddr := (upf_sockaddr u)\<lparr>sin_addr := resolved\<rparr>\<rparr>) s;
         if resolved \<noteq> 0 then do {
           let (ret, c) = upf_context_entry_add resolved upf_context (cpp s);
           Some (if ret \<noteq> 0 then NULL else upf_context, s\<lparr>cpp := c\<rparr>)
         } else Some (upf_context, s)
       } else Some (upf_context, s)
     }
   }"

section \<open>The association timer\<close>

text \<open>The timer of a user plane, or the one for all user planes.\<close>

definition schedule_pfcp_association :: "nat option \<Rightarrow> u16 \<Rightarrow> ptr \<Rightarrow> cp_state \<Rightarrow> cp_state option" where
  "schedule_pfcp_association created timeout upf_ctxt s = do {
     ti \<leftarrow> (if upf_ctxt = NULL then Some (static_upf_pt s) else map_option upf_pt (upf_heap s upf_ctxt));
     let (ok, ti, s) = gst_timer_init created TtSingleShot Upf_Association_Timer (uint timeout * 1000) upf_ctxt ti s;
     s \<leftarrow> (if upf_ctxt = NULL then Some (s\<lparr>static_upf_pt := ti\<rparr>) else upd_upf upf_ctxt (\<lambda>u. u\<lparr>upf_pt := ti\<rparr>) s);
     Some (if ok then snd (gst_timer_start ti s) else s)
   }"

definition upf_down_event :: "nat option \<Rightarrow> nat \<Rightarrow> u32 \<Rightarrow> cp_state \<Rightarrow> cp_state option" where
  "upf_down_event created rand upf_ip s = do {
     let upf_context = upf_context_entry_lookup upf_ip (cpp s);
     s \<leftarrow> (if upf_context \<noteq> NULL
           then upd_upf upf_context (\<lambda>u. u\<lparr>upf_state := 0, upf_sockaddr := (upf_sockaddr u)\<lparr>sin_addr := 0\<rparr>\<rparr>) s
           else Some s);
     let s = s\<lparr>cpp := delete_entry_heartbeat_hash upf_ip (cpp s)\<rparr>;
     schedule_pfcp_association created (of_nat (rand mod 30)) upf_context s
   }"

definition upfAssociationTimerCallback :: "gstimerinfo \<Rightarrow> ptr \<Rightarrow> cp_state \<Rightarrow> cp_state option" where
  "upfAssociationTimerCallback ti data s =
     queue_stack_unwind_event UPF_ASSOCIATION_SETUP data Handle_Upf_Association_Timeout
       (gst_timer_deinit ti (gst_timer_stop ti s))"

section \<open>Procedures of a user plane\<close>

definition alloc_pfcp_association_setup_proc :: "ptr \<Rightarrow> cp_state \<Rightarrow> (ptr \<times> cp_state) option" where
  "alloc_pfcp_association_setup_proc upf_context s = do {
     let (setup_msg, s) = calloc_msg_ptr s;
     s \<leftarrow> upd_msg setup_msg (\<lambda>m. m\<lparr>msg_event := PFCP_ASSOCIATION_SETUP\<rparr>) s;
     let (pfcp_setup_proc, s) = calloc_proc_ptr s;
     s \<leftarrow> upd_proc pfcp_setup_proc (\<lambda>p. p\<lparr>proc_type := PFCP_ASSOC_SETUP_PROC\<rparr>) s;
     s \<leftarrow> SET_PROC_MSG pfcp_setup_proc setup_msg s;
     s \<leftarrow> upd_proc pfcp_setup_proc (\<lambda>p. p\<lparr>proc_upf_context := upf_context\<rparr>) s;
     s \<leftarrow> upd_msg setup_msg (\<lambda>m. m\<lparr>msg_proc_context := pfcp_setup_proc\<rparr>) s;
     s \<leftarrow> upd_upf upf_context (\<lambda>u. u\<lparr>upf_proc := pfcp_setup_proc\<rparr>) s;
     Some (pfcp_setup_proc, s)
   }"

definition start_upf_procedure :: "event_handler \<Rightarrow> ptr \<Rightarrow> ptr \<Rightarrow> cp_state \<Rightarrow> cp_state option" where
  "start_upf_procedure handler proc_ctxt msg s = do {
     p \<leftarrow> proc_heap s proc_ctxt;
     let upf_context = proc_upf_context p;
     s \<leftarrow> upd_upf upf_context (\<lambda>u. u\<lparr>pending_node_procs := pending_node_procs u @ [proc_ctxt]\<rparr>) s;
     u \<leftarrow> upf_heap s upf_context;
     let first = hd (pending_node_procs u);
     p \<leftarrow> proc_heap s first;
     if proc_type p = PFCP_ASSOC_SETUP_PROC then do {
       s \<leftarrow> handler first msg s;
       assert_c (proc_heap s first \<noteq> None);
       upd_upf upf_context (\<lambda>u. u\<lparr>pending_node_procs := remove1 first (pending_node_procs u)\<rparr>) s
     } else Some s
   }"

definition initiate_pfcp_association :: "event_handler \<Rightarrow> ptr \<Rightarrow> cp_state \<Rightarrow> cp_state option" where
  "initiate_pfcp_association handler upf_context s = do {
     u \<leftarrow> upf_heap s upf_context;
     if upf_state u = 0 then do {
       (proc, s) \<leftarrow> alloc_pfcp_association_setup_proc upf_context s;
       p \<leftarrow> proc_heap s proc;
       start_upf_procedure handler proc (msg_info p) s
     } else Some s
   }"

definition end_upf_procedure :: "ptr \<Rightarrow> cp_state \<Rightarrow> cp_state option" where
  "end_upf_procedure proc_ctxt s = do {
     p \<leftarrow> proc_heap s proc_ctxt;
     s \<leftarrow> (if pfcp_trans p \<noteq> NULL then cleanup_pfcp_trans (pfcp_trans p) s else Some s);
     s \<leftarrow> release_msg (msg_info p) s;
     s \<leftarrow> upd_upf (proc_upf_context p) (\<lambda>u. u\<lparr>upf_proc := NULL\<rparr>) s;
     free_proc proc_ctxt s
   }"

definition proc_pfcp_assoc_setup_success :: "ptr \<Rightarrow> cp_state \<Rightarrow> cp_state option" where
  "proc_pfcp_assoc_setup_success proc s = do {
     s \<leftarrow> upd_proc proc (\<lambda>p. p\<lparr>proc_result := PROC_RESULT_SUCCESS\<rparr>) s;
     end_upf_procedure proc s
   }"

definition proc_pfcp_assoc_setup_failure :: "nat option \<Rightarrow> nat \<Rightarrow> ptr \<Rightarrow> cp_state \<Rightarrow> cp_state option" where
  "proc_pfcp_assoc_setup_failure created rand proc_context s = do {
     p \<leftarrow> proc_heap s proc_context;
     s \<leftarrow> upd_proc proc_context (\<lambda>p. p\<lparr>proc_result := PROC_RESULT_FAILURE\<rparr>) s;
     s \<leftarrow> upd_upf (proc_upf_context p) (\<lambda>u. u\<lparr>upf_state := 0\<rparr>) s;
     u \<leftarrow> upf_heap s (proc_upf_context p);
     let s = cpp_do (upf_context_delete_entry (sin_addr (upf_sockaddr u))) s;
     s \<leftarrow> upd_upf (proc_upf_context p) (\<lambda>u. u\<lparr>upf_sockaddr := (upf_sockaddr u)\<lparr>sin_addr := 0\<rparr>\<rparr>) s;
     s \<leftarrow> end_upf_procedure proc_context s;
     schedule_pfcp_association created (of_nat (rand mod 30)) (proc_upf_context p) s
   }"

section \<open>Attach procedures that wait for the association\<close>

definition buffer_csr_request :: "ptr \<Rightarrow> cp_state \<Rightarrow> cp_state option" where
  "buffer_csr_request proc_context s = do {
     p \<leftarrow> proc_heap s proc_context;
     ue \<leftarrow> ue_heap s (ue_context p);
     let (key, s) = calloc_block s;
     assert_c (key \<noteq> NULL);
     upd_upf (ue_upf_context ue) (\<lambda>u. u\<lparr>upf_pending_sub_procs := (key, proc_context) # upf_pending_sub_procs u\<rparr>) s
   }"

text \<open>The loop of \<open>upf_pfcp_setup_success\<close> and \<open>upf_pfcp_setup_failure\<close>.  It ends when the list is empty; a handler
  that puts its procedure back would keep it running.\<close>

partial_function (option) run_buffered :: "event_handler \<Rightarrow> sm_event \<Rightarrow> ptr \<Rightarrow> cp_state \<Rightarrow> cp_state option" where
  "run_buffered handler ev upf_context s = do {
     u \<leftarrow> upf_heap s upf_context;
     (case upf_pending_sub_procs u of [] \<Rightarrow> Some s
      | k # ks \<Rightarrow> do {
          s \<leftarrow> upd_upf upf_context (\<lambda>u. u\<lparr>upf_pending_sub_procs := ks\<rparr>) s;
          p \<leftarrow> proc_heap s (snd k);
          s \<leftarrow> upd_msg (msg_info p) (\<lambda>m. m\<lparr>msg_event := ev\<rparr>) s;
          s \<leftarrow> handler (snd k) (msg_info p) s;
          s \<leftarrow> free_block (fst k) s;
          run_buffered handler ev upf_context s
        })
   }"

definition upf_pfcp_setup_failure :: "event_handler \<Rightarrow> nat option \<Rightarrow> nat \<Rightarrow> ptr \<Rightarrow> cp_state \<Rightarrow> cp_state option" where
  "upf_pfcp_setup_failure handler created rand upf_context s = do {
     s \<leftarrow> run_buffered handler PFCP_ASSOC_SETUP_FAILED upf_context s;
     u \<leftarrow> upf_heap s upf_context;
     if upf_proc u \<noteq> NULL then proc_pfcp_assoc_setup_failure created rand (upf_proc u) s else Some s
   }"

definition upf_pfcp_setup_success :: "event_handler \<Rightarrow> ptr \<Rightarrow> cp_state \<Rightarrow> cp_state option" where
  "upf_pfcp_setup_success handler upf_context s = do {
     s \<leftarrow> run_buffered handler PFCP_ASSOC_SETUP_SUCCESS upf_context s;
     u \<leftarrow> upf_heap s upf_context;
     proc_pfcp_assoc_setup_success (upf_proc u) s
   }"

text \<open>\<open>process_assoc_resp_timeout_handler\<close>: the timer of the request has expired.\<close>

definition process_assoc_resp_timeout_handler ::
  "event_handler \<Rightarrow> nat option \<Rightarrow> nat \<Rightarrow> ptr \<Rightarrow> cp_state \<Rightarrow> cp_state option" where
  "process_assoc_resp_timeout_handler handler created rand data s = do {
     p \<leftarrow> proc_heap s data;
     upf_pfcp_setup_failure handler created rand (proc_upf_context p) s
   }"

section \<open>Buffered procedures\<close>

abbreviation buffered :: "ptr \<Rightarrow> cp_state \<Rightarrow> (ptr \<times> ptr) list option" where
  "buffered u s \<equiv> map_option upf_pending_sub_procs (upf_heap s u)"

text \<open>A handler that does not put its procedure back into the list.\<close>

definition keeps_buffered :: "event_handler \<Rightarrow> ptr \<Rightarrow> bool" where
  "keeps_buffered h u \<longleftrightarrow> (\<forall>p m s s'. h p m s = Some s' \<longrightarrow> buffered u s' = buffered u s)"

text \<open>The answer to one buffered procedure.\<close>

definition answer :: "event_handler \<Rightarrow> sm_event \<Rightarrow> ptr \<Rightarrow> ptr \<times> ptr \<Rightarrow> cp_state \<Rightarrow> cp_state option" where
  "answer handler ev upf_context k s = do {
     s \<leftarrow> upd_upf upf_context (\<lambda>u. u\<lparr>upf_pending_sub_procs := tl (upf_pending_sub_procs u)\<rparr>) s;
     p \<leftarrow> proc_heap s (snd k);
     s \<leftarrow> upd_msg (msg_info p) (\<lambda>m. m\<lparr>msg_event := ev\<rparr>) s;
     s \<leftarrow> handler (snd k) (msg_info p) s;
     free_block (fst k) s
   }"

lemma run_buffered_step:
  assumes "buffered u s = Some (k # ks)"
  shows "run_buffered h ev u s = do { s \<leftarrow> answer h ev u k s; run_buffered h ev u s }"
proof -
  from assms obtain c where c: "upf_heap s u = Some c" "upf_pending_sub_procs c = k # ks" by auto
  then have "upd_upf u (\<lambda>c. c\<lparr>upf_pending_sub_procs := tl (upf_pending_sub_procs c)\<rparr>) s = upd_upf u (\<lambda>c. c\<lparr>upf_pending_sub_procs := ks\<rparr>) s"
    by (simp add: upd_upf_def)
  with c show ?thesis by (subst run_buffered.simps) (simp add: answer_def)
qed

lemma answer_buffered:
  assumes keeps: "keeps_buffered h u"
    and "answer h ev u k s = Some s'" "buffered u s = Some ks"
  shows "buffered u s' = Some (tl ks)"
proof -
  from assms(2) obtain s1 s2 s3 and p :: proc_context where
    s1: "upd_upf u (\<lambda>c. c\<lparr>upf_pending_sub_procs := tl (upf_pending_sub_procs c)\<rparr>) s = Some s1"
    and s2: "upd_msg (msg_info p) (\<lambda>m. m\<lparr>msg_event := ev\<rparr>) s1 = Some s2"
    and s3: "h (snd k) (msg_info p) s2 = Some s3" and s4: "free_block (fst k) s3 = Some s'"
    unfolding answer_def bind_eq_Some_conv by blast
  have "buffered u s1 = Some (tl ks)" using s1 assms(3) by auto
  moreover have "buffered u s2 = buffered u s1" using s2 by auto
  moreover have "buffered u s3 = buffered u s2" using keeps s3 unfolding keeps_buffered_def by blast
  moreover have "buffered u s' = buffered u s3" using s4 by (auto simp: free_block_def split: if_splits)
  ultimately show ?thesis by simp
qed

lemma run_buffered_eq:
  assumes "keeps_buffered h u"
  shows "buffered u s = Some ks \<Longrightarrow> run_buffered h ev u s = for_each (answer h ev u) ks s"
proof (induction ks arbitrary: s)
  case Nil
  then show ?case by (subst run_buffered.simps) auto
next
  case (Cons k ks)
  have "run_buffered h ev u s' = for_each (answer h ev u) ks s'" if "answer h ev u k s = Some s'" for s'
    using Cons.IH answer_buffered[OF assms that Cons.prems] by simp
  then show ?case
    unfolding run_buffered_step[OF Cons.prems] by (cases "answer h ev u k s") simp_all
qed

lemma for_each_answer_buffered:
  assumes "keeps_buffered h u"
  shows "buffered u s = Some ks \<Longrightarrow> for_each (answer h ev u) ks s = Some s' \<Longrightarrow> buffered u s' = Some []"
proof (induction ks arbitrary: s)
  case (Cons k ks)
  then obtain t where t: "answer h ev u k s = Some t" "for_each (answer h ev u) ks t = Some s'"
    by (auto split: bind_splits)
  have "buffered u t = Some ks" using answer_buffered[OF assms t(1) Cons.prems(1)] by simp
  from Cons.IH[OF this t(2)] show ?case .
qed simp

section \<open>The end of an association setup\<close>

lemma cleanup_pfcp_upf_heap: "cleanup_pfcp_trans tr s = Some s' \<Longrightarrow> upf_heap s' = upf_heap s"
  by (erule cleanup_pfcp_trans_eq) (auto simp: retire_state_def split: if_splits)

lemma release_msg_upf_heap: "release_msg msg s = Some s' \<Longrightarrow> upf_heap s' = upf_heap s"
  by (auto simp: release_msg_def free_block_def free_msg_def bind_eq_Some_conv split: if_splits option.splits)

lemma end_upf_procedure_effect:
  assumes "end_upf_procedure proc s = Some s'" "proc_heap s proc = Some p" "proc \<noteq> NULL"
  shows "\<exists>c. upf_heap s (proc_upf_context p) = Some c \<and>
    upf_heap s' = (upf_heap s)(proc_upf_context p \<mapsto> c\<lparr>upf_proc := NULL\<rparr>) \<and> proc_heap s' proc = None"
proof -
  from assms(1,2) obtain s1 s2 s3 where
    s1: "(if pfcp_trans p \<noteq> NULL then cleanup_pfcp_trans (pfcp_trans p) s else Some s) = Some s1"
    and s2: "release_msg (msg_info p) s1 = Some s2"
    and s3: "upd_upf (proc_upf_context p) (\<lambda>u. u\<lparr>upf_proc := NULL\<rparr>) s2 = Some s3"
    and s4: "free_proc proc s3 = Some s'"
    unfolding end_upf_procedure_def bind_eq_Some_conv by (auto simp del: upd_Some_iff)
  have "upf_heap s1 = upf_heap s" using s1 cleanup_pfcp_upf_heap by (auto split: if_splits)
  moreover have "upf_heap s2 = upf_heap s1" by (rule release_msg_upf_heap[OF s2])
  ultimately show ?thesis
    using s3 s4 assms(3) by (auto simp: free_proc_def split: if_splits option.splits)
qed

lemma timer_spec_seconds:
  assumes "ti_ms ti = n * 1000" "0 \<le> n"
  shows "it_value_sec (timer_spec ti) = n" "it_value_nsec (timer_spec ti) = 0"
  using assms by (auto simp: timer_spec_def Let_def sgn_if)

text \<open>The association timer runs exactly if the delay is not 0.\<close>

lemma schedule_pfcp_association_armed:
  assumes "schedule_pfcp_association (Some i) n u s = Some s'" "u \<noteq> NULL"
  shows "\<exists>c ti. upf_heap s u = Some c \<and> upf_heap s' = (upf_heap s)(u \<mapsto> c\<lparr>upf_pt := ti\<rparr>) \<and> ti_id ti = i \<and>
    (armed i s' \<longleftrightarrow> n \<noteq> 0) \<and> proc_heap s' = proc_heap s"
proof -
  from assms obtain c where c: "upf_heap s u = Some c"
    by (auto simp: schedule_pfcp_association_def split: bind_splits)
  define ti where "ti = (upf_pt c)\<lparr>ti_type := TtSingleShot, ti_cb := Upf_Association_Timer, ti_ms := uint n * 1000,
    ti_data := u, ti_id := i\<rparr>"
  have "it_value_sec (timer_spec ti) = uint n" "it_value_nsec (timer_spec ti) = 0"
    using timer_spec_seconds[of ti "uint n"] by (simp_all add: ti_def)
  moreover have "s' = s\<lparr>upf_heap := (upf_heap s)(u \<mapsto> c\<lparr>upf_pt := ti\<rparr>), os_timers := (os_timers s)(i \<mapsto> timer_spec ti)\<rparr>"
    using assms c by (simp add: schedule_pfcp_association_def gst_timer_init_def Let_def upd_upf_def gst_timer_start_def
        timer_settime_def ti_def)
  moreover have "ti_id ti = i" by (simp add: ti_def)
  moreover have "uint n \<noteq> 0 \<longleftrightarrow> n \<noteq> 0" by (simp add: unsigned_eq_0_iff)
  ultimately show ?thesis
    using c by (intro exI[of _ c] exI[of _ ti]) (simp add: armed_def)
qed

section \<open>The table of addresses\<close>

lemma schedule_pfcp_association_cases:
  assumes "schedule_pfcp_association created n u s = Some s'"
  obtains ti m where "u = NULL" "s' = s\<lparr>static_upf_pt := ti, os_timers := m\<rparr>"
  | c ti m where "u \<noteq> NULL" "upf_heap s u = Some c" "s' = s\<lparr>upf_heap := (upf_heap s)(u \<mapsto> c\<lparr>upf_pt := ti\<rparr>), os_timers := m\<rparr>"
proof -
  define ti0 where "ti0 = (if u = NULL then static_upf_pt s else upf_pt (the (upf_heap s u)))"
  obtain ok ti t where init: "gst_timer_init created TtSingleShot Upf_Association_Timer (uint n * 1000) u ti0 s = (ok, ti, t)"
    by (metis prod_cases3)
  obtain m0 where t: "t = s\<lparr>os_timers := m0\<rparr>"
  proof (cases created)
    case None
    with init have "t = s\<lparr>os_timers := os_timers s\<rparr>" by (simp add: gst_timer_init_def Let_def)
    then show thesis by (rule that)
  next
    case (Some i)
    with init that show thesis by (auto simp: gst_timer_init_def Let_def)
  qed
  have start: "\<exists>m. (if ok then snd (gst_timer_start ti x) else x) = x\<lparr>os_timers := m\<rparr>" for x
  proof (cases "ok \<and> os_timers x (ti_id ti) \<noteq> None")
    case True
    then show ?thesis by (auto simp: gst_timer_start_def timer_settime_def)
  next
    case False
    then have "(if ok then snd (gst_timer_start ti x) else x) = x\<lparr>os_timers := os_timers x\<rparr>"
      by (auto simp: gst_timer_start_def timer_settime_def split: option.splits)
    then show ?thesis by blast
  qed
  show thesis
  proof (cases "u = NULL")
    case True
    with assms init t have "s' = (if ok then snd (gst_timer_start ti (s\<lparr>os_timers := m0, static_upf_pt := ti\<rparr>))
        else s\<lparr>os_timers := m0, static_upf_pt := ti\<rparr>)"
      by (simp add: schedule_pfcp_association_def ti0_def)
    with start[of "s\<lparr>os_timers := m0, static_upf_pt := ti\<rparr>"] True show thesis by (auto intro: that(1))
  next
    case False
    with assms obtain c where c: "upf_heap s u = Some c" by (auto simp: schedule_pfcp_association_def split: bind_splits)
    with False assms init t have "s' = (if ok then snd (gst_timer_start ti (s\<lparr>os_timers := m0, upf_heap := (upf_heap s)(u \<mapsto> c\<lparr>upf_pt := ti\<rparr>)\<rparr>))
        else s\<lparr>os_timers := m0, upf_heap := (upf_heap s)(u \<mapsto> c\<lparr>upf_pt := ti\<rparr>)\<rparr>)"
      by (simp add: schedule_pfcp_association_def ti0_def upd_upf_def)
    with start[of "s\<lparr>os_timers := m0, upf_heap := (upf_heap s)(u \<mapsto> c\<lparr>upf_pt := ti\<rparr>)\<rparr>"] False c show thesis by (auto intro: that(2))
  qed
qed

lemma schedule_pfcp_association_frame:
  "schedule_pfcp_association created n u s = Some s' \<Longrightarrow> cpp s' = cpp s"
  by (erule schedule_pfcp_association_cases) simp_all

lemma schedule_pfcp_association_address:
  assumes "schedule_pfcp_association created n u s = Some s'" "upf_heap s v = Some c"
  shows "\<exists>c'. upf_heap s' v = Some c' \<and> upf_sockaddr c' = upf_sockaddr c"
  using assms(1) by (rule schedule_pfcp_association_cases) (use assms(2) in auto)

lemma upf_entry_add_keeps:
  assumes "upf_context_entry_lookup a c = u" "u \<noteq> NULL"
  shows "upf_context_entry_lookup a (snd (upf_context_entry_add b v c)) = u"
    "upf_context_entry_lookup a (snd (upf_context_entry_add_service n w c)) = u"
  using assms
  by (auto simp: upf_context_entry_lookup_def find_upf_def map_find_def upf_context_entry_add_def add_upf_def map_insert_def
      upf_context_entry_add_service_def add_upf_service_def split: option.splits)

lemma upf_entry_add_ret [simp]:
  "fst (upf_context_entry_add b v c) = 0" "fst (upf_context_entry_add_service n w c) = 0"
  by (simp_all add: upf_context_entry_add_def add_upf_def upf_context_entry_add_service_def add_upf_service_def)

lemma create_upf_context_keeps:
  assumes "create_upf_context b n s = Some (r, v, s')" "upf_context_entry_lookup a (cpp s) = u" "u \<noteq> NULL"
  shows "upf_context_entry_lookup a (cpp s') = u"
  using assms upf_entry_add_keeps
  by (auto simp: create_upf_context_def calloc_upf_ptr_def Let_def case_prod_unfold bind_eq_Some_conv split: if_splits)

lemma get_upf_context_keeps:
  assumes "get_upf_context b n g s = Some (v, s')" "upf_context_entry_lookup a (cpp s) = u" "u \<noteq> NULL"
  shows "upf_context_entry_lookup a (cpp s') = u"
proof (cases "upf_context_entry_lookup_service n (cpp s) = NULL")
  case True
  with assms(1) obtain r w s1 where "create_upf_context b n s = Some (r, w, s1)" "cpp s' = cpp s1"
    by (auto simp: get_upf_context_def Let_def bind_eq_Some_conv split: if_splits)
  with create_upf_context_keeps assms(2,3) show ?thesis by metis
next
  case False
  with assms(1) have "cpp s' \<in> {cpp s, snd (upf_context_entry_add b (upf_context_entry_lookup_service n (cpp s)) (cpp s))}"
    by (auto simp: get_upf_context_def Let_def case_prod_unfold bind_eq_Some_conv split: if_splits)
  with upf_entry_add_keeps assms(2,3) show ?thesis by auto
qed

section \<open>Properties\<close>


definition example_upf_state :: cp_state where
  "example_upf_state = example_state\<lparr>next_ptr := 20, blocks := {11, 13},
     upf_heap := [5 \<mapsto> calloc_upf\<lparr>upf_sockaddr := \<lparr>sin_addr = 77, sin_port = 8805\<rparr>, upf_state := 1, upf_proc := 6,
       upf_pending_sub_procs := [(13, 9), (11, 8)]\<rparr>],
     proc_heap := [6 \<mapsto> calloc_proc\<lparr>proc_type := PFCP_ASSOC_SETUP_PROC, proc_upf_context := 5\<rparr>,
       8 \<mapsto> calloc_proc\<lparr>msg_info := 14\<rparr>, 9 \<mapsto> calloc_proc\<lparr>msg_info := 15\<rparr>],
     msg_heap := [14 \<mapsto> calloc_msg, 15 \<mapsto> calloc_msg]\<rparr>"


text \<open>C35: when the association with a user plane fails, its setup procedure is freed and
  the context is back in its initial state, without an address; its timer for the next attempt runs
  exactly if the random delay is not 0, since a delay of 0 disarms the timer.\<close>

theorem failed_association_retried:
  assumes "proc_pfcp_assoc_setup_failure (Some i) rand proc s = Some s'" "proc_heap s proc = Some p" "proc \<noteq> NULL"
    and "proc_upf_context p \<noteq> NULL"
  shows "\<exists>c. upf_heap s' (proc_upf_context p) = Some c \<and> upf_state c = 0 \<and> sin_addr (upf_sockaddr c) = 0 \<and> upf_proc c = NULL \<and>
    ti_id (upf_pt c) = i \<and> (armed i s' \<longleftrightarrow> rand mod 30 \<noteq> 0) \<and> proc_heap s' proc = None"
proof -
  let ?u = "proc_upf_context p"
  from assms(1,2) obtain s1 s2 c s4 s5 where
    s1: "upd_proc proc (\<lambda>p. p\<lparr>proc_result := PROC_RESULT_FAILURE\<rparr>) s = Some s1"
    and s2: "upd_upf ?u (\<lambda>u. u\<lparr>upf_state := 0\<rparr>) s1 = Some s2" and c: "upf_heap s2 ?u = Some c"
    and s4: "upd_upf ?u (\<lambda>u. u\<lparr>upf_sockaddr := (upf_sockaddr u)\<lparr>sin_addr := 0\<rparr>\<rparr>)
      (cpp_do (upf_context_delete_entry (sin_addr (upf_sockaddr c))) s2) = Some s4"
    and s5: "end_upf_procedure proc s4 = Some s5"
    and s6: "schedule_pfcp_association (Some i) (of_nat (rand mod 30)) ?u s5 = Some s'"
    unfolding proc_pfcp_assoc_setup_failure_def bind_eq_Some_conv Let_def by (auto simp del: upd_Some_iff)
  obtain p' where p': "proc_heap s4 proc = Some p'" "proc_upf_context p' = ?u"
    using s1 s2 s4 assms(2) by (auto simp: cpp_do_def)
  obtain d where d: "upf_heap s4 ?u = Some d" "upf_state d = 0" "sin_addr (upf_sockaddr d) = 0"
    using s2 s4 by (auto simp: cpp_do_def)
  from end_upf_procedure_effect[OF s5 p'(1) assms(3)] p'(2) d(1)
  have s5': "upf_heap s5 ?u = Some (d\<lparr>upf_proc := NULL\<rparr>)" "proc_heap s5 proc = None" by auto
  from assms(4) s4 have "?u \<noteq> NULL" by simp
  moreover have "(of_nat (rand mod 30) :: u16) \<noteq> 0 \<longleftrightarrow> rand mod 30 \<noteq> 0"
  proof -
    have "unat (of_nat (rand mod 30) :: u16) = rand mod 30"
      using mod_less_divisor[of 30 rand] by (simp add: unsigned_of_nat take_bit_nat_eq_self_iff)
    moreover have "w \<noteq> 0 \<longleftrightarrow> unat w \<noteq> 0" for w :: u16 by (simp add: unsigned_eq_0_iff)
    ultimately show ?thesis by simp
  qed
  ultimately show ?thesis
    using schedule_pfcp_association_armed[OF s6] s5' d by auto
qed

theorem failed_association_retried_witness:
  "\<exists>s'. proc_pfcp_assoc_setup_failure (Some 4) 30 6 example_upf_state = Some s' \<and> \<not> armed 4 s'"
proof -
  obtain s' where s': "proc_pfcp_assoc_setup_failure (Some 4) 30 6 example_upf_state = Some s'"
    by (simp add: proc_pfcp_assoc_setup_failure_def example_upf_state_def upd_defs end_upf_procedure_def release_msg_def free_proc_def
        calloc_proc_def cpp_do_def schedule_pfcp_association_def gst_timer_init_def Let_def)
  have p: "proc_heap example_upf_state 6 = Some (calloc_proc\<lparr>proc_type := PFCP_ASSOC_SETUP_PROC, proc_upf_context := 5\<rparr>)"
    by (simp add: example_upf_state_def)
  from failed_association_retried[OF s' p] have "\<not> armed 4 s'" by (auto simp: calloc_proc_def)
  with s' show ?thesis by blast
qed

text \<open>C36: a user plane that goes down keeps its entry under its old address: when another
  user plane is then resolved to this address, the lookup by address still delivers the one that is down.\<close>

theorem stale_user_plane_address:
  assumes "upf_context_entry_lookup a (cpp s) = u" "u \<noteq> NULL" "upf_down_event created rand a s = Some s1"
    and "get_upf_context a service global_addr s1 = Some (v, s2)"
  shows "upf_context_entry_lookup a (cpp s2) = u \<and> (\<exists>c. upf_heap s1 u = Some c \<and> sin_addr (upf_sockaddr c) = 0)"
proof -
  from assms(1-3) obtain t where
    t: "upd_upf u (\<lambda>u. u\<lparr>upf_state := 0, upf_sockaddr := (upf_sockaddr u)\<lparr>sin_addr := 0\<rparr>\<rparr>) s = Some t"
    "schedule_pfcp_association created (of_nat (rand mod 30)) u (t\<lparr>cpp := delete_entry_heartbeat_hash a (cpp t)\<rparr>) = Some s1"
    by (auto simp: upf_down_event_def Let_def bind_eq_Some_conv simp del: upd_Some_iff)
  have "upf_context_entry_lookup a (cpp s1) = u"
    using schedule_pfcp_association_frame[OF t(2)] t(1) assms(1)
    by (auto simp: upf_context_entry_lookup_def delete_entry_heartbeat_hash_def)
  moreover from t(1) obtain c where "upf_heap t u = Some c" "sin_addr (upf_sockaddr c) = 0" by auto
  ultimately show ?thesis
    using get_upf_context_keeps[OF assms(4)] assms(2) schedule_pfcp_association_address[OF t(2), of u c] by auto
qed

theorem stale_user_plane_address_witness:
  "\<exists>s1 v s2. upf_down_event (Some 4) 7 77 (example_upf_state\<lparr>cpp := snd (upf_context_entry_add 77 5 init_cpp_tables)\<rparr>) = Some s1 \<and>
     get_upf_context 77 ''upf-b'' True s1 = Some (v, s2) \<and> v \<noteq> 5 \<and> upf_context_entry_lookup 77 (cpp s2) = 5"
proof -
  let ?s = "example_upf_state\<lparr>cpp := snd (upf_context_entry_add 77 5 init_cpp_tables)\<rparr>"
  have l: "upf_context_entry_lookup 77 (cpp ?s) = 5"
    by (simp add: upf_context_entry_lookup_def find_upf_def map_find_def upf_context_entry_add_def add_upf_def map_insert_def
        init_cpp_tables_def)
  obtain s1 s2 where s: "upf_down_event (Some 4) 7 77 ?s = Some s1" "get_upf_context 77 ''upf-b'' True s1 = Some (20, s2)"
    by (simp add: upf_down_event_def l[simplified] example_upf_state_def upd_upf_def schedule_pfcp_association_def gst_timer_init_def
        gst_timer_start_def timer_settime_def Let_def get_upf_context_def create_upf_context_def calloc_upf_ptr_def
        upf_context_entry_lookup_service_def find_upf_service_def map_find_def delete_entry_heartbeat_hash_def
        upf_context_entry_add_def add_upf_def upf_context_entry_add_service_def add_upf_service_def init_cpp_tables_def
        assert_c_def MAX_HOSTNAME_LENGTH_def example_state_def upf_context_entry_lookup_def find_upf_def map_insert_def)
  with stale_user_plane_address[OF l _ s] show ?thesis by auto
qed

end
