(* ===== verification/Peer.thy ===== *)
theory Peer
  imports Upf
begin

text \<open>
  Path management (\<open>cp/cp_peer.c\<close>, the heartbeats of \<open>cp/pfcp/msg/pfcp_heartbeat.c\<close> and
  \<open>config_disable_upf\<close> of \<open>cp/upf.c\<close>): every peer has a periodic timer that runs while the peer answers and a
  transmit timer that repeats an unanswered echo or heartbeat request.  Timers expire in a thread of their own, which
  queues an event; the main thread takes the event and looks the peer up by its address.
\<close>

section \<open>Operations\<close>

definition S11_SGW_PORT_ID :: u8 where
  "S11_SGW_PORT_ID = 0"

definition S5S8_SGWC_PORT_ID :: u8 where
  "S5S8_SGWC_PORT_ID = 1"

definition SX_PORT_ID :: u8 where
  "SX_PORT_ID = 2"

definition S5S8_PGWC_PORT_ID :: u8 where
  "S5S8_PGWC_PORT_ID = 3"

definition PEER_TIMEOUT :: u16 where
  "PEER_TIMEOUT = 0x08"

definition GTPC_UDP_PORT :: u16 where
  "GTPC_UDP_PORT = 2123"

definition upd_peer :: "ptr \<Rightarrow> (peerData \<Rightarrow> peerData) \<Rightarrow> cp_state \<Rightarrow> cp_state option" where
  "upd_peer p f s = (case peer_heap (peer_mod s) p of None \<Rightarrow> None
     | Some x \<Rightarrow> Some (s\<lparr>peer_mod := (peer_mod s)\<lparr>peer_heap := (peer_heap (peer_mod s))(p \<mapsto> f x)\<rparr>\<rparr>))"

text \<open>\<open>timerCallback\<close> runs in the thread of the timers; \<open>ti\<close> is the timer that expired and \<open>data\<close> the peer it
  was created for.\<close>

definition timerCallback :: "timer_ref \<Rightarrow> ptr \<Rightarrow> cp_state \<Rightarrow> cp_state option" where
  "timerCallback ti data s =
     (if alloc_fails s (next_ptr s) then None
      else do {
        let temp = next_ptr s;
        let s = s\<lparr>next_ptr := next_ptr s + 1\<rparr>;
        md \<leftarrow> peer_heap (peer_mod s) data;
        let s = s\<lparr>peer_mod := (peer_mod s)\<lparr>peer_data_heap := (peer_data_heap (peer_mod s))(temp \<mapsto>
          \<lparr>pd_ti = ti, pd_dest_addr = \<lparr>sin_addr = dstIP md, sin_port = htons GTPC_UDP_PORT\<rparr>\<rparr>)\<rparr>\<rparr>;
        queue_stack_unwind_event PEER_TIMEOUT temp Handle_Timeout_Event s
      })"

text \<open>The requests: the sequence number grows when the periodic timer has expired, and the transmit timer
  counts the repetitions.\<close>

definition generate_seq_no :: "cp_state \<Rightarrow> u32 \<times> cp_state" where
  "generate_seq_no s = (0 + (pfcp_seq_no_offset s + 1), s\<lparr>pfcp_seq_no_offset := pfcp_seq_no_offset s + 1\<rparr>)"

definition next_echo_seq :: "u8 \<Rightarrow> bool \<Rightarrow> cp_state \<Rightarrow> u16 \<times> cp_state" where
  "next_echo_seq port periodic s =
     (let m = peer_mod s; d = (if periodic then 1 else 0)
      in if port = S11_SGW_PORT_ID then
           (gtpc_mme_seqnb m + d, s\<lparr>peer_mod := m\<lparr>gtpc_mme_seqnb := gtpc_mme_seqnb m + d\<rparr>\<rparr>)
         else if port = S5S8_SGWC_PORT_ID then
           (gtpc_sgwc_seqnb m + d, s\<lparr>peer_mod := m\<lparr>gtpc_sgwc_seqnb := gtpc_sgwc_seqnb m + d\<rparr>\<rparr>)
         else if port = S5S8_PGWC_PORT_ID then
           (gtpc_pgwc_seqnb m + d, s\<lparr>peer_mod := m\<lparr>gtpc_pgwc_seqnb := gtpc_pgwc_seqnb m + d\<rparr>\<rparr>)
         else if periodic then
           (case generate_seq_no s of (q, s) \<Rightarrow> (ucast q, s\<lparr>peer_mod := (peer_mod s)\<lparr>pfcp_seqnb := ucast q\<rparr>\<rparr>))
         else (pfcp_seqnb m, s))"

definition known_port :: "u8 \<Rightarrow> bool" where
  "known_port port \<longleftrightarrow> port \<in> {S11_SGW_PORT_ID, S5S8_SGWC_PORT_ID, SX_PORT_ID, S5S8_PGWC_PORT_ID}"

definition send_echo :: "ptr \<Rightarrow> timer_ref \<Rightarrow> u32 \<Rightarrow> cp_state \<Rightarrow> cp_state option" where
  "send_echo md ti addr s = do {
     m \<leftarrow> peer_heap (peer_mod s) md;
     if known_port (portId m) then do {
       let (q, s) = next_echo_seq (portId m) (ti = Pt_Of md) s;
       let s = s\<lparr>peer_mod := (peer_mod s)\<lparr>echoes := echoes (peer_mod s) @ [(addr, portId m, q)]\<rparr>\<rparr>;
       if ti = Tt_Of md then upd_peer md (\<lambda>m. m\<lparr>peer_itr_cnt := peer_itr_cnt m + 1\<rparr>) s else Some s
     } else Some s
   }"

text \<open>The branch of \<open>handle_timeout_event\<close> for a peer that has not answered.\<close>

definition peer_down :: "nat option \<Rightarrow> nat \<Rightarrow> u32 \<Rightarrow> peerData \<Rightarrow> cp_state \<Rightarrow> cp_state option" where
  "peer_down created rand addr m s = do {
     let s = gst_timer_stop (pt m) (gst_timer_stop (tt m) s);
     let s = gst_timer_deinit (pt m) (gst_timer_deinit (tt m) s);
     s \<leftarrow> (if portId m = SX_PORT_ID then upf_down_event created rand addr s else Some s);
     Some (cpp_do (del_entry_from_hash (dstIP m)) s)
   }"

definition handle_timeout_event :: "nat option \<Rightarrow> nat \<Rightarrow> ptr \<Rightarrow> cp_state \<Rightarrow> cp_state option" where
  "handle_timeout_event created rand data s = do {
     temp \<leftarrow> peer_data_heap (peer_mod s) data;
     let s = s\<lparr>peer_mod := (peer_mod s)\<lparr>peer_data_heap := (peer_data_heap (peer_mod s))(data := None)\<rparr>\<rparr>;
     let addr = sin_addr (pd_dest_addr temp);
     let md = get_peer_entry addr (cpp s);
     if md = NULL then Some s
     else do {
       m \<leftarrow> peer_heap (peer_mod s) md;
       if peer_itr_cnt m = peer_itr m then peer_down created rand addr m s
       else do {
         s \<leftarrow> send_echo md (pd_ti temp) addr s;
         Some (if pd_ti temp = Pt_Of md then gst_timer_stop (pt m) (snd (gst_timer_start (tt m) s)) else s)
       }
     }
   }"

definition add_node_conn_entry :: "nat option \<Rightarrow> nat option \<Rightarrow> u32 \<Rightarrow> u8 \<Rightarrow> cp_state \<Rightarrow> cp_state option" where
  "add_node_conn_entry created_pt created_tt dstIp port s = do {
     let conn_data = get_peer_entry dstIp (cpp s);
     if conn_data = NULL then
       (if alloc_fails s (next_ptr s) then None
        else do {
          let conn_data = next_ptr s;
          let s = s\<lparr>next_ptr := next_ptr s + 1\<rparr>;
          let s = cpp_do (add_peer_entry dstIp conn_data) s;
          let (ok, p, s) = gst_timer_init created_pt TtInterval Peer_Timer (periodic_timer s * 1000) conn_data
            (pt calloc_peer) s;
          let (ok, t, s) = gst_timer_init created_tt TtInterval Peer_Timer (transmit_timer s * 1000) conn_data
            (tt calloc_peer) s;
          let s = s\<lparr>peer_mod := (peer_mod s)\<lparr>peer_heap := (peer_heap (peer_mod s))(conn_data \<mapsto>
            calloc_peer\<lparr>portId := port, dstIP := dstIp, peer_itr := transmit_cnt s, peer_itr_cnt := 0, pt := p, tt := t\<rparr>)\<rparr>\<rparr>;
          let s = snd (gst_timer_start p s);
          Some (s\<lparr>peer_mod := (peer_mod s)\<lparr>conn_cnt := conn_cnt (peer_mod s) + 1\<rparr>\<rparr>)
        })
     else do {
       m \<leftarrow> peer_heap (peer_mod s) conn_data;
       Some (snd (gst_timer_start (pt m) s))
     }
   }"

definition process_response :: "u32 \<Rightarrow> cp_state \<Rightarrow> cp_state option" where
  "process_response dstIp s = do {
     let conn_data = get_peer_entry dstIp (cpp s);
     if conn_data = NULL then Some s
     else do {
       s \<leftarrow> upd_peer conn_data (\<lambda>m. m\<lparr>peer_itr_cnt := 0\<rparr>) s;
       m \<leftarrow> peer_heap (peer_mod s) conn_data;
       let s = gst_timer_stop (pt m) (gst_timer_stop (tt m) s);
       Some (snd (gst_timer_start (pt m) s))
     }
   }"

text \<open>\<open>process_heartbeat_response\<close>, with the recovery time of the decoded message: a new recovery time means that
  the user plane has restarted.\<close>

definition process_heartbeat_response :: "nat option \<Rightarrow> nat \<Rightarrow> u32 \<Rightarrow> u32 \<Rightarrow> cp_state \<Rightarrow> cp_state option" where
  "process_heartbeat_response created rand rcvry_time_stmp_val peer_addr s = do {
     s \<leftarrow> process_response peer_addr s;
     (case peer_heartbeat_entry_lookup peer_addr (cpp s) of
        (_, None) \<Rightarrow> Some s
      | (_, Some recov_time) \<Rightarrow>
          if recov_time = 0
          then Some (s\<lparr>cpp := add_ip_to_heartbeat_hash peer_addr rcvry_time_stmp_val (cpp s)\<rparr>)
          else if rcvry_time_stmp_val \<noteq> recov_time then
            (let s = s\<lparr>cpp := add_ip_to_heartbeat_hash peer_addr rcvry_time_stmp_val (cpp s)\<rparr>
             in if pfcp_hb_ts_fail s then upf_down_event created rand peer_addr s else Some s)
          else Some s)
   }"

definition config_disable_upf :: "string \<Rightarrow> cp_state \<Rightarrow> cp_state option" where
  "config_disable_upf upf_service_name s = do {
     let upf_context = upf_context_entry_lookup_service upf_service_name (cpp s);
     if upf_context = NULL then Some s
     else do {
       u \<leftarrow> upf_heap s upf_context;
       let upf_addr = sin_addr (upf_sockaddr u);
       let md = get_peer_entry upf_addr (cpp s);
       let s = cpp_do (del_entry_from_hash upf_addr) s;
       s \<leftarrow> (if md \<noteq> NULL then do {
              m \<leftarrow> peer_heap (peer_mod s) md;
              let s = gst_timer_stop (pt m) (gst_timer_stop (tt m) s);
              Some (gst_timer_deinit (pt m) (gst_timer_deinit (tt m) s))
            } else Some s);
       s \<leftarrow> upd_upf upf_context (\<lambda>u. u\<lparr>upf_state := 0\<rparr>) s;
       let s = cpp_do (upf_context_delete_entry upf_addr) s;
       Some (s\<lparr>cpp := delete_entry_heartbeat_hash upf_addr (cpp s)\<rparr>)
     }
   }"

section \<open>Supervised peers\<close>

text \<open>The peers by address, and what it means that a peer is supervised: its two timers exist, at least one of them is
  running, and the counter of repetitions has not passed its limit.\<close>

definition peer_ptrs :: "cp_state \<Rightarrow> (u32 \<rightharpoonup> ptr)" where
  "peer_ptrs s = (\<lambda>a. map_option peer_rec_m (addr_to_peer_context_hash (peer_table (cpp s)) a))"

definition runs :: "itimerspec option \<Rightarrow> bool" where
  "runs t \<longleftrightarrow> (case t of None \<Rightarrow> False | Some ts \<Rightarrow> it_value_sec ts \<noteq> 0 \<or> it_value_nsec ts \<noteq> 0)"

definition timer_ids :: "peerData \<Rightarrow> nat set" where
  "timer_ids m = {ti_id (pt m), ti_id (tt m)}"

definition supervised :: "(nat \<rightharpoonup> itimerspec) \<Rightarrow> peerData \<Rightarrow> bool" where
  "supervised os m \<longleftrightarrow> os (ti_id (pt m)) \<noteq> None \<and> os (ti_id (tt m)) \<noteq> None \<and> ti_id (pt m) \<noteq> ti_id (tt m) \<and>
     0 < ti_ms (pt m) \<and> 0 < ti_ms (tt m) \<and> peer_itr_cnt m \<le> peer_itr m \<and>
     (runs (os (ti_id (pt m))) \<or> runs (os (ti_id (tt m))))"

definition watch_inv :: "(u32 \<rightharpoonup> ptr) \<Rightarrow> (ptr \<rightharpoonup> peerData) \<Rightarrow> (nat \<rightharpoonup> itimerspec) \<Rightarrow> bool" where
  "watch_inv ptrs heap os \<longleftrightarrow>
     (\<forall>a p. ptrs a = Some p \<longrightarrow> p \<noteq> NULL \<and> (\<exists>m. heap p = Some m \<and> dstIP m = a \<and> supervised os m)) \<and>
     (\<forall>a b p q m n. ptrs a = Some p \<longrightarrow> ptrs b = Some q \<longrightarrow> a \<noteq> b \<longrightarrow> heap p = Some m \<longrightarrow> heap q = Some n \<longrightarrow>
        timer_ids m \<inter> timer_ids n = {})"

lemma watch_invD:
  assumes "watch_inv ptrs heap os" "ptrs a = Some p"
  obtains m where "p \<noteq> NULL" "heap p = Some m" "dstIP m = a" "supervised os m"
  using assms by (auto simp: watch_inv_def)

lemma watch_inv_inj:
  assumes "watch_inv ptrs heap os" "ptrs a = Some p" "ptrs b = Some p"
  shows "a = b"
  using assms by (metis option.inject watch_invD)

lemma supervised_cong:
  "(\<And>i. i \<in> timer_ids m \<Longrightarrow> os' i = os i) \<Longrightarrow> supervised os' m = supervised os m"
  by (simp add: supervised_def timer_ids_def)

text \<open>A step that concerns one peer: its structure keeps its identity and stays supervised, and the timers of the
  others are left alone.\<close>

lemma watch_inv_update:
  assumes inv: "watch_inv ptrs heap os" and p: "ptrs a = Some p" "heap p = Some m"
    and m': "dstIP m' = dstIP m" "timer_ids m' = timer_ids m" "supervised os' m'"
    and os': "\<And>i. i \<notin> timer_ids m \<Longrightarrow> os' i = os i"
  shows "watch_inv ptrs (heap(p \<mapsto> m')) os'"
proof -
  have a: "dstIP m = a" using inv p by (auto elim: watch_invD)
  have other: "supervised os' n" if "ptrs b = Some q" "heap q = Some n" "q \<noteq> p" for b q n
  proof -
    have "supervised os n" "dstIP n = b" using inv that by (auto elim: watch_invD)
    moreover have "b \<noteq> a" using that p by auto
    then have "timer_ids n \<inter> timer_ids m = {}" using inv that p unfolding watch_inv_def by blast
    ultimately show ?thesis using supervised_cong[of n os' os] os' by blast
  qed
  show ?thesis
    unfolding watch_inv_def
  proof (intro conjI allI impI)
    fix b q
    assume b: "ptrs b = Some q"
    show "q \<noteq> NULL" using inv b by (auto elim: watch_invD)
    show "\<exists>n. (heap(p \<mapsto> m')) q = Some n \<and> dstIP n = b \<and> supervised os' n"
    proof (cases "q = p")
      case True
      with watch_inv_inj[OF inv b] p have "b = a" by blast
      with True m' a show ?thesis by simp
    next
      case False
      with watch_invD[OF inv b] other[OF b] show ?thesis by (metis fun_upd_other)
    qed
  next
    fix b c q r n k
    assume *: "ptrs b = Some q" "ptrs c = Some r" "b \<noteq> c" "(heap(p \<mapsto> m')) q = Some n" "(heap(p \<mapsto> m')) r = Some k"
    from *(3) have "q \<noteq> r" using watch_inv_inj[OF inv *(1)] *(2) by blast
    obtain n0 where n0: "heap q = Some n0" "timer_ids n = timer_ids n0"
      using * m'(2) p by (cases "q = p") auto
    obtain k0 where k0: "heap r = Some k0" "timer_ids k = timer_ids k0"
      using * m'(2) p by (cases "r = p") auto
    from inv *(1-3) n0 k0 show "timer_ids n \<inter> timer_ids k = {}"
      unfolding watch_inv_def by metis
  qed
qed

lemma watch_inv_erase:
  assumes inv: "watch_inv ptrs heap os" and p: "ptrs a = Some p" "heap p = Some m"
    and os': "\<And>i. i \<notin> timer_ids m \<Longrightarrow> os' i = os i"
  shows "watch_inv (ptrs(a := None)) heap os'"
proof -
  have "supervised os' n" if "ptrs b = Some q" "heap q = Some n" "b \<noteq> a" for b q n
  proof -
    have "supervised os n" using inv that by (auto elim: watch_invD)
    moreover have "timer_ids n \<inter> timer_ids m = {}" using inv that p unfolding watch_inv_def by blast
    ultimately show ?thesis using supervised_cong[of n os' os] os' by blast
  qed
  with inv show ?thesis
    unfolding watch_inv_def by (fastforce split: if_splits)
qed

lemma watch_inv_insert:
  assumes inv: "watch_inv ptrs heap os" and a: "ptrs a = None" "p \<noteq> NULL" "heap p = None"
    and m: "dstIP m = a" "supervised os' m" "\<And>i. i \<in> timer_ids m \<Longrightarrow> os i = None"
    and os': "\<And>i. i \<notin> timer_ids m \<Longrightarrow> os' i = os i"
  shows "watch_inv (ptrs(a \<mapsto> p)) (heap(p \<mapsto> m)) os'"
proof -
  have other: "q \<noteq> p \<and> timer_ids n \<inter> timer_ids m = {} \<and> supervised os' n"
    if "ptrs b = Some q" "heap q = Some n" for b q n
  proof -
    have n: "supervised os n" using inv that by (auto elim: watch_invD)
    then have "timer_ids n \<inter> timer_ids m = {}" using m(3) by (auto simp: supervised_def timer_ids_def)
    with n that a(3) show ?thesis using supervised_cong[of n os' os] os' by auto
  qed
  show ?thesis
    unfolding watch_inv_def
  proof (intro conjI allI impI)
    fix b q
    assume b: "(ptrs(a \<mapsto> p)) b = Some q"
    show "q \<noteq> NULL" using inv b a(2) by (auto elim: watch_invD split: if_splits)
    show "\<exists>n. (heap(p \<mapsto> m)) q = Some n \<and> dstIP n = b \<and> supervised os' n"
    proof (cases "b = a")
      case False
      with b have "ptrs b = Some q" by simp
      with watch_invD[OF inv this] other[OF this] show ?thesis by (metis fun_upd_other)
    qed (use b m in auto)
  next
    fix b c q r n k
    assume *: "(ptrs(a \<mapsto> p)) b = Some q" "(ptrs(a \<mapsto> p)) c = Some r" "b \<noteq> c"
      "(heap(p \<mapsto> m)) q = Some n" "(heap(p \<mapsto> m)) r = Some k"
    have new: "timer_ids n \<inter> timer_ids m = {}" if "ptrs b' = Some q'" "(heap(p \<mapsto> m)) q' = Some n" for b' q' n
      using other[OF that(1)] that watch_invD[OF inv that(1)] by (metis fun_upd_apply)
    show "timer_ids n \<inter> timer_ids k = {}"
    proof (cases "b = a \<or> c = a")
      case True
      with * new a show ?thesis by (metis Int_commute fun_upd_apply option.inject)
    next
      case False
      with * have q: "ptrs b = Some q" "ptrs c = Some r" by auto
      with a(3) inv have "q \<noteq> p" "r \<noteq> p" by (auto elim: watch_invD)
      with * q inv show ?thesis unfolding watch_inv_def by (metis fun_upd_other)
    qed
  qed
qed

lemma watch_inv_fresh:
  assumes "watch_inv ptrs heap os" "\<And>i. os i \<noteq> None \<Longrightarrow> os' i = os i"
  shows "watch_inv ptrs heap os'"
proof -
  have "supervised os' m" if "supervised os m" for m
    using that assms(2) supervised_cong[of m os' os] by (auto simp: supervised_def timer_ids_def)
  with assms(1) show ?thesis unfolding watch_inv_def by blast
qed

text \<open>The events that wait for the main thread: each is a timeout with its own message.\<close>

definition queue_inv :: "ptr list \<Rightarrow> (ptr \<rightharpoonup> stack_event) \<Rightarrow> (ptr \<rightharpoonup> peer_data) \<Rightarrow> ptr \<Rightarrow> bool" where
  "queue_inv q evs pds np \<longleftrightarrow> 0 < np \<and> distinct q \<and> inj_on (\<lambda>e. ev_data (the (evs e))) (set q) \<and>
     (\<forall>e\<in>set q. 0 < e \<and> e < np \<and>
        (\<exists>ev. evs e = Some ev \<and> ev_cb ev = Handle_Timeout_Event \<and> ev_data ev < np \<and> pds (ev_data ev) \<noteq> None))"

lemma queue_invI:
  assumes "0 < np" "distinct q"
    and "\<And>e e'. e \<in> set q \<Longrightarrow> e' \<in> set q \<Longrightarrow> ev_data (the (evs e)) = ev_data (the (evs e')) \<Longrightarrow> e = e'"
    and "\<And>e. e \<in> set q \<Longrightarrow> 0 < e \<and> e < np \<and>
      (\<exists>ev. evs e = Some ev \<and> ev_cb ev = Handle_Timeout_Event \<and> ev_data ev < np \<and> pds (ev_data ev) \<noteq> None)"
  shows "queue_inv q evs pds np"
  using assms by (simp add: queue_inv_def inj_on_def)

lemma queue_invD:
  assumes "queue_inv q evs pds np" "e \<in> set q"
  obtains ev where "0 < e" "e < np" "evs e = Some ev" "ev_cb ev = Handle_Timeout_Event" "ev_data ev < np" "pds (ev_data ev) \<noteq> None"
  using assms by (auto simp: queue_inv_def)

lemma queue_inv_inj:
  "queue_inv q evs pds np \<Longrightarrow> e \<in> set q \<Longrightarrow> e' \<in> set q \<Longrightarrow> ev_data (the (evs e)) = ev_data (the (evs e')) \<Longrightarrow> e = e'"
  by (simp add: queue_inv_def inj_on_def)

lemma queue_inv_push:
  assumes "queue_inv q evs pds np"
  shows "queue_inv (q @ [Suc np]) (evs(Suc np \<mapsto> \<lparr>ev_event = x, ev_data = np, ev_cb = Handle_Timeout_Event\<rparr>))
    (pds(np \<mapsto> d)) (Suc (Suc np))"
proof (rule queue_invI)
  note old = queue_invD[OF assms]
  show "0 < Suc (Suc np)" by simp
  show "distinct (q @ [Suc np])" using assms old by (auto simp: queue_inv_def)
  fix e
  assume e: "e \<in> set (q @ [Suc np])"
  show "0 < e \<and> e < Suc (Suc np) \<and> (\<exists>ev. (evs(Suc np \<mapsto> \<lparr>ev_event = x, ev_data = np, ev_cb = Handle_Timeout_Event\<rparr>)) e = Some ev \<and>
      ev_cb ev = Handle_Timeout_Event \<and> ev_data ev < Suc (Suc np) \<and> (pds(np \<mapsto> d)) (ev_data ev) \<noteq> None)"
  proof (cases "e = Suc np")
    case False
    with e have "e \<in> set q" by simp
    then obtain ev where "0 < e" "e < np" "evs e = Some ev" "ev_cb ev = Handle_Timeout_Event" "ev_data ev < np"
      "pds (ev_data ev) \<noteq> None" by (rule old)
    then show ?thesis by simp
  qed simp
  fix e'
  assume e': "e' \<in> set (q @ [Suc np])"
    and eq: "ev_data (the ((evs(Suc np \<mapsto> \<lparr>ev_event = x, ev_data = np, ev_cb = Handle_Timeout_Event\<rparr>)) e)) =
      ev_data (the ((evs(Suc np \<mapsto> \<lparr>ev_event = x, ev_data = np, ev_cb = Handle_Timeout_Event\<rparr>)) e'))"
  have lt: "ev_data (the (evs e)) \<noteq> np" if "e \<in> set q" for e
    using that by (rule old) auto
  show "e = e'"
    using e e' eq lt queue_inv_inj[OF assms] by (cases "e = Suc np"; cases "e' = Suc np") auto
qed

lemma queue_inv_pop:
  assumes "queue_inv (e # q) evs pds np" "evs e = Some ev"
  shows "queue_inv q (evs(e := None)) (pds(ev_data ev := None)) np"
proof (rule queue_invI)
  show "0 < np" "distinct q" using assms(1) by (auto simp: queue_inv_def)
  have ne: "e' \<noteq> e \<and> ev_data (the (evs e')) \<noteq> ev_data ev" if "e' \<in> set q" for e'
  proof
    show "e' \<noteq> e" using assms(1) that by (auto simp: queue_inv_def)
    then show "ev_data (the (evs e')) \<noteq> ev_data ev" using queue_inv_inj[OF assms(1), of e' e] assms(2) that by auto
  qed
  fix e'
  assume e': "e' \<in> set q"
  then have "e' \<in> set (e # q)" by simp
  then obtain ev' where "0 < e'" "e' < np" "evs e' = Some ev'" "ev_cb ev' = Handle_Timeout_Event" "ev_data ev' < np"
    "pds (ev_data ev') \<noteq> None" by (rule queue_invD[OF assms(1)])
  with ne[OF e'] show "0 < e' \<and> e' < np \<and> (\<exists>v. (evs(e := None)) e' = Some v \<and> ev_cb v = Handle_Timeout_Event \<and>
      ev_data v < np \<and> (pds(ev_data ev := None)) (ev_data v) \<noteq> None)" by simp
  fix e''
  assume "e'' \<in> set q" "ev_data (the ((evs(e := None)) e')) = ev_data (the ((evs(e := None)) e''))"
  with ne e' queue_inv_inj[OF assms(1), of e' e''] show "e' = e''" by auto
qed

lemma queue_inv_mono:
  assumes "queue_inv q evs pds np" "np \<le> np'"
  shows "queue_inv q evs pds np'"
proof (rule queue_invI)
  show "0 < np'" "distinct q" using assms by (auto simp: queue_inv_def)
  show "\<And>e e'. e \<in> set q \<Longrightarrow> e' \<in> set q \<Longrightarrow> ev_data (the (evs e)) = ev_data (the (evs e')) \<Longrightarrow> e = e'"
    by (rule queue_inv_inj[OF assms(1)])
  fix e
  assume "e \<in> set q"
  then show "0 < e \<and> e < np' \<and> (\<exists>ev. evs e = Some ev \<and> ev_cb ev = Handle_Timeout_Event \<and> ev_data ev < np' \<and> pds (ev_data ev) \<noteq> None)"
    by (rule queue_invD[OF assms(1)]) (use assms(2) in auto)
qed

definition upf_inv :: "upfTables \<Rightarrow> (ptr \<rightharpoonup> upf_context) \<Rightarrow> bool" where
  "upf_inv t heap \<longleftrightarrow> (\<forall>a u. upf_context_by_ip_hash t a = Some u \<longrightarrow> heap u \<noteq> None) \<and>
     (\<forall>n u. upf_context_by_service_hash t n = Some u \<longrightarrow> heap u \<noteq> None)"

abbreviation stack_events :: "cp_state \<Rightarrow> ptr list" where
  "stack_events s \<equiv> stack_events_queue (table (cpp s))"

definition peer_inv :: "cp_state \<Rightarrow> bool" where
  "peer_inv s \<longleftrightarrow> 0 < periodic_timer s \<and> 0 < transmit_timer s \<and>
     watch_inv (peer_ptrs s) (peer_heap (peer_mod s)) (os_timers s) \<and>
     (\<forall>p. peer_heap (peer_mod s) p \<noteq> None \<longrightarrow> p < next_ptr s) \<and>
     queue_inv (stack_events s) (event_heap s) (peer_data_heap (peer_mod s)) (next_ptr s) \<and>
     upf_inv (upf_table (cpp s)) (upf_heap s)"

text \<open>What the steps of the user planes leave alone.\<close>

definition peers_kept :: "cp_state \<Rightarrow> cp_state \<Rightarrow> bool" where
  "peers_kept s s' \<longleftrightarrow> peer_ptrs s' = peer_ptrs s \<and> peer_mod s' = peer_mod s \<and> event_heap s' = event_heap s \<and>
     next_ptr s' = next_ptr s \<and> stack_events s' = stack_events s \<and> periodic_timer s' = periodic_timer s \<and>
     transmit_timer s' = transmit_timer s \<and> (\<forall>i. os_timers s i \<noteq> None \<longrightarrow> os_timers s' i = os_timers s i) \<and>
     upf_table (cpp s') = upf_table (cpp s) \<and> (\<forall>u. upf_heap s u \<noteq> None \<longrightarrow> upf_heap s' u \<noteq> None)"

lemma peers_kept_inv: "peers_kept s s' \<Longrightarrow> peer_inv s \<Longrightarrow> peer_inv s'"
  unfolding peers_kept_def peer_inv_def upf_inv_def
  using watch_inv_fresh[of "peer_ptrs s" "peer_heap (peer_mod s)" "os_timers s" "os_timers s'"] by simp

lemma peers_kept_trans: "peers_kept s t \<Longrightarrow> peers_kept t u \<Longrightarrow> peers_kept s u"
  unfolding peers_kept_def by metis

definition fresh_timer :: "nat option \<Rightarrow> cp_state \<Rightarrow> bool" where
  "fresh_timer created s \<longleftrightarrow> (case created of None \<Rightarrow> True | Some i \<Rightarrow> os_timers s i = None)"

lemma get_peer_entry_ptrs: "get_peer_entry a (cpp s) = (case peer_ptrs s a of None \<Rightarrow> NULL | Some p \<Rightarrow> p)"
  by (simp add: get_peer_entry_def find_peer_from_addr_def peer_ptrs_def split: option.splits)

lemma heartbeat_tables [simp]:
  "peer_ptrs (s\<lparr>cpp := delete_entry_heartbeat_hash a (cpp s)\<rparr>) = peer_ptrs s"
  "peer_ptrs (s\<lparr>cpp := add_ip_to_heartbeat_hash a v (cpp s)\<rparr>) = peer_ptrs s"
  "table (delete_entry_heartbeat_hash a c) = table c" "table (add_ip_to_heartbeat_hash a v c) = table c"
  "upf_table (delete_entry_heartbeat_hash a c) = upf_table c" "upf_table (add_ip_to_heartbeat_hash a v c) = upf_table c"
  by (auto simp: peer_ptrs_def delete_entry_heartbeat_hash_def reset_peer_recov_time_def add_ip_to_heartbeat_hash_def
      add_peer_addr_to_recov_time_mapping_def fun_eq_iff split: option.splits)

lemma peer_ptrs_cong: "peer_table (cpp s') = peer_table (cpp s) \<Longrightarrow> peer_ptrs s' = peer_ptrs s"
  by (simp add: peer_ptrs_def)

lemma schedule_pfcp_association_effect:
  assumes "u = NULL \<or> upf_heap s u \<noteq> None" "fresh_timer created s"
  shows "\<exists>s'. schedule_pfcp_association created n u s = Some s' \<and> peers_kept s s'"
proof -
  have "peers_kept s s'" if "cpp s' = cpp s" "peer_mod s' = peer_mod s" "event_heap s' = event_heap s"
    "next_ptr s' = next_ptr s" "periodic_timer s' = periodic_timer s" "transmit_timer s' = transmit_timer s"
    "\<forall>i. os_timers s i \<noteq> None \<longrightarrow> os_timers s' i = os_timers s i" "\<forall>u. upf_heap s u \<noteq> None \<longrightarrow> upf_heap s' u \<noteq> None"
    for s'
    using that by (simp add: peers_kept_def peer_ptrs_def)
  note kept = this
  show ?thesis
  proof (cases created)
    case None
    with assms(1) show ?thesis
      by (cases "u = NULL")
        (auto simp: schedule_pfcp_association_def gst_timer_init_def Let_def upd_upf_def intro!: kept)
  next
    case (Some i)
    with assms show ?thesis
      by (cases "u = NULL")
        (auto simp: schedule_pfcp_association_def gst_timer_init_def Let_def upd_upf_def gst_timer_start_def
          timer_settime_def fresh_timer_def intro!: kept split: option.splits)
  qed
qed

lemma upf_down_event_effect:
  assumes "upf_inv (upf_table (cpp s)) (upf_heap s)" "fresh_timer created s"
  shows "\<exists>s'. upf_down_event created r a s = Some s' \<and> peers_kept s s'"
proof -
  define u where "u = upf_context_entry_lookup a (cpp s)"
  have u: "u = NULL \<or> upf_heap s u \<noteq> None"
    using assms(1) by (auto simp: u_def upf_context_entry_lookup_def find_upf_def map_find_def upf_inv_def split: option.splits)
  define s1 where "s1 = (if u \<noteq> NULL then s\<lparr>upf_heap := (upf_heap s)(u \<mapsto> (the (upf_heap s u))\<lparr>upf_state := 0,
    upf_sockaddr := (upf_sockaddr (the (upf_heap s u)))\<lparr>sin_addr := 0\<rparr>\<rparr>)\<rparr> else s)"
  define s2 where "s2 = s1\<lparr>cpp := delete_entry_heartbeat_hash a (cpp s1)\<rparr>"
  have "upf_down_event created r a s = schedule_pfcp_association created (of_nat (r mod 30)) u s2"
    using u by (auto simp: upf_down_event_def u_def[symmetric] s1_def s2_def upd_upf_def Let_def)
  moreover have "peers_kept s s2"
    by (auto simp: peers_kept_def s2_def s1_def peer_ptrs_cong[of "s\<lparr>upf_heap := _\<rparr>" s])
  moreover have "u = NULL \<or> upf_heap s2 u \<noteq> None" "fresh_timer created s2"
    using u assms(2) by (auto simp: s1_def s2_def fresh_timer_def split: option.splits)
  ultimately show ?thesis
    using schedule_pfcp_association_effect[of u s2 created "of_nat (r mod 30)"] peers_kept_trans by metis
qed

end
