(* ===== verification/Assoc.thy ===== *)
theory Assoc
  imports Peer
begin

text \<open>
  The PFCP association with a user plane: the handlers of \<open>cp/procedures/proc_pfcp_assoc_setup.c\<close>, the response of
  \<open>cp/pfcp/msg/pfcp_association_setup_response.c\<close> and the expiry of the association timer of \<open>cp/upf.c\<close>.

  Besides the parameters of the theory of user planes, \<open>request\<close> gives the bytes of the encoded association setup request with
  a sequence number.  A message that is handed to the queue of the sending thread is logged in \<open>sent\<close>; the
  queue keeps the order.
\<close>

section \<open>Operations\<close>

definition PFCP_ASSOC_REQ_SNT_STATE :: u8 where
  "PFCP_ASSOC_REQ_SNT_STATE = 1"

definition PFCP_ASSOC_RESP_RCVD_STATE :: u8 where
  "PFCP_ASSOC_RESP_RCVD_STATE = 2"

definition pfcp_send :: "u8 list \<Rightarrow> sockaddr_in \<Rightarrow> cp_state \<Rightarrow> cp_state" where
  "pfcp_send msg_payload peer_addr s = s\<lparr>sent := sent s @ [(peer_addr, msg_payload)]\<rparr>"

text \<open>The function that is called when the response does not come in time.\<close>

definition PROCESS_ASSOC_RESP_TIMEOUT :: nat where
  "PROCESS_ASSOC_RESP_TIMEOUT = 1"

definition assoication_setup_request :: "(u32 \<Rightarrow> u8 list) \<Rightarrow> nat option \<Rightarrow> ptr \<Rightarrow> cp_state \<Rightarrow> cp_state option" where
  "assoication_setup_request request created proc_context s = do {
     p \<leftarrow> proc_heap s proc_context;
     let upf_context = proc_upf_context p;
     let (seq_num, s) = generate_seq_no s;
     u \<leftarrow> upf_heap s upf_context;
     let s = pfcp_send (request seq_num) (upf_sockaddr u) s;
     (trans_entry, s) \<leftarrow> start_response_wait_timer created proc_context (request seq_num) PROCESS_ASSOC_RESP_TIMEOUT s;
     s \<leftarrow> upd_trans trans_entry (\<lambda>t. (SET_TRANS_SELF_INITIATED t)\<lparr>trans_sequence := seq_num\<rparr>) s;
     let s = s\<lparr>cpp := snd (add_pfcp_transaction (sin_addr (pfcp_sockaddr s)) (sin_port (pfcp_sockaddr s)) seq_num trans_entry (cpp s))\<rparr>;
     s \<leftarrow> upd_proc proc_context (\<lambda>p. p\<lparr>pfcp_trans := trans_entry\<rparr>) s;
     s \<leftarrow> upd_trans trans_entry (\<lambda>t. t\<lparr>trans_proc := proc_context\<rparr>) s;
     upd_upf upf_context (\<lambda>u. u\<lparr>upf_proc := proc_context, upf_state := PFCP_ASSOC_REQ_SNT_STATE\<rparr>) s
   }"

definition association_setup_handler ::
  "(u32 \<Rightarrow> u8 list) \<Rightarrow> nat option \<Rightarrow> u32 \<Rightarrow> ptr \<Rightarrow> cp_state \<Rightarrow> cp_state option" where
  "association_setup_handler request created resolved proc_context s = do {
     p \<leftarrow> proc_heap s proc_context;
     u \<leftarrow> upf_heap s (proc_upf_context p);
     assert_c (upf_state u \<noteq> PFCP_ASSOC_RESP_RCVD_STATE);
     s \<leftarrow> upd_upf (proc_upf_context p) (\<lambda>u. u\<lparr>upf_sockaddr := (upf_sockaddr u)\<lparr>sin_addr := 0\<rparr>\<rparr>) s;
     (upf_context, s) \<leftarrow> get_upf_context resolved (fqdn u) (global_address u) s;
     u \<leftarrow> upf_heap s upf_context;
     if sin_addr (upf_sockaddr u) = 0 then do {
       s \<leftarrow> upd_upf upf_context (\<lambda>u. u\<lparr>upf_state := 0\<rparr>) s;
       queue_stack_unwind_event UPF_CONNECTION_SETUP_FAILED upf_context Upf_Pfcp_Setup_Failure s
     } else assoication_setup_request request created proc_context s
   }"

text \<open>The members of the decoded response that are read.  The source interface is that of the first user plane
  resource.\<close>

record assn_setup_rsp =
  rsp_seq_no :: u32
  rsp_cause :: u8
  rsp_sup_feat :: u16
  rsp_add_sup_feat1 :: u16
  rsp_add_sup_feat2 :: u16
  rsp_assosi :: "1 word"
  rsp_teidri :: "3 word"
  rsp_teid_range :: u8
  rsp_ipv4_address :: u32
  rsp_src_intfc :: "4 word"
  rsp_rcvry_time_stmp :: u32

definition REQUESTACCEPTED :: u8 where
  "REQUESTACCEPTED = 1"

definition SOURCE_INTERFACE_VALUE_ACCESS :: "4 word" where
  "SOURCE_INTERFACE_VALUE_ACCESS = 0"

definition handle_pfcp_association_setup_response ::
  "nat option \<Rightarrow> nat option \<Rightarrow> assn_setup_rsp \<Rightarrow> u32 \<Rightarrow> ptr \<Rightarrow> cp_state \<Rightarrow> cp_state option" where
  "handle_pfcp_association_setup_response created_pt created_tt rsp peer_addr proc s = do {
     p \<leftarrow> proc_heap s proc;
     let upf_context = proc_upf_context p;
     if rsp_cause rsp \<noteq> REQUESTACCEPTED then do {
       s \<leftarrow> upd_upf upf_context (\<lambda>u. u\<lparr>upf_state := 0\<rparr>) s;
       queue_stack_unwind_event UPF_CONNECTION_SETUP_FAILED upf_context Upf_Pfcp_Setup_Failure s
     } else do {
       s \<leftarrow> upd_msg (msg_info p) (\<lambda>m. m\<lparr>msg_event := PFCP_ASSOC_SETUP_RESP_RCVD_EVNT\<rparr>) s;
       s \<leftarrow> upd_upf upf_context (\<lambda>u. u\<lparr>upf_state := PFCP_ASSOC_RESP_RCVD_STATE, up_supp_features := rsp_sup_feat rsp,
             add_up_supp_features1 := rsp_add_sup_feat1 rsp, add_up_supp_features2 := rsp_add_sup_feat2 rsp\<rparr>) s;
       let access = (rsp_assosi rsp = 1 \<and> rsp_src_intfc rsp = SOURCE_INTERFACE_VALUE_ACCESS);
       s \<leftarrow> (case config_cp_type s of
              PGWC \<Rightarrow> if access then upd_upf upf_context (\<lambda>u. u\<lparr>s5s8_pgwu_ip := rsp_ipv4_address rsp\<rparr>) s else Some s
            | SAEGWC \<Rightarrow> if access then upd_upf upf_context (\<lambda>u. u\<lparr>s1u_ip := rsp_ipv4_address rsp\<rparr>) s else Some s
            | SGWC \<Rightarrow> None);
       let s = (if rsp_teidri rsp \<noteq> 0 then set_base_teid (rsp_teid_range rsp) s else s);
       let s = s\<lparr>cpp := add_ip_to_heartbeat_hash peer_addr (rsp_rcvry_time_stmp rsp) (cpp s)\<rparr>;
       s \<leftarrow> add_node_conn_entry created_pt created_tt peer_addr SX_PORT_ID s;
       queue_stack_unwind_event UPF_CONNECTION_SETUP_SUCCESS upf_context Upf_Pfcp_Setup_Success s
     }
   }"

text \<open>\<open>handle_pfcp_association_setup_response_msg\<close> after decoding.  The handler of the procedure, called through its
  pointer, is \<open>pfcp_association_event_handler\<close>, which takes the branch for the response.  The result says whether the
  procedure has taken the message.\<close>

definition handle_pfcp_association_setup_response_msg ::
  "nat option \<Rightarrow> nat option \<Rightarrow> assn_setup_rsp \<Rightarrow> u32 \<Rightarrow> ptr \<Rightarrow> cp_state \<Rightarrow> (bool \<times> cp_state) option" where
  "handle_pfcp_association_setup_response_msg created_pt created_tt rsp peer_addr msg s = do {
     let (tr, c) = delete_pfcp_transaction (sin_addr (pfcp_sockaddr s)) (sin_port (pfcp_sockaddr s)) (rsp_seq_no rsp) (cpp s);
     let s = s\<lparr>cpp := c\<rparr>;
     if tr = NULL then Some (False, s)
     else do {
       t \<leftarrow> trans_heap s tr;
       let proc_context = trans_proc t;
       assert_c (proc_context \<noteq> NULL);
       s \<leftarrow> upd_proc proc_context (\<lambda>p. p\<lparr>pfcp_trans := NULL\<rparr>) s;
       s \<leftarrow> stop_transaction_timer tr s;
       s \<leftarrow> delayed_free tr s;
       s \<leftarrow> upd_msg msg (\<lambda>m. m\<lparr>msg_proc_context := proc_context, msg_event := PFCP_ASSOCIATION_SETUP_RSP\<rparr>) s;
       s \<leftarrow> SET_PROC_MSG proc_context msg s;
       s \<leftarrow> handle_pfcp_association_setup_response created_pt created_tt rsp peer_addr proc_context s;
       Some (True, s)
     }
   }"

text \<open>The expiry of the association timer of one user plane: \<open>handleUpfAssociationTimeoutEvent\<close> and
  \<open>initiate_pfcp_association\<close> with the handler of the procedure.\<close>

definition pfcp_association_event_handler :: "(u32 \<Rightarrow> u8 list) \<Rightarrow> nat option \<Rightarrow> u32 \<Rightarrow> event_handler" where
  "pfcp_association_event_handler request created resolved proc msg s = do {
     m \<leftarrow> msg_heap s msg;
     assert_c (msg_event m = PFCP_ASSOCIATION_SETUP);
     association_setup_handler request created resolved proc s
   }"

text \<open>\<open>initiate_all_pfcp_association\<close> takes the services of the configuration, each with the address that its name is
  resolved to, the timer that its request gets and the random number for its timer; \<open>created\<close> and \<open>rand\<close> are for the
  timer of all user planes.\<close>

fun initiate_services ::
  "(u32 \<Rightarrow> u8 list) \<Rightarrow> (string \<times> bool \<times> u32 \<times> nat option \<times> nat) list \<Rightarrow> bool \<Rightarrow> cp_state \<Rightarrow> (bool \<times> cp_state) option" where
  "initiate_services request [] schedule_association s = Some (schedule_association, s)"
| "initiate_services request ((service, global, resolved, created, rand) # services) schedule_association s = do {
     (upf_context, s) \<leftarrow> get_upf_context resolved service global s;
     if upf_context = NULL then initiate_services request services True s
     else do {
       u \<leftarrow> upf_heap s upf_context;
       if sin_addr (upf_sockaddr u) = 0 then do {
         s \<leftarrow> schedule_pfcp_association created (of_nat (rand mod 30)) upf_context s;
         initiate_services request services schedule_association s
       } else do {
         s \<leftarrow> (if upf_state u = 0 then do {
                (proc, s) \<leftarrow> alloc_pfcp_association_setup_proc upf_context s;
                p \<leftarrow> proc_heap s proc;
                start_upf_procedure (pfcp_association_event_handler request created resolved) proc (msg_info p) s
              } else Some s);
         initiate_services request services schedule_association s
       }
     }
   }"

definition initiate_all_pfcp_association ::
  "(u32 \<Rightarrow> u8 list) \<Rightarrow> (string \<times> bool \<times> u32 \<times> nat option \<times> nat) list \<Rightarrow> nat option \<Rightarrow> nat \<Rightarrow> cp_state \<Rightarrow> cp_state option" where
  "initiate_all_pfcp_association request services created rand s = do {
     (schedule_association, s) \<leftarrow> initiate_services request services False s;
     if schedule_association then schedule_pfcp_association created (of_nat (rand mod 30)) NULL s else Some s
   }"

definition handleUpfAssociationTimeoutEvent ::
  "(u32 \<Rightarrow> u8 list) \<Rightarrow> (string \<times> bool \<times> u32 \<times> nat option \<times> nat) list \<Rightarrow> nat option \<Rightarrow> nat \<Rightarrow> u32 \<Rightarrow> ptr \<Rightarrow>
     cp_state \<Rightarrow> cp_state option" where
  "handleUpfAssociationTimeoutEvent request services created rand resolved data s =
     (if data = NULL then initiate_all_pfcp_association request services created rand s
      else initiate_pfcp_association (pfcp_association_event_handler request created resolved) data s)"

section \<open>The recovery time of a user plane\<close>

lemma set_base_teid_cpp [simp]: "cpp (set_base_teid v s) = cpp s"
  by (simp add: set_base_teid_def Let_def)

lemma queue_event_peer_table:
  "queue_stack_unwind_event ev d cb s = Some s' \<Longrightarrow> peer_table (cpp s') = peer_table (cpp s)"
  by (auto simp: queue_stack_unwind_event_def Let_def queue_stack_unwind_event_cpp_def queue_test_stack_unwind_event_cpp_def
      split: if_splits)

lemma gst_timer_init_cpp: "gst_timer_init created typ cb ms d ti s = (ok, ti', s') \<Longrightarrow> cpp s' = cpp s"
  by (auto simp: gst_timer_init_def Let_def split: option.splits)

lemma gst_timer_start_cpp [simp]: "cpp (snd (gst_timer_start ti s)) = cpp s"
  by (simp add: gst_timer_start_def timer_settime_def split: option.splits)

text \<open>A new peer starts with recovery time 0.\<close>

lemma new_peer_recovery_time:
  assumes "addr_to_peer_context_hash (peer_table (cpp s)) a = None" "add_node_conn_entry i j a port s = Some s'"
  shows "peer_heartbeat_entry_lookup a (cpp s') = (0, Some 0)"
proof -
  have "get_peer_entry a (cpp s) = NULL" using assms(1) by (simp add: get_peer_entry_def find_peer_from_addr_def)
  then have "cpp s' = snd (add_peer_entry a (next_ptr s) (cpp s))"
    using assms(2)
    by (auto simp: add_node_conn_entry_def Let_def cpp_do_def split: if_splits prod.splits dest!: gst_timer_init_cpp)
  with assms(1) show ?thesis
    by (simp add: add_peer_entry_def add_addr_to_peer_mapping_def map_insert_def peer_heartbeat_entry_lookup_def
        find_peer_recov_time_def)
qed

section \<open>Properties\<close>

text \<open>C37: the recovery time in the response of a user plane that was not connected
  before is not kept, since it is stored before the peer is entered in the table; the peer starts with recovery time 0, which the next
  heartbeat overwrites without a comparison, so a restart in between goes unnoticed.\<close>

theorem association_forgets_recovery_time:
  assumes "addr_to_peer_context_hash (peer_table (cpp s)) a = None" "rsp_cause rsp = REQUESTACCEPTED"
    and "handle_pfcp_association_setup_response i j rsp a proc s = Some s'"
  shows "peer_heartbeat_entry_lookup a (cpp s') = (0, Some 0)"
proof -
  from assms(2,3) obtain p s1 s2 s3 s4 where
    s1: "upd_msg (msg_info (p :: proc_context)) (\<lambda>m. m\<lparr>msg_event := PFCP_ASSOC_SETUP_RESP_RCVD_EVNT\<rparr>) s = Some s1"
    and s2: "upd_upf (proc_upf_context p) (\<lambda>u. u\<lparr>upf_state := PFCP_ASSOC_RESP_RCVD_STATE, up_supp_features := rsp_sup_feat rsp,
        add_up_supp_features1 := rsp_add_sup_feat1 rsp, add_up_supp_features2 := rsp_add_sup_feat2 rsp\<rparr>) s1 = Some s2"
    and s3: "(case config_cp_type s2 of
        PGWC \<Rightarrow> if rsp_assosi rsp = 1 \<and> rsp_src_intfc rsp = SOURCE_INTERFACE_VALUE_ACCESS
          then upd_upf (proc_upf_context p) (\<lambda>u. u\<lparr>s5s8_pgwu_ip := rsp_ipv4_address rsp\<rparr>) s2 else Some s2
      | SAEGWC \<Rightarrow> if rsp_assosi rsp = 1 \<and> rsp_src_intfc rsp = SOURCE_INTERFACE_VALUE_ACCESS
          then upd_upf (proc_upf_context p) (\<lambda>u. u\<lparr>s1u_ip := rsp_ipv4_address rsp\<rparr>) s2 else Some s2
      | SGWC \<Rightarrow> None) = Some s3"
    and s4: "add_node_conn_entry i j a SX_PORT_ID
        ((if rsp_teidri rsp \<noteq> 0 then set_base_teid (rsp_teid_range rsp) s3 else s3)\<lparr>cpp := add_ip_to_heartbeat_hash a (rsp_rcvry_time_stmp rsp)
          (cpp (if rsp_teidri rsp \<noteq> 0 then set_base_teid (rsp_teid_range rsp) s3 else s3))\<rparr>) = Some s4"
    and s5: "queue_stack_unwind_event UPF_CONNECTION_SETUP_SUCCESS (proc_upf_context p) Upf_Pfcp_Setup_Success s4 = Some s'"
    unfolding handle_pfcp_association_setup_response_def Let_def by (auto simp: bind_eq_Some_conv simp del: upd_Some_iff)
  have "cpp s3 = cpp s" using s1 s2 s3 by (auto split: cp_type.splits if_splits)
  then have "peer_heartbeat_entry_lookup a (cpp s4) = (0, Some 0)"
    using assms(1) by (intro new_peer_recovery_time[OF _ s4])
      (simp add: add_ip_to_heartbeat_hash_def add_peer_addr_to_recov_time_mapping_def)
  with queue_event_peer_table[OF s5] show ?thesis by (simp add: peer_heartbeat_entry_lookup_def)
qed

definition example_rsp :: assn_setup_rsp where
  "example_rsp = \<lparr>rsp_seq_no = 1, rsp_cause = 1, rsp_sup_feat = 0, rsp_add_sup_feat1 = 0, rsp_add_sup_feat2 = 0,
     rsp_assosi = 1, rsp_teidri = 0, rsp_teid_range = 0, rsp_ipv4_address = 5, rsp_src_intfc = 0, rsp_rcvry_time_stmp = 99\<rparr>"

theorem association_forgets_recovery_time_witness:
  "\<exists>s'. handle_pfcp_association_setup_response (Some 3) (Some 4) example_rsp 77 8 (example_upf_state\<lparr>
       proc_heap := [8 \<mapsto> calloc_proc\<lparr>msg_info := 14, proc_upf_context := 5\<rparr>]\<rparr>) = Some s' \<and>
     peer_heartbeat_entry_lookup 77 (cpp s') = (0, Some 0)"
proof -
  let ?s = "example_upf_state\<lparr>proc_heap := [8 \<mapsto> calloc_proc\<lparr>msg_info := 14, proc_upf_context := 5\<rparr>]\<rparr>"
  have a: "addr_to_peer_context_hash (peer_table (cpp ?s)) 77 = None" "rsp_cause example_rsp = REQUESTACCEPTED"
    by (simp_all add: example_upf_state_def example_state_def init_cpp_tables_def example_rsp_def REQUESTACCEPTED_def)
  obtain s' where s': "handle_pfcp_association_setup_response (Some 3) (Some 4) example_rsp 77 8 ?s = Some s'"
    by (simp add: handle_pfcp_association_setup_response_def example_upf_state_def example_state_def upd_msg_def upd_upf_def
        example_rsp_def REQUESTACCEPTED_def Let_def add_node_conn_entry_def get_peer_entry_def find_peer_from_addr_def
        add_ip_to_heartbeat_hash_def add_peer_addr_to_recov_time_mapping_def init_cpp_tables_def queue_stack_unwind_event_def
        gst_timer_init_def gst_timer_start_def timer_settime_def cpp_do_def calloc_proc_def SOURCE_INTERFACE_VALUE_ACCESS_def)
  from association_forgets_recovery_time[OF a s'] s' show ?thesis by blast
qed

end
