(* ===== verification/Peer_Run.thy ===== *)
theory Peer_Run
  imports Peer
begin

text \<open>
  The interleavings of path management: timers expire at any time, in a thread of their own; the main thread takes one event
  after the other and processes responses, new connections, heartbeats and the removal of user planes in between.
\<close>

section \<open>Runs\<close>

text \<open>A timer of any peer, also of one that was dropped, may expire at any time.  The answers of the operating system
  are part of the step: \<open>timer_create\<close> delivers a timer that is not in use, and memory is available.\<close>

datatype peer_op = Expire timer_ref | Main_Event "nat option" nat | Response u32 | Connect u32 u8 nat nat
  | Heartbeat "nat option" nat u32 u32 | Disable string

fun timer_owner :: "timer_ref \<Rightarrow> ptr" where
  "timer_owner (Pt_Of p) = p"
| "timer_owner (Tt_Of p) = p"

definition peer_dispatch :: "nat option \<Rightarrow> nat \<Rightarrow> stack_event_handler \<Rightarrow> ptr \<Rightarrow> u16 \<Rightarrow> cp_state \<Rightarrow> cp_state option" where
  "peer_dispatch created rand cb data event s =
     (if cb = Handle_Timeout_Event then handle_timeout_event created rand data s else None)"

fun run_op :: "peer_op \<Rightarrow> cp_state \<Rightarrow> cp_state option" where
  "run_op (Expire ti) s = timerCallback ti (timer_owner ti) s"
| "run_op (Main_Event created rand) s = incoming_event_handler (peer_dispatch created rand) s"
| "run_op (Response a) s = process_response a s"
| "run_op (Connect a port i j) s = add_node_conn_entry (Some i) (Some j) a port s"
| "run_op (Heartbeat created rand v a) s = process_heartbeat_response created rand v a s"
| "run_op (Disable n) s = config_disable_upf n s"

fun enabled :: "peer_op \<Rightarrow> cp_state \<Rightarrow> bool" where
  "enabled (Expire ti) s \<longleftrightarrow> peer_heap (peer_mod s) (timer_owner ti) \<noteq> None \<and>
     \<not> alloc_fails s (next_ptr s) \<and> \<not> alloc_fails s (next_ptr s + 1)"
| "enabled (Main_Event created rand) s \<longleftrightarrow> fresh_timer created s"
| "enabled (Response a) s \<longleftrightarrow> True"
| "enabled (Connect a port i j) s \<longleftrightarrow> os_timers s i = None \<and> os_timers s j = None \<and> i \<noteq> j \<and> \<not> alloc_fails s (next_ptr s)"
| "enabled (Heartbeat created rand v a) s \<longleftrightarrow> fresh_timer created s"
| "enabled (Disable n) s \<longleftrightarrow> True"

inductive peer_reachable :: "cp_state \<Rightarrow> cp_state \<Rightarrow> bool" for s0 :: cp_state where
  start: "peer_reachable s0 s0"
| step: "peer_reachable s0 s \<Longrightarrow> enabled op s \<Longrightarrow> run_op op s = Some s' \<Longrightarrow> peer_reachable s0 s'"

section \<open>Timers\<close>

definition set_timer :: "nat \<Rightarrow> itimerspec \<Rightarrow> (nat \<rightharpoonup> itimerspec) \<Rightarrow> (nat \<rightharpoonup> itimerspec)" where
  "set_timer i ts os = (case os i of None \<Rightarrow> os | Some _ \<Rightarrow> os(i \<mapsto> ts))"

definition zero_spec :: itimerspec where
  "zero_spec = \<lparr>it_value_sec = 0, it_value_nsec = 0, it_interval_sec = 0, it_interval_nsec = 0\<rparr>"

lemma timer_ops_eq:
  "snd (gst_timer_start ti s) = s\<lparr>os_timers := set_timer (ti_id ti) (timer_spec ti) (os_timers s)\<rparr>"
  "gst_timer_stop ti s = s\<lparr>os_timers := set_timer (ti_id ti) zero_spec (os_timers s)\<rparr>"
  by (auto simp: gst_timer_start_def gst_timer_stop_def timer_settime_def set_timer_def zero_spec_def split: option.splits)

lemma set_timer_other [simp]: "j \<noteq> i \<Longrightarrow> set_timer i ts os j = os j"
  by (simp add: set_timer_def split: option.splits)

lemma set_timer_None [simp]: "set_timer i ts os j = None \<longleftrightarrow> os j = None"
  by (simp add: set_timer_def split: option.splits)

lemma set_timer_same: "set_timer i ts os i = (if os i = None then None else Some ts)"
  by (simp add: set_timer_def split: option.splits)

lemma runs_simps [simp]: "\<not> runs None" "\<not> runs (Some zero_spec)" "0 < ti_ms ti \<Longrightarrow> runs (Some (timer_spec ti))"
proof -
  show "runs (Some (timer_spec ti))" if "0 < ti_ms ti"
  proof -
    have "ti_ms ti div 1000 \<noteq> 0 \<or> ti_ms ti mod 1000 \<noteq> 0" using that by presburger
    with that show ?thesis by (simp add: runs_def timer_spec_def Let_def)
  qed
qed (simp_all add: runs_def zero_spec_def)

lemma peer_ptrs_upds [simp]:
  "peer_ptrs (s\<lparr>os_timers := x\<rparr>) = peer_ptrs s" "peer_ptrs (s\<lparr>peer_mod := y\<rparr>) = peer_ptrs s"
  "peer_ptrs (s\<lparr>next_ptr := z\<rparr>) = peer_ptrs s" "peer_ptrs (s\<lparr>event_heap := w\<rparr>) = peer_ptrs s"
  "peer_ptrs (s\<lparr>upf_heap := v\<rparr>) = peer_ptrs s" "peer_ptrs (s\<lparr>pfcp_seq_no_offset := k\<rparr>) = peer_ptrs s"
  by (simp_all add: peer_ptrs_def)

section \<open>Each step keeps the peers supervised\<close>

text \<open>What a step that concerns a peer leaves alone.\<close>

definition rest_kept :: "cp_state \<Rightarrow> cp_state \<Rightarrow> bool" where
  "rest_kept s s' \<longleftrightarrow> event_heap s' = event_heap s \<and> next_ptr s' = next_ptr s \<and> stack_events s' = stack_events s \<and>
     periodic_timer s' = periodic_timer s \<and> transmit_timer s' = transmit_timer s \<and>
     dom (peer_heap (peer_mod s')) = dom (peer_heap (peer_mod s)) \<and>
     peer_data_heap (peer_mod s') = peer_data_heap (peer_mod s) \<and>
     (upf_inv (upf_table (cpp s)) (upf_heap s) \<longrightarrow> upf_inv (upf_table (cpp s')) (upf_heap s'))"

abbreviation watched :: "cp_state \<Rightarrow> bool" where
  "watched s \<equiv> watch_inv (peer_ptrs s) (peer_heap (peer_mod s)) (os_timers s)"

lemma rest_kept_inv: "rest_kept s s' \<Longrightarrow> watched s' \<Longrightarrow> peer_inv s \<Longrightarrow> peer_inv s'"
  unfolding rest_kept_def peer_inv_def by (metis domIff)

lemma rest_kept_trans: "rest_kept s t \<Longrightarrow> rest_kept t u \<Longrightarrow> rest_kept s u"
  unfolding rest_kept_def by metis

lemma process_response_keeps:
  assumes "watched s"
  shows "\<exists>s'. process_response a s = Some s' \<and> rest_kept s s' \<and> watched s' \<and> peer_ptrs s' = peer_ptrs s \<and>
    (\<forall>i. os_timers s' i = None \<longleftrightarrow> os_timers s i = None)"
proof (cases "peer_ptrs s a")
  case None
  with assms show ?thesis by (simp add: process_response_def get_peer_entry_ptrs rest_kept_def)
next
  case (Some p)
  with assms obtain m where m: "p \<noteq> NULL" "peer_heap (peer_mod s) p = Some m" "dstIP m = a" "supervised (os_timers s) m"
    by (rule watch_invD)
  let ?m = "m\<lparr>peer_itr_cnt := 0\<rparr>"
  let ?os = "set_timer (ti_id (pt m)) (timer_spec (pt m))
    (set_timer (ti_id (pt m)) zero_spec (set_timer (ti_id (tt m)) zero_spec (os_timers s)))"
  let ?s = "s\<lparr>peer_mod := (peer_mod s)\<lparr>peer_heap := (peer_heap (peer_mod s))(p \<mapsto> ?m)\<rparr>, os_timers := ?os\<rparr>"
  have "process_response a s = Some ?s"
    using Some m by (simp add: process_response_def get_peer_entry_ptrs upd_peer_def timer_ops_eq Let_def)
  moreover have "supervised ?os ?m"
    using m(4) by (auto simp: supervised_def set_timer_same)
  then have "watch_inv (peer_ptrs s) ((peer_heap (peer_mod s))(p \<mapsto> ?m)) ?os"
    by (intro watch_inv_update[OF assms Some m(2)]) (auto simp: timer_ids_def)
  moreover have "rest_kept s ?s" using m(2) by (auto simp: rest_kept_def)
  moreover have "\<forall>i. ?os i = None \<longleftrightarrow> os_timers s i = None" by (simp add: set_timer_def split: option.splits)
  ultimately show ?thesis by simp
qed

lemma next_echo_seq_frame:
  assumes "next_echo_seq port b s = (q, s')"
  shows "s' = s\<lparr>peer_mod := peer_mod s', pfcp_seq_no_offset := pfcp_seq_no_offset s'\<rparr>"
    "peer_heap (peer_mod s') = peer_heap (peer_mod s)" "peer_data_heap (peer_mod s') = peer_data_heap (peer_mod s)"
    "echoes (peer_mod s') = echoes (peer_mod s)"
  using assms by (auto simp: next_echo_seq_def Let_def generate_seq_no_def split: if_splits)

lemma supervised_less: "supervised os m \<Longrightarrow> peer_itr_cnt m \<noteq> peer_itr m \<Longrightarrow> peer_itr_cnt m + 1 \<le> peer_itr m"
  by (simp add: supervised_def inc_le order_less_le)

text \<open>A request is logged; the transmit timer counts it.\<close>

definition counted :: "ptr \<Rightarrow> timer_ref \<Rightarrow> peerData \<Rightarrow> peerData" where
  "counted p ti m = (if known_port (portId m) \<and> ti = Tt_Of p then m\<lparr>peer_itr_cnt := peer_itr_cnt m + 1\<rparr> else m)"

lemma send_echo_effect:
  assumes "peer_heap (peer_mod s) p = Some m"
  obtains pm k q where
    "send_echo p ti a s = Some (s\<lparr>peer_mod := pm\<lparr>peer_heap := (peer_heap (peer_mod s))(p \<mapsto> counted p ti m)\<rparr>, pfcp_seq_no_offset := k\<rparr>)"
    "peer_data_heap pm = peer_data_heap (peer_mod s)"
    "echoes pm = echoes (peer_mod s) @ (if known_port (portId m) then [(a, portId m, q)] else [])"
proof (cases "known_port (portId m)")
  case False
  with assms that[where pm = "peer_mod s" and k = "pfcp_seq_no_offset s"] show thesis
    by (simp add: send_echo_def fun_upd_idem counted_def)
next
  case True
  obtain q s1 where q: "next_echo_seq (portId m) (ti = Pt_Of p) s = (q, s1)" by (cases "next_echo_seq (portId m) (ti = Pt_Of p) s")
  from next_echo_seq_frame[OF this] obtain pm k where pm: "s1 = s\<lparr>peer_mod := pm, pfcp_seq_no_offset := k\<rparr>"
    "peer_heap pm = peer_heap (peer_mod s)" "peer_data_heap pm = peer_data_heap (peer_mod s)" "echoes pm = echoes (peer_mod s)"
    by metis
  let ?pm = "pm\<lparr>echoes := echoes pm @ [(a, portId m, q)]\<rparr>"
  have id: "?pm = ?pm\<lparr>peer_heap := (peer_heap (peer_mod s))(p \<mapsto> m)\<rparr>"
    using assms pm(2) by (simp add: fun_upd_idem)
  have "send_echo p ti a s = Some (s\<lparr>peer_mod := ?pm\<lparr>peer_heap := (peer_heap (peer_mod s))(p \<mapsto> counted p ti m)\<rparr>, pfcp_seq_no_offset := k\<rparr>)"
  proof (cases "ti = Tt_Of p")
    case False
    with True assms q pm have "send_echo p ti a s = Some (s\<lparr>peer_mod := ?pm, pfcp_seq_no_offset := k\<rparr>)"
      by (simp add: send_echo_def)
    with False show ?thesis unfolding counted_def by (subst (asm) id) simp
  next
    case t: True
    with True assms q pm show ?thesis by (simp add: send_echo_def upd_peer_def counted_def)
  qed
  with that[where pm = ?pm and k = k and q = q] pm(3,4) True show thesis by simp
qed

lemma peer_ptrs_erase:
  "peer_ptrs (cpp_do (del_entry_from_hash a) s) = (peer_ptrs s)(a := None)"
  by (auto simp: peer_ptrs_def cpp_do_def del_entry_from_hash_def delete_addr_peer_mapping_def map_erase_def)

lemma del_entry_frame [simp]:
  "table (snd (del_entry_from_hash a c)) = table c" "upf_table (snd (del_entry_from_hash a c)) = upf_table c"
  by (simp_all add: del_entry_from_hash_def delete_addr_peer_mapping_def)

lemma peers_kept_refl: "peers_kept s s"
  by (simp add: peers_kept_def)

lemma peer_down_keeps:
  assumes inv: "watched s" "upf_inv (upf_table (cpp s)) (upf_heap s)" and p: "peer_ptrs s a = Some p"
    "peer_heap (peer_mod s) p = Some m" and fresh: "fresh_timer created s"
  shows "\<exists>s'. peer_down created r a m s = Some s' \<and> rest_kept s s' \<and> watched s' \<and> peer_ptrs s' = (peer_ptrs s)(a := None) \<and>
    peer_mod s' = peer_mod s"
proof -
  let ?os = "(set_timer (ti_id (pt m)) zero_spec (set_timer (ti_id (tt m)) zero_spec (os_timers s)))
    (ti_id (tt m) := None, ti_id (pt m) := None)"
  define t where "t = s\<lparr>os_timers := ?os\<rparr>"
  have t: "gst_timer_deinit (pt m) (gst_timer_deinit (tt m) (gst_timer_stop (pt m) (gst_timer_stop (tt m) s))) = t"
    by (simp add: timer_ops_eq gst_timer_deinit_def t_def)
  have a: "dstIP m = a" using inv(1) p by (auto elim: watch_invD)
  have fresh_t: "fresh_timer created t"
    using fresh by (auto simp: fresh_timer_def t_def set_timer_def split: option.splits)
  have upf_t: "upf_inv (upf_table (cpp t)) (upf_heap t)" using inv(2) by (simp add: t_def)
  obtain u where u: "(if portId m = SX_PORT_ID then upf_down_event created r a t else Some t) = Some u" "peers_kept t u"
    using upf_down_event_effect[OF upf_t fresh_t, of r a] peers_kept_refl by (metis (full_types))
  let ?s = "cpp_do (del_entry_from_hash a) u"
  have "peer_down created r a m s = Some ?s"
    using u(1) a by (auto simp: peer_down_def t Let_def split: if_splits)
  moreover have "rest_kept s ?s"
    using u(2) inv(2) by (auto simp: rest_kept_def peers_kept_def t_def cpp_do_def upf_inv_def)
  moreover have ptrs: "peer_ptrs ?s = (peer_ptrs s)(a := None)"
    using u(2) by (simp add: peer_ptrs_erase peers_kept_def t_def)
  moreover have "peer_mod ?s = peer_mod s" using u(2) by (simp add: peers_kept_def t_def cpp_do_def)
  moreover have "watched ?s"
  proof -
    have "watch_inv ((peer_ptrs s)(a := None)) (peer_heap (peer_mod s)) ?os"
      by (rule watch_inv_erase[OF inv(1) p]) (auto simp: timer_ids_def)
    then have "watch_inv ((peer_ptrs s)(a := None)) (peer_heap (peer_mod s)) (os_timers u)"
      by (rule watch_inv_fresh) (use u(2) in \<open>auto simp: peers_kept_def t_def\<close>)
    with u(2) ptrs show ?thesis by (simp add: peers_kept_def t_def cpp_do_def)
  qed
  ultimately show ?thesis by blast
qed

text \<open>A timeout frees its message and keeps the invariant, whether the peer is still there or not.\<close>

lemma handle_timeout_event_keeps:
  assumes inv: "watched s" "upf_inv (upf_table (cpp s)) (upf_heap s)" and d: "peer_data_heap (peer_mod s) data = Some temp"
    and fresh: "fresh_timer created s"
  shows "\<exists>s'. handle_timeout_event created r data s = Some s' \<and> watched s' \<and>
    rest_kept (s\<lparr>peer_mod := (peer_mod s)\<lparr>peer_data_heap := (peer_data_heap (peer_mod s))(data := None)\<rparr>\<rparr>) s'"
proof -
  define t where "t = s\<lparr>peer_mod := (peer_mod s)\<lparr>peer_data_heap := (peer_data_heap (peer_mod s))(data := None)\<rparr>\<rparr>"
  have t: "watched t" "upf_inv (upf_table (cpp t)) (upf_heap t)" "fresh_timer created t"
    using inv fresh by (simp_all add: t_def fresh_timer_def split: option.splits)
  define a where "a = sin_addr (pd_dest_addr temp)"
  have eq: "handle_timeout_event created r data s = (case peer_ptrs t a of None \<Rightarrow> Some t
      | Some p \<Rightarrow> do {
          m \<leftarrow> peer_heap (peer_mod t) p;
          if peer_itr_cnt m = peer_itr m then peer_down created r a m t
          else do {
            s \<leftarrow> send_echo p (pd_ti temp) a t;
            Some (if pd_ti temp = Pt_Of p then gst_timer_stop (pt m) (snd (gst_timer_start (tt m) s)) else s)
          }
        })"
  proof -
    have md: "get_peer_entry a (cpp t) = (case peer_ptrs t a of None \<Rightarrow> NULL | Some p \<Rightarrow> p)" by (rule get_peer_entry_ptrs)
    have "p \<noteq> NULL" if "peer_ptrs t a = Some p" for p using that by (rule watch_invD[OF t(1)])
    then show ?thesis
      unfolding handle_timeout_event_def d bind.bind_lunit Let_def a_def[symmetric] t_def[symmetric] md
      by (cases "peer_ptrs t a") (simp_all cong: if_cong)
  qed
  show ?thesis
  proof (cases "peer_ptrs t a")
    case None
    with eq t(1) show ?thesis by (simp add: rest_kept_def t_def[symmetric])
  next
    case (Some p)
    with t(1) obtain m where m: "p \<noteq> NULL" "peer_heap (peer_mod t) p = Some m" "dstIP m = a" "supervised (os_timers t) m"
      by (rule watch_invD)
    show ?thesis
    proof (cases "peer_itr_cnt m = peer_itr m")
      case True
      with peer_down_keeps[OF t(1,2) Some m(2) t(3), of r] Some m(2) eq show ?thesis by (auto simp: t_def[symmetric])
    next
      case False
      define m' where "m' = counted p (pd_ti temp) m"
      obtain pm k q where e: "send_echo p (pd_ti temp) a t =
          Some (t\<lparr>peer_mod := pm\<lparr>peer_heap := (peer_heap (peer_mod t))(p \<mapsto> m')\<rparr>, pfcp_seq_no_offset := k\<rparr>)"
        "peer_data_heap pm = peer_data_heap (peer_mod t)"
        unfolding m'_def by (rule send_echo_effect[OF m(2)])
      have m': "m' = m \<or> m' = m\<lparr>peer_itr_cnt := peer_itr_cnt m + 1\<rparr>" by (simp add: m'_def counted_def)
      define os where "os = (if pd_ti temp = Pt_Of p then set_timer (ti_id (pt m)) zero_spec
        (set_timer (ti_id (tt m)) (timer_spec (tt m)) (os_timers t)) else os_timers t)"
      define u where "u = t\<lparr>peer_mod := pm\<lparr>peer_heap := (peer_heap (peer_mod t))(p \<mapsto> m')\<rparr>, pfcp_seq_no_offset := k, os_timers := os\<rparr>"
      have u: "handle_timeout_event created r data s = Some u"
        using eq Some m(2) False e(1) by (auto simp: u_def os_def timer_ops_eq)
      have ids: "dstIP m' = dstIP m" "timer_ids m' = timer_ids m" using m' by (auto simp: timer_ids_def)
      have sup: "supervised os m'"
        using m(4) supervised_less[OF m(4) False] m' by (auto simp: supervised_def os_def set_timer_same)
      have "watch_inv (peer_ptrs t) ((peer_heap (peer_mod t))(p \<mapsto> m')) os"
        by (rule watch_inv_update[OF t(1) Some m(2) ids sup]) (auto simp: os_def timer_ids_def)
      then have "watched u" by (simp add: u_def)
      moreover have "rest_kept t u" using m(2) e(2) by (auto simp: rest_kept_def u_def)
      ultimately show ?thesis using u by (simp add: t_def)
    qed
  qed
qed

lemma main_event_keeps:
  assumes inv: "peer_inv s" and fresh: "fresh_timer created s"
  shows "\<exists>s'. incoming_event_handler (peer_dispatch created r) s = Some s' \<and> peer_inv s'"
proof (cases "stack_events s")
  case Nil
  then have "incoming_event_handler (peer_dispatch created r) s = Some s"
    by (simp add: incoming_event_handler_def get_stack_unwind_event_cpp_def pop_event_def queue_pop_def)
  with inv show ?thesis by simp
next
  case (Cons e q)
  define c where "c = (cpp s)\<lparr>table := (table (cpp s))\<lparr>stack_events_queue := q\<rparr>\<rparr>"
  define t where "t = s\<lparr>cpp := c\<rparr>"
  have pop: "get_stack_unwind_event_cpp (cpp s) = (e, c)"
    using Cons by (simp add: get_stack_unwind_event_cpp_def pop_event_def queue_pop_def c_def)
  from inv Cons have q: "queue_inv (e # q) (event_heap s) (peer_data_heap (peer_mod s)) (next_ptr s)"
    by (simp add: peer_inv_def)
  then obtain ev where ev: "0 < e" "event_heap s e = Some ev" "ev_cb ev = Handle_Timeout_Event"
    "peer_data_heap (peer_mod s) (ev_data ev) \<noteq> None"
    by (auto elim: queue_invD)
  from ev(4) obtain temp where temp: "peer_data_heap (peer_mod t) (ev_data ev) = Some temp" by (auto simp: t_def)
  have "peer_ptrs t = peer_ptrs s" by (simp add: t_def c_def peer_ptrs_def)
  with inv fresh have t: "watched t" "upf_inv (upf_table (cpp t)) (upf_heap t)" "fresh_timer created t"
    by (auto simp: t_def c_def peer_inv_def fresh_timer_def split: option.splits)
  from handle_timeout_event_keeps[OF t(1,2) temp t(3), of r] obtain u where
    u: "handle_timeout_event created r (ev_data ev) t = Some u" "watched u"
      "rest_kept (t\<lparr>peer_mod := (peer_mod t)\<lparr>peer_data_heap := (peer_data_heap (peer_mod t))(ev_data ev := None)\<rparr>\<rparr>) u"
    by blast
  let ?s = "u\<lparr>event_heap := (event_heap u)(e := None)\<rparr>"
  have "incoming_event_handler (peer_dispatch created r) s = Some ?s"
    using pop ev u(1,3) by (simp add: incoming_event_handler_def peer_dispatch_def t_def[symmetric] assert_c_def rest_kept_def)
      (simp add: t_def)
  moreover have "queue_inv (stack_events ?s) (event_heap ?s) (peer_data_heap (peer_mod ?s)) (next_ptr ?s)"
    using queue_inv_pop[OF q ev(2)] u(3) by (simp add: rest_kept_def t_def c_def)
  moreover have "p < next_ptr s" if "peer_heap (peer_mod u) p \<noteq> None" for p
    using that u(3) inv by (auto simp: rest_kept_def peer_inv_def t_def dom_def set_eq_iff)
  ultimately show ?thesis
    using inv u(2,3) t(2) by (simp add: peer_inv_def rest_kept_def t_def c_def)
qed

text \<open>The state after a timer of the peer \<open>m\<close> has expired.\<close>

definition expired :: "timer_ref \<Rightarrow> peerData \<Rightarrow> cp_state \<Rightarrow> cp_state" where
  "expired ti m s = s\<lparr>next_ptr := Suc (Suc (next_ptr s)),
     peer_mod := (peer_mod s)\<lparr>peer_data_heap := (peer_data_heap (peer_mod s))(next_ptr s \<mapsto>
       \<lparr>pd_ti = ti, pd_dest_addr = \<lparr>sin_addr = dstIP m, sin_port = htons GTPC_UDP_PORT\<rparr>\<rparr>)\<rparr>,
     event_heap := (event_heap s)(Suc (next_ptr s) \<mapsto>
       \<lparr>ev_event = PEER_TIMEOUT, ev_data = next_ptr s, ev_cb = Handle_Timeout_Event\<rparr>),
     cpp := (cpp s)\<lparr>table := (table (cpp s))\<lparr>stack_events_queue := stack_events s @ [Suc (next_ptr s)]\<rparr>\<rparr>\<rparr>"

lemma timerCallback_eq:
  assumes "peer_heap (peer_mod s) (timer_owner ti) = Some m" "\<not> alloc_fails s (next_ptr s)" "\<not> alloc_fails s (next_ptr s + 1)"
  shows "timerCallback ti (timer_owner ti) s = Some (expired ti m s)"
  using assms by (simp add: timerCallback_def queue_stack_unwind_event_def Let_def expired_def PEER_TIMEOUT_def TEST_EVENTS_def
      queue_stack_unwind_event_cpp_def queue_event_def queue_push_def)

lemma timer_expiry_keeps:
  assumes inv: "peer_inv s" and en: "peer_heap (peer_mod s) (timer_owner ti) \<noteq> None"
    "\<not> alloc_fails s (next_ptr s)" "\<not> alloc_fails s (next_ptr s + 1)"
  shows "\<exists>s'. timerCallback ti (timer_owner ti) s = Some s' \<and> peer_inv s'"
proof -
  from en(1) obtain m where m: "peer_heap (peer_mod s) (timer_owner ti) = Some m" by blast
  have "peer_ptrs (expired ti m s) = peer_ptrs s" by (simp add: expired_def peer_ptrs_def)
  moreover have "queue_inv (stack_events s) (event_heap s) (peer_data_heap (peer_mod s)) (next_ptr s)"
    using inv by (simp add: peer_inv_def)
  ultimately have "peer_inv (expired ti m s)"
    using inv queue_inv_push by (auto simp: peer_inv_def expired_def intro: less_SucI)
  with timerCallback_eq[OF m en(2,3)] show ?thesis by blast
qed

lemma connect_keeps:
  assumes inv: "peer_inv s" and en: "os_timers s i = None" "os_timers s j = None" "i \<noteq> j" "\<not> alloc_fails s (next_ptr s)"
  shows "\<exists>s'. add_node_conn_entry (Some i) (Some j) a port s = Some s' \<and> peer_inv s'"
proof (cases "peer_ptrs s a")
  case None
  let ?np = "next_ptr s"
  define p where "p = \<lparr>ti_id = i, ti_type = TtInterval, ti_cb = Peer_Timer, ti_ms = periodic_timer s * 1000, ti_data = ?np\<rparr>"
  define t where "t = \<lparr>ti_id = j, ti_type = TtInterval, ti_cb = Peer_Timer, ti_ms = transmit_timer s * 1000, ti_data = ?np\<rparr>"
  define m where "m = calloc_peer\<lparr>portId := port, dstIP := a, peer_itr := transmit_cnt s, peer_itr_cnt := 0, pt := p, tt := t\<rparr>"
  define os where "os = set_timer i (timer_spec p) ((os_timers s)(i \<mapsto> zero_spec, j \<mapsto> zero_spec))"
  define c where "c = snd (add_peer_entry a ?np (cpp s))"
  define u where "u = s\<lparr>next_ptr := Suc ?np, cpp := c, os_timers := os,
    peer_mod := (peer_mod s)\<lparr>peer_heap := (peer_heap (peer_mod s))(?np \<mapsto> m), conn_cnt := conn_cnt (peer_mod s) + 1\<rparr>\<rparr>"
  have init: "pt calloc_peer = rt calloc_trans" "tt calloc_peer = rt calloc_trans" by (simp_all add: calloc_peer_def)
  have "add_node_conn_entry (Some i) (Some j) a port s = Some u"
    using None en(3,4)
    by (simp add: add_node_conn_entry_def get_peer_entry_ptrs gst_timer_init_def Let_def timer_ops_eq cpp_do_def c_def[symmetric]
        init u_def os_def m_def p_def t_def zero_spec_def calloc_trans_def)
  moreover have ptrs: "peer_ptrs u = (peer_ptrs s)(a \<mapsto> ?np)" "table c = table (cpp s)" "upf_table c = upf_table (cpp s)"
    using None by (auto simp: peer_ptrs_def u_def c_def add_peer_entry_def add_addr_to_peer_mapping_def map_insert_def
        split: option.splits)
  moreover have "watched u"
  proof -
    have "supervised os m"
      using inv en(3) by (auto simp: supervised_def os_def m_def p_def t_def set_timer_same peer_inv_def)
    moreover have "peer_heap (peer_mod s) ?np = None"
      using inv by (metis less_irrefl peer_inv_def)
    moreover have "?np \<noteq> NULL" using inv by (simp add: peer_inv_def queue_inv_def)
    ultimately have "watch_inv ((peer_ptrs s)(a \<mapsto> ?np)) ((peer_heap (peer_mod s))(?np \<mapsto> m)) os"
      using None en inv by (intro watch_inv_insert[where os = "os_timers s"])
        (auto simp: peer_inv_def timer_ids_def m_def p_def t_def os_def)
    with ptrs show ?thesis by (simp add: u_def)
  qed
  moreover have "queue_inv (stack_events s) (event_heap s) (peer_data_heap (peer_mod s)) (Suc ?np)"
    using inv by (auto simp: peer_inv_def elim: queue_inv_mono)
  ultimately show ?thesis
    using inv by (auto simp: peer_inv_def u_def intro: less_SucI)
next
  case (Some p)
  from inv have w: "watched s" by (simp add: peer_inv_def)
  from Some obtain m where m: "p \<noteq> NULL" "peer_heap (peer_mod s) p = Some m" "dstIP m = a" "supervised (os_timers s) m"
    by (rule watch_invD[OF w])
  let ?os = "set_timer (ti_id (pt m)) (timer_spec (pt m)) (os_timers s)"
  have "add_node_conn_entry (Some i) (Some j) a port s = Some (s\<lparr>os_timers := ?os\<rparr>)"
    using Some m by (simp add: add_node_conn_entry_def get_peer_entry_ptrs timer_ops_eq Let_def)
  moreover have "supervised ?os m" using m(4) by (auto simp: supervised_def set_timer_same)
  then have "watch_inv (peer_ptrs s) ((peer_heap (peer_mod s))(p \<mapsto> m)) ?os"
    by (intro watch_inv_update[OF w Some m(2)]) (auto simp: timer_ids_def)
  then have "watched (s\<lparr>os_timers := ?os\<rparr>)" using m(2) by (simp add: fun_upd_idem)
  then have "peer_inv (s\<lparr>os_timers := ?os\<rparr>)" using inv by (simp add: peer_inv_def)
  ultimately show ?thesis by blast
qed

lemma heartbeat_keeps:
  assumes inv: "peer_inv s" and fresh: "fresh_timer created s"
  shows "\<exists>s'. process_heartbeat_response created r v a s = Some s' \<and> peer_inv s'"
proof -
  from inv have "watched s" by (simp add: peer_inv_def)
  from process_response_keeps[OF this, of a] obtain t where
    t: "process_response a s = Some t" "rest_kept s t" "watched t" "\<forall>i. os_timers t i = None \<longleftrightarrow> os_timers s i = None"
    by blast
  have inv_t: "peer_inv t" using rest_kept_inv[OF t(2,3) inv] .
  define u where "u = t\<lparr>cpp := add_ip_to_heartbeat_hash a v (cpp t)\<rparr>"
  have u: "peers_kept t u" by (simp add: u_def peers_kept_def)
  have inv_u: "peer_inv u" using peers_kept_inv[OF u inv_t] .
  then have "upf_inv (upf_table (cpp u)) (upf_heap u)" by (simp add: peer_inv_def)
  moreover have "fresh_timer created u" using fresh t(4) by (auto simp: fresh_timer_def u_def split: option.splits)
  ultimately obtain w where w: "upf_down_event created r a u = Some w" "peers_kept u w"
    using upf_down_event_effect by blast
  have inv_w: "peer_inv w" using peers_kept_inv[OF w(2) inv_u] .
  have "process_heartbeat_response created r v a s \<in> {Some t, Some u, Some w}"
    using t(1) w(1)
    by (auto simp: process_heartbeat_response_def u_def[symmetric] Let_def split: option.splits prod.splits)
  with inv_t inv_u inv_w show ?thesis by auto
qed

lemma disable_keeps:
  assumes inv: "peer_inv s"
  shows "\<exists>s'. config_disable_upf n s = Some s' \<and> peer_inv s'"
proof (cases "upf_context_entry_lookup_service n (cpp s) = NULL")
  case True
  with inv show ?thesis by (simp add: config_disable_upf_def)
next
  case False
  define u where "u = upf_context_entry_lookup_service n (cpp s)"
  have "upf_context_by_service_hash (upf_table (cpp s)) n = Some u"
    using False by (auto simp: u_def upf_context_entry_lookup_service_def find_upf_service_def map_find_def split: option.splits)
  with inv have "upf_heap s u \<noteq> None" unfolding peer_inv_def upf_inv_def by metis
  then obtain x where x: "upf_heap s u = Some x" by blast
  define a where "a = sin_addr (upf_sockaddr x)"
  define t where "t = cpp_do (del_entry_from_hash a) s"
  have t: "peer_mod t = peer_mod s" "os_timers t = os_timers s" "peer_ptrs t = (peer_ptrs s)(a := None)" "rest_kept s t"
    by (simp_all add: t_def peer_ptrs_erase) (simp_all add: cpp_do_def rest_kept_def)
  from inv have w: "watched s" by (simp add: peer_inv_def)
  obtain os where os: "(if get_peer_entry a (cpp s) \<noteq> NULL then do {
        m \<leftarrow> peer_heap (peer_mod t) (get_peer_entry a (cpp s));
        let s = gst_timer_stop (pt m) (gst_timer_stop (tt m) t);
        Some (gst_timer_deinit (pt m) (gst_timer_deinit (tt m) s))
      } else Some t) = Some (t\<lparr>os_timers := os\<rparr>)" "watch_inv (peer_ptrs t) (peer_heap (peer_mod s)) os"
  proof (cases "peer_ptrs s a")
    case None
    then have "peer_ptrs t = peer_ptrs s" using t(3) by (auto simp: fun_upd_idem)
    with None that[of "os_timers s"] w t(2) show ?thesis by (simp add: get_peer_entry_ptrs)
  next
    case (Some p)
    then obtain m where m: "p \<noteq> NULL" "peer_heap (peer_mod s) p = Some m" by (rule watch_invD[OF w])
    let ?os = "(set_timer (ti_id (pt m)) zero_spec (set_timer (ti_id (tt m)) zero_spec (os_timers s)))
      (ti_id (tt m) := None, ti_id (pt m) := None)"
    have "watch_inv (peer_ptrs t) (peer_heap (peer_mod s)) ?os"
      unfolding t(3) by (rule watch_inv_erase[OF w Some m(2)]) (auto simp: timer_ids_def)
    with Some m t that[of ?os] show ?thesis
      by (simp add: get_peer_entry_ptrs Let_def timer_ops_eq gst_timer_deinit_def)
  qed
  let ?v = "t\<lparr>os_timers := os, upf_heap := (upf_heap s)(u \<mapsto> x\<lparr>upf_state := 0\<rparr>)\<rparr>"
  let ?w = "cpp_do (upf_context_delete_entry a) ?v"
  let ?s = "?w\<lparr>cpp := delete_entry_heartbeat_hash a (cpp ?w)\<rparr>"
  have "upf_heap t = upf_heap s" by (simp add: t_def cpp_do_def)
  then have "config_disable_upf n s = Some ?s"
    using False x os(1)
    unfolding config_disable_upf_def Let_def u_def[symmetric] x bind.bind_lunit a_def[symmetric] t_def[symmetric] Let_def
    by (simp add: upd_upf_def u_def[symmetric] x)
  moreover have "table (cpp ?s) = table (cpp t)"
    by (simp add: cpp_do_def upf_context_delete_entry_def delete_upf_def)
  moreover have "peer_ptrs ?s = peer_ptrs t"
    unfolding heartbeat_tables
    by (rule peer_ptrs_cong) (simp add: cpp_do_def upf_context_delete_entry_def delete_upf_def)
  moreover have "upf_inv (upf_table (cpp ?s)) (upf_heap ?s)"
    using inv by (auto simp: t_def cpp_do_def upf_context_delete_entry_def delete_upf_def map_erase_def upf_inv_def peer_inv_def)
  ultimately show ?thesis
    using inv os(2) t by (auto simp: peer_inv_def rest_kept_def cpp_do_def)
qed

lemma run_op_keeps:
  assumes "peer_inv s" "enabled op s"
  shows "\<exists>s'. run_op op s = Some s' \<and> peer_inv s'"
proof (cases op)
  case (Expire ti)
  with assms timer_expiry_keeps show ?thesis by simp
next
  case (Main_Event created r)
  with assms main_event_keeps show ?thesis by simp
next
  case (Response a)
  from assms(1) have "watched s" by (simp add: peer_inv_def)
  with Response process_response_keeps rest_kept_inv assms(1) show ?thesis by (metis run_op.simps(3))
next
  case (Connect a port i j)
  with assms connect_keeps show ?thesis by simp
next
  case (Heartbeat created r v a)
  with assms heartbeat_keeps show ?thesis by simp
next
  case (Disable n)
  with assms disable_keeps show ?thesis by simp
qed

section \<open>A silent peer\<close>

text \<open>An expiry and the event that follows it.\<close>

definition timer_round :: "timer_ref \<Rightarrow> nat option \<Rightarrow> nat \<Rightarrow> cp_state \<Rightarrow> cp_state option" where
  "timer_round ti created rand s = do {
     s \<leftarrow> run_op (Expire ti) s;
     run_op (Main_Event created rand) s
   }"

text \<open>What the rounds of a silent peer rely on: no event waits, memory is available, and the peer \<open>m\<close> is connected under
  the address \<open>a\<close>.\<close>

definition quiet :: "u32 \<Rightarrow> ptr \<Rightarrow> peerData \<Rightarrow> cp_state \<Rightarrow> bool" where
  "quiet a p m s \<longleftrightarrow> peer_inv s \<and> stack_events s = [] \<and> (\<forall>n. \<not> alloc_fails s n) \<and> peer_ptrs s a = Some p \<and>
     peer_heap (peer_mod s) p = Some m \<and> known_port (portId m)"

text \<open>The state in which the event of the expiry is handled.\<close>

definition in_event :: "cp_state \<Rightarrow> cp_state" where
  "in_event s = s\<lparr>next_ptr := Suc (Suc (next_ptr s)),
     peer_mod := (peer_mod s)\<lparr>peer_data_heap := (peer_data_heap (peer_mod s))(next_ptr s := None)\<rparr>,
     event_heap := (event_heap s)(Suc (next_ptr s) \<mapsto>
       \<lparr>ev_event = PEER_TIMEOUT, ev_data = next_ptr s, ev_cb = Handle_Timeout_Event\<rparr>)\<rparr>"

lemma timer_round_eq:
  assumes "quiet a p m s" "timer_owner ti = p"
  shows "timer_round ti created r s = do {
     u \<leftarrow> (if peer_itr_cnt m = peer_itr m then peer_down created r a m (in_event s)
          else do {
            u \<leftarrow> send_echo p ti a (in_event s);
            Some (if ti = Pt_Of p then gst_timer_stop (pt m) (snd (gst_timer_start (tt m) u)) else u)
          });
     assert_c (event_heap u (Suc (next_ptr s)) \<noteq> None);
     Some (u\<lparr>event_heap := (event_heap u)(Suc (next_ptr s) := None)\<rparr>)
   }"
proof -
  have inv: "peer_inv s" and w: "watched s" and q: "stack_events s = []" and p: "peer_ptrs s a = Some p"
    "peer_heap (peer_mod s) p = Some m" and alloc: "\<not> alloc_fails s n" for n
    using assms(1) by (auto simp: quiet_def peer_inv_def)
  from p(1) have p0: "p \<noteq> NULL" by (rule watch_invD[OF w])
  have a: "dstIP m = a" using watch_invD[OF w p(1)] p(2) by auto
  have md: "get_peer_entry a (cpp s) = p" using p(1) by (simp add: get_peer_entry_ptrs)
  have e: "run_op (Expire ti) s = Some (expired ti m s)"
    using timerCallback_eq[of s ti m] p(2) alloc assms(2) by simp
  have pop: "get_stack_unwind_event_cpp (cpp (expired ti m s)) = (Suc (next_ptr s), cpp s)"
    using q by (simp add: get_stack_unwind_event_cpp_def pop_event_def queue_pop_def expired_def)
  have ev: "event_heap (expired ti m s) (Suc (next_ptr s)) =
      Some \<lparr>ev_event = PEER_TIMEOUT, ev_data = next_ptr s, ev_cb = Handle_Timeout_Event\<rparr>" by (simp add: expired_def)
  have d: "peer_data_heap (peer_mod (expired ti m s\<lparr>cpp := cpp s\<rparr>)) (next_ptr s) =
      Some \<lparr>pd_ti = ti, pd_dest_addr = \<lparr>sin_addr = a, sin_port = htons GTPC_UDP_PORT\<rparr>\<rparr>"
    using a by (simp add: expired_def)
  have t: "expired ti m s\<lparr>cpp := cpp s, peer_mod := (peer_mod (expired ti m s\<lparr>cpp := cpp s\<rparr>))\<lparr>peer_data_heap :=
      (peer_data_heap (peer_mod (expired ti m s\<lparr>cpp := cpp s\<rparr>)))(next_ptr s := None)\<rparr>\<rparr> = in_event s"
    by (simp add: expired_def in_event_def)
  have heap: "peer_heap (peer_mod (in_event s)) p = Some m" "cpp (in_event s) = cpp s" using p(2) by (simp_all add: in_event_def)
  have h: "handle_timeout_event created r (next_ptr s) (expired ti m s\<lparr>cpp := cpp s\<rparr>) =
      (if peer_itr_cnt m = peer_itr m then peer_down created r a m (in_event s)
       else do { u \<leftarrow> send_echo p ti a (in_event s);
         Some (if ti = Pt_Of p then gst_timer_stop (pt m) (snd (gst_timer_start (tt m) u)) else u) })"
    unfolding handle_timeout_event_def d bind.bind_lunit Let_def t peer_data.simps sockaddr_in.simps heap md
    using p0 by simp
  have "timer_round ti created r s = incoming_event_handler (peer_dispatch created r) (expired ti m s)"
    unfolding timer_round_def e bind.bind_lunit by simp
  then show ?thesis
    unfolding incoming_event_handler_def pop prod.case ev bind.bind_lunit stack_event.simps peer_dispatch_def h by simp
qed

text \<open>A round that is not the last one, and the last one.\<close>

lemma timer_round_counts:
  assumes "quiet a p m s" "timer_owner ti = p" "peer_itr_cnt m \<noteq> peer_itr m" "fresh_timer created s"
  shows "\<exists>s' q. timer_round ti created r s = Some s' \<and> quiet a p (counted p ti m) s' \<and> fresh_timer created s' \<and>
    echoes (peer_mod s') = echoes (peer_mod s) @ [(a, portId m, q)]"
proof -
  have inv: "peer_inv s" and m: "peer_heap (peer_mod s) p = Some m" "known_port (portId m)" and alloc: "\<not> alloc_fails s n" for n
    using assms(1) by (auto simp: quiet_def)
  have "peer_heap (peer_mod (in_event s)) p = Some m" using m(1) by (simp add: in_event_def)
  then obtain pm k q where e: "send_echo p ti a (in_event s) = Some (in_event s\<lparr>peer_mod := pm\<lparr>peer_heap :=
      (peer_heap (peer_mod (in_event s)))(p \<mapsto> counted p ti m)\<rparr>, pfcp_seq_no_offset := k\<rparr>)"
    "echoes pm = echoes (peer_mod (in_event s)) @ (if known_port (portId m) then [(a, portId m, q)] else [])"
    by (rule send_echo_effect)
  define u where "u = in_event s\<lparr>peer_mod := pm\<lparr>peer_heap := (peer_heap (peer_mod (in_event s)))(p \<mapsto> counted p ti m)\<rparr>,
    pfcp_seq_no_offset := k\<rparr>"
  define v where "v = (if ti = Pt_Of p then gst_timer_stop (pt m) (snd (gst_timer_start (tt m) u)) else u)"
  define x where "x = v\<lparr>event_heap := (event_heap v)(Suc (next_ptr s) := None)\<rparr>"
  have v: "\<exists>os. v = u\<lparr>os_timers := os\<rparr> \<and> (\<forall>i. os i = None \<longleftrightarrow> os_timers u i = None)"
  proof (cases "ti = Pt_Of p")
    case True
    then show ?thesis
      by (auto simp: v_def timer_ops_eq intro!: exI[where x = "set_timer (ti_id (pt m)) zero_spec
        (set_timer (ti_id (tt m)) (timer_spec (tt m)) (os_timers u))"])
  next
    case False
    then have "v = u\<lparr>os_timers := os_timers u\<rparr>" by (simp add: v_def)
    then show ?thesis by blast
  qed
  have r: "timer_round ti created r s = Some x"
    using e(1) assms(3) v by (auto simp: timer_round_eq[OF assms(1,2)] u_def[symmetric] v_def[symmetric] x_def assert_c_def)
      (auto simp: u_def in_event_def)
  have en: "enabled (Expire ti) s" using assms(2) m(1) alloc by simp
  obtain s1 where s1: "run_op (Expire ti) s = Some s1" "peer_inv s1" using run_op_keeps[OF inv en] by blast
  then have "s1 = expired ti m s" using timerCallback_eq[of s ti m] m(1) alloc assms(2) by simp
  then have "enabled (Main_Event created r) s1"
    using assms(4) by (auto simp: expired_def fresh_timer_def split: option.splits)
  from run_op_keeps[OF s1(2) this] r s1(1) have "peer_inv x" by (simp add: timer_round_def del: run_op.simps)
  moreover have "peer_ptrs x = peer_ptrs s" using v by (auto simp: x_def u_def in_event_def)
  ultimately have "quiet a p (counted p ti m) x"
    using assms(1) v by (auto simp: quiet_def x_def u_def in_event_def counted_def)
  moreover have "fresh_timer created x"
    using assms(4) v by (auto simp: fresh_timer_def x_def u_def in_event_def split: option.splits)
  moreover have "echoes (peer_mod x) = echoes (peer_mod s) @ [(a, portId m, q)]"
    using v e(2) m(2) by (auto simp: x_def u_def in_event_def)
  ultimately show ?thesis using r by blast
qed

lemma timer_round_drops:
  assumes "quiet a p m s" "timer_owner ti = p" "peer_itr_cnt m = peer_itr m" "fresh_timer created s"
  shows "\<exists>s'. timer_round ti created r s = Some s' \<and> peer_ptrs s' a = None \<and> echoes (peer_mod s') = echoes (peer_mod s)"
proof -
  have inv: "watched (in_event s)" "upf_inv (upf_table (cpp (in_event s))) (upf_heap (in_event s))"
      "peer_ptrs (in_event s) a = Some p" "peer_heap (peer_mod (in_event s)) p = Some m" "fresh_timer created (in_event s)"
    using assms(1,4) by (auto simp: quiet_def peer_inv_def in_event_def fresh_timer_def split: option.splits)
  from peer_down_keeps[OF inv, of r] obtain u where
    u: "peer_down created r a m (in_event s) = Some u" "rest_kept (in_event s) u" "peer_ptrs u = (peer_ptrs (in_event s))(a := None)"
    "peer_mod u = peer_mod (in_event s)"
    by blast
  have "event_heap u (Suc (next_ptr s)) \<noteq> None" using u(2) by (simp add: rest_kept_def in_event_def)
  moreover have "echoes (peer_mod u) = echoes (peer_mod s)" using u(4) by (simp add: in_event_def)
  ultimately show ?thesis
    using u assms(3) by (auto simp: timer_round_eq[OF assms(1,2)] assert_c_def)
qed

text \<open>The periodic timer expires, then the transmit timer \<open>n\<close> times, and the peer does not answer.\<close>

fun silent_rounds :: "ptr \<Rightarrow> nat option \<Rightarrow> nat \<Rightarrow> nat \<Rightarrow> cp_state \<Rightarrow> cp_state option" where
  "silent_rounds p created rand 0 s = timer_round (Pt_Of p) created rand s"
| "silent_rounds p created rand (Suc n) s = do {
     s \<leftarrow> silent_rounds p created rand n s;
     timer_round (Tt_Of p) created rand s
   }"

lemma silent_rounds_count:
  assumes "quiet a p m s" "peer_itr_cnt m = 0" "0 < peer_itr m" "fresh_timer created s"
  shows "n \<le> unat (peer_itr m) \<Longrightarrow>
    \<exists>s' es. silent_rounds p created r n s = Some s' \<and> quiet a p (m\<lparr>peer_itr_cnt := of_nat n\<rparr>) s' \<and> fresh_timer created s' \<and>
      echoes (peer_mod s') = echoes (peer_mod s) @ es \<and> length es = Suc n \<and> list_all (\<lambda>e. fst e = a) es"
proof (induction n)
  case 0
  have "counted p (Pt_Of p) m = m\<lparr>peer_itr_cnt := of_nat 0\<rparr>" using assms(2) by (simp add: counted_def)
  moreover have "peer_itr_cnt m \<noteq> peer_itr m" using assms(2,3) by auto
  ultimately show ?case using timer_round_counts[OF assms(1) _ _ assms(4), of "Pt_Of p" r] by fastforce
next
  case (Suc n)
  then obtain s1 es where s1: "silent_rounds p created r n s = Some s1" "quiet a p (m\<lparr>peer_itr_cnt := of_nat n\<rparr>) s1"
    "fresh_timer created s1" "echoes (peer_mod s1) = echoes (peer_mod s) @ es" "length es = Suc n" "list_all (\<lambda>e. fst e = a) es"
    by auto
  have n: "unat (of_nat n :: u8) = n"
    using Suc.prems unsigned_less[where 'a = nat and w = "peer_itr m"] by (simp add: unsigned_of_nat take_bit_nat_eq_self_iff)
  then have "(of_nat n :: u8) \<noteq> peer_itr m" using Suc.prems by auto
  then have "peer_itr_cnt (m\<lparr>peer_itr_cnt := of_nat n\<rparr>) \<noteq> peer_itr (m\<lparr>peer_itr_cnt := of_nat n\<rparr>)" by simp
  from timer_round_counts[OF s1(2) _ this s1(3), of "Tt_Of p" r] obtain s2 q where
    s2: "timer_round (Tt_Of p) created r s1 = Some s2" "quiet a p (counted p (Tt_Of p) (m\<lparr>peer_itr_cnt := of_nat n\<rparr>)) s2"
      "fresh_timer created s2" "echoes (peer_mod s2) = echoes (peer_mod s1) @ [(a, portId m, q)]"
    by auto
  have "counted p (Tt_Of p) (m\<lparr>peer_itr_cnt := of_nat n\<rparr>) = m\<lparr>peer_itr_cnt := of_nat (Suc n)\<rparr>"
    using assms(1) by (simp add: counted_def quiet_def add.commute)
  with s1 s2 show ?case by auto
qed

section \<open>Properties\<close>


text \<open>A gateway with one MME as its peer.\<close>

definition example_peer :: peerData where
  "example_peer = calloc_peer\<lparr>dstIP := 9, peer_itr := 2,
     pt := \<lparr>ti_id = 3, ti_type = TtInterval, ti_cb = Peer_Timer, ti_ms = 10000, ti_data = 6\<rparr>,
     tt := \<lparr>ti_id = 4, ti_type = TtInterval, ti_cb = Peer_Timer, ti_ms = 5000, ti_data = 6\<rparr>\<rparr>"

definition example_peer_state :: cp_state where
  "example_peer_state = example_state\<lparr>next_ptr := 7, os_timers := [3 \<mapsto> timer_spec (pt example_peer), 4 \<mapsto> zero_spec],
     peer_mod := (peer_mod example_state)\<lparr>peer_heap := [6 \<mapsto> example_peer]\<rparr>,
     cpp := init_cpp_tables\<lparr>peer_table := \<lparr>addr_to_peer_context_hash = [9 \<mapsto> \<lparr>recov_time_m = 0, peer_rec_m = 6\<rparr>]\<rparr>\<rparr>\<rparr>"

lemma example_quiet: "quiet 9 6 example_peer example_peer_state"
proof -
  have "peer_ptrs example_peer_state = [9 \<mapsto> 6]" by (auto simp: peer_ptrs_def example_peer_state_def)
  moreover have "watch_inv [9 \<mapsto> 6] [6 \<mapsto> example_peer] [3 \<mapsto> timer_spec (pt example_peer), 4 \<mapsto> zero_spec]"
    by (auto simp: watch_inv_def supervised_def example_peer_def calloc_peer_def split: if_splits)
  ultimately show ?thesis
    by (auto simp: quiet_def peer_inv_def example_peer_state_def example_state_def init_cpp_tables_def queue_inv_def upf_inv_def
        example_peer_def calloc_peer_def known_port_def S11_SGW_PORT_ID_def split: if_splits)
qed


text \<open>C33: a peer that does not answer is sent one request when its periodic timer expires and
  one more at each of the next expiries of its transmit timer, up to the configured number of repetitions, and stays
  connected meanwhile; the expiry after that drops it without another request.\<close>

theorem silent_peer_dropped:
  assumes "quiet a p m s" "peer_itr_cnt m = 0" "0 < peer_itr m" "fresh_timer created s"
  shows "(n \<le> unat (peer_itr m) \<longrightarrow> (\<exists>s' es. silent_rounds p created rand n s = Some s' \<and> peer_ptrs s' a = Some p \<and>
      echoes (peer_mod s') = echoes (peer_mod s) @ es \<and> length es = Suc n \<and> list_all (\<lambda>e. fst e = a) es)) \<and>
    (\<exists>s' es. silent_rounds p created rand (Suc (unat (peer_itr m))) s = Some s' \<and> peer_ptrs s' a = None \<and>
      echoes (peer_mod s') = echoes (peer_mod s) @ es \<and> length es = Suc (unat (peer_itr m)))"
proof (intro conjI impI)
  assume "n \<le> unat (peer_itr m)"
  from silent_rounds_count[OF assms this, of rand] show "\<exists>s' es. silent_rounds p created rand n s = Some s' \<and>
      peer_ptrs s' a = Some p \<and> echoes (peer_mod s') = echoes (peer_mod s) @ es \<and> length es = Suc n \<and> list_all (\<lambda>e. fst e = a) es"
    by (auto simp: quiet_def)
next
  let ?n = "unat (peer_itr m)"
  from silent_rounds_count[OF assms order_refl, of rand] obtain s1 es where
    s1: "silent_rounds p created rand ?n s = Some s1" "quiet a p (m\<lparr>peer_itr_cnt := of_nat ?n\<rparr>) s1" "fresh_timer created s1"
      "echoes (peer_mod s1) = echoes (peer_mod s) @ es" "length es = Suc ?n" by blast
  from timer_round_drops[OF s1(2) _ _ s1(3), of "Tt_Of p" rand] s1 show "\<exists>s' es.
      silent_rounds p created rand (Suc ?n) s = Some s' \<and> peer_ptrs s' a = None \<and>
      echoes (peer_mod s') = echoes (peer_mod s) @ es \<and> length es = Suc ?n" by auto
qed

theorem silent_peer_dropped_witness:
  "\<exists>s' es. silent_rounds 6 None 0 3 example_peer_state = Some s' \<and> peer_ptrs s' 9 = None \<and>
     echoes (peer_mod s') = es \<and> length es = 3"
proof -
  have m: "peer_itr_cnt example_peer = 0" "peer_itr example_peer = 2"
    by (simp_all add: example_peer_def calloc_peer_def)
  have "fresh_timer None example_peer_state" "echoes (peer_mod example_peer_state) = []" "Suc (unat (2 :: u8)) = 3"
    by (simp_all add: fresh_timer_def example_peer_state_def example_state_def)
  with silent_peer_dropped[OF example_quiet m(1), of None 0] m(2) show ?thesis by simp
qed

end
