(* ===== verification/Spec2Isabelle.thy ===== *)
theory Spec2Isabelle
  imports Pfcp_Ies_Session Pfcp_Ies_Rules Pfcp_Ies_Cond Pfcp_Ies_Node Assoc Peer_Run
begin

text \<open>
  A verification library for the control plane of an SPGW (serving and packet data network gateway).

  \<^bold>\<open>Parts of the program.\<close>  The control plane (\<open>src/cp\<close>) speaks GTPv2-C with the MME, PFCP with the
  user plane and Diameter Gx with the PCRF.  The libraries \<open>src/libpfcp\<close> and \<open>src/libgtpv2c\<close> code the
  structures of the two binary protocols; both rest on one bit copier.

  \<^bold>\<open>Theories.\<close>
  \<^item> \<open>Prelude\<close>: bytes, memories as functions from addresses to bytes, bits in transmission order.
  \<^item> \<open>Enc_Dec_Bits\<close>: \<open>src/libpfcp/src/enc_dec_bits.c\<close>.
  \<^item> \<open>Ie_Codec\<close>: the statements that element coders are made of, what a list of them writes or
    reads, and the contracts \<open>ie_transfer\<close> and \<open>ie_codec\<close> between an encoder and its decoder.
  \<^item> \<open>Pfcp_Ie_Header\<close>, \<open>Pfcp_Ies_Session\<close>, \<open>Pfcp_Ies_Rules\<close>, \<open>Pfcp_Ies_Cond\<close>, \<open>Pfcp_Ies_Node\<close>: the
    message header and the information elements of \<open>src/libpfcp\<close>.
  \<^item> \<open>Ip_Pool\<close>: the address pools; the contract \<open>address_pool\<close>.
  \<^item> \<open>Tables\<close>: the lookup tables and event queues of \<open>src/cpplib\<close>; the contracts \<open>lookup_table\<close> and
    \<open>fifo_queue\<close>.
  \<^item> \<open>Cp_State\<close>: the structures and the global state of the control plane.
  \<^item> \<open>Transactions\<close>: timers and transactions; the contract \<open>trans_cleanup\<close>.
\<close>

end
